(* ===== verification/Prelude.thy ===== *)
theory Prelude
  imports Main "HOL-Library.Sublist"
begin

text \<open>
  What the component theories share.

  \<^item> The collections that carry the component proofs: \<open>str_simps\<close> (string predicates),
    \<open>table_simps\<close> (row lookup and update in a table), \<open>tx_simps\<close> (running a transaction), \<open>tx_inr\<close> (what a transaction
    that commits has done).
  \<^item> The JavaScript string operations the sources use, on \<open>string\<close> (a list of characters;
    the sources' identifiers, digests, paths and diff lines are ASCII text, and letter case
    is ASCII case).
  \<^item> Transactions: a body that ran inside \<open>withTransaction\<close> is a function from the database
    to an error or a result with the new database; an error stands for \<open>ROLLBACK\<close>, so a
    failed body has no new database at all.
  \<^item> Tables as lists of rows, with the lookup and update that the SQL statements perform.
\<close>

named_theorems str_simps
named_theorems table_simps
named_theorems tx_simps
named_theorems tx_inr

section \<open>Strings\<close>

definition startsWith :: "string \<Rightarrow> string \<Rightarrow> bool" where
  "startsWith s p = (take (length p) s = p)"

definition endsWith :: "string \<Rightarrow> string \<Rightarrow> bool" where
  "endsWith s p = (length p \<le> length s \<and> drop (length s - length p) s = p)"

fun has_text :: "string \<Rightarrow> string \<Rightarrow> bool" where
  "has_text [] p = (p = [])"
| "has_text (c # s) p = (startsWith (c # s) p \<or> has_text s p)"

fun split_on :: "'a \<Rightarrow> 'a list \<Rightarrow> 'a list list" where
  "split_on d [] = [[]]"
| "split_on d (c # s) =
     (if c = d then [] # split_on d s
      else (case split_on d s of [] \<Rightarrow> [[c]] | w # ws \<Rightarrow> (c # w) # ws))"

fun join_with :: "'a list \<Rightarrow> 'a list list \<Rightarrow> 'a list" where
  "join_with sep [] = []"
| "join_with sep [w] = w"
| "join_with sep (w # v # ws) = w @ sep @ join_with sep (v # ws)"

definition char_code :: "char \<Rightarrow> nat" where
  "char_code c = of_char c"

definition in_range :: "nat \<Rightarrow> nat \<Rightarrow> char \<Rightarrow> bool" where
  "in_range lo hi c = (lo \<le> char_code c \<and> char_code c \<le> hi)"

definition is_digit :: "char \<Rightarrow> bool" where
  "is_digit c = in_range 48 57 c"

definition is_upper :: "char \<Rightarrow> bool" where
  "is_upper c = in_range 65 90 c"

definition is_lower :: "char \<Rightarrow> bool" where
  "is_lower c = in_range 97 122 c"

definition is_alpha :: "char \<Rightarrow> bool" where
  "is_alpha c = (is_upper c \<or> is_lower c)"

definition is_alnum :: "char \<Rightarrow> bool" where
  "is_alnum c = (is_alpha c \<or> is_digit c)"

definition is_hex_lower :: "char \<Rightarrow> bool" where
  "is_hex_lower c = (is_digit c \<or> in_range 97 102 c)"

definition is_hex :: "char \<Rightarrow> bool" where
  "is_hex c = (is_hex_lower c \<or> in_range 65 70 c)"

definition lower_char :: "char \<Rightarrow> char" where
  "lower_char c = (if is_upper c then char_of (char_code c + 32) else c)"

definition upper_char :: "char \<Rightarrow> char" where
  "upper_char c = (if is_lower c then char_of (char_code c - 32) else c)"

definition to_lower :: "string \<Rightarrow> string" where
  "to_lower s = map lower_char s"

definition to_upper :: "string \<Rightarrow> string" where
  "to_upper s = map upper_char s"

text \<open>\<open>String.prototype.trim\<close>: tab, line feed, vertical tab, form feed, return, space.\<close>

definition is_space :: "char \<Rightarrow> bool" where
  "is_space c = (char_code c \<in> {9, 10, 11, 12, 13, 32, 160})"

definition trim :: "string \<Rightarrow> string" where
  "trim s = rev (dropWhile is_space (rev (dropWhile is_space s)))"

fun replace_char :: "char \<Rightarrow> char \<Rightarrow> string \<Rightarrow> string" where
  "replace_char a b [] = []"
| "replace_char a b (c # s) = (if c = a then b else c) # replace_char a b s"

text \<open>\<open>value.replace(/\r\n/g, '\n')\<close>.\<close>

fun crlf_to_lf :: "string \<Rightarrow> string" where
  "crlf_to_lf (c # d # s) =
     (if c = CHR 0x0D \<and> d = CHR 0x0A then CHR 0x0A # crlf_to_lf s
      else c # crlf_to_lf (d # s))"
| "crlf_to_lf s = s"

text \<open>\<open>String(n)\<close> for an integer.\<close>

fun show_nat :: "nat \<Rightarrow> string" where
  "show_nat n = (if n < 10 then [char_of (48 + n)]
                 else show_nat (n div 10) @ [char_of (48 + n mod 10)])"

declare show_nat.simps [simp del]

definition show_int :: "int \<Rightarrow> string" where
  "show_int i = (if i < 0 then CHR ''-'' # show_nat (nat (- i)) else show_nat (nat i))"

text \<open>
  Evaluation inside the logic: a natural number is computed in unary, an integer in binary. These
  code equations let the functions on characters and numbers run on integers.
\<close>

definition int_code :: "char \<Rightarrow> int" where
  "int_code c = of_char c"

lemma int_code_char_code: "int_code c = int (char_code c)"
  by (simp add: int_code_def char_code_def of_nat_of_char)

lemma is_digit_run [code]: "is_digit c = (let n = int_code c in 48 \<le> n \<and> n \<le> 57)"
  by (simp add: is_digit_def in_range_def int_code_char_code Let_def)

lemma is_upper_run [code]: "is_upper c = (let n = int_code c in 65 \<le> n \<and> n \<le> 90)"
  by (simp add: is_upper_def in_range_def int_code_char_code Let_def)

lemma is_lower_run [code]: "is_lower c = (let n = int_code c in 97 \<le> n \<and> n \<le> 122)"
  by (simp add: is_lower_def in_range_def int_code_char_code Let_def)

lemma is_hex_lower_run [code]:
  "is_hex_lower c = (let n = int_code c in 48 \<le> n \<and> n \<le> 57 \<or> 97 \<le> n \<and> n \<le> 102)"
  by (simp add: is_hex_lower_def is_digit_def in_range_def int_code_char_code Let_def)

lemma is_hex_run [code]:
  "is_hex c = (let n = int_code c in 48 \<le> n \<and> n \<le> 57 \<or> 97 \<le> n \<and> n \<le> 102 \<or> 65 \<le> n \<and> n \<le> 70)"
  by (simp add: is_hex_def is_hex_lower_def is_digit_def in_range_def int_code_char_code Let_def)

lemma of_char_below_256: "char_code c < 256"
  by (simp add: char_code_def)

lemma char_of_int: "0 \<le> i \<Longrightarrow> (char_of (nat i) :: char) = char_of i"
  using bit_of_nat_iff_bit [where 'a = int, of "nat i"] by (simp add: char_of_def flip: bit_0)

lemma char_of_int_code: "char_of (int_code c + k) = (char_of (int (char_code c) + k) :: char)"
  by (simp add: int_code_char_code)

lemma lower_char_run [code]: "lower_char c = (if is_upper c then char_of (int_code c + 32) else c)"
  using char_of_int [of "int (char_code c) + 32"]
  by (simp add: lower_char_def int_code_char_code nat_add_distrib)

lemma upper_char_run [code]: "upper_char c = (if is_lower c then char_of (int_code c - 32) else c)"
  using char_of_int [of "int (char_code c) - 32"]
  by (auto simp: upper_char_def int_code_char_code is_lower_def in_range_def nat_diff_distrib)

definition digit_char :: "int \<Rightarrow> char" where
  "digit_char i = char_of (48 + i)"

definition digits_of :: "int \<Rightarrow> string" where
  "digits_of i = show_nat (nat i)"

lemma digit_char_nat: "0 \<le> i \<Longrightarrow> char_of (48 + nat i) = digit_char i"
  using char_of_int [of "48 + i"] by (simp add: digit_char_def nat_add_distrib)

lemma digits_of_run [code]:
  "digits_of i = (if i < 0 then ''0'' else if i < 10 then [digit_char i]
     else digits_of (i div 10) @ [digit_char (i mod 10)])"
proof (cases "i < 0")
  case True
  then show ?thesis
    by (simp add: digits_of_def show_nat.simps [of 0] char_of_def bit_0 flip: bit_iff_odd)
next
  case False
  have z: "0 \<le> i mod 10" by simp
  have l: "nat i < 10 \<longleftrightarrow> i < 10" using False by arith
  from False show ?thesis
    using digit_char_nat [of i] digit_char_nat [OF z]
    by (simp add: digits_of_def show_nat.simps [of "nat i"] l nat_div_distrib nat_mod_distrib)
qed

lemma show_nat_run [code]: "show_nat n = digits_of (int n)"
  by (simp add: digits_of_def)

lemma show_int_run [code]:
  "show_int i = (if i < 0 then CHR ''-'' # digits_of (- i) else digits_of i)"
  by (simp add: show_int_def digits_of_def)

lemma startsWith_iff [str_simps]: "startsWith s p \<longleftrightarrow> prefix p s"
  by (auto simp: startsWith_def prefix_def) (metis append_take_drop_id)

lemma has_text_iff [str_simps]: "has_text s p \<longleftrightarrow> sublist p s"
  by (induction s) (auto simp: str_simps sublist_Cons_right)

lemma split_on_not_Nil [simp]: "split_on d s \<noteq> []"
  by (cases s) (auto split: list.splits)

lemma split_on_segments: "w \<in> set (split_on d s) \<Longrightarrow> d \<notin> set w"
proof (induction s arbitrary: w)
  case Nil
  then show ?case by simp
next
  case (Cons c s)
  then show ?case
    by (cases "split_on d s") (fastforce split: if_splits)+
qed

lemma join_split_on: "join_with [d] (split_on d s) = s"
proof (induction s)
  case Nil
  then show ?case by simp
next
  case (Cons c s)
  then show ?case
    by (cases "split_on d s"; cases "tl (split_on d s)") auto
qed

lemma split_on_no_sep: "d \<notin> set w \<Longrightarrow> split_on d w = [w]"
  by (induction w) auto

lemma split_on_append:
  "d \<notin> set w \<Longrightarrow> split_on d (w @ d # s) = w # split_on d s"
  by (induction w) auto

lemma split_join_with:
  assumes "ws \<noteq> []" "\<And>w. w \<in> set ws \<Longrightarrow> d \<notin> set w"
  shows "split_on d (join_with [d] ws) = ws"
  using assms
proof (induction "[d]" ws rule: join_with.induct)
  case 1
  then show ?case by simp
next
  case (2 w)
  then show ?case by (simp add: split_on_no_sep)
next
  case (3 w v ws)
  then show ?case by (simp add: split_on_append)
qed

section \<open>First occurrences\<close>

text \<open>\<open>[...new Set(xs)]\<close>: the distinct elements in the order of their first occurrence.\<close>

fun uniq_from :: "'a list \<Rightarrow> 'a list \<Rightarrow> 'a list" where
  "uniq_from seen [] = []"
| "uniq_from seen (x # xs) =
     (if x \<in> set seen then uniq_from seen xs else x # uniq_from (x # seen) xs)"

definition uniq :: "'a list \<Rightarrow> 'a list" where
  "uniq xs = uniq_from [] xs"

lemma set_uniq_from: "set (uniq_from seen xs) = set xs - set seen"
  by (induction xs arbitrary: seen) auto

lemma distinct_uniq_from: "distinct (uniq_from seen xs)"
  by (induction xs arbitrary: seen) (auto simp: set_uniq_from)

lemma set_uniq [simp]: "set (uniq xs) = set xs"
  by (simp add: uniq_def set_uniq_from)

lemma distinct_uniq [simp]: "distinct (uniq xs)"
  by (simp add: uniq_def distinct_uniq_from)

lemma uniq_Nil_iff [simp]: "uniq xs = [] \<longleftrightarrow> xs = []"
  by (metis set_uniq set_empty)

section \<open>Fallible computations and transactions\<close>

definition try_then :: "'e + 'a \<Rightarrow> ('a \<Rightarrow> 'e + 'b) \<Rightarrow> 'e + 'b" where
  "try_then m f = (case m of Inl e \<Rightarrow> Inl e | Inr x \<Rightarrow> f x)"

definition guard :: "bool \<Rightarrow> 'e \<Rightarrow> 'e + unit" where
  "guard b e = (if b then Inr () else Inl e)"

type_synonym ('s, 'e, 'a) tx = "'s \<Rightarrow> 'e + ('a \<times> 's)"

definition tx_return :: "'a \<Rightarrow> ('s, 'e, 'a) tx" where
  "tx_return x = (\<lambda>s. Inr (x, s))"

definition tx_fail :: "'e \<Rightarrow> ('s, 'e, 'a) tx" where
  "tx_fail e = (\<lambda>s. Inl e)"

definition tx_bind :: "('s, 'e, 'a) tx \<Rightarrow> ('a \<Rightarrow> ('s, 'e, 'b) tx) \<Rightarrow> ('s, 'e, 'b) tx" where
  "tx_bind m f = (\<lambda>s. case m s of Inl e \<Rightarrow> Inl e | Inr (x, s') \<Rightarrow> f x s')"

definition tx_then :: "('s, 'e, 'a) tx \<Rightarrow> ('s, 'e, 'b) tx \<Rightarrow> ('s, 'e, 'b) tx" where
  "tx_then m f = tx_bind m (\<lambda>_. f)"

definition tx_read :: "('s \<Rightarrow> 'a) \<Rightarrow> ('s, 'e, 'a) tx" where
  "tx_read f = (\<lambda>s. Inr (f s, s))"

definition tx_write :: "('s \<Rightarrow> 's) \<Rightarrow> ('s, 'e, unit) tx" where
  "tx_write f = (\<lambda>s. Inr ((), f s))"

definition tx_guard :: "bool \<Rightarrow> 'e \<Rightarrow> ('s, 'e, unit) tx" where
  "tx_guard b e = (if b then tx_return () else tx_fail e)"

text \<open>\<open>if (row === undefined) throw e\<close>, then the row.\<close>

definition tx_some :: "'a option \<Rightarrow> 'e \<Rightarrow> ('s, 'e, 'a) tx" where
  "tx_some x e = (case x of None \<Rightarrow> tx_fail e | Some v \<Rightarrow> tx_return v)"

text \<open>The database after a transaction: the old one when the body failed (\<open>ROLLBACK\<close>).\<close>

definition after_tx :: "('s, 'e, 'a) tx \<Rightarrow> 's \<Rightarrow> 's" where
  "after_tx m s = (case m s of Inl e \<Rightarrow> s | Inr (x, s') \<Rightarrow> s')"

lemma try_then_simps [simp]:
  "try_then (Inl e) f = Inl e"
  "try_then (Inr x) f = f x"
  by (simp_all add: try_then_def)

lemma try_then_Inr_iff: "try_then m f = Inr y \<longleftrightarrow> (\<exists>x. m = Inr x \<and> f x = Inr y)"
  by (cases m) auto

lemma guard_Inr_iff [simp]: "guard b e = Inr u \<longleftrightarrow> b"
  by (simp add: guard_def)

lemma guard_Inl_iff [simp]: "guard b e = Inl e' \<longleftrightarrow> \<not> b \<and> e' = e"
  by (auto simp: guard_def)

lemma tx_run_simps [tx_simps]:
  "tx_return x s = Inr (x, s)"
  "tx_fail e s = Inl e"
  "tx_read f s = Inr (f s, s)"
  "tx_write g s = Inr ((), g s)"
  "tx_guard b e s = (if b then Inr ((), s) else Inl e)"
  "tx_bind m k s = (case m s of Inl e \<Rightarrow> Inl e | Inr (x, s') \<Rightarrow> k x s')"
  "tx_then m m' s = (case m s of Inl e \<Rightarrow> Inl e | Inr (x, s') \<Rightarrow> m' s')"
  "tx_some None e s = Inl e"
  "tx_some (Some v) e s = Inr (v, s)"
  by (simp_all add: tx_return_def tx_fail_def tx_read_def tx_write_def tx_guard_def tx_bind_def
      tx_then_def tx_some_def)

lemma tx_bind_InrE:
  assumes "tx_bind m k s = Inr (y, s'')"
  obtains x s' where "m s = Inr (x, s')" "k x s' = Inr (y, s'')"
  using assms by (auto simp: tx_simps split: sum.splits prod.splits)

lemma tx_then_InrE:
  assumes "tx_then m k s = Inr (y, s'')"
  obtains x s' where "m s = Inr (x, s')" "k s' = Inr (y, s'')"
  using assms by (auto simp: tx_simps split: sum.splits prod.splits)

lemma tx_run_inr [tx_inr]:
  "tx_bind m k s = Inr (y, t) \<longleftrightarrow> (\<exists>x s'. m s = Inr (x, s') \<and> k x s' = Inr (y, t))"
  "tx_then m m' s = Inr (y, t) \<longleftrightarrow> (\<exists>x s'. m s = Inr (x, s') \<and> m' s' = Inr (y, t))"
  "tx_return x s = Inr (y, t) \<longleftrightarrow> y = x \<and> t = s"
  "tx_read f s = Inr (y, t) \<longleftrightarrow> y = f s \<and> t = s"
  "tx_write g s = Inr (u, t) \<longleftrightarrow> t = g s"
  "tx_fail e s \<noteq> Inr (y, t)"
  by (auto simp: tx_simps split: sum.splits prod.splits)

lemma tx_some_Inr_iff [tx_inr]: "tx_some x e s = Inr (v, s') \<longleftrightarrow> x = Some v \<and> s' = s"
  by (cases x) (auto simp: tx_simps)

lemma tx_guard_Inr_iff [tx_inr]: "tx_guard b e s = Inr (u, s') \<longleftrightarrow> b \<and> s' = s"
  by (auto simp: tx_simps)

section \<open>Tables\<close>

text \<open>\<open>SELECT ... WHERE p LIMIT 1\<close>: the first matching row.\<close>

definition row_where :: "('r \<Rightarrow> bool) \<Rightarrow> 'r list \<Rightarrow> 'r option" where
  "row_where p t = find p t"

text \<open>\<open>UPDATE ... SET f WHERE p\<close>.\<close>

definition update_where :: "('r \<Rightarrow> bool) \<Rightarrow> ('r \<Rightarrow> 'r) \<Rightarrow> 'r list \<Rightarrow> 'r list" where
  "update_where p f t = map (\<lambda>r. if p r then f r else r) t"

text \<open>\<open>ORDER BY key DESC LIMIT 1\<close>: a row whose key no other row exceeds, the first such.\<close>

fun row_max :: "('r \<Rightarrow> 'k::linorder) \<Rightarrow> 'r list \<Rightarrow> 'r option" where
  "row_max k [] = None"
| "row_max k (r # t) =
     (case row_max k t of None \<Rightarrow> Some r | Some m \<Rightarrow> if k m \<le> k r then Some r else Some m)"

text \<open>
  \<open>INSERT\<close>: the row is appended; a row that clashes with it on a unique key raises an
  error, or with \<open>ON CONFLICT DO NOTHING\<close> leaves the table as it is.
\<close>

definition insert_row ::
  "('d \<Rightarrow> 'r list) \<Rightarrow> (('r list \<Rightarrow> 'r list) \<Rightarrow> 'd \<Rightarrow> 'd) \<Rightarrow> ('r \<Rightarrow> 'r \<Rightarrow> bool) \<Rightarrow> 'r
   \<Rightarrow> ('d, string, unit) tx" where
  "insert_row table update clash row = (\<lambda>s.
     if list_ex (clash row) (table s)
     then Inl ''duplicate key value violates unique constraint''
     else Inr ((), update (\<lambda>t. t @ [row]) s))"

definition insert_or_ignore ::
  "('d \<Rightarrow> 'r list) \<Rightarrow> (('r list \<Rightarrow> 'r list) \<Rightarrow> 'd \<Rightarrow> 'd) \<Rightarrow> ('r \<Rightarrow> 'r \<Rightarrow> bool) \<Rightarrow> 'r
   \<Rightarrow> ('d, string, unit) tx" where
  "insert_or_ignore table update clash row = (\<lambda>s.
     if list_ex (clash row) (table s) then Inr ((), s)
     else Inr ((), update (\<lambda>t. t @ [row]) s))"

text \<open>
  \<open>ON CONFLICT (target) DO NOTHING\<close>: only a clash on the target leaves the table as it is;
  a clash on another unique key is an error.
\<close>

definition insert_on_conflict ::
  "('d \<Rightarrow> 'r list) \<Rightarrow> (('r list \<Rightarrow> 'r list) \<Rightarrow> 'd \<Rightarrow> 'd) \<Rightarrow> ('r \<Rightarrow> 'r \<Rightarrow> bool)
   \<Rightarrow> ('r \<Rightarrow> 'r \<Rightarrow> bool) \<Rightarrow> 'r \<Rightarrow> ('d, string, unit) tx" where
  "insert_on_conflict table update target clash row = (\<lambda>s.
     if list_ex (target row) (table s) then Inr ((), s)
     else insert_row table update clash row s)"

text \<open>\<open>UPDATE ... WHERE p RETURNING\<close> on a key: the updated row.\<close>

definition update_returning ::
  "('d \<Rightarrow> 'r list) \<Rightarrow> (('r list \<Rightarrow> 'r list) \<Rightarrow> 'd \<Rightarrow> 'd) \<Rightarrow> ('r \<Rightarrow> bool) \<Rightarrow> ('r \<Rightarrow> 'r)
   \<Rightarrow> ('d, string, 'r option) tx" where
  "update_returning table update p f = (\<lambda>s.
     Inr (map_option f (row_where p (table s)), update (update_where p f) s))"

text \<open>\<open>rows.map(parse)\<close> for a parse that may throw.\<close>

fun map_parse :: "('a \<Rightarrow> 'e + 'b) \<Rightarrow> 'a list \<Rightarrow> 'e + 'b list" where
  "map_parse f [] = Inr []"
| "map_parse f (x # xs) =
     try_then (f x) (\<lambda>y. try_then (map_parse f xs) (\<lambda>ys. Inr (y # ys)))"

definition tx_lift :: "'e + 'a \<Rightarrow> ('s, 'e, 'a) tx" where
  "tx_lift r = (\<lambda>s. case r of Inl e \<Rightarrow> Inl e | Inr x \<Rightarrow> Inr (x, s))"

text \<open>\<open>Math.min(Math.max(x, lo), hi)\<close>.\<close>

definition clamp :: "int \<Rightarrow> int \<Rightarrow> int \<Rightarrow> int" where
  "clamp lo hi x = min (max x lo) hi"

lemma tx_lift_simps [tx_simps]:
  "tx_lift (Inl e) s = Inl e" "tx_lift (Inr x) s = Inr (x, s)"
  by (simp_all add: tx_lift_def)

lemma tx_lift_Inr_iff [tx_inr]: "tx_lift r s = Inr (x, s') \<longleftrightarrow> r = Inr x \<and> s' = s"
  by (cases r) (auto simp: tx_simps)

lemma update_returning_Inr_iff [tx_inr]:
  "update_returning table update p f s = Inr (x, s') \<longleftrightarrow>
     x = map_option f (row_where p (table s)) \<and> s' = update (update_where p f) s"
  by (auto simp: update_returning_def)

lemma insert_on_conflict_Inr_iff [tx_inr]:
  "insert_on_conflict table update target clash row s = Inr (u, s') \<longleftrightarrow>
     (if list_ex (target row) (table s) then s' = s
      else \<not> list_ex (clash row) (table s) \<and> s' = update (\<lambda>t. t @ [row]) s)"
  by (auto simp: insert_on_conflict_def insert_row_def)

lemma insert_row_Inr_iff [tx_inr]:
  "insert_row table update clash row s = Inr (u, s') \<longleftrightarrow>
     \<not> list_ex (clash row) (table s) \<and> s' = update (\<lambda>t. t @ [row]) s"
  by (auto simp: insert_row_def)

lemma insert_or_ignore_Inr_iff [tx_inr]:
  "insert_or_ignore table update clash row s = Inr (u, s') \<longleftrightarrow>
     s' = (if list_ex (clash row) (table s) then s else update (\<lambda>t. t @ [row]) s)"
  by (auto simp: insert_or_ignore_def)

lemma row_where_SomeD: "row_where p t = Some r \<Longrightarrow> r \<in> set t \<and> p r"
  unfolding row_where_def by (metis find_Some_iff nth_mem)

lemma row_where_None_iff [table_simps]: "row_where p t = None \<longleftrightarrow> (\<forall>r \<in> set t. \<not> p r)"
  by (auto simp: row_where_def find_None_iff)

lemma row_where_Nil [simp]: "row_where p [] = None"
  by (simp add: row_where_def)

lemma row_where_Cons [simp]:
  "row_where p (r # t) = (if p r then Some r else row_where p t)"
  by (simp add: row_where_def)

lemma map_parse_Inr:
  "map_parse f xs = Inr ys \<longleftrightarrow> list_all2 (\<lambda>x y. f x = Inr y) xs ys"
  by (induction xs arbitrary: ys) (auto simp: try_then_Inr_iff list_all2_Cons1)

lemma row_where_append:
  "row_where p (xs @ ys) = (case row_where p xs of None \<Rightarrow> row_where p ys | Some r \<Rightarrow> Some r)"
  by (induction xs) auto

lemma update_where_simps [simp]:
  "update_where p f [] = []"
  "update_where p f (r # t) = (if p r then f r else r) # update_where p f t"
  by (simp_all add: update_where_def)

lemma map_update_where [table_simps]:
  "(\<And>r. p r \<Longrightarrow> g (f r) = g r) \<Longrightarrow> map g (update_where p f t) = map g t"
  by (induction t) auto

lemma set_update_where:
  "set (update_where p f t) = (\<lambda>r. if p r then f r else r) ` set t"
  by (simp add: update_where_def)

lemma row_max_None_iff [simp]: "row_max k t = None \<longleftrightarrow> t = []"
  by (cases t) (auto split: option.splits)

lemma row_max_SomeD: "row_max k t = Some m \<Longrightarrow> m \<in> set t \<and> (\<forall>r \<in> set t. k r \<le> k m)"
  by (induction t arbitrary: m) (fastforce split: option.splits if_splits)+

text \<open>No two rows of a table clash on a unique key.\<close>

definition keyed :: "('r \<Rightarrow> 'r \<Rightarrow> bool) \<Rightarrow> 'r list \<Rightarrow> bool" where
  "keyed clash t = sorted_wrt (\<lambda>a b. \<not> clash b a) t"

lemma keyed_Nil [simp]: "keyed clash []"
  by (simp add: keyed_def)

lemma keyed_insert: "keyed clash t \<Longrightarrow> \<not> list_ex (clash row) t \<Longrightarrow> keyed clash (t @ [row])"
  by (auto simp: keyed_def sorted_wrt_append list_ex_iff)

lemma keyed_map:
  assumes "keyed clash t" "\<And>a b. a \<in> set t \<Longrightarrow> b \<in> set t \<Longrightarrow> clash (f b) (f a) = clash b a"
  shows "keyed clash (map f t)"
  using assms by (induction t) (auto simp: keyed_def)

lemma keyed_list_all2:
  assumes "keyed clash t" "list_all2 R t t'"
    and "\<And>a a' b b'. R a a' \<Longrightarrow> R b b' \<Longrightarrow> clash b' a' = clash b a"
  shows "keyed clash t'"
  using assms(1,2) assms(3) [of "t ! i" "t' ! i" "t ! j" "t' ! j" for i j]
  by (auto simp: keyed_def sorted_wrt_iff_nth_less list_all2_conv_all_nth)

lemma keyed_update_where:
  assumes "keyed clash t"
    and "\<And>a b. clash (f b) a = clash b a" "\<And>a b. clash b (f a) = clash b a"
  shows "keyed clash (update_where p f t)"
  unfolding update_where_def by (rule keyed_map [OF assms(1)]) (simp add: assms(2,3))

lemma keyed_unique:
  assumes "keyed clash t" "a \<in> set t" "b \<in> set t" "clash a b" "clash b a"
  shows "a = b"
  using assms by (induction t) (auto simp: keyed_def)

lemma row_where_unique:
  assumes "keyed clash t" "r \<in> set t" "p r" "\<And>a b. p a \<Longrightarrow> p b \<Longrightarrow> clash a b"
  shows "row_where p t = Some r"
proof (cases "row_where p t")
  case None
  with assms(2,3) show ?thesis by (auto simp: table_simps)
next
  case (Some x)
  then have "x \<in> set t" "p x" by (auto dest: row_where_SomeD)
  with assms Some show ?thesis using keyed_unique by metis
qed

lemma length_update_where [simp]: "length (update_where p f t) = length t"
  by (simp add: update_where_def)

lemma list_all2_update_where:
  "list_all2 R t (update_where p f t) \<longleftrightarrow> (\<forall>r \<in> set t. R r (if p r then f r else r))"
  by (induction t) (auto simp: update_where_def)

lemma update_where_id: "(\<And>r. r \<in> set t \<Longrightarrow> p r \<Longrightarrow> f r = r) \<Longrightarrow> update_where p f t = t"
  by (induction t) auto

end
