(* ===== verification/Contracts.thy ===== *)
theory Contracts
  imports Prelude
begin

text \<open>
  The enumerations of \<open>packages/contracts/src/index.ts\<close> that the modelled packages use, with
  the source's constructors (written with their type's name, as the code writes
  \<open>RecoveryRunStatus.CANCELLED\<close>), and the records of the patch and citation schemas. A
  \<open>..._name\<close> function gives the string an enumeration's member stands for, where the code
  stores or prints it.
\<close>

section \<open>Enumerations\<close>

datatype IncidentSeverity =
    SEV1 | SEV2 | SEV3 | SEV4

datatype IncidentStatus =
    ADMITTED | TRIAGING | INVESTIGATING | AWAITING_APPROVAL | RECOVERING | VERIFYING | VERIFIED
  | FAILED | CANCELLED

primrec IncidentStatus_name :: "IncidentStatus \<Rightarrow> string" where
  "IncidentStatus_name IncidentStatus.ADMITTED = ''ADMITTED''"
| "IncidentStatus_name IncidentStatus.TRIAGING = ''TRIAGING''"
| "IncidentStatus_name IncidentStatus.INVESTIGATING = ''INVESTIGATING''"
| "IncidentStatus_name IncidentStatus.AWAITING_APPROVAL = ''AWAITING_APPROVAL''"
| "IncidentStatus_name IncidentStatus.RECOVERING = ''RECOVERING''"
| "IncidentStatus_name IncidentStatus.VERIFYING = ''VERIFYING''"
| "IncidentStatus_name IncidentStatus.VERIFIED = ''VERIFIED''"
| "IncidentStatus_name IncidentStatus.FAILED = ''FAILED''"
| "IncidentStatus_name IncidentStatus.CANCELLED = ''CANCELLED''"

datatype RecoveryStage =
    ADMIT | TRIAGE | DIAGNOSE | RECOVER | VERIFY

datatype ActorType =
    USER | SERVICE | AGENT | SYSTEM

primrec ActorType_name :: "ActorType \<Rightarrow> string" where
  "ActorType_name ActorType.USER = ''USER''"
| "ActorType_name ActorType.SERVICE = ''SERVICE''"
| "ActorType_name ActorType.AGENT = ''AGENT''"
| "ActorType_name ActorType.SYSTEM = ''SYSTEM''"

datatype ActorRole =
    ORGANIZATION_OWNER | ORGANIZATION_ADMIN | INCIDENT_COMMANDER | RESPONDER | VIEWER | SERVICE

primrec ActorRole_name :: "ActorRole \<Rightarrow> string" where
  "ActorRole_name ActorRole.ORGANIZATION_OWNER = ''ORGANIZATION_OWNER''"
| "ActorRole_name ActorRole.ORGANIZATION_ADMIN = ''ORGANIZATION_ADMIN''"
| "ActorRole_name ActorRole.INCIDENT_COMMANDER = ''INCIDENT_COMMANDER''"
| "ActorRole_name ActorRole.RESPONDER = ''RESPONDER''"
| "ActorRole_name ActorRole.VIEWER = ''VIEWER''"
| "ActorRole_name ActorRole.SERVICE = ''SERVICE''"

datatype IncidentPermission =
    READ | CREATE | ADD_EVIDENCE | REQUEST_TRIAGE | TRANSITION | READ_AUDIT | OVERRIDE_SEVERITY
  | MANAGE_RESTRICTED_EVIDENCE | REQUEST_REPRODUCTION | READ_REPRODUCTION | CANCEL_REPRODUCTION
  | OVERRIDE_SANDBOX_POLICY | START_INVESTIGATION | READ_INVESTIGATION | CANCEL_INVESTIGATION
  | RESUME_INVESTIGATION | REQUEST_PLAN_REVISION | APPROVE_TREATMENT_PLAN
  | REJECT_TREATMENT_PLAN | ADMINISTER_AI_POLICY | START_RECOVERY | READ_RECOVERY
  | CANCEL_RECOVERY | RESUME_RECOVERY | REQUEST_RECOVERY_REVISION
  | APPROVE_RECOVERY_PUBLICATION | REJECT_RECOVERY_PUBLICATION | ADMINISTER_RECOVERY_POLICY
  | START_PUBLICATION | READ_PUBLICATION | CANCEL_PUBLICATION | RETRY_PUBLICATION
  | REQUEST_PUBLICATION_REVISION | MARK_PUBLICATION_READY | READ_INCIDENT_CLOSURE
  | ADMINISTER_PUBLICATION_POLICY

datatype RepositoryPermission =
    READ | ADMIT

datatype EvidenceSensitivity =
    PUBLIC | INTERNAL | CONFIDENTIAL | RESTRICTED

datatype HealthStatus =
    HEALTHY | AT_RISK | DEGRADED | CRITICAL

datatype OutboxStatus =
    PENDING | PROCESSING | PUBLISHED | FAILED | DEAD_LETTER

datatype InvestigationStatus =
    REQUESTED | POLICY_CHECK | CONTEXT_BUILDING | TRIAGE | MAPPING | HYPOTHESIS | VALIDATION
  | SECURITY_REVIEW | PLAN_COMPOSITION | CRITIC_REVIEW | AWAITING_APPROVAL | APPROVED
  | REJECTED | REVISION_REQUESTED | POLICY_BLOCKED | INSUFFICIENT_EVIDENCE | CANCELLED
  | TIMED_OUT | MODEL_FAILED | TOOL_FAILED | BUDGET_EXCEEDED | SECURITY_REJECTED

primrec InvestigationStatus_name :: "InvestigationStatus \<Rightarrow> string" where
  "InvestigationStatus_name InvestigationStatus.REQUESTED = ''REQUESTED''"
| "InvestigationStatus_name InvestigationStatus.POLICY_CHECK = ''POLICY_CHECK''"
| "InvestigationStatus_name InvestigationStatus.CONTEXT_BUILDING = ''CONTEXT_BUILDING''"
| "InvestigationStatus_name InvestigationStatus.TRIAGE = ''TRIAGE''"
| "InvestigationStatus_name InvestigationStatus.MAPPING = ''MAPPING''"
| "InvestigationStatus_name InvestigationStatus.HYPOTHESIS = ''HYPOTHESIS''"
| "InvestigationStatus_name InvestigationStatus.VALIDATION = ''VALIDATION''"
| "InvestigationStatus_name InvestigationStatus.SECURITY_REVIEW = ''SECURITY_REVIEW''"
| "InvestigationStatus_name InvestigationStatus.PLAN_COMPOSITION = ''PLAN_COMPOSITION''"
| "InvestigationStatus_name InvestigationStatus.CRITIC_REVIEW = ''CRITIC_REVIEW''"
| "InvestigationStatus_name InvestigationStatus.AWAITING_APPROVAL = ''AWAITING_APPROVAL''"
| "InvestigationStatus_name InvestigationStatus.APPROVED = ''APPROVED''"
| "InvestigationStatus_name InvestigationStatus.REJECTED = ''REJECTED''"
| "InvestigationStatus_name InvestigationStatus.REVISION_REQUESTED = ''REVISION_REQUESTED''"
| "InvestigationStatus_name InvestigationStatus.POLICY_BLOCKED = ''POLICY_BLOCKED''"
| "InvestigationStatus_name InvestigationStatus.INSUFFICIENT_EVIDENCE = ''INSUFFICIENT_EVIDENCE''"
| "InvestigationStatus_name InvestigationStatus.CANCELLED = ''CANCELLED''"
| "InvestigationStatus_name InvestigationStatus.TIMED_OUT = ''TIMED_OUT''"
| "InvestigationStatus_name InvestigationStatus.MODEL_FAILED = ''MODEL_FAILED''"
| "InvestigationStatus_name InvestigationStatus.TOOL_FAILED = ''TOOL_FAILED''"
| "InvestigationStatus_name InvestigationStatus.BUDGET_EXCEEDED = ''BUDGET_EXCEEDED''"
| "InvestigationStatus_name InvestigationStatus.SECURITY_REJECTED = ''SECURITY_REJECTED''"

datatype InvestigationAgentKind =
    TRIAGE | REPOSITORY_MAPPER | ROOT_CAUSE_INVESTIGATOR | CONTRACT_ANALYST | SECURITY_REVIEWER
  | PLAN_COMPOSER | INDEPENDENT_CRITIC

datatype ToolCallStatus =
    REQUESTED | AUTHORIZED | COMPLETED | DENIED | FAILED

datatype HypothesisDisposition =
    PRIMARY | ALTERNATIVE | REJECTED

datatype RiskLevel =
    LOW | MEDIUM | HIGH | CRITICAL

datatype CitationSourceType =
    INCIDENT_EVIDENCE | INCIDENT_EVENT | REPRODUCTION | SANDBOX_LOG | SANDBOX_ARTIFACT
  | REPOSITORY_FILE | REPOSITORY_HEALTH

primrec CitationSourceType_name :: "CitationSourceType \<Rightarrow> string" where
  "CitationSourceType_name CitationSourceType.INCIDENT_EVIDENCE = ''INCIDENT_EVIDENCE''"
| "CitationSourceType_name CitationSourceType.INCIDENT_EVENT = ''INCIDENT_EVENT''"
| "CitationSourceType_name CitationSourceType.REPRODUCTION = ''REPRODUCTION''"
| "CitationSourceType_name CitationSourceType.SANDBOX_LOG = ''SANDBOX_LOG''"
| "CitationSourceType_name CitationSourceType.SANDBOX_ARTIFACT = ''SANDBOX_ARTIFACT''"
| "CitationSourceType_name CitationSourceType.REPOSITORY_FILE = ''REPOSITORY_FILE''"
| "CitationSourceType_name CitationSourceType.REPOSITORY_HEALTH = ''REPOSITORY_HEALTH''"

datatype RecoveryRunStatus =
    REQUESTED | POLICY_CHECK | WORKTREE_PREPARING | PATCH_PLANNING | PATCH_GENERATING
  | PATCH_VALIDATING | SECURITY_REVIEW | VERIFYING | PACKAGE_BUILDING
  | AWAITING_PUBLICATION_APPROVAL | READY_TO_PUBLISH | PUBLISHED | POLICY_BLOCKED | CANCELLED
  | TIMED_OUT | PATCH_REJECTED | SECURITY_REJECTED | VERIFICATION_FAILED | WORKTREE_FAILED
  | MODEL_FAILED | TOOL_FAILED | BUDGET_EXCEEDED | CLEANUP_FAILED

primrec RecoveryRunStatus_name :: "RecoveryRunStatus \<Rightarrow> string" where
  "RecoveryRunStatus_name RecoveryRunStatus.REQUESTED = ''REQUESTED''"
| "RecoveryRunStatus_name RecoveryRunStatus.POLICY_CHECK = ''POLICY_CHECK''"
| "RecoveryRunStatus_name RecoveryRunStatus.WORKTREE_PREPARING = ''WORKTREE_PREPARING''"
| "RecoveryRunStatus_name RecoveryRunStatus.PATCH_PLANNING = ''PATCH_PLANNING''"
| "RecoveryRunStatus_name RecoveryRunStatus.PATCH_GENERATING = ''PATCH_GENERATING''"
| "RecoveryRunStatus_name RecoveryRunStatus.PATCH_VALIDATING = ''PATCH_VALIDATING''"
| "RecoveryRunStatus_name RecoveryRunStatus.SECURITY_REVIEW = ''SECURITY_REVIEW''"
| "RecoveryRunStatus_name RecoveryRunStatus.VERIFYING = ''VERIFYING''"
| "RecoveryRunStatus_name RecoveryRunStatus.PACKAGE_BUILDING = ''PACKAGE_BUILDING''"
| "RecoveryRunStatus_name RecoveryRunStatus.AWAITING_PUBLICATION_APPROVAL = ''AWAITING_PUBLICATION_APPROVAL''"
| "RecoveryRunStatus_name RecoveryRunStatus.READY_TO_PUBLISH = ''READY_TO_PUBLISH''"
| "RecoveryRunStatus_name RecoveryRunStatus.PUBLISHED = ''PUBLISHED''"
| "RecoveryRunStatus_name RecoveryRunStatus.POLICY_BLOCKED = ''POLICY_BLOCKED''"
| "RecoveryRunStatus_name RecoveryRunStatus.CANCELLED = ''CANCELLED''"
| "RecoveryRunStatus_name RecoveryRunStatus.TIMED_OUT = ''TIMED_OUT''"
| "RecoveryRunStatus_name RecoveryRunStatus.PATCH_REJECTED = ''PATCH_REJECTED''"
| "RecoveryRunStatus_name RecoveryRunStatus.SECURITY_REJECTED = ''SECURITY_REJECTED''"
| "RecoveryRunStatus_name RecoveryRunStatus.VERIFICATION_FAILED = ''VERIFICATION_FAILED''"
| "RecoveryRunStatus_name RecoveryRunStatus.WORKTREE_FAILED = ''WORKTREE_FAILED''"
| "RecoveryRunStatus_name RecoveryRunStatus.MODEL_FAILED = ''MODEL_FAILED''"
| "RecoveryRunStatus_name RecoveryRunStatus.TOOL_FAILED = ''TOOL_FAILED''"
| "RecoveryRunStatus_name RecoveryRunStatus.BUDGET_EXCEEDED = ''BUDGET_EXCEEDED''"
| "RecoveryRunStatus_name RecoveryRunStatus.CLEANUP_FAILED = ''CLEANUP_FAILED''"

datatype RecoverySecurityDecision =
    ALLOW | REQUIRE_REVISION | BLOCK

primrec RecoverySecurityDecision_name :: "RecoverySecurityDecision \<Rightarrow> string" where
  "RecoverySecurityDecision_name RecoverySecurityDecision.ALLOW = ''ALLOW''"
| "RecoverySecurityDecision_name RecoverySecurityDecision.REQUIRE_REVISION = ''REQUIRE_REVISION''"
| "RecoverySecurityDecision_name RecoverySecurityDecision.BLOCK = ''BLOCK''"

datatype RecoveryVerificationStatus =
    PENDING | RUNNING | PASSED | FAILED | INCONCLUSIVE | CANCELLED

primrec RecoveryVerificationStatus_name :: "RecoveryVerificationStatus \<Rightarrow> string" where
  "RecoveryVerificationStatus_name RecoveryVerificationStatus.PENDING = ''PENDING''"
| "RecoveryVerificationStatus_name RecoveryVerificationStatus.RUNNING = ''RUNNING''"
| "RecoveryVerificationStatus_name RecoveryVerificationStatus.PASSED = ''PASSED''"
| "RecoveryVerificationStatus_name RecoveryVerificationStatus.FAILED = ''FAILED''"
| "RecoveryVerificationStatus_name RecoveryVerificationStatus.INCONCLUSIVE = ''INCONCLUSIVE''"
| "RecoveryVerificationStatus_name RecoveryVerificationStatus.CANCELLED = ''CANCELLED''"

section \<open>Records\<close>

record InvestigationCitation =
  sourceType :: CitationSourceType
  sourceId :: string
  digest :: string
  path :: "string option"
  lineStart :: "int option"
  lineEnd :: "int option"
  label :: string
  excerpt :: "string option"

record PatchHunk =
  hunkId :: string
  hunkFileId :: string
  sequence :: int
  oldStart :: int
  oldLines :: int
  newStart :: int
  newLines :: int
  header :: string
  content :: string
  hunkAddedLines :: int
  hunkDeletedLines :: int
  treatmentPlanStep :: int
  evidenceCitations :: "InvestigationCitation list"
  contentHash :: string

datatype ChangeType = ADD | MODIFY | DELETE | RENAME

record PatchFile =
  fileId :: string
  patchId :: string
  oldPath :: "string option"
  newPath :: "string option"
  changeType :: ChangeType
  oldDigest :: "string option"
  newDigest :: "string option"
  addedLines :: int
  deletedLines :: int
  binary :: bool
  generated :: bool
  sensitive :: bool
  hunks :: "PatchHunk list"

record RecoveryPolicy =
  policyVersion :: string
  allowedPaths :: "string list"
  deniedPaths :: "string list"
  allowedExtensions :: "string list"
  maximumChangedFiles :: int
  maximumChangedLines :: int
  maximumPatchHunks :: int
  maximumPatchBytes :: int
  allowNewFiles :: bool
  allowDeletedFiles :: bool
  allowGeneratedFiles :: bool
  allowDependencyChanges :: bool
  allowLockfileChanges :: bool
  allowWorkflowChanges :: bool
  allowInfrastructureChanges :: bool
  allowMigrationChanges :: bool
  allowSecuritySensitiveChanges :: bool
  requireSecurityReview :: bool
  requireIndependentVerification :: bool
  requireHumanPublicationApproval :: bool
  requiredPublicationApprovals :: int
  retentionDays :: int

text \<open>Who a store operation acts for (\<open>packages/database/src/incident-store.ts\<close>).\<close>

record StoreActorContext =
  ctx_organizationId :: string
  ctx_actorId :: string
  ctx_actorType :: ActorType
  ctx_actorRoles :: "ActorRole list"
  ctx_requestId :: string
  ctx_correlationId :: string

end
