(* ===== verification/Lifecycle.thy ===== *)
theory Lifecycle
  imports Prelude
begin

text \<open>
  What the four lifecycles of the control plane (incident, recovery run, publication run,
  investigation) have in common: a table of permitted next statuses and an assertion that throws
  on any other change. The locale \<open>lifecycle\<close> states that contract; every lifecycle of the
  code interprets it, and the histories, dead ends and mandatory stages below are proved once.
\<close>

text \<open>A history: the statuses a run was moved through, each change accepted by the assertion.\<close>

fun accepted :: "('s \<Rightarrow> 's \<Rightarrow> 'e + unit) \<Rightarrow> 's \<Rightarrow> 's list \<Rightarrow> bool" where
  "accepted check s [] = True"
| "accepted check s (t # ts) = (check s t = Inr () \<and> accepted check t ts)"

text \<open>
  A pipeline: a rank for every status such that a permitted change either does not raise the rank
  or raises it by one, into the stage of that rank. Retries, revisions and failures lower it.
\<close>

definition pipeline :: "('s \<Rightarrow> 's list) \<Rightarrow> ('s \<Rightarrow> nat) \<Rightarrow> (nat \<Rightarrow> 's) \<Rightarrow> bool" where
  "pipeline succ rank stage =
     (\<forall>a. \<forall>b \<in> set (succ a). rank b \<le> rank a \<or> rank b = Suc (rank a) \<and> b = stage (rank b))"

locale lifecycle =
  fixes check :: "'s \<Rightarrow> 's \<Rightarrow> 'e + unit"
    and successors :: "'s \<Rightarrow> 's list"
  assumes check_accepts: "check s t = Inr () \<longleftrightarrow> s = t \<or> t \<in> set (successors s)"
begin

lemma dead_end: "successors s = [] \<Longrightarrow> check s t = Inr () \<Longrightarrow> t = s"
  using check_accepts by auto

lemma dead_end_history: "successors s = [] \<Longrightarrow> accepted check s ts \<Longrightarrow> set ts \<subseteq> {s}"
proof (induction ts)
  case Nil
  then show ?case by simp
next
  case (Cons t ts)
  then have "t = s" by (auto dest: dead_end)
  with Cons show ?case by auto
qed

text \<open>
  A stage no history can skip: when every way out of a set of statuses leads through one
  status, a history that starts inside and ends outside has visited that status.
\<close>

lemma mandatory_stage:
  assumes closed: "\<And>a b. a \<in> X \<Longrightarrow> b \<in> set (successors a) \<Longrightarrow> b \<in> X \<or> b = gate"
    and "s \<in> X" "accepted check s ts" "last (s # ts) \<notin> X"
  shows "gate \<in> set ts"
  using assms(2-4)
proof (induction ts arbitrary: s)
  case Nil
  then show ?case by simp
next
  case (Cons t ts)
  then have "s = t \<or> t \<in> set (successors s)" by (simp add: check_accepts)
  with closed Cons.prems(1) have "t \<in> X \<or> t = gate" by blast
  with Cons show ?case by auto
qed

text \<open>A history that climbs a pipeline has entered the stage of every rank it climbed.\<close>

lemma pipeline_stages_visited:
  assumes "pipeline successors rank stage" "accepted check s ts"
    and "rank s < k" "k \<le> rank (last (s # ts))"
  shows "stage k \<in> set ts"
  using assms(2-4)
proof (induction ts arbitrary: s)
  case Nil
  then show ?case by simp
next
  case (Cons t ts)
  then have step: "s = t \<or> rank t \<le> rank s \<or> rank t = Suc (rank s) \<and> t = stage (rank t)"
    using assms(1) by (auto simp: check_accepts pipeline_def)
  show ?case
  proof (cases "k \<le> rank t")
    case True
    with step Cons.prems(2) have "rank t = k" "t = stage (rank t)" by auto
    then show ?thesis by simp
  next
    case False
    with Cons have "stage k \<in> set ts" by (auto split: if_splits)
    then show ?thesis by simp
  qed
qed

text \<open>A set of statuses closed under the table is never left.\<close>

lemma closed_history:
  assumes closed: "\<And>a b. a \<in> X \<Longrightarrow> b \<in> set (successors a) \<Longrightarrow> b \<in> X"
    and "s \<in> X" "accepted check s ts"
  shows "set ts \<subseteq> X"
  using assms(2-3)
proof (induction ts arbitrary: s)
  case Nil
  then show ?case by simp
next
  case (Cons t ts)
  then have "s = t \<or> t \<in> set (successors s)" by (simp add: check_accepts)
  with closed Cons.prems(1) have "t \<in> X" by blast
  with Cons show ?case by auto
qed

end

text \<open>The incident table has no reflexive shortcut: repeating a status is refused there.\<close>

locale strict_lifecycle =
  fixes check :: "'s \<Rightarrow> 's \<Rightarrow> 'e + unit"
    and successors :: "'s \<Rightarrow> 's list"
  assumes check_strict: "check s t = Inr () \<longleftrightarrow> t \<in> set (successors s)"
begin

definition lenient :: "'s \<Rightarrow> 's \<Rightarrow> 'e + unit" where
  "lenient s t = (if s = t then Inr () else check s t)"

lemma lenient_lifecycle: "lifecycle lenient successors"
  by unfold_locales (auto simp: lenient_def check_strict)

lemma strict_history: "accepted check s ts \<Longrightarrow> accepted lenient s ts"
  by (induction ts arbitrary: s) (auto simp: lenient_def)

lemma strict_mandatory_stage:
  assumes "\<And>a b. a \<in> X \<Longrightarrow> b \<in> set (successors a) \<Longrightarrow> b \<in> X \<or> b = gate"
    and "s \<in> X" "accepted check s ts" "last (s # ts) \<notin> X"
  shows "gate \<in> set ts"
  using lifecycle.mandatory_stage [OF lenient_lifecycle, of X gate s ts] assms strict_history
  by blast

lemma strict_pipeline_stages_visited:
  assumes "pipeline successors rank stage" "accepted check s ts"
    and "rank s < k" "k \<le> rank (last (s # ts))"
  shows "stage k \<in> set ts"
  using lifecycle.pipeline_stages_visited [OF lenient_lifecycle, of rank stage s ts k] assms
    strict_history by blast

lemma strict_dead_end: "successors s = [] \<Longrightarrow> accepted check s ts \<Longrightarrow> ts = []"
  by (cases ts) (auto simp: check_strict)

end

end
