(* ===== verification/Json.thy ===== *)
theory Json
  imports Prelude "HOL-Library.Multiset"
begin

text \<open>
  JSON values and the canonical digests of the control plane:
  \<open>canonicalize\<close>, \<open>canonicalJson\<close>, \<open>digestPayload\<close> of \<open>packages/incidents/src/index.ts\<close>
  (repeated as \<open>stable\<close> in \<open>packages/ai/src/context.ts\<close> and \<open>canonicalize\<close> in
  \<open>packages/publication/src/execution.ts\<close>).

  Numbers are integers, which is what the digested records hold. The functions of the
  JavaScript host and of the schema library that the model takes as arguments are the fields of
  the record \<open>host\<close>: SHA-256 in hexadecimal, \<open>left.localeCompare(right) <= 0\<close>,
  \<open>toISOString\<close> of a time in milliseconds, the \<open>uuid\<close>, \<open>datetime\<close> and
  \<open>url\<close> formats of the schemas, HMAC-SHA-256 of a key and a message as bytes, and of the
  database the reading of a text as a timestamp and the order of its collation. \<open>Object.fromEntries\<close> builds an object whose
  array-index keys come first in ascending order, whatever the order of the entries, and whose
  other keys keep the order of their first insertion with the last value: \<open>from_entries\<close>
  follows that.
\<close>

datatype json =
    JNull
  | JBool bool
  | JNum int
  | JStr string
  | JArr "json list"
  | JObj "(string \<times> json) list"

record host =
  sha256 :: "string \<Rightarrow> string"
  locale_le :: "string \<Rightarrow> string \<Rightarrow> bool"
  iso_time :: "int \<Rightarrow> string"
  uuid_format :: "string \<Rightarrow> bool"
  datetime_format :: "string \<Rightarrow> bool"
  url_format :: "string \<Rightarrow> bool"
  hmac_sha256 :: "string \<Rightarrow> string \<Rightarrow> string"
  timestamp_of :: "string \<Rightarrow> int option"
  db_le :: "string \<Rightarrow> string \<Rightarrow> bool"

section \<open>Objects from entries\<close>

text \<open>An array index is a canonical decimal below \<open>2 ^ 32 - 1\<close>.\<close>

definition index_value :: "string \<Rightarrow> int" where
  "index_value k = foldl (\<lambda>n c. 10 * n + (int (char_code c) - 48)) 0 k"

definition is_index_key :: "string \<Rightarrow> bool" where
  "is_index_key k = (k = ''0'' \<or> (k \<noteq> [] \<and> list_all is_digit k \<and> hd k \<noteq> CHR ''0''
                                  \<and> index_value k < 4294967295))"

fun put_entry :: "string \<Rightarrow> 'v \<Rightarrow> (string \<times> 'v) list \<Rightarrow> (string \<times> 'v) list" where
  "put_entry k v [] = [(k, v)]"
| "put_entry k v ((k', v') # es) =
     (if k = k' then (k, v) # es else (k', v') # put_entry k v es)"

definition from_entries :: "(string \<times> 'v) list \<Rightarrow> (string \<times> 'v) list" where
  "from_entries es =
     (let ob = foldl (\<lambda>acc (k, v). put_entry k v acc) [] es
      in sort_key (\<lambda>(k, v). index_value k) (filter (\<lambda>(k, v). is_index_key k) ob)
         @ filter (\<lambda>(k, v). \<not> is_index_key k) ob)"

section \<open>Canonical form\<close>

text \<open>\<open>Array.prototype.sort\<close> is stable; a comparator decides by \<open>\<le>\<close>.\<close>

fun insort_by :: "('a \<Rightarrow> 'a \<Rightarrow> bool) \<Rightarrow> 'a \<Rightarrow> 'a list \<Rightarrow> 'a list" where
  "insort_by le x [] = [x]"
| "insort_by le x (y # ys) = (if le x y then x # y # ys else y # insort_by le x ys)"

definition sort_by :: "('a \<Rightarrow> 'a \<Rightarrow> bool) \<Rightarrow> 'a list \<Rightarrow> 'a list" where
  "sort_by le xs = foldr (insort_by le) xs []"

definition sort_entries :: "(string \<Rightarrow> string \<Rightarrow> bool) \<Rightarrow> (string \<times> 'v) list \<Rightarrow> (string \<times> 'v) list" where
  "sort_entries le = sort_by (\<lambda>(k, v) (k', v'). le k k')"

text \<open>
  The source sorts the entries and then maps the values; a stable sort that looks at keys only
  commutes with the map, and mapping first makes the recursion structural.
\<close>

fun canonicalize :: "(string \<Rightarrow> string \<Rightarrow> bool) \<Rightarrow> json \<Rightarrow> json" where
  "canonicalize le (JArr xs) = JArr (map (canonicalize le) xs)"
| "canonicalize le (JObj es) =
     JObj (from_entries (sort_entries le (map (\<lambda>(k, v). (k, canonicalize le v)) es)))"
| "canonicalize le v = v"

section \<open>JSON.stringify\<close>

definition hex_digit :: "nat \<Rightarrow> char" where
  "hex_digit n = (if n < 10 then char_of (48 + n) else char_of (87 + n))"

definition escape_char :: "char \<Rightarrow> string" where
  "escape_char c =
     (if c = CHR 0x22 then [CHR 0x5C, CHR 0x22]
      else if c = CHR 0x5C then [CHR 0x5C, CHR 0x5C]
      else if c = CHR 0x08 then [CHR 0x5C, CHR ''b'']
      else if c = CHR 0x0C then [CHR 0x5C, CHR ''f'']
      else if c = CHR 0x0A then [CHR 0x5C, CHR ''n'']
      else if c = CHR 0x0D then [CHR 0x5C, CHR ''r'']
      else if c = CHR 0x09 then [CHR 0x5C, CHR ''t'']
      else if char_code c < 32
        then CHR 0x5C # ''u00'' @ [hex_digit (char_code c div 16), hex_digit (char_code c mod 16)]
      else [c])"

lemma escape_char_run [code]: "escape_char c =
     (if c = CHR 0x22 then [CHR 0x5C, CHR 0x22]
      else if c = CHR 0x5C then [CHR 0x5C, CHR 0x5C]
      else if 32 \<le> int_code c then [c]
      else if c = CHR 0x08 then [CHR 0x5C, CHR ''b'']
      else if c = CHR 0x0C then [CHR 0x5C, CHR ''f'']
      else if c = CHR 0x0A then [CHR 0x5C, CHR ''n'']
      else if c = CHR 0x0D then [CHR 0x5C, CHR ''r'']
      else if c = CHR 0x09 then [CHR 0x5C, CHR ''t'']
      else CHR 0x5C # ''u00'' @ [hex_digit (char_code c div 16), hex_digit (char_code c mod 16)])"
  by (auto simp: escape_char_def int_code_char_code char_code_def)

definition quote_string :: "string \<Rightarrow> string" where
  "quote_string s = CHR 0x22 # concat (map escape_char s) @ [CHR 0x22]"

fun stringify :: "json \<Rightarrow> string" where
  "stringify JNull = ''null''"
| "stringify (JBool b) = (if b then ''true'' else ''false'')"
| "stringify (JNum n) = show_int n"
| "stringify (JStr s) = quote_string s"
| "stringify (JArr xs) = ''['' @ join_with '','' (map stringify xs) @ '']''"
| "stringify (JObj es) =
     ''{'' @ join_with '','' (map (\<lambda>(k, v). quote_string k @ '':'' @ stringify v) es) @ ''}''"

definition canonicalJson :: "host \<Rightarrow> json \<Rightarrow> string" where
  "canonicalJson h v = stringify (canonicalize (locale_le h) v)"

definition digestPayload :: "host \<Rightarrow> json \<Rightarrow> string" where
  "digestPayload h v = sha256 h (canonicalJson h v)"

text \<open>\<open>value ?? null\<close> for a string.\<close>

definition str_or_null :: "string option \<Rightarrow> json" where
  "str_or_null s = (case s of None \<Rightarrow> JNull | Some v \<Rightarrow> JStr v)"

definition num_or_null :: "int option \<Rightarrow> json" where
  "num_or_null n = (case n of None \<Rightarrow> JNull | Some v \<Rightarrow> JNum v)"

section \<open>The digest does not see the order of keys\<close>

text \<open>What the digests rely on of \<open>localeCompare\<close>: it orders the keys linearly.\<close>

definition key_order :: "(string \<Rightarrow> string \<Rightarrow> bool) \<Rightarrow> bool" where
  "key_order le = ((\<forall>a b. le a b \<or> le b a) \<and> (\<forall>a b. le a b \<longrightarrow> le b a \<longrightarrow> a = b)
                   \<and> (\<forall>a b c. le a b \<longrightarrow> le b c \<longrightarrow> le a c))"

lemma mset_insort_by [simp]: "mset (insort_by le x xs) = add_mset x (mset xs)"
  by (induction xs) auto

lemma mset_sort_by [simp]: "mset (sort_by le xs) = mset xs"
  by (induction xs) (auto simp: sort_by_def)

lemma set_sort_by [simp]: "set (sort_by le xs) = set xs"
  by (metis mset_sort_by set_mset_mset)

lemma sorted_insort_by:
  assumes tot: "\<And>a b. le a b \<or> le b a" and tr: "\<And>a b c. le a b \<Longrightarrow> le b c \<Longrightarrow> le a c"
  shows "sorted_wrt le xs \<Longrightarrow> sorted_wrt le (insort_by le x xs)"
proof (induction xs)
  case Nil
  then show ?case by simp
next
  case (Cons y ys)
  have "set (insort_by le x ys) = insert x (set ys)"
    by (metis mset_insort_by set_mset_mset set_mset_add_mset_insert)
  with Cons tot tr show ?case by (auto intro: tr)
qed

lemma sorted_sort_by:
  assumes "\<And>a b. le a b \<or> le b a" and "\<And>a b c. le a b \<Longrightarrow> le b c \<Longrightarrow> le a c"
  shows "sorted_wrt le (sort_by le xs)"
proof (induction xs)
  case Nil
  then show ?case by (simp add: sort_by_def)
next
  case (Cons x xs)
  then show ?case using sorted_insort_by [of le, OF assms] by (simp add: sort_by_def)
qed

lemma sorted_wrt_unique:
  assumes anti: "\<And>a b. a \<in> set xs \<Longrightarrow> b \<in> set xs \<Longrightarrow> le a b \<Longrightarrow> le b a \<Longrightarrow> a = b"
    and "mset xs = mset ys" "sorted_wrt le xs" "sorted_wrt le ys"
  shows "xs = ys"
  using assms
proof (induction xs arbitrary: ys)
  case Nil
  then show ?case by simp
next
  case (Cons x xs)
  then obtain y ys' where ys: "ys = y # ys'" by (cases ys) auto
  have "x = y"
  proof (rule ccontr)
    assume ne: "x \<noteq> y"
    from Cons.prems(2) ys ne have "x \<in> set ys'" "y \<in> set xs"
      by (metis insert_iff list.simps(15) set_mset_mset)+
    with Cons.prems(3,4) ys have "le x y" "le y x" by auto
    with Cons.prems(1) \<open>y \<in> set xs\<close> ne show False by auto
  qed
  with Cons ys show ?case by auto
qed

lemma sort_entries_perm:
  assumes "key_order le" "mset es = mset fs" "distinct (map fst es)"
  shows "sort_entries le es = sort_entries le fs"
  unfolding sort_entries_def
proof (rule sorted_wrt_unique)
  show "mset (sort_by (\<lambda>(k, v) (k', v'). le k k') es) = mset (sort_by (\<lambda>(k, v) (k', v'). le k k') fs)"
    using assms(2) by simp
  have le: "le k k' \<or> le k' k" "le k k' \<Longrightarrow> le k' k'' \<Longrightarrow> le k k''" for k k' k''
    using assms(1) unfolding key_order_def by blast+
  have "sorted_wrt (\<lambda>(k, v) (k', v'). le k k') (sort_by (\<lambda>(k, v) (k', v'). le k k') xs)" for xs
  proof (rule sorted_sort_by)
    show "(\<lambda>(k, v) (k', v'). le k k') a b \<or> (\<lambda>(k, v) (k', v'). le k k') b a" for a b
      using le(1) by (cases a; cases b) simp
    show "(\<lambda>(k, v) (k', v'). le k k') a c"
      if "(\<lambda>(k, v) (k', v'). le k k') a b" "(\<lambda>(k, v) (k', v'). le k k') b c" for a b c
      using that le(2) by (cases a; cases b; cases c) simp
  qed
  then show "sorted_wrt (\<lambda>(k, v) (k', v'). le k k') (sort_by (\<lambda>(k, v) (k', v'). le k k') es)"
    "sorted_wrt (\<lambda>(k, v) (k', v'). le k k') (sort_by (\<lambda>(k, v) (k', v'). le k k') fs)"
    by this+
  fix a b
  assume "a \<in> set (sort_by (\<lambda>(k, v) (k', v'). le k k') es)"
    "b \<in> set (sort_by (\<lambda>(k, v) (k', v'). le k k') es)"
    and le: "(\<lambda>(k, v) (k', v'). le k k') a b" "(\<lambda>(k, v) (k', v'). le k k') b a"
  then have mem: "a \<in> set es" "b \<in> set es" by simp_all
  obtain k v k' v' where ab: "a = (k, v)" "b = (k', v')" by (cases a; cases b)
  have "\<forall>x y. le x y \<longrightarrow> le y x \<longrightarrow> x = y" using assms(1) unfolding key_order_def by (elim conjE)
  moreover from le ab have "le k k'" "le k' k" by simp_all
  ultimately have "k = k'" by blast
  with ab mem assms(3) have "v = v'" by (blast intro: eq_key_imp_eq_value)
  with ab \<open>k = k'\<close> show "a = b" by simp
qed

text \<open>Two values that differ only in the order in which their objects list the keys.\<close>

inductive reordered :: "json \<Rightarrow> json \<Rightarrow> bool" where
  here: "mset es = mset fs \<Longrightarrow> distinct (map fst es) \<Longrightarrow> reordered (JObj es) (JObj fs)"
| in_array: "reordered v w \<Longrightarrow> reordered (JArr (xs @ v # ys)) (JArr (xs @ w # ys))"
| in_object: "reordered v w \<Longrightarrow> reordered (JObj (es @ (k, v) # fs)) (JObj (es @ (k, w) # fs))"
| chain: "reordered u v \<Longrightarrow> reordered v w \<Longrightarrow> reordered u w"

lemma canonicalize_reordered:
  assumes "key_order le"
  shows "reordered v w \<Longrightarrow> canonicalize le v = canonicalize le w"
proof (induction rule: reordered.induct)
  case (here es fs)
  have "mset (map (\<lambda>(k, v). (k, canonicalize le v)) es) = mset (map (\<lambda>(k, v). (k, canonicalize le v)) fs)"
    using here(1) by simp
  moreover have "distinct (map fst (map (\<lambda>(k, v). (k, canonicalize le v)) es))"
    using here(2) by (simp add: comp_def case_prod_beta)
  ultimately show ?case using assms sort_entries_perm by fastforce
qed auto

section \<open>A host to evaluate with\<close>

text \<open>
  Concrete arguments for evaluating the definitions: strings ordered by their character codes, a
  digest that is the text itself (so different texts have different digests), every format
  accepted.
\<close>

fun string_le :: "string \<Rightarrow> string \<Rightarrow> bool" where
  "string_le [] t = True"
| "string_le (c # s) [] = False"
| "string_le (c # s) (d # t) = (char_code c < char_code d \<or> c = d \<and> string_le s t)"

definition plain_host :: host where
  "plain_host = \<lparr>sha256 = (\<lambda>s. s), locale_le = string_le, iso_time = show_int,
     uuid_format = (\<lambda>s. True), datetime_format = (\<lambda>s. True), url_format = (\<lambda>s. True),
     hmac_sha256 = (\<lambda>k m. k @ m), timestamp_of = (\<lambda>s. Some (int (length s))),
     db_le = string_le\<rparr>"

lemma char_code_inject: "char_code c = char_code d \<longleftrightarrow> c = d"
  by (simp add: char_code_def)

lemma string_le_run [code]:
  "string_le [] t = True" "string_le (c # s) [] = False"
  "string_le (c # s) (d # t) = (if c = d then string_le s t else int_code c < int_code d)"
  by (auto simp: int_code_char_code)

lemma string_le_total: "string_le s t \<or> string_le t s"
  by (induction s t rule: string_le.induct) (auto simp: not_less le_less char_code_inject)

lemma string_le_antisym: "string_le s t \<Longrightarrow> string_le t s \<Longrightarrow> s = t"
  by (induction s t rule: string_le.induct) (auto elim: string_le.elims)

lemma string_le_trans: "string_le s t \<Longrightarrow> string_le t u \<Longrightarrow> string_le s u"
proof (induction s t arbitrary: u rule: string_le.induct)
  case (3 c s d t)
  then show ?case by (cases u) auto
qed auto

lemma key_order_string_le: "key_order string_le"
  unfolding key_order_def using string_le_total string_le_antisym string_le_trans by blast

end
