(* ===== verification/Incidents.thy ===== *)
theory Incidents
  imports Contracts Lifecycle Json
begin

text \<open>
  \<open>packages/incidents/src/index.ts\<close>: the incident lifecycle, the hash of an incident event and
  the verification of the event chain, the redaction of evidence, the severity and the repository
  health scores.
\<close>

section \<open>Lifecycle\<close>

fun transitions :: "IncidentStatus \<Rightarrow> IncidentStatus list" where
  "transitions IncidentStatus.ADMITTED =
     [IncidentStatus.TRIAGING, IncidentStatus.CANCELLED, IncidentStatus.FAILED]"
| "transitions IncidentStatus.TRIAGING =
     [IncidentStatus.INVESTIGATING, IncidentStatus.FAILED, IncidentStatus.CANCELLED]"
| "transitions IncidentStatus.INVESTIGATING =
     [IncidentStatus.AWAITING_APPROVAL, IncidentStatus.RECOVERING, IncidentStatus.FAILED,
      IncidentStatus.CANCELLED]"
| "transitions IncidentStatus.AWAITING_APPROVAL =
     [IncidentStatus.RECOVERING, IncidentStatus.CANCELLED, IncidentStatus.FAILED]"
| "transitions IncidentStatus.RECOVERING =
     [IncidentStatus.VERIFYING, IncidentStatus.FAILED, IncidentStatus.CANCELLED]"
| "transitions IncidentStatus.VERIFYING =
     [IncidentStatus.VERIFIED, IncidentStatus.RECOVERING, IncidentStatus.FAILED]"
| "transitions IncidentStatus.VERIFIED = []"
| "transitions IncidentStatus.FAILED = [IncidentStatus.TRIAGING, IncidentStatus.CANCELLED]"
| "transitions IncidentStatus.CANCELLED = []"

fun stageByStatus :: "IncidentStatus \<Rightarrow> RecoveryStage" where
  "stageByStatus IncidentStatus.ADMITTED = RecoveryStage.ADMIT"
| "stageByStatus IncidentStatus.TRIAGING = RecoveryStage.TRIAGE"
| "stageByStatus IncidentStatus.INVESTIGATING = RecoveryStage.DIAGNOSE"
| "stageByStatus IncidentStatus.AWAITING_APPROVAL = RecoveryStage.DIAGNOSE"
| "stageByStatus IncidentStatus.RECOVERING = RecoveryStage.RECOVER"
| "stageByStatus IncidentStatus.VERIFYING = RecoveryStage.VERIFY"
| "stageByStatus IncidentStatus.VERIFIED = RecoveryStage.VERIFY"
| "stageByStatus IncidentStatus.FAILED = RecoveryStage.DIAGNOSE"
| "stageByStatus IncidentStatus.CANCELLED = RecoveryStage.ADMIT"

definition assertIncidentTransition :: "IncidentStatus \<Rightarrow> IncidentStatus \<Rightarrow> string + unit" where
  "assertIncidentTransition s t =
     (if t \<notin> set (transitions s)
      then Inl (''Incident transition '' @ IncidentStatus_name s @ '' -> '' @ IncidentStatus_name t
                @ '' is not permitted'')
      else Inr ())"

definition allowedIncidentTransitions :: "IncidentStatus \<Rightarrow> IncidentStatus list" where
  "allowedIncidentTransitions s = transitions s"

definition stageForIncidentStatus :: "IncidentStatus \<Rightarrow> RecoveryStage" where
  "stageForIncidentStatus s = stageByStatus s"

interpretation incident: strict_lifecycle assertIncidentTransition allowedIncidentTransitions
  by unfold_locales (simp add: assertIncidentTransition_def allowedIncidentTransitions_def)

text \<open>How far a status is on the way from admission to verification.\<close>

fun incident_rank :: "IncidentStatus \<Rightarrow> nat" where
  "incident_rank IncidentStatus.TRIAGING = 1"
| "incident_rank IncidentStatus.INVESTIGATING = 2"
| "incident_rank IncidentStatus.AWAITING_APPROVAL = 2"
| "incident_rank IncidentStatus.RECOVERING = 3"
| "incident_rank IncidentStatus.VERIFYING = 4"
| "incident_rank IncidentStatus.VERIFIED = 5"
| "incident_rank _ = 0"

definition incident_stage :: "nat \<Rightarrow> IncidentStatus" where
  "incident_stage k =
     (if k = 1 then IncidentStatus.TRIAGING else if k = 2 then IncidentStatus.INVESTIGATING
      else if k = 3 then IncidentStatus.RECOVERING else if k = 4 then IncidentStatus.VERIFYING
      else IncidentStatus.VERIFIED)"

lemma incident_pipeline: "pipeline allowedIncidentTransitions incident_rank incident_stage"
  unfolding pipeline_def
proof
  fix a
  show "\<forall>b \<in> set (allowedIncidentTransitions a). incident_rank b \<le> incident_rank a
          \<or> incident_rank b = Suc (incident_rank a) \<and> b = incident_stage (incident_rank b)"
    by (cases a) (simp_all add: allowedIncidentTransitions_def incident_stage_def)
qed

text \<open>
  C36: an incident that went from admission to VERIFIED by permitted transitions was triaged,
  investigated, recovered and verified on the way; no history of the lifecycle skips a stage.
\<close>

lemma verified_after_verifying:
  assumes "accepted assertIncidentTransition IncidentStatus.ADMITTED ts"
    and "ts \<noteq> []" "last ts = IncidentStatus.VERIFIED"
  shows "{IncidentStatus.TRIAGING, IncidentStatus.INVESTIGATING, IncidentStatus.RECOVERING,
          IncidentStatus.VERIFYING} \<subseteq> set ts"
proof -
  have "incident_stage k \<in> set ts" if "0 < k" "k \<le> 4" for k
    using incident.strict_pipeline_stages_visited [OF incident_pipeline assms(1), of k] assms(2,3) that
    by simp
  from this [of 1] this [of 2] this [of 3] this [of 4] show ?thesis by (simp add: incident_stage_def)
qed

lemma verified_after_verifying_witness:
  "{IncidentStatus.TRIAGING, IncidentStatus.INVESTIGATING, IncidentStatus.RECOVERING,
    IncidentStatus.VERIFYING}
   \<subseteq> set [IncidentStatus.TRIAGING, IncidentStatus.INVESTIGATING, IncidentStatus.RECOVERING,
           IncidentStatus.VERIFYING, IncidentStatus.RECOVERING, IncidentStatus.VERIFYING,
           IncidentStatus.VERIFIED]"
  by (rule verified_after_verifying) (simp_all add: assertIncidentTransition_def)

section \<open>The hash chain of incident events\<close>

record IncidentEvent =
  ev_id :: string
  ev_incidentId :: string
  ev_sequence :: int
  ev_type :: string
  ev_payload :: json
  ev_actorType :: ActorType
  ev_actorId :: "string option"
  ev_requestId :: "string option"
  ev_correlationId :: "string option"
  ev_causationId :: "string option"
  ev_previousHash :: "string option"
  ev_eventHash :: string
  ev_occurredAt :: string
  ev_createdAt :: string

record IncidentEventHashInput =
  hi_incidentId :: string
  hi_sequence :: int
  hi_type :: string
  hi_payload :: json
  hi_occurredAt :: string
  hi_actorType :: string
  hi_actorId :: "string option"
  hi_requestId :: "string option"
  hi_correlationId :: "string option"
  hi_causationId :: "string option"
  hi_previousHash :: "string option"

definition event_hash_fields :: "IncidentEventHashInput \<Rightarrow> (string \<times> json) list" where
  "event_hash_fields i =
     [(''actorId'', str_or_null (hi_actorId i)),
      (''actorType'', JStr (hi_actorType i)),
      (''causationId'', str_or_null (hi_causationId i)),
      (''correlationId'', str_or_null (hi_correlationId i)),
      (''incidentId'', JStr (hi_incidentId i)),
      (''occurredAt'', JStr (hi_occurredAt i)),
      (''payload'', hi_payload i),
      (''previousHash'', str_or_null (hi_previousHash i)),
      (''requestId'', str_or_null (hi_requestId i)),
      (''sequence'', JNum (hi_sequence i)),
      (''type'', JStr (hi_type i))]"

definition buildIncidentEventHash :: "host \<Rightarrow> IncidentEventHashInput \<Rightarrow> string" where
  "buildIncidentEventHash h i = digestPayload h (JObj (event_hash_fields i))"

text \<open>\<open>...(x ? { x } : {})\<close>: an absent or empty string is left out of the hashed input.\<close>

definition non_empty :: "string option \<Rightarrow> string option" where
  "non_empty x = (case x of None \<Rightarrow> None | Some v \<Rightarrow> if v = [] then None else Some v)"

definition hash_input_of :: "string option \<Rightarrow> IncidentEvent \<Rightarrow> IncidentEventHashInput" where
  "hash_input_of previous e =
     \<lparr>hi_incidentId = ev_incidentId e, hi_sequence = ev_sequence e, hi_type = ev_type e,
      hi_payload = ev_payload e, hi_occurredAt = ev_occurredAt e,
      hi_actorType = ActorType_name (ev_actorType e),
      hi_actorId = non_empty (ev_actorId e), hi_requestId = non_empty (ev_requestId e),
      hi_correlationId = non_empty (ev_correlationId e),
      hi_causationId = non_empty (ev_causationId e), hi_previousHash = non_empty previous\<rparr>"

record IncidentEventIntegrity =
  valid :: bool
  checkedEvents :: int
  brokenSequence :: "int option"
  reason :: "string option"

definition broken_at :: "int \<Rightarrow> int \<Rightarrow> string \<Rightarrow> IncidentEventIntegrity" where
  "broken_at expected found why =
     \<lparr>valid = False, checkedEvents = expected - 1, brokenSequence = Some found, reason = Some why\<rparr>"

text \<open>The body of the loop: the verdict at the first broken event, \<open>None\<close> when there is none.\<close>

fun verify_events ::
  "host \<Rightarrow> string option \<Rightarrow> int \<Rightarrow> IncidentEvent list \<Rightarrow> IncidentEventIntegrity option" where
  "verify_events h previous expected [] = None"
| "verify_events h previous expected (e # es) =
     (if ev_sequence e \<noteq> expected
      then Some (broken_at expected (ev_sequence e)
             (''Expected event sequence '' @ show_int expected @ '' but received ''
              @ show_int (ev_sequence e) @ ''.''))
      else if ev_previousHash e \<noteq> previous
      then Some (broken_at expected (ev_sequence e)
             ''Event previousHash does not match the prior event hash.'')
      else if buildIncidentEventHash h (hash_input_of previous e) \<noteq> ev_eventHash e
      then Some (broken_at expected (ev_sequence e)
             ''Event payload or metadata does not match the recorded event hash.'')
      else verify_events h (Some (ev_eventHash e)) (expected + 1) es)"

definition verifyIncidentEventChain :: "host \<Rightarrow> IncidentEvent list \<Rightarrow> IncidentEventIntegrity" where
  "verifyIncidentEventChain h events =
     (case verify_events h None 1 (sort_key ev_sequence events) of
        Some verdict \<Rightarrow> verdict
      | None \<Rightarrow> \<lparr>valid = True, checkedEvents = int (length events), brokenSequence = None,
                reason = None\<rparr>)"

lemma verify_events_None_nth:
  assumes "verify_events h p n es = None" "i < length es"
  shows "ev_sequence (es ! i) = n + int i
    \<and> ev_previousHash (es ! i) = (if i = 0 then p else Some (ev_eventHash (es ! (i - 1))))
    \<and> ev_eventHash (es ! i) = buildIncidentEventHash h (hash_input_of (ev_previousHash (es ! i)) (es ! i))"
  using assms
proof (induction es arbitrary: p n i)
  case Nil
  then show ?case by simp
next
  case (Cons e es)
  show ?case
  proof (cases i)
    case 0
    with Cons.prems show ?thesis by (auto split: if_splits)
  next
    case (Suc j)
    from Cons.prems(1) have "verify_events h (Some (ev_eventHash e)) (n + 1) es = None"
      by (auto split: if_splits)
    from Cons.IH [OF this, of j] Suc Cons.prems(2) show ?thesis
      by (cases j) simp_all
  qed
qed

lemma verify_events_Some_invalid: "verify_events h p n es = Some r \<Longrightarrow> \<not> valid r"
  by (induction es arbitrary: p n) (auto simp: broken_at_def split: if_splits)

lemma chain_valid_iff:
  "valid (verifyIncidentEventChain h events)
     \<longleftrightarrow> verify_events h None 1 (sort_key ev_sequence events) = None"
  by (auto simp: verifyIncidentEventChain_def dest: verify_events_Some_invalid split: option.splits)

end
