(* ===== verification/Float64.thy ===== *)
theory Float64
  imports Main
begin

text \<open>
  The binary64 arithmetic that the score calculations of \<open>packages/incidents/src/index.ts\<close> run
  on. A JavaScript number is held as an integer count of \<open>2 ^ -80\<close>, so that sums, products
  and quotients are computed exactly on integers and then rounded to 53 significant bits, ties to
  even, as IEEE 754 prescribes. This is exact for every number that is 0 or at least
  \<open>2 ^ -27\<close> in magnitude, which covers the scores (multiples of hundredths up to a few hundred,
  and user counts in thousandths); infinities and NaN do not occur there.
\<close>

type_synonym float64 = int

definition unit64 :: int where
  "unit64 = 1208925819614629174706176"

text \<open>The number of bits of a non-negative integer below \<open>2 ^ 256\<close>, by bisection.\<close>

fun int_bits :: "nat list \<Rightarrow> int \<Rightarrow> nat" where
  "int_bits [] n = (if n = 0 then 0 else 1)"
| "int_bits (k # ks) n = (if 2 ^ k \<le> n then k + int_bits ks (n div 2 ^ k) else int_bits ks n)"

declare int_bits.simps [simp del]

text \<open>The quotient \<open>q\<close> with remainder \<open>r\<close> modulo \<open>d\<close>, rounded half to even.\<close>

definition nearest :: "int \<Rightarrow> int \<Rightarrow> int \<Rightarrow> int" where
  "nearest q r d = (if 2 * r < d then q else if d < 2 * r then q + 1
                    else if even q then q else q + 1)"

definition round_half_even :: "int \<Rightarrow> int \<Rightarrow> int" where
  "round_half_even n d = nearest (n div d) (n mod d) d"

definition round_to :: "int \<Rightarrow> int \<Rightarrow> nat \<Rightarrow> float64" where
  "round_to m d s = round_half_even m (d * 2 ^ s) * 2 ^ s"

definition round_pos :: "int \<Rightarrow> int \<Rightarrow> float64" where
  "round_pos m d = round_to m d (int_bits [128, 64, 32, 16, 8, 4, 2, 1] (m div d) - 53)"

definition round_ratio :: "int \<Rightarrow> int \<Rightarrow> float64" where
  "round_ratio n d = (if n < 0 then - round_pos (- n) d else round_pos n d)"

definition f_int :: "int \<Rightarrow> float64" where
  "f_int i = i * unit64"

text \<open>The literal \<open>n / 100\<close>, such as \<open>0.16\<close>.\<close>

definition f_hundredths :: "int \<Rightarrow> float64" where
  "f_hundredths n = round_ratio (n * unit64) 100"

definition f_add :: "float64 \<Rightarrow> float64 \<Rightarrow> float64" where
  "f_add a b = round_ratio (a + b) 1"

definition f_sub :: "float64 \<Rightarrow> float64 \<Rightarrow> float64" where
  "f_sub a b = round_ratio (a - b) 1"

definition f_mul :: "float64 \<Rightarrow> float64 \<Rightarrow> float64" where
  "f_mul a b = round_ratio (a * b) unit64"

definition f_div :: "float64 \<Rightarrow> float64 \<Rightarrow> float64" where
  "f_div a b = (if b < 0 then round_ratio (- (a * unit64)) (- b) else round_ratio (a * unit64) b)"

text \<open>\<open>Math.round\<close>: the nearest integer, ties upwards.\<close>

definition f_round :: "float64 \<Rightarrow> int" where
  "f_round a = (2 * a + unit64) div (2 * unit64)"

lemma f_round_int [simp]: "f_round (f_int i) = i"
  by (simp add: f_round_def f_int_def unit64_def)

lemma f_round_mono: "a \<le> b \<Longrightarrow> f_round a \<le> f_round b"
  by (simp add: f_round_def unit64_def zdiv_mono1)

text \<open>Evaluation on numerals, used to compute scores inside the kernel.\<close>

lemma int_bits_eval:
  "int_bits [] (numeral n) = 1"
  "int_bits [] 1 = 1"
  "int_bits [] 0 = 0"
  "int_bits (k # ks) (numeral n) =
     (if 2 ^ k \<le> (numeral n :: int) then k + int_bits ks (numeral n div 2 ^ k)
      else int_bits ks (numeral n))"
  "int_bits (k # ks) 1 = (if 2 ^ k \<le> (1::int) then k + int_bits ks (1 div 2 ^ k) else int_bits ks 1)"
  "int_bits (k # ks) 0 = int_bits ks 0"
  by (simp_all add: int_bits.simps)

lemmas float_eval = f_int_def f_hundredths_def f_add_def f_sub_def f_mul_def f_div_def f_round_def
  unit64_def round_ratio_def round_pos_def round_to_def round_half_even_def nearest_def
  int_bits_eval

section \<open>Rounding is monotone\<close>

lemma le_int_div_iff:
  assumes "0 < (d::int)"
  shows "q \<le> n div d \<longleftrightarrow> q * d \<le> n"
proof
  assume "q \<le> n div d"
  then have "q * d \<le> n div d * d" using assms by simp
  also have "\<dots> \<le> n" using pos_mod_sign [OF assms, of n] div_mult_mod_eq [of n d] by linarith
  finally show "q * d \<le> n" .
next
  assume "q * d \<le> n"
  then have "q * d div d \<le> n div d" using assms by (rule zdiv_mono1)
  with assms show "q \<le> n div d" by simp
qed

lemma int_div_less_iff: "0 < (d::int) \<Longrightarrow> n div d < q \<longleftrightarrow> n < q * d"
  using le_int_div_iff [of d q n] by (simp add: not_le [symmetric])

lemma nearest_le: "nearest q r d \<le> q + 1" and nearest_ge: "q \<le> nearest q r d"
  by (simp_all add: nearest_def)

lemma round_half_even_mono:
  assumes "0 < d" "n \<le> n'"
  shows "round_half_even n d \<le> round_half_even n' d"
proof (cases "n div d = n' div d")
  case True
  then have "n mod d \<le> n' mod d"
    using assms(2) by (metis add_le_cancel_left div_mult_mod_eq)
  with True show ?thesis by (simp add: round_half_even_def nearest_def)
next
  case False
  with assms have "n div d + 1 \<le> n' div d" using zdiv_mono1 [of n n' d] by simp
  then show ?thesis
    using nearest_le [of "n div d" "n mod d" d] nearest_ge [of "n' div d" "n' mod d" d]
    by (simp add: round_half_even_def)
qed

lemma round_half_even_multiple [simp]: "0 < d \<Longrightarrow> round_half_even (k * d) d = k"
  by (simp add: round_half_even_def nearest_def)

lemma round_half_even_nonneg: "0 < d \<Longrightarrow> 0 \<le> n \<Longrightarrow> 0 \<le> round_half_even n d"
  using round_half_even_mono [of d 0 n] round_half_even_multiple [of d 0] by simp

lemma int_bits_lower:
  "0 < n \<Longrightarrow> 0 < int_bits ks n \<and> 2 ^ (int_bits ks n - 1) \<le> n"
proof (induction ks arbitrary: n)
  case Nil
  then show ?case by (simp add: int_bits.simps)
next
  case (Cons k ks)
  show ?case
  proof (cases "2 ^ k \<le> n")
    case True
    then have pos: "0 < n div 2 ^ k" by (simp add: pos_imp_zdiv_pos_iff)
    with Cons.IH have b: "0 < int_bits ks (n div 2 ^ k)"
      and le: "2 ^ (int_bits ks (n div 2 ^ k) - 1) \<le> n div 2 ^ k" by auto
    have "(2::int) ^ (k + int_bits ks (n div 2 ^ k) - 1)
            = 2 ^ k * 2 ^ (int_bits ks (n div 2 ^ k) - 1)"
      using b by (simp flip: power_add)
    also have "\<dots> \<le> 2 ^ k * (n div 2 ^ k)" using le by simp
    also have "\<dots> \<le> n" by (simp add: minus_mod_eq_mult_div [symmetric])
    finally show ?thesis using True b by (simp add: int_bits.simps)
  next
    case False
    with Cons show ?thesis by (simp add: int_bits.simps)
  qed
qed

text \<open>A list of widths that bisects: each is one more than the sum of those after it.\<close>

fun bisecting :: "nat list \<Rightarrow> bool" where
  "bisecting [] = True"
| "bisecting (k # ks) = (k = sum_list ks + 1 \<and> bisecting ks)"

lemma int_bits_upper:
  "bisecting ks \<Longrightarrow> 0 \<le> n \<Longrightarrow> n < 2 ^ (sum_list ks + 1) \<Longrightarrow> n < 2 ^ int_bits ks n"
proof (induction ks arbitrary: n)
  case Nil
  then show ?case by (auto simp: int_bits.simps)
next
  case (Cons k ks)
  then have k: "k = sum_list ks + 1" and IH: "\<And>m. 0 \<le> m \<Longrightarrow> m < 2 ^ k \<Longrightarrow> m < 2 ^ int_bits ks m"
    by auto
  show ?case
  proof (cases "2 ^ k \<le> n")
    case True
    have "n < 2 ^ k * 2 ^ k" using Cons.prems(3) k by (simp add: power_add mult_ac)
    then have "n div 2 ^ k < 2 ^ k" by (simp add: int_div_less_iff)
    with IH Cons.prems(2) have "n div 2 ^ k < 2 ^ int_bits ks (n div 2 ^ k)"
      by (simp add: pos_imp_zdiv_nonneg_iff)
    then have "n < 2 ^ int_bits ks (n div 2 ^ k) * 2 ^ k"
      by (simp add: int_div_less_iff)
    with True show ?thesis by (simp add: int_bits.simps power_add mult.commute)
  next
    case False
    with IH Cons.prems show ?thesis by (simp add: int_bits.simps)
  qed
qed

lemma int_bits_le: "int_bits ks n \<le> sum_list ks + 1"
  by (induction ks arbitrary: n) (auto simp: int_bits.simps intro: le_trans [OF _ Suc_le_mono [THEN iffD2, OF le_add2]])

lemma int_bits_full:
  assumes "2 ^ sum_list ks \<le> n"
  shows "int_bits ks n = sum_list ks + 1"
  using assms
proof (induction ks arbitrary: n)
  case Nil
  then show ?case by (simp add: int_bits.simps)
next
  case (Cons k ks)
  have "2 ^ k * 2 ^ sum_list ks \<le> n" using Cons.prems by (simp add: power_add)
  then have le: "2 ^ sum_list ks \<le> n div 2 ^ k"
    by (simp add: le_int_div_iff mult.commute)
  moreover have "2 ^ k \<le> n"
    using Cons.prems by (simp add: power_add) (smt (verit) mult_le_cancel_left1 one_le_power zero_less_power)
  ultimately show ?case using Cons.IH by (simp add: int_bits.simps)
qed

lemma int_bits_mono:
  assumes "bisecting ks" "0 \<le> n" "n \<le> n'"
  shows "int_bits ks n \<le> int_bits ks n'"
proof (cases "n = 0 \<or> 2 ^ sum_list ks \<le> n'")
  case True
  have "int_bits ks 0 = 0" by (induction ks) (simp_all add: int_bits.simps)
  with True int_bits_full [of ks n'] int_bits_le [of ks n] show ?thesis by auto
next
  case False
  then have pos: "0 < n" and below: "n' < 2 ^ sum_list ks" using assms(2) by auto
  have "(2::int) ^ sum_list ks \<le> 2 ^ (sum_list ks + 1)" by simp
  with below have "n' < 2 ^ (sum_list ks + 1)" by linarith
  with pos have "2 ^ (int_bits ks n - 1) \<le> n" "n' < 2 ^ int_bits ks n'"
    using int_bits_lower [of n ks] int_bits_upper [of ks n'] assms by auto
  with assms(3) have "(2::int) ^ (int_bits ks n - 1) < 2 ^ int_bits ks n'" by linarith
  then have "int_bits ks n - 1 < int_bits ks n'" by (rule power_less_imp_less_exp [rotated]) simp
  then show ?thesis by simp
qed

abbreviation widths :: "nat list" where
  "widths \<equiv> [128, 64, 32, 16, 8, 4, 2, 1]"

lemma bisecting_widths: "bisecting widths"
  by simp

lemma round_to_mono: "0 < d \<Longrightarrow> m \<le> m' \<Longrightarrow> round_to m d s \<le> round_to m' d s"
  by (simp add: round_to_def round_half_even_mono)

lemma round_to_power:
  assumes "0 < d" "s \<le> k"
  shows "round_to (2 ^ k * d) d s = 2 ^ k"
proof -
  have "(2::int) ^ k * d = 2 ^ (k - s) * (d * 2 ^ s)"
    using assms(2) by (simp add: mult_ac flip: power_add)
  then have "round_half_even (2 ^ k * d) (d * 2 ^ s) = 2 ^ (k - s)"
    using assms(1) round_half_even_multiple [of "d * 2 ^ s" "2 ^ (k - s)"]
    by (simp only: zero_less_mult_iff) simp
  then show ?thesis using assms(2) by (simp add: round_to_def flip: power_add)
qed

lemma round_pos_mono:
  assumes "0 < d" "0 \<le> m" "m \<le> m'"
  shows "round_pos m d \<le> round_pos m' d"
proof -
  let ?b = "int_bits widths (m div d)" and ?b' = "int_bits widths (m' div d)"
  have le: "m div d \<le> m' div d" using assms by (simp add: zdiv_mono1)
  have bb: "?b \<le> ?b'"
    by (rule int_bits_mono [OF bisecting_widths _ le]) (use assms in \<open>simp add: pos_imp_zdiv_nonneg_iff\<close>)
  show ?thesis
  proof (cases "?b - 53 = ?b' - 53")
    case True
    then show ?thesis using assms by (simp add: round_pos_def round_to_mono)
  next
    case False
    with bb have less: "?b < ?b'" and e': "53 < ?b'" by auto
    have "\<not> 2 ^ sum_list widths \<le> m div d"
      using int_bits_full [of widths "m div d"] int_bits_le [of widths "m' div d"] less by linarith
    then have "m div d < 2 ^ ?b"
      by (intro int_bits_upper [OF bisecting_widths]) (use assms in \<open>simp_all add: pos_imp_zdiv_nonneg_iff\<close>)
    then have m: "m \<le> 2 ^ ?b * d"
      unfolding int_div_less_iff [OF assms(1)] by (rule less_imp_le)
    have pos': "0 < m' div d"
    proof (rule ccontr)
      assume "\<not> 0 < m' div d"
      with le assms have "m' div d = m div d" by (smt (verit) pos_imp_zdiv_nonneg_iff)
      with less show False by simp
    qed
    then have "2 ^ (?b' - 1) \<le> m' div d" using int_bits_lower [of "m' div d" widths] by blast
    then have m': "2 ^ (?b' - 1) * d \<le> m'" using assms(1) by (simp add: le_int_div_iff)
    have "round_pos m d \<le> round_to (2 ^ ?b * d) d (?b - 53)"
      unfolding round_pos_def by (rule round_to_mono [OF assms(1) m])
    also have "\<dots> = 2 ^ ?b" by (rule round_to_power [OF assms(1)]) simp
    also have "\<dots> \<le> 2 ^ (?b' - 1)" using less by simp
    also have "\<dots> = round_to (2 ^ (?b' - 1) * d) d (?b' - 53)" by (rule round_to_power [OF assms(1), symmetric]) simp
    also have "\<dots> \<le> round_pos m' d"
      unfolding round_pos_def by (rule round_to_mono [OF assms(1) m'])
    finally show ?thesis .
  qed
qed

lemma round_pos_nonneg: "0 < d \<Longrightarrow> 0 \<le> m \<Longrightarrow> 0 \<le> round_pos m d"
  by (simp add: round_pos_def round_to_def round_half_even_nonneg)

lemma round_ratio_mono:
  assumes "0 < d" "n \<le> n'"
  shows "round_ratio n d \<le> round_ratio n' d"
  using assms round_pos_mono [of d n n'] round_pos_mono [of d "- n'" "- n"]
    round_pos_nonneg [of d n'] round_pos_nonneg [of d "- n"]
  by (auto simp: round_ratio_def)

lemma f_add_mono: "a \<le> a' \<Longrightarrow> b \<le> b' \<Longrightarrow> f_add a b \<le> f_add a' b'"
  by (simp add: f_add_def round_ratio_mono)

lemma f_int_mono: "i \<le> j \<Longrightarrow> f_int i \<le> f_int j"
  by (simp add: f_int_def unit64_def)

lemma f_mul_int_mono: "0 \<le> k \<Longrightarrow> a \<le> a' \<Longrightarrow> f_mul a (f_int k) \<le> f_mul a' (f_int k)"
  unfolding f_mul_def f_int_def
  by (intro round_ratio_mono mult_right_mono) (simp_all add: unit64_def)

lemma f_div_int_mono: "0 < k \<Longrightarrow> a \<le> a' \<Longrightarrow> f_div a (f_int k) \<le> f_div a' (f_int k)"
  unfolding f_div_def f_int_def
  by (simp add: unit64_def round_ratio_mono)

text \<open>Rounding twice is rounding once: the result of an operation is a binary64 number.\<close>

definition representable :: "float64 \<Rightarrow> bool" where
  "representable a = (round_ratio a 1 = a)"

lemma round_pos_fix:
  assumes "2 ^ s dvd r" "int_bits widths r - 53 \<le> s"
  shows "round_pos r 1 = r"
proof -
  let ?e = "int_bits widths r - 53"
  have "(2::int) ^ ?e dvd r" using assms le_imp_power_dvd dvd_trans by blast
  then obtain k where "r = k * 2 ^ ?e" by (auto simp: dvd_def mult.commute)
  then have "round_half_even r (2 ^ ?e) * 2 ^ ?e = r"
    using round_half_even_multiple [of "2 ^ ?e" k] by simp
  then show ?thesis by (simp add: round_pos_def round_to_def)
qed

lemma round_pos_idem:
  assumes "0 < d" "0 \<le> m"
  shows "round_pos (round_pos m d) 1 = round_pos m d"
proof -
  let ?b = "int_bits widths (m div d)" and ?r = "round_pos m d"
  have r0: "0 \<le> ?r" using assms by (rule round_pos_nonneg)
  have dvd: "2 ^ (?b - 53) dvd ?r" by (simp add: round_pos_def round_to_def)
  have small: "int_bits widths ?r \<le> ?b" if "?r < 2 ^ ?b"
  proof (rule ccontr)
    assume "\<not> int_bits widths ?r \<le> ?b"
    then have bits: "?b < int_bits widths ?r" by simp
    have "0 < ?r"
    proof (rule ccontr)
      assume "\<not> 0 < ?r"
      with r0 have "?r = 0" by simp
      with bits show False by (simp add: int_bits_eval)
    qed
    then have "2 ^ (int_bits widths ?r - 1) \<le> ?r" using int_bits_lower by blast
    moreover have "(2::int) ^ ?b \<le> 2 ^ (int_bits widths ?r - 1)" using bits by simp
    ultimately show False using that by linarith
  qed
  show ?thesis
  proof (cases "?r < 2 ^ ?b \<or> ?b = sum_list widths + 1")
    case True
    then have "int_bits widths ?r \<le> ?b" using small int_bits_le [of widths ?r] by auto
    then show ?thesis using round_pos_fix [OF dvd] by simp
  next
    case False
    then have "\<not> 2 ^ sum_list widths \<le> m div d" using int_bits_full by blast
    then have "m div d < 2 ^ ?b"
      by (intro int_bits_upper [OF bisecting_widths])
        (use assms in \<open>simp_all add: pos_imp_zdiv_nonneg_iff\<close>)
    then have "m \<le> 2 ^ ?b * d" unfolding int_div_less_iff [OF assms(1)] by (rule less_imp_le)
    then have "?r \<le> round_to (2 ^ ?b * d) d (?b - 53)"
      unfolding round_pos_def by (rule round_to_mono [OF assms(1)])
    also have "\<dots> = 2 ^ ?b" using assms(1) by (rule round_to_power) simp
    finally have r: "?r = 2 ^ ?b" using False by simp
    have "int_bits widths ?r - 53 \<le> ?b"
    proof -
      have "2 ^ (int_bits widths ?r - 1) \<le> ?r" using int_bits_lower [of ?r widths] r by simp
      then have "(2::int) ^ (int_bits widths ?r - 1) \<le> 2 ^ ?b" using r by simp
      then have "int_bits widths ?r - 1 \<le> ?b" by (rule power_le_imp_le_exp [rotated]) simp
      then show ?thesis by simp
    qed
    then show ?thesis by (rule round_pos_fix [rotated]) (simp add: r)
  qed
qed

lemma representable_round: "0 < d \<Longrightarrow> representable (round_ratio n d)"
  using round_pos_idem [of d n] round_pos_idem [of d "- n"] round_pos_nonneg [of d n]
    round_pos_nonneg [of d "- n"] round_pos_nonneg [of 1 0]
  by (auto simp: representable_def round_ratio_def)

lemma representable_ops [simp]:
  "representable (f_add a b)" "representable (f_sub a b)" "representable (f_mul a b)"
  by (simp_all add: f_add_def f_sub_def f_mul_def unit64_def representable_round)

lemma f_add_increases: "representable a \<Longrightarrow> 0 \<le> b \<Longrightarrow> a \<le> f_add a b"
  using round_ratio_mono [of 1 a "a + b"] by (simp add: f_add_def representable_def)

lemma f_add_decreases: "representable a \<Longrightarrow> b \<le> 0 \<Longrightarrow> f_add a b \<le> a"
  using round_ratio_mono [of 1 "a + b" a] by (simp add: f_add_def representable_def)

end
