(* ===== verification/Scoring.thy ===== *)
theory Scoring
  imports Contracts Float64
begin

text \<open>
  The two deterministic scores of \<open>packages/incidents/src/index.ts\<close>, computed in binary64 as the
  code does: the severity of an incident (\<open>assessSeverity\<close>) and the health of a repository
  (\<open>calculateRepositoryHealth\<close>). Counts and impact grades are integers, as the request schemas
  enforce; an absent field and \<open>undefined\<close> are \<open>None\<close> or the default the code gives.
\<close>

section \<open>Severity\<close>

record IncidentImpact =
  imp_availability :: int
  imp_affectedUsers :: int
  imp_revenueImpact :: int
  imp_dataIntegrity :: int
  imp_securityImpact :: int
  imp_environment :: string

record SeveritySignals =
  sig_securityExposure :: bool
  sig_dataIntegrityRisk :: bool
  sig_productionUnavailable :: bool
  sig_deploymentBlocked :: bool
  sig_authenticationBroken :: bool
  sig_failingTests :: bool
  sig_workaroundAvailable :: bool
  sig_recurrenceCount :: "int option"

record SeverityAssessmentInput =
  sai_impact :: "IncidentImpact option"
  sai_explicitSeverity :: "IncidentSeverity option"
  sai_explicitReason :: "string option"
  sai_signals :: SeveritySignals

datatype factor = Number_factor int | Boolean_factor bool

record SeverityAssessment =
  sa_score :: int
  sa_severity :: IncidentSeverity
  sa_calculatedSeverity :: IncidentSeverity
  sa_overrideApplied :: bool
  sa_rationale :: string
  sa_factors :: "(string \<times> factor) list"
  sa_policyVersion :: string

definition impact_or_zero :: "(IncidentImpact \<Rightarrow> int) \<Rightarrow> IncidentImpact option \<Rightarrow> int" where
  "impact_or_zero field impact = (case impact of None \<Rightarrow> 0 | Some i \<Rightarrow> field i)"

definition in_environment :: "string \<Rightarrow> IncidentImpact option \<Rightarrow> bool" where
  "in_environment env impact = (case impact of None \<Rightarrow> False | Some i \<Rightarrow> imp_environment i = env)"

definition environment_weight :: "IncidentImpact option \<Rightarrow> int" where
  "environment_weight impact =
     (if in_environment ''production'' impact then 10
      else if in_environment ''staging'' impact then 4 else 1)"

definition recurrence_weight :: "SeveritySignals \<Rightarrow> int" where
  "recurrence_weight s =
     min (case sig_recurrenceCount s of None \<Rightarrow> 0 | Some n \<Rightarrow> n) 10"

text \<open>The impact sum, added from left to right.\<close>

definition impact_score :: "IncidentImpact option \<Rightarrow> SeveritySignals \<Rightarrow> float64" where
  "impact_score impact s =
     f_add (f_add (f_add (f_add (f_add (f_add
       (f_int (impact_or_zero imp_availability impact * 8))
       (f_mul (min (f_div (f_int (impact_or_zero imp_affectedUsers impact)) (f_int 1000))
                   (f_int 10)) (f_int 2)))
       (f_int (impact_or_zero imp_revenueImpact impact * 4)))
       (f_int (impact_or_zero imp_dataIntegrity impact * 9)))
       (f_int (impact_or_zero imp_securityImpact impact * 10)))
       (f_int (environment_weight impact)))
       (f_int (recurrence_weight s))"

text \<open>\<open>if (signal) score += n\<close>, in the order of the code.\<close>

definition bump :: "bool \<Rightarrow> int \<Rightarrow> float64 \<Rightarrow> float64" where
  "bump b n score = (if b then f_add score (f_int n) else score)"

definition signal_score :: "SeveritySignals \<Rightarrow> float64 \<Rightarrow> float64" where
  "signal_score s score =
     bump (sig_workaroundAvailable s) (- 10) (bump (sig_failingTests s) 3
       (bump (sig_deploymentBlocked s) 8 (bump (sig_authenticationBroken s) 12
         (bump (sig_productionUnavailable s) 20 (bump (sig_dataIntegrityRisk s) 20
           (bump (sig_securityExposure s) 25 score))))))"

definition severity_score :: "IncidentImpact option \<Rightarrow> SeveritySignals \<Rightarrow> int" where
  "severity_score impact s = max 0 (min 100 (f_round (signal_score s (impact_score impact s))))"

definition severity_of_score :: "int \<Rightarrow> IncidentSeverity" where
  "severity_of_score score =
     (if 85 \<le> score then IncidentSeverity.SEV1 else if 65 \<le> score then IncidentSeverity.SEV2
      else if 35 \<le> score then IncidentSeverity.SEV3 else IncidentSeverity.SEV4)"

definition severity_factors ::
  "IncidentImpact option \<Rightarrow> SeveritySignals \<Rightarrow> (string \<times> factor) list" where
  "severity_factors impact s =
     [(''availability'', Number_factor (impact_or_zero imp_availability impact)),
      (''affectedUsers'', Number_factor (impact_or_zero imp_affectedUsers impact)),
      (''revenueImpact'', Number_factor (impact_or_zero imp_revenueImpact impact)),
      (''dataIntegrity'', Number_factor (impact_or_zero imp_dataIntegrity impact)),
      (''securityImpact'', Number_factor (impact_or_zero imp_securityImpact impact)),
      (''production'', Boolean_factor (in_environment ''production'' impact)),
      (''securityExposure'', Boolean_factor (sig_securityExposure s)),
      (''dataIntegrityRisk'', Boolean_factor (sig_dataIntegrityRisk s)),
      (''productionUnavailable'', Boolean_factor (sig_productionUnavailable s)),
      (''workaroundAvailable'', Boolean_factor (sig_workaroundAvailable s))]"

definition assessSeverity :: "SeverityAssessmentInput \<Rightarrow> SeverityAssessment" where
  "assessSeverity i =
     (let score = severity_score (sai_impact i) (sai_signals i);
          calculated = severity_of_score score;
          default = ''Deterministic severity score '' @ show_int score
                    @ ''/100 using policy codeer-severity-v1.''
      in \<lparr>sa_score = score,
          sa_severity = (case sai_explicitSeverity i of None \<Rightarrow> calculated | Some sev \<Rightarrow> sev),
          sa_calculatedSeverity = calculated,
          sa_overrideApplied = (sai_explicitSeverity i \<noteq> None),
          sa_rationale = (case sai_explicitSeverity i of None \<Rightarrow> default
                          | Some _ \<Rightarrow> (case sai_explicitReason i of None \<Rightarrow> default
                                      | Some r \<Rightarrow> if r = [] then default else r)),
          sa_factors = severity_factors (sai_impact i) (sai_signals i),
          sa_policyVersion = ''codeer-severity-v1''\<rparr>)"

section \<open>Repository health\<close>

record RepositoryHealthInput =
  rh_buildFailure :: bool
  rh_failingTests :: bool
  rh_deploymentBlocked :: bool
  rh_dependencyIssue :: bool
  rh_securityExposure :: bool
  rh_apiContractMismatch :: bool
  rh_frontendFunctionalityFailure :: bool

record RepositoryHealthDimensions =
  dim_build :: int
  dim_tests :: int
  dim_deploymentReadiness :: int
  dim_dependencies :: int
  dim_security :: int
  dim_apiConsistency :: int
  dim_frontendFunctionality :: int

record RepositoryHealth =
  health_overallScore :: int
  health_status :: HealthStatus
  health_dimensions :: RepositoryHealthDimensions
  health_calculationVersion :: string

definition health_dimensions_of :: "RepositoryHealthInput \<Rightarrow> RepositoryHealthDimensions" where
  "health_dimensions_of i =
     \<lparr>dim_build = (if rh_buildFailure i then 20 else 90),
      dim_tests = (if rh_failingTests i then 35 else 85),
      dim_deploymentReadiness = (if rh_deploymentBlocked i then 25 else 85),
      dim_dependencies = (if rh_dependencyIssue i then 45 else 80),
      dim_security = (if rh_securityExposure i then 20 else 85),
      dim_apiConsistency = (if rh_apiContractMismatch i then 35 else 85),
      dim_frontendFunctionality = (if rh_frontendFunctionalityFailure i then 40 else 85)\<rparr>"

text \<open>The pairs of a dimension and its weight in hundredths, in the order of \<open>Object.keys\<close>.\<close>

definition weighted :: "RepositoryHealthDimensions \<Rightarrow> (int \<times> int) list" where
  "weighted d =
     [(dim_build d, 20), (dim_tests d, 16), (dim_deploymentReadiness d, 18),
      (dim_dependencies d, 10), (dim_security d, 18), (dim_apiConsistency d, 10),
      (dim_frontendFunctionality d, 8)]"

definition weighted_total :: "(int \<times> int) list \<Rightarrow> float64" where
  "weighted_total ws =
     foldl (\<lambda>total (d, w). f_add total (f_mul (f_int d) (f_hundredths w))) (f_int 0) ws"

definition health_status_of :: "int \<Rightarrow> HealthStatus" where
  "health_status_of score =
     (if score < 40 then HealthStatus.CRITICAL else if score < 65 then HealthStatus.DEGRADED
      else if score < 85 then HealthStatus.AT_RISK else HealthStatus.HEALTHY)"

definition calculateRepositoryHealth :: "RepositoryHealthInput \<Rightarrow> RepositoryHealth" where
  "calculateRepositoryHealth i =
     (let d = health_dimensions_of i; score = f_round (weighted_total (weighted d))
      in \<lparr>health_overallScore = score, health_status = health_status_of score,
          health_dimensions = d, health_calculationVersion = ''codeer-health-v1''\<rparr>)"

section \<open>The severity score is bounded and monotone\<close>

text \<open>One incident is at least as grave as another: every grade and every risk signal is.\<close>

definition impact_le :: "IncidentImpact \<Rightarrow> IncidentImpact \<Rightarrow> bool" where
  "impact_le a b =
     (imp_availability a \<le> imp_availability b \<and> imp_affectedUsers a \<le> imp_affectedUsers b
      \<and> imp_revenueImpact a \<le> imp_revenueImpact b \<and> imp_dataIntegrity a \<le> imp_dataIntegrity b
      \<and> imp_securityImpact a \<le> imp_securityImpact b
      \<and> environment_weight (Some a) \<le> environment_weight (Some b))"

definition signals_le :: "SeveritySignals \<Rightarrow> SeveritySignals \<Rightarrow> bool" where
  "signals_le s t =
     ((sig_securityExposure s \<longrightarrow> sig_securityExposure t)
      \<and> (sig_dataIntegrityRisk s \<longrightarrow> sig_dataIntegrityRisk t)
      \<and> (sig_productionUnavailable s \<longrightarrow> sig_productionUnavailable t)
      \<and> (sig_deploymentBlocked s \<longrightarrow> sig_deploymentBlocked t)
      \<and> (sig_authenticationBroken s \<longrightarrow> sig_authenticationBroken t)
      \<and> (sig_failingTests s \<longrightarrow> sig_failingTests t)
      \<and> (sig_workaroundAvailable t \<longrightarrow> sig_workaroundAvailable s)
      \<and> recurrence_weight s \<le> recurrence_weight t)"

definition severity_rank :: "IncidentSeverity \<Rightarrow> nat" where
  "severity_rank sev = (case sev of IncidentSeverity.SEV1 \<Rightarrow> 4 | IncidentSeverity.SEV2 \<Rightarrow> 3
     | IncidentSeverity.SEV3 \<Rightarrow> 2 | IncidentSeverity.SEV4 \<Rightarrow> 1)"

lemma severity_rank_mono:
  "s \<le> t \<Longrightarrow> severity_rank (severity_of_score s) \<le> severity_rank (severity_of_score t)"
  by (simp add: severity_rank_def severity_of_score_def)

lemma bump_representable [simp]: "representable x \<Longrightarrow> representable (bump b n x)"
  by (simp add: bump_def)

lemma bump_mono:
  assumes "representable y" "x \<le> y" "b \<longrightarrow> c" "0 \<le> n"
  shows "bump b n x \<le> bump c n y"
proof -
  have "0 \<le> f_int n" using assms(4) by (simp add: f_int_def unit64_def)
  then show ?thesis
    using assms f_add_mono [of x y "f_int n" "f_int n"] f_add_increases [of y "f_int n"]
    by (auto simp: bump_def intro: order_trans)
qed

lemma bump_anti:
  assumes "representable x" "x \<le> y" "c \<longrightarrow> b" "n \<le> 0"
  shows "bump b n x \<le> bump c n y"
proof -
  have "f_int n \<le> 0" using assms(4) by (simp add: f_int_def unit64_def)
  then show ?thesis
    using assms f_add_mono [of x y "f_int n" "f_int n"] f_add_decreases [of x "f_int n"]
    by (auto simp: bump_def intro: order_trans)
qed

lemma impact_score_representable [simp]: "representable (impact_score impact s)"
  by (simp add: impact_score_def)

lemma impact_score_mono:
  assumes "impact_le a b" "signals_le s t"
  shows "impact_score (Some a) s \<le> impact_score (Some b) t"
  using assms unfolding impact_score_def
  by (intro f_add_mono f_int_mono f_mul_int_mono min.mono f_div_int_mono)
    (simp_all add: impact_le_def signals_le_def impact_or_zero_def)

lemma signal_score_mono:
  assumes "signals_le s t" "representable x" "representable y" "x \<le> y"
  shows "signal_score s x \<le> signal_score t y"
  using assms unfolding signal_score_def signals_le_def
  by (intro bump_anti bump_mono) simp_all

lemma severity_score_mono:
  assumes "impact_le a b" "signals_le s t"
  shows "severity_score (Some a) s \<le> severity_score (Some b) t"
  unfolding severity_score_def
  using f_round_mono [OF signal_score_mono [OF assms(2) _ _ impact_score_mono [OF assms]]]
  by simp

text \<open>
  C40: raising any impact grade or any risk signal, or losing the workaround, never lowers the
  score or the calculated severity, although the score is a sum of rounded binary64 terms.
\<close>

lemma severity_monotone:
  assumes "impact_le a b" "signals_le s t"
    and "sai_impact i = Some a" "sai_signals i = s"
    and "sai_impact j = Some b" "sai_signals j = t"
  shows "sa_score (assessSeverity i) \<le> sa_score (assessSeverity j)
    \<and> severity_rank (sa_calculatedSeverity (assessSeverity i))
        \<le> severity_rank (sa_calculatedSeverity (assessSeverity j))"
  using severity_score_mono [OF assms(1,2)] severity_rank_mono assms(3-6)
  by (simp add: assessSeverity_def Let_def)

definition calm :: SeveritySignals where
  "calm = \<lparr>sig_securityExposure = False, sig_dataIntegrityRisk = False,
           sig_productionUnavailable = False, sig_deploymentBlocked = False,
           sig_authenticationBroken = False, sig_failingTests = True,
           sig_workaroundAvailable = True, sig_recurrenceCount = Some 2\<rparr>"

definition small_impact :: IncidentImpact where
  "small_impact = \<lparr>imp_availability = 1, imp_affectedUsers = 37, imp_revenueImpact = 0,
     imp_dataIntegrity = 0, imp_securityImpact = 1, imp_environment = ''staging''\<rparr>"

lemma severity_monotone_witness:
  "sa_score (assessSeverity \<lparr>sai_impact = Some small_impact, sai_explicitSeverity = None,
     sai_explicitReason = None, sai_signals = calm\<rparr>)
   \<le> sa_score (assessSeverity \<lparr>sai_impact = Some (small_impact\<lparr>imp_affectedUsers := 12345\<rparr>),
     sai_explicitSeverity = None, sai_explicitReason = None,
     sai_signals = calm\<lparr>sig_securityExposure := True\<rparr>\<rparr>)"
  by (rule severity_monotone [THEN conjunct1, of small_impact
        "small_impact\<lparr>imp_affectedUsers := 12345\<rparr>" calm "calm\<lparr>sig_securityExposure := True\<rparr>"])
    (simp_all add: impact_le_def signals_le_def small_impact_def calm_def environment_weight_def
      in_environment_def recurrence_weight_def)

text \<open>
  The score lies between 0 and 100 and the calculated severity is its band; an explicit
  severity replaces the calculated one and is recorded as an override, with its reason when one
  was given.
\<close>

lemma severity_bands:
  "let r = assessSeverity i in
     sa_score r \<in> {0..100}
     \<and> (sa_calculatedSeverity r = IncidentSeverity.SEV1 \<longleftrightarrow> sa_score r \<in> {85..100})
     \<and> (sa_calculatedSeverity r = IncidentSeverity.SEV2 \<longleftrightarrow> sa_score r \<in> {65..<85})
     \<and> (sa_calculatedSeverity r = IncidentSeverity.SEV3 \<longleftrightarrow> sa_score r \<in> {35..<65})
     \<and> (sa_calculatedSeverity r = IncidentSeverity.SEV4 \<longleftrightarrow> sa_score r \<in> {0..<35})
     \<and> sa_severity r = (if sa_overrideApplied r then the (sai_explicitSeverity i)
                        else sa_calculatedSeverity r)
     \<and> (sa_overrideApplied r \<longleftrightarrow> sai_explicitSeverity i \<noteq> None)"
  by (auto simp: assessSeverity_def Let_def severity_of_score_def severity_score_def
      split: option.splits)

section \<open>The health score is monotone and banded\<close>

text \<open>The rounded weights, products and totals, computed once.\<close>

lemma weight_20: "f_hundredths 20 = 241785163922925848363008"
  by (simp add: float_eval)

lemma weight_16: "f_hundredths 16 = 193428131138340671979520"
  by (simp add: float_eval)

lemma weight_18: "f_hundredths 18 = 217606647530633243394048"
  by (simp add: float_eval)

lemma weight_10: "f_hundredths 10 = 120892581961462924181504"
  by (simp add: float_eval)

lemma weight_8: "f_hundredths 8 = 96714065569170335989760"
  by (simp add: float_eval)

lemma term_90_20: "f_mul (f_int 90) (f_hundredths 20) = 21760664753063325144711168"
  unfolding weight_20 by (simp add: float_eval)

lemma term_20_20: "f_mul (f_int 20) (f_hundredths 20) = 4835703278458516698824704"
  unfolding weight_20 by (simp add: float_eval)

lemma term_85_16: "f_mul (f_int 85) (f_hundredths 16) = 16441391146758956346507264"
  unfolding weight_16 by (simp add: float_eval)

lemma term_35_16: "f_mul (f_int 35) (f_hundredths 16) = 6769984589841924022599680"
  unfolding weight_16 by (simp add: float_eval)

lemma term_85_18: "f_mul (f_int 85) (f_hundredths 18) = 18496565040103825084514304"
  unfolding weight_18 by (simp add: float_eval)

lemma term_25_18: "f_mul (f_int 25) (f_hundredths 18) = 5440166188265831286177792"
  unfolding weight_18 by (simp add: float_eval)

lemma term_80_10: "f_mul (f_int 80) (f_hundredths 10) = 9671406556917033397649408"
  unfolding weight_10 by (simp add: float_eval)

lemma term_45_10: "f_mul (f_int 45) (f_hundredths 10) = 5440166188265831286177792"
  unfolding weight_10 by (simp add: float_eval)

lemma term_20_18: "f_mul (f_int 20) (f_hundredths 18) = 4352132950612664599445504"
  unfolding weight_18 by (simp add: float_eval)

lemma term_85_10: "f_mul (f_int 85) (f_hundredths 10) = 10275869466724347985002496"
  unfolding weight_10 by (simp add: float_eval)

lemma term_35_10: "f_mul (f_int 35) (f_hundredths 10) = 4231240368651202111471616"
  unfolding weight_10 by (simp add: float_eval)

lemma term_85_8: "f_mul (f_int 85) (f_hundredths 8) = 8220695573379478173253632"
  unfolding weight_8 by (simp add: float_eval)

lemma term_40_8: "f_mul (f_int 40) (f_hundredths 8) = 3868562622766813573808128"
  unfolding weight_8 by (simp add: float_eval)

lemmas health_terms = term_90_20 term_20_20 term_85_16 term_35_16 term_85_18 term_25_18 term_80_10 term_45_10 term_20_18 term_85_10 term_35_10 term_85_8 term_40_8

lemma total_0: "f_round (weighted_total [(90, 20), (85, 16), (85, 18), (80, 10), (85, 18), (85, 10), (85, 8)]) = 86"
  by (simp add: weighted_total_def health_terms) (simp add: float_eval)

lemma total_1: "f_round (weighted_total [(20, 20), (85, 16), (85, 18), (80, 10), (85, 18), (85, 10), (85, 8)]) = 71"
  by (simp add: weighted_total_def health_terms) (simp add: float_eval)

lemma total_2: "f_round (weighted_total [(90, 20), (35, 16), (85, 18), (80, 10), (85, 18), (85, 10), (85, 8)]) = 77"
  by (simp add: weighted_total_def health_terms) (simp add: float_eval)

lemma total_3: "f_round (weighted_total [(90, 20), (85, 16), (25, 18), (80, 10), (85, 18), (85, 10), (85, 8)]) = 75"
  by (simp add: weighted_total_def health_terms) (simp add: float_eval)

lemma total_4: "f_round (weighted_total [(90, 20), (85, 16), (85, 18), (45, 10), (85, 18), (85, 10), (85, 8)]) = 82"
  by (simp add: weighted_total_def health_terms) (simp add: float_eval)

lemma total_5: "f_round (weighted_total [(90, 20), (85, 16), (85, 18), (80, 10), (20, 18), (85, 10), (85, 8)]) = 74"
  by (simp add: weighted_total_def health_terms) (simp add: float_eval)

lemma total_6: "f_round (weighted_total [(90, 20), (85, 16), (85, 18), (80, 10), (85, 18), (35, 10), (85, 8)]) = 81"
  by (simp add: weighted_total_def health_terms) (simp add: float_eval)

lemma total_7: "f_round (weighted_total [(90, 20), (85, 16), (85, 18), (80, 10), (85, 18), (85, 10), (40, 8)]) = 82"
  by (simp add: weighted_total_def health_terms) (simp add: float_eval)

lemma total_8: "f_round (weighted_total [(20, 20), (35, 16), (25, 18), (45, 10), (20, 18), (35, 10), (40, 8)]) = 29"
  by (simp add: weighted_total_def health_terms) (simp add: float_eval)

definition failures_le :: "RepositoryHealthInput \<Rightarrow> RepositoryHealthInput \<Rightarrow> bool" where
  "failures_le i j =
     ((rh_buildFailure i \<longrightarrow> rh_buildFailure j) \<and> (rh_failingTests i \<longrightarrow> rh_failingTests j)
      \<and> (rh_deploymentBlocked i \<longrightarrow> rh_deploymentBlocked j)
      \<and> (rh_dependencyIssue i \<longrightarrow> rh_dependencyIssue j)
      \<and> (rh_securityExposure i \<longrightarrow> rh_securityExposure j)
      \<and> (rh_apiContractMismatch i \<longrightarrow> rh_apiContractMismatch j)
      \<and> (rh_frontendFunctionalityFailure i \<longrightarrow> rh_frontendFunctionalityFailure j))"

definition no_failure :: RepositoryHealthInput where
  "no_failure = \<lparr>rh_buildFailure = False, rh_failingTests = False, rh_deploymentBlocked = False,
     rh_dependencyIssue = False, rh_securityExposure = False, rh_apiContractMismatch = False,
     rh_frontendFunctionalityFailure = False\<rparr>"

definition every_failure :: RepositoryHealthInput where
  "every_failure = \<lparr>rh_buildFailure = True, rh_failingTests = True, rh_deploymentBlocked = True,
     rh_dependencyIssue = True, rh_securityExposure = True, rh_apiContractMismatch = True,
     rh_frontendFunctionalityFailure = True\<rparr>"

lemma weighted_total_mono:
  assumes "list_all2 (\<lambda>(d, w) (d', w'). d \<le> d' \<and> w = w' \<and> 0 \<le> f_hundredths w) ws ws'"
  shows "weighted_total ws \<le> weighted_total ws'"
proof -
  have "foldl (\<lambda>total (d, w). f_add total (f_mul (f_int d) (f_hundredths w))) x ws
        \<le> foldl (\<lambda>total (d, w). f_add total (f_mul (f_int d) (f_hundredths w))) y ws'"
    if "x \<le> y" for x y
    using assms that
  proof (induction ws ws' arbitrary: x y rule: list_all2_induct)
    case Nil
    then show ?case by simp
  next
    case (Cons p ws p' ws')
    obtain d w d' where p: "p = (d, w)" "p' = (d', w)" "d \<le> d'" "0 \<le> f_hundredths w"
      using Cons.hyps(1) by (cases p; cases p') auto
    then have "f_mul (f_int d) (f_hundredths w) \<le> f_mul (f_int d') (f_hundredths w)"
      unfolding f_mul_def
      by (intro round_ratio_mono mult_right_mono f_int_mono) (simp_all add: unit64_def)
    with Cons p show ?case by (auto intro: f_add_mono)
  qed
  then show ?thesis by (simp add: weighted_total_def)
qed

lemma health_score_anti:
  assumes "failures_le i j"
  shows "health_overallScore (calculateRepositoryHealth j)
         \<le> health_overallScore (calculateRepositoryHealth i)"
proof -
  have "weighted_total (weighted (health_dimensions_of j))
        \<le> weighted_total (weighted (health_dimensions_of i))"
    by (rule weighted_total_mono)
      (use assms in \<open>simp add: weighted_def health_dimensions_of_def failures_le_def
        weight_20 weight_16 weight_18 weight_10 weight_8\<close>)
  then show ?thesis by (simp add: calculateRepositoryHealth_def Let_def f_round_mono)
qed

lemmas health_totals = total_0 total_1 total_2 total_3 total_4 total_5 total_6 total_7 total_8

lemmas health_eval = calculateRepositoryHealth_def Let_def weighted_def health_dimensions_of_def
  no_failure_def every_failure_def health_totals

text \<open>The seven inputs with one failure, and their scores.\<close>

definition single_failures :: "RepositoryHealthInput list" where
  "single_failures =
     [no_failure\<lparr>rh_buildFailure := True\<rparr>, no_failure\<lparr>rh_failingTests := True\<rparr>,
      no_failure\<lparr>rh_deploymentBlocked := True\<rparr>, no_failure\<lparr>rh_dependencyIssue := True\<rparr>,
      no_failure\<lparr>rh_securityExposure := True\<rparr>, no_failure\<lparr>rh_apiContractMismatch := True\<rparr>,
      no_failure\<lparr>rh_frontendFunctionalityFailure := True\<rparr>]"

lemma single_failure_scores:
  "map (\<lambda>i. health_overallScore (calculateRepositoryHealth i)) single_failures
     = [71, 77, 75, 82, 74, 81, 82]"
  by (simp add: single_failures_def health_eval)

lemma one_failure_score:
  assumes "i \<in> set single_failures"
  shows "health_overallScore (calculateRepositoryHealth i) \<le> 82"
proof -
  have "health_overallScore (calculateRepositoryHealth i) \<in> set [71, 77, 75, 82, 74, 81, 82]"
    unfolding single_failure_scores [symmetric] using assms by simp
  then show ?thesis by auto
qed

lemma a_single_failure:
  assumes "i \<noteq> no_failure"
  shows "\<exists>j \<in> set single_failures. failures_le j i"
  using assms by (cases i) (simp add: no_failure_def failures_le_def single_failures_def)

lemma some_failure_score:
  assumes "i \<noteq> no_failure"
  shows "health_overallScore (calculateRepositoryHealth i) \<le> 82"
proof -
  from a_single_failure [OF assms] obtain j where j: "j \<in> set single_failures" "failures_le j i"
    by blast
  with one_failure_score [OF j(1)] health_score_anti [OF j(2)] show ?thesis by linarith
qed

text \<open>
  The repository is HEALTHY exactly when no failure is reported, the score lies between 29
  and 86, and a further failure never raises it; computed with the code's rounded weights.
\<close>

lemma health_banded:
  "(health_status (calculateRepositoryHealth i) = HealthStatus.HEALTHY \<longleftrightarrow> i = no_failure)
   \<and> health_overallScore (calculateRepositoryHealth i) \<in> {29..86}
   \<and> (failures_le i j \<longrightarrow> health_overallScore (calculateRepositoryHealth j)
                          \<le> health_overallScore (calculateRepositoryHealth i))"
proof (intro conjI impI)
  have hi: "health_overallScore (calculateRepositoryHealth i)
            \<le> health_overallScore (calculateRepositoryHealth no_failure)"
    and lo: "health_overallScore (calculateRepositoryHealth every_failure)
             \<le> health_overallScore (calculateRepositoryHealth i)"
    by (rule health_score_anti; simp add: failures_le_def no_failure_def every_failure_def)+
  then show "health_overallScore (calculateRepositoryHealth i) \<in> {29..86}"
    by (simp add: health_eval)
  have st: "health_status (calculateRepositoryHealth i)
            = health_status_of (health_overallScore (calculateRepositoryHealth i))"
    by (simp add: calculateRepositoryHealth_def Let_def)
  show "health_status (calculateRepositoryHealth i) = HealthStatus.HEALTHY \<longleftrightarrow> i = no_failure"
  proof (cases "i = no_failure")
    case True
    then show ?thesis unfolding st by (simp add: health_eval) (simp add: health_status_of_def)
  next
    case False
    then show ?thesis unfolding st
      using some_failure_score [OF False] by (simp add: health_status_of_def)
  qed
  show "health_overallScore (calculateRepositoryHealth j)
        \<le> health_overallScore (calculateRepositoryHealth i)" if "failures_le i j"
    using that by (rule health_score_anti)
qed

lemma health_banded_witness:
  "health_overallScore (calculateRepositoryHealth (no_failure\<lparr>rh_buildFailure := True\<rparr>))
   \<le> health_overallScore (calculateRepositoryHealth no_failure)"
  using health_banded [of no_failure "no_failure\<lparr>rh_buildFailure := True\<rparr>"]
  by (simp add: failures_le_def)

text \<open>
  The exact score of a repository whose only problem is the build is 71.5, which
  \<open>Math.round\<close> would round to 72; the rounded terms add up to less, and the code reports 71.
\<close>

lemma build_failure_score:
  "health_overallScore (calculateRepositoryHealth (no_failure\<lparr>rh_buildFailure := True\<rparr>)) = 71
   \<and> sum_list (map (\<lambda>(d, w). d * w)
       (weighted (health_dimensions_of (no_failure\<lparr>rh_buildFailure := True\<rparr>)))) = 7150"
  by (simp add: health_eval)

end
