(* ===== verification/Redaction.thy ===== *)
theory Redaction
  imports Json Contracts
begin

text \<open>
  The redaction of evidence in \<open>packages/incidents/src/index.ts\<close>: \<open>SECRET_KEY_PATTERN\<close>,
  \<open>SECRET_VALUE_PATTERNS\<close>, \<open>redactString\<close>, \<open>redactSensitiveData\<close> and
  \<open>evidenceSensitivityForPayload\<close>.

  A value pattern is a matcher: the length of its match at the start of a string, if there is
  one. Each of the five patterns has one match at most at a position, since its repetitions are
  greedy over classes that the rest of the pattern does not meet, or lazy up to a fixed marker.
  The locale \<open>secret_pattern\<close> states what makes a pattern stay redacted: a match needs no
  \<open>[\<close>, the character every replacement starts with, and survives an extension to the right.
\<close>

section \<open>Patterns\<close>

definition SECRET_KEY_PATTERN :: "string list" where
  "SECRET_KEY_PATTERN =
     [''apikey'', ''api-key'', ''api_key'', ''authorization'', ''cookie'', ''credential'',
      ''password'', ''privatekey'', ''private-key'', ''private_key'', ''secret'', ''session'',
      ''token'']"

definition is_secret_key :: "string \<Rightarrow> bool" where
  "is_secret_key k = list_ex (has_text (to_lower k)) SECRET_KEY_PATTERN"

type_synonym matcher = "string \<Rightarrow> nat option"

definition span_length :: "(char \<Rightarrow> bool) \<Rightarrow> string \<Rightarrow> nat" where
  "span_length p s = length (takeWhile p s)"

text \<open>One of the heads, then at least \<open>least\<close> characters of a class, as many as there are.\<close>

fun token_match :: "string list \<Rightarrow> nat \<Rightarrow> (char \<Rightarrow> bool) \<Rightarrow> matcher" where
  "token_match [] least p s = None"
| "token_match (hx # hds) least p s =
     (if startsWith s hx \<and> least \<le> span_length p (drop (length hx) s)
      then Some (length hx + span_length p (drop (length hx) s))
      else token_match hds least p s)"

definition is_word :: "char \<Rightarrow> bool" where
  "is_word c = (is_alnum c \<or> c = CHR ''_'')"

definition github_token :: matcher where
  "github_token = token_match [''ghp_'', ''gho_'', ''ghu_'', ''ghs_'', ''ghr_''] 20 is_word"

definition github_pat :: matcher where
  "github_pat = token_match [''github_pat_''] 20 is_word"

definition sk_token :: matcher where
  "sk_token = token_match [''sk-''] 20 (\<lambda>c. is_word c \<or> c = CHR ''-'')"

definition key_markers :: "string \<Rightarrow> string list" where
  "key_markers side =
     [''-----'' @ side @ '' PRIVATE KEY-----'', ''-----'' @ side @ '' RSA PRIVATE KEY-----'',
      ''-----'' @ side @ '' EC PRIVATE KEY-----'', ''-----'' @ side @ '' OPENSSH PRIVATE KEY-----'']"

text \<open>\<open>[\s\S]*?\<close> up to the first end marker.\<close>

fun to_end_marker :: matcher where
  "to_end_marker [] = None"
| "to_end_marker (c # s) =
     (case find (startsWith (c # s)) (key_markers ''END'') of
        Some e \<Rightarrow> Some (length e)
      | None \<Rightarrow> map_option Suc (to_end_marker s))"

definition private_key :: matcher where
  "private_key s =
     (case find (startsWith s) (key_markers ''BEGIN'') of
        None \<Rightarrow> None
      | Some b \<Rightarrow> map_option (\<lambda>n. length b + n) (to_end_marker (drop (length b) s)))"

definition is_bearer_char :: "char \<Rightarrow> bool" where
  "is_bearer_char c = (is_alnum c \<or> c \<in> set ''._~+/-'')"

definition bearer_token :: matcher where
  "bearer_token s =
     (let spaces = span_length is_space (drop 6 s);
          chars = span_length is_bearer_char (drop (6 + spaces) s);
          pads = span_length (\<lambda>c. c = CHR ''='') (drop (6 + spaces + chars) s)
      in if to_lower (take 6 s) = ''bearer'' \<and> 0 < spaces \<and> 0 < chars
         then Some (6 + spaces + chars + pads) else None)"

definition SECRET_VALUE_PATTERNS :: "matcher list" where
  "SECRET_VALUE_PATTERNS = [github_token, github_pat, sk_token, private_key, bearer_token]"

section \<open>Redaction\<close>

definition REDACTED :: string where
  "REDACTED = ''[REDACTED]''"

text \<open>\<open>output.replace(pattern, () => { count += 1; return '[REDACTED]'; })\<close>.\<close>

function replace_all :: "matcher \<Rightarrow> string \<Rightarrow> string \<times> nat" where
  "replace_all m [] = ([], 0)"
| "replace_all m (c # s) =
     (case m (c # s) of
        None \<Rightarrow> (let (out, k) = replace_all m s in (c # out, k))
      | Some n \<Rightarrow> (let (out, k) = replace_all m (drop (n - 1) s) in (REDACTED @ out, Suc k)))"
  by pat_completeness auto
termination
  by (relation "measure (\<lambda>(m, s). length s)") auto

fun redact_with :: "matcher list \<Rightarrow> string \<Rightarrow> string \<times> nat" where
  "redact_with [] s = (s, 0)"
| "redact_with (m # ms) s =
     (let (out, k) = replace_all m s; (out', k') = redact_with ms out in (out', k + k'))"

definition redactString :: "string \<Rightarrow> string \<times> nat" where
  "redactString s = redact_with SECRET_VALUE_PATTERNS s"

text \<open>\<open>visit\<close> of \<open>redactSensitiveData\<close>, with the number of replacements it makes.\<close>

fun visit :: "json \<Rightarrow> json \<times> nat" where
  "visit (JStr s) = (case redactString s of (out, k) \<Rightarrow> (JStr out, k))"
| "visit (JArr vs) = (JArr (map (\<lambda>v. fst (visit v)) vs), sum_list (map (\<lambda>v. snd (visit v)) vs))"
| "visit (JObj es) =
     (JObj (from_entries (map (\<lambda>(k, v). (k, if is_secret_key k then JStr REDACTED
                                              else fst (visit v))) es)),
      sum_list (map (\<lambda>(k, v). if is_secret_key k then 1 else snd (visit v)) es))"
| "visit v = (v, 0)"

record RedactionResult =
  red_value :: json
  red_redacted :: bool
  red_redactionCount :: nat

definition redactSensitiveData :: "json \<Rightarrow> RedactionResult" where
  "redactSensitiveData input =
     (let (v, count) = visit input
      in \<lparr>red_value = v, red_redacted = (0 < count), red_redactionCount = count\<rparr>)"

definition evidenceSensitivityForPayload :: "bool \<Rightarrow> EvidenceSensitivity" where
  "evidenceSensitivityForPayload redacted =
     (if redacted then EvidenceSensitivity.CONFIDENTIAL else EvidenceSensitivity.INTERNAL)"

section \<open>Patterns that stay redacted\<close>

locale secret_pattern =
  fixes m :: matcher
  assumes extends: "m s \<noteq> None \<Longrightarrow> m (s @ t) \<noteq> None"
    and bracket: "c \<in> {CHR ''['', CHR '']''} \<Longrightarrow> m (s @ c # t) \<noteq> None \<Longrightarrow> m s \<noteq> None"
    and harmless: "suffix s ''REDACTED'' \<Longrightarrow> m s = None"
begin

text \<open>No match anywhere in a string.\<close>

definition free_of :: "string \<Rightarrow> bool" where
  "free_of s = (\<forall>t. suffix t s \<longrightarrow> m t = None)"

lemma no_empty: "m [] = None"
  by (rule harmless) simp

lemma free_of_Nil: "free_of []"
  by (simp add: free_of_def no_empty)

lemma free_of_Cons: "free_of (c # s) \<longleftrightarrow> m (c # s) = None \<and> free_of s"
  by (auto simp: free_of_def suffix_Cons)

lemma free_of_append: "free_of (s @ t) \<longleftrightarrow> (\<forall>u. suffix u s \<and> u \<noteq> [] \<longrightarrow> m (u @ t) = None) \<and> free_of t"
  by (induction s) (auto simp: free_of_Cons suffix_Cons)

text \<open>A replacement cannot be part of a match, so a match in the output was one in the input.\<close>

lemma match_before_redaction: "m (s @ REDACTED @ t) \<noteq> None \<Longrightarrow> m (s @ u) \<noteq> None"
  using bracket [of "CHR ''[''" s] extends [of s u] by (auto simp: REDACTED_def)

lemma output_match:
  "m (s @ fst (replace_all m' w)) \<noteq> None \<Longrightarrow> m (s @ w) \<noteq> None"
proof (induction m' w arbitrary: s rule: replace_all.induct)
  case (1 m')
  then show ?case by simp
next
  case (2 m' c w)
  show ?case
  proof (cases "m' (c # w)")
    case None
    with 2(3) have "m ((s @ [c]) @ fst (replace_all m' w)) \<noteq> None"
      by (simp add: case_prod_beta)
    from 2(1) [OF None this] show ?thesis by simp
  next
    case (Some n)
    with 2(3) have "m (s @ REDACTED @ fst (replace_all m' (drop (n - 1) w))) \<noteq> None"
      by (simp add: case_prod_beta)
    then show ?thesis by (rule match_before_redaction)
  qed
qed

lemma no_match_in_replacement:
  assumes "suffix u REDACTED" "u \<noteq> []"
  shows "m (u @ t) = None"
proof (rule ccontr)
  assume match: "m (u @ t) \<noteq> None"
  have "u = REDACTED \<or> (\<exists>v. suffix v ''REDACTED'' \<and> u = v @ '']'')"
  proof -
    have split: "REDACTED = CHR ''['' # (''REDACTED'' @ '']'')" by (simp add: REDACTED_def)
    have "u = REDACTED \<or> suffix u (''REDACTED'' @ '']'')"
      using assms(1) unfolding split suffix_Cons by blast
    moreover have "\<exists>v. suffix v ''REDACTED'' \<and> u = v @ '']''" if "suffix u '']''"
      using that assms(2) by (intro exI [of _ "[]"]) (auto simp: suffix_Cons)
    ultimately show ?thesis unfolding suffix_append by blast
  qed
  then show False
  proof
    assume "u = REDACTED"
    with match bracket [of "CHR ''[''" "[]"] no_empty show False by (auto simp: REDACTED_def)
  next
    assume "\<exists>v. suffix v ''REDACTED'' \<and> u = v @ '']''"
    then obtain v where v: "suffix v ''REDACTED''" "u = v @ '']''" by blast
    with match bracket [of "CHR '']''" v t] harmless [of v] show False by simp
  qed
qed

lemma free_of_REDACTED: "free_of t \<Longrightarrow> free_of (REDACTED @ t)"
  by (simp add: free_of_append no_match_in_replacement)

lemma free_of_suffix: "free_of s \<Longrightarrow> suffix t s \<Longrightarrow> free_of t"
  by (auto simp: free_of_def dest: suffix_order.trans)

text \<open>A pass for another pattern brings no match of this one, and the pass for it removes all.\<close>

lemma stays_free: "free_of w \<Longrightarrow> free_of (fst (replace_all m' w))"
proof (induction m' w rule: replace_all.induct)
  case (1 m')
  then show ?case by simp
next
  case (2 m' c w)
  show ?case
  proof (cases "m' (c # w)")
    case None
    with 2 have "free_of (fst (replace_all m' w))" by (simp add: free_of_Cons)
    moreover have "m ([c] @ fst (replace_all m' w)) = None"
      using output_match [of "[c]" m' w] 2(3) by (metis append_Cons append_Nil free_of_Cons)
    ultimately show ?thesis using None by (simp add: case_prod_beta free_of_Cons)
  next
    case (Some n)
    have "free_of (drop (n - 1) w)"
      using 2(3) by (auto simp: free_of_Cons intro: free_of_suffix suffix_drop)
    with 2(2) [OF Some] Some show ?thesis by (simp add: case_prod_beta free_of_REDACTED)
  qed
qed

lemma becomes_free: "free_of (fst (replace_all m w))"
proof (induction w rule: length_induct)
  case (1 w)
  show ?case
  proof (cases w)
    case Nil
    then show ?thesis by (simp add: free_of_Nil)
  next
    case (Cons c v)
    show ?thesis
    proof (cases "m (c # v)")
      case None
      have "m ([c] @ fst (replace_all m v)) = None"
        using output_match [of "[c]" m v] None by (metis append_Cons append_Nil)
      with 1 Cons None show ?thesis by (simp add: case_prod_beta free_of_Cons)
    next
      case (Some n)
      with 1 Cons show ?thesis by (simp add: case_prod_beta free_of_REDACTED)
    qed
  qed
qed

lemma redact_with_stays_free: "free_of s \<Longrightarrow> free_of (fst (redact_with ms s))"
proof (induction ms arbitrary: s)
  case (Cons m' ms)
  then show ?case using stays_free [of s m'] by (simp add: case_prod_beta)
qed simp

lemma redact_with_free: "m \<in> set ms \<Longrightarrow> free_of (fst (redact_with ms s))"
proof (induction ms arbitrary: s)
  case (Cons m' ms)
  show ?case
  proof (cases "m' = m")
    case True
    then show ?thesis using redact_with_stays_free [OF becomes_free] by (simp add: case_prod_beta)
  next
    case False
    with Cons show ?thesis by (simp add: case_prod_beta)
  qed
qed simp

end

text \<open>The four token patterns have these laws.\<close>

lemma startsWith_append: "startsWith s p \<Longrightarrow> startsWith (s @ t) p"
  by (auto simp: startsWith_iff prefix_def)

lemma span_length_append: "span_length p s \<le> span_length p (s @ t)"
  by (induction s) (auto simp: span_length_def)

lemma span_length_stop: "\<not> p c \<Longrightarrow> span_length p (s @ c # t) = span_length p s"
  by (induction s) (auto simp: span_length_def)

lemma token_match_iff:
  "token_match hds least p s \<noteq> None \<longleftrightarrow>
     (\<exists>hx \<in> set hds. startsWith s hx \<and> least \<le> span_length p (drop (length hx) s))"
  by (induction hds) auto

lemma prefix_before_stop:
  assumes "c \<notin> set a" "s @ c # t = a @ r"
  shows "prefix a s"
proof -
  from assms(2) have "prefix a (s @ c # t)" by (simp add: prefix_def)
  then have "prefix a s \<or> (\<exists>q. a = s @ c # q)"
    by (auto simp: prefix_append prefix_Cons)
  with assms(1) show ?thesis by auto
qed

lemma startsWith_cut: "startsWith (s @ c # t) p \<Longrightarrow> c \<notin> set p \<Longrightarrow> startsWith s p"
  by (auto simp: startsWith_iff prefix_def [of p "s @ c # t"] intro: prefix_before_stop)

lemma startsWith_length: "startsWith s p \<Longrightarrow> length p \<le> length s"
  by (auto simp: startsWith_iff dest: prefix_length_le)

lemma token_pattern:
  assumes least: "0 < least"
    and cls: "\<not> p (CHR ''['')" "\<not> p (CHR '']'')"
    and heads: "list_all (\<lambda>hx. CHR ''['' \<notin> set hx \<and> CHR '']'' \<notin> set hx
                  \<and> \<not> has_text ''REDACTED'' hx) hds"
  shows "secret_pattern (token_match hds least p)"
proof
  fix s t :: string
  assume "token_match hds least p s \<noteq> None"
  then obtain hx where hx: "hx \<in> set hds" "startsWith s hx"
      "least \<le> span_length p (drop (length hx) s)"
    unfolding token_match_iff by blast
  have "drop (length hx) (s @ t) = drop (length hx) s @ t"
    using startsWith_length [OF hx(2)] by simp
  with hx show "token_match hds least p (s @ t) \<noteq> None"
    using span_length_append [of p "drop (length hx) s" t] startsWith_append
    unfolding token_match_iff by (intro bexI [of _ hx]) auto
next
  fix s t :: string and c
  assume c: "c \<in> {CHR ''['', CHR '']''}" and "token_match hds least p (s @ c # t) \<noteq> None"
  then obtain hx where hx: "hx \<in> set hds" "startsWith (s @ c # t) hx"
      "least \<le> span_length p (drop (length hx) (s @ c # t))"
    unfolding token_match_iff by blast
  have "c \<notin> set hx" using heads hx(1) c by (auto simp: list_all_iff)
  with hx(2) have s: "startsWith s hx" by (rule startsWith_cut)
  have "drop (length hx) (s @ c # t) = drop (length hx) s @ c # t"
    using startsWith_length [OF s] by simp
  moreover have "\<not> p c" using cls c by auto
  ultimately have "least \<le> span_length p (drop (length hx) s)"
    using hx(3) by (simp add: span_length_stop)
  with hx(1) s show "token_match hds least p s \<noteq> None" unfolding token_match_iff by blast
next
  fix s :: string
  assume suf: "suffix s ''REDACTED''"
  have "\<not> startsWith s hx" if "hx \<in> set hds" for hx
  proof
    assume "startsWith s hx"
    then have "sublist hx ''REDACTED''"
      using suf by (auto simp: startsWith_iff prefix_def suffix_def sublist_def)
    with heads that show False by (auto simp: list_all_iff has_text_iff)
  qed
  then show "token_match hds least p s = None"
    using token_match_iff [of hds least p s] by auto
qed

interpretation github_token: secret_pattern github_token
  unfolding github_token_def by (rule token_pattern) code_simp+

interpretation github_pat: secret_pattern github_pat
  unfolding github_pat_def by (rule token_pattern) code_simp+

interpretation sk_token: secret_pattern sk_token
  unfolding sk_token_def by (rule token_pattern) code_simp+

text \<open>A bearer token, in words: the scheme, white space, a character of the token.\<close>

lemma is_space_cases:
  assumes "is_space d"
  shows "d \<in> char_of ` {9, 10, 11, 12, 13, 32, 160::nat}"
  using assms by (intro image_eqI [of _ _ "char_code d"]) (simp_all add: is_space_def char_code_def)

lemma bearer_not_space: "is_bearer_char d \<Longrightarrow> \<not> is_space d"
proof
  assume b: "is_bearer_char d" and "is_space d"
  then have "d \<in> char_of ` {9, 10, 11, 12, 13, 32, 160::nat}" by (intro is_space_cases)
  moreover have "\<not> is_bearer_char (char_of n)" if "n \<in> {9, 10, 11, 12, 13, 32, 160::nat}" for n
    using that by (elim insertE emptyE; hypsubst; code_simp)
  ultimately show False using b by blast
qed

lemma bearer_token_iff:
  "bearer_token s \<noteq> None \<longleftrightarrow>
     (\<exists>p w d r. s = p @ w @ d # r \<and> to_lower p = ''bearer'' \<and> w \<noteq> [] \<and> list_all is_space w
                \<and> is_bearer_char d)" (is "_ \<longleftrightarrow> ?shape")
proof
  assume match: "bearer_token s \<noteq> None"
  let ?n = "span_length is_space (drop 6 s)"
  from match have p: "to_lower (take 6 s) = ''bearer''" and n: "0 < ?n"
    and c: "0 < span_length is_bearer_char (drop (6 + ?n) s)"
    by (auto simp: bearer_token_def Let_def split: if_splits)
  from c obtain d r where dr: "drop (6 + ?n) s = d # r" "is_bearer_char d"
    by (cases "drop (6 + ?n) s") (auto simp: span_length_def split: if_splits)
  have "s = take 6 s @ takeWhile is_space (drop 6 s) @ d # r"
  proof -
    have "dropWhile is_space (drop 6 s) = drop (6 + ?n) s"
      by (simp add: dropWhile_eq_drop span_length_def add.commute)
    then have "drop 6 s = takeWhile is_space (drop 6 s) @ d # r"
      using takeWhile_dropWhile_id [of is_space "drop 6 s"] dr(1) by simp
    then have "take 6 s @ drop 6 s = take 6 s @ takeWhile is_space (drop 6 s) @ d # r"
      by (rule arg_cong)
    then show ?thesis unfolding append_take_drop_id .
  qed
  moreover have "takeWhile is_space (drop 6 s) \<noteq> []" using n by (auto simp: span_length_def)
  moreover have "list_all is_space (takeWhile is_space (drop 6 s))"
    by (auto simp: list_all_iff dest: set_takeWhileD)
  ultimately show ?shape using p dr(2) by blast
next
  assume ?shape
  then obtain p w d r where s: "s = p @ w @ d # r" and p: "to_lower p = ''bearer''"
    and w: "w \<noteq> []" "list_all is_space w" and d: "is_bearer_char d" by blast
  from p have "length (to_lower p) = 6" by simp
  then have len: "length p = 6" by (simp add: to_lower_def)
  have "span_length is_space (w @ d # r) = length w"
    using w(2) bearer_not_space [OF d] by (simp add: span_length_def takeWhile_append2 list_all_iff)
  with s len p w(1) d show "bearer_token s \<noteq> None"
    by (simp add: bearer_token_def Let_def span_length_def)
qed

interpretation bearer_token: secret_pattern bearer_token
proof
  fix s t :: string
  assume "bearer_token s \<noteq> None"
  then show "bearer_token (s @ t) \<noteq> None" unfolding bearer_token_iff by force
next
  fix s t :: string and c
  assume c: "c \<in> {CHR ''['', CHR '']''}" and "bearer_token (s @ c # t) \<noteq> None"
  then obtain p w d r where eq: "s @ c # t = p @ w @ d # r" and p: "to_lower p = ''bearer''"
    and w: "w \<noteq> []" "list_all is_space w" and d: "is_bearer_char d"
    unfolding bearer_token_iff by blast
  have "c \<notin> set (p @ w @ [d])"
  proof -
    have "lower_char c \<notin> set ''bearer''" "\<not> is_space c" "\<not> is_bearer_char c"
      using c by (elim insertE emptyE; hypsubst; code_simp)+
    then show ?thesis using p w(2) d by (auto simp: to_lower_def list_all_iff dest: arg_cong [of _ _ set])
  qed
  moreover have "s @ c # t = (p @ w @ [d]) @ r" using eq by simp
  ultimately have "prefix (p @ w @ [d]) s"
    by (intro prefix_before_stop)
  then obtain q where "s = (p @ w @ [d]) @ q" by (auto simp: prefix_def)
  with p w d show "bearer_token s \<noteq> None" unfolding bearer_token_iff by auto
next
  fix s :: string
  assume suf: "suffix s ''REDACTED''"
  show "bearer_token s = None"
  proof (rule ccontr)
    assume "bearer_token s \<noteq> None"
    then obtain p w d r where s: "s = p @ w @ d # r" and w: "w \<noteq> []" "list_all is_space w"
      unfolding bearer_token_iff by blast
    then obtain x where "x \<in> set s" "is_space x" by (cases w) auto
    moreover have "list_all (\<lambda>x. \<not> is_space x) ''REDACTED''" by code_simp
    ultimately show False using set_mono_suffix [OF suf] unfolding list_all_iff by blast
  qed
qed

section \<open>What redaction promises\<close>

definition token_patterns :: "matcher list" where
  "token_patterns = [github_token, github_pat, sk_token, bearer_token]"

text \<open>No token starts anywhere in the string.\<close>

definition shows_no_token :: "string \<Rightarrow> bool" where
  "shows_no_token s = list_all (\<lambda>t. list_all (\<lambda>m. m t = None) token_patterns) (suffixes s)"

text \<open>No string of the value shows a token, and every entry under a secret key is masked.\<close>

fun safe_to_store :: "json \<Rightarrow> bool" where
  "safe_to_store (JStr s) = shows_no_token s"
| "safe_to_store (JArr vs) = list_all safe_to_store vs"
| "safe_to_store (JObj es) =
     list_all (\<lambda>(k, v). safe_to_store v \<and> (is_secret_key k \<longrightarrow> v = JStr REDACTED)) es"
| "safe_to_store v = True"

lemma shows_no_token_iff:
  "shows_no_token s \<longleftrightarrow> github_token.free_of s \<and> github_pat.free_of s \<and> sk_token.free_of s
                      \<and> bearer_token.free_of s"
  by (auto simp: shows_no_token_def token_patterns_def list_all_iff github_token.free_of_def
      github_pat.free_of_def sk_token.free_of_def bearer_token.free_of_def)

lemma redactString_shows_no_token: "shows_no_token (fst (redactString s))"
  unfolding shows_no_token_iff redactString_def SECRET_VALUE_PATTERNS_def
  by (intro conjI github_token.redact_with_free github_pat.redact_with_free
      sk_token.redact_with_free bearer_token.redact_with_free) simp_all

lemma REDACTED_shows_no_token: "shows_no_token REDACTED"
  using github_token.free_of_REDACTED [of "[]"] github_pat.free_of_REDACTED [of "[]"]
    sk_token.free_of_REDACTED [of "[]"] bearer_token.free_of_REDACTED [of "[]"]
  by (simp add: shows_no_token_iff github_token.free_of_Nil github_pat.free_of_Nil
      sk_token.free_of_Nil bearer_token.free_of_Nil)

lemma set_put_entry: "set (put_entry k v es) \<subseteq> insert (k, v) (set es)"
  by (induction es) (auto split: if_splits)

lemma set_from_entries: "set (from_entries es) \<subseteq> set es"
proof -
  have "set (foldl (\<lambda>acc (k, v). put_entry k v acc) acc es) \<subseteq> set acc \<union> set es" for acc
    by (induction es arbitrary: acc) (use set_put_entry in fastforce)+
  from this [of "[]"] show ?thesis by (auto simp: from_entries_def Let_def)
qed

lemma visit_safe: "safe_to_store (fst (visit v))"
proof (induction v rule: visit.induct)
  case (1 s)
  then show ?case using redactString_shows_no_token [of s] by (simp add: case_prod_beta)
next
  case (2 vs)
  then show ?case by (auto simp: list_all_iff)
next
  case (3 es)
  let ?out = "map (\<lambda>(k, v). (k, if is_secret_key k then JStr REDACTED else fst (visit v))) es"
  have "list_all (\<lambda>(k, v). safe_to_store v \<and> (is_secret_key k \<longrightarrow> v = JStr REDACTED)) ?out"
    using 3 REDACTED_shows_no_token by (fastforce simp: list_all_iff)
  with set_from_entries [of ?out] have
    "list_all (\<lambda>(k, v). safe_to_store v \<and> (is_secret_key k \<longrightarrow> v = JStr REDACTED)) (from_entries ?out)"
    unfolding list_all_iff by blast
  then show ?case by simp
qed simp_all


text \<open>A value as JavaScript holds it: its objects list their keys once, index keys first.\<close>

fun js_value :: "json \<Rightarrow> bool" where
  "js_value (JArr vs) = list_all js_value vs"
| "js_value (JObj es) = (from_entries es = es \<and> list_all (\<lambda>(k, v). js_value v) es)"
| "js_value v = True"

lemma replace_all_none: "snd (replace_all m s) = 0 \<Longrightarrow> fst (replace_all m s) = s"
  by (induction m s rule: replace_all.induct) (auto simp: case_prod_beta split: option.splits)

lemma redact_with_none: "snd (redact_with ms s) = 0 \<Longrightarrow> fst (redact_with ms s) = s"
  using replace_all_none by (induction ms arbitrary: s) (auto simp: case_prod_beta)

lemma visit_none: "js_value v \<Longrightarrow> snd (visit v) = 0 \<Longrightarrow> fst (visit v) = v"
proof (induction v rule: visit.induct)
  case (1 s)
  then show ?case
    using redact_with_none [of SECRET_VALUE_PATTERNS s] by (simp add: redactString_def case_prod_beta)
next
  case (2 vs)
  then show ?case by (auto simp: list_all_iff map_idI)
next
  case (3 es)
  have "map (\<lambda>(k, v). (k, if is_secret_key k then JStr REDACTED else fst (visit v))) es = es"
  proof (rule map_idI)
    fix e
    assume e: "e \<in> set es"
    obtain k v where kv: "e = (k, v)" by (cases e)
    from "3.prems"(2) have zero: "\<forall>p \<in> set es. (case p of (k, v) \<Rightarrow> if is_secret_key k then 1 else snd (visit v)) = 0"
      by (simp add: sum_list_eq_0_iff)
    with e kv have none: "(if is_secret_key k then 1 else snd (visit v)) = (0::nat)" by fastforce
    then have z1: "\<not> is_secret_key k" by (cases "is_secret_key k") simp_all
    with none have z2: "snd (visit v) = 0" by simp
    from "3.prems"(1) have "\<forall>p \<in> set es. (case p of (k, v) \<Rightarrow> js_value v)"
      by (simp add: list_all_iff)
    with e kv have "js_value v" by fastforce
    with "3.IH" e kv z1 z2 have "fst (visit v) = v" by blast
    then show "(case e of (k, v) \<Rightarrow> (k, if is_secret_key k then JStr REDACTED else fst (visit v))) = e"
      using kv z1 by simp
  qed
  with "3.prems"(1) show ?case by simp
qed simp_all

text \<open>
  A payload is reported as not redacted only when redaction left it exactly as it was.
\<close>

lemma unredacted_unchanged:
  assumes "js_value v" "\<not> red_redacted (redactSensitiveData v)"
  shows "red_value (redactSensitiveData v) = v"
  using visit_none [OF assms(1)] assms(2) by (simp add: redactSensitiveData_def case_prod_beta)

lemma unredacted_unchanged_witness:
  "red_value (redactSensitiveData (JObj [(''exitCode'', JNum 2), (''output'', JArr [JStr ''sk-short''])]))
     = JObj [(''exitCode'', JNum 2), (''output'', JArr [JStr ''sk-short''])]"
  by (rule unredacted_unchanged) code_simp+

end
