(* ===== verification/Publication.thy ===== *)
theory Publication
  imports Contracts Lifecycle Json
begin

text \<open>
  The decisions of \<open>packages/publication/src\<close>: the types of \<open>types.ts\<close>, the lifecycle
  of a publication (\<open>lifecycle.ts\<close>), the publication policy and the branch name
  (\<open>policy.ts\<close>), check normalization and merge readiness (\<open>checks.ts\<close>), and the
  post-merge verification (\<open>merge-closure.ts\<close>).
\<close>

section \<open>Types\<close>

datatype PublicationStatus =
    PUBLICATION_REQUESTED | POLICY_CHECK | COMMIT_MATERIALIZING | BRANCH_PUBLISHING
  | DRAFT_PR_CREATING | CI_MONITORING | REVIEW_MONITORING | AWAITING_REVIEW
  | READY_FOR_HUMAN_MERGE | MERGED | POST_MERGE_VERIFYING | RECOVERY_CONFIRMED | CLOSED
  | PUBLICATION_BLOCKED | PUSH_FAILED | PR_CREATION_FAILED | CI_FAILED | CHANGES_REQUESTED
  | REVISION_REQUIRED | BASE_BRANCH_STALE | SECURITY_BLOCKED | POST_MERGE_FAILED
  | MERGE_REVERTED | CANCELLED | TIMED_OUT

primrec PublicationStatus_name :: "PublicationStatus \<Rightarrow> string" where
  "PublicationStatus_name PublicationStatus.PUBLICATION_REQUESTED = ''PUBLICATION_REQUESTED''"
| "PublicationStatus_name PublicationStatus.POLICY_CHECK = ''POLICY_CHECK''"
| "PublicationStatus_name PublicationStatus.COMMIT_MATERIALIZING = ''COMMIT_MATERIALIZING''"
| "PublicationStatus_name PublicationStatus.BRANCH_PUBLISHING = ''BRANCH_PUBLISHING''"
| "PublicationStatus_name PublicationStatus.DRAFT_PR_CREATING = ''DRAFT_PR_CREATING''"
| "PublicationStatus_name PublicationStatus.CI_MONITORING = ''CI_MONITORING''"
| "PublicationStatus_name PublicationStatus.REVIEW_MONITORING = ''REVIEW_MONITORING''"
| "PublicationStatus_name PublicationStatus.AWAITING_REVIEW = ''AWAITING_REVIEW''"
| "PublicationStatus_name PublicationStatus.READY_FOR_HUMAN_MERGE = ''READY_FOR_HUMAN_MERGE''"
| "PublicationStatus_name PublicationStatus.MERGED = ''MERGED''"
| "PublicationStatus_name PublicationStatus.POST_MERGE_VERIFYING = ''POST_MERGE_VERIFYING''"
| "PublicationStatus_name PublicationStatus.RECOVERY_CONFIRMED = ''RECOVERY_CONFIRMED''"
| "PublicationStatus_name PublicationStatus.CLOSED = ''CLOSED''"
| "PublicationStatus_name PublicationStatus.PUBLICATION_BLOCKED = ''PUBLICATION_BLOCKED''"
| "PublicationStatus_name PublicationStatus.PUSH_FAILED = ''PUSH_FAILED''"
| "PublicationStatus_name PublicationStatus.PR_CREATION_FAILED = ''PR_CREATION_FAILED''"
| "PublicationStatus_name PublicationStatus.CI_FAILED = ''CI_FAILED''"
| "PublicationStatus_name PublicationStatus.CHANGES_REQUESTED = ''CHANGES_REQUESTED''"
| "PublicationStatus_name PublicationStatus.REVISION_REQUIRED = ''REVISION_REQUIRED''"
| "PublicationStatus_name PublicationStatus.BASE_BRANCH_STALE = ''BASE_BRANCH_STALE''"
| "PublicationStatus_name PublicationStatus.SECURITY_BLOCKED = ''SECURITY_BLOCKED''"
| "PublicationStatus_name PublicationStatus.POST_MERGE_FAILED = ''POST_MERGE_FAILED''"
| "PublicationStatus_name PublicationStatus.MERGE_REVERTED = ''MERGE_REVERTED''"
| "PublicationStatus_name PublicationStatus.CANCELLED = ''CANCELLED''"
| "PublicationStatus_name PublicationStatus.TIMED_OUT = ''TIMED_OUT''"

datatype NormalizedCheckStatus =
    QUEUED | RUNNING | PASSED | FAILED | CANCELLED | TIMED_OUT | NEUTRAL | STALE

primrec NormalizedCheckStatus_name :: "NormalizedCheckStatus \<Rightarrow> string" where
  "NormalizedCheckStatus_name NormalizedCheckStatus.QUEUED = ''QUEUED''"
| "NormalizedCheckStatus_name NormalizedCheckStatus.RUNNING = ''RUNNING''"
| "NormalizedCheckStatus_name NormalizedCheckStatus.PASSED = ''PASSED''"
| "NormalizedCheckStatus_name NormalizedCheckStatus.FAILED = ''FAILED''"
| "NormalizedCheckStatus_name NormalizedCheckStatus.CANCELLED = ''CANCELLED''"
| "NormalizedCheckStatus_name NormalizedCheckStatus.TIMED_OUT = ''TIMED_OUT''"
| "NormalizedCheckStatus_name NormalizedCheckStatus.NEUTRAL = ''NEUTRAL''"
| "NormalizedCheckStatus_name NormalizedCheckStatus.STALE = ''STALE''"

datatype ReviewState =
    PENDING | APPROVED | CHANGES_REQUESTED | DISMISSED | COMMENTED

primrec ReviewState_name :: "ReviewState \<Rightarrow> string" where
  "ReviewState_name ReviewState.PENDING = ''PENDING''"
| "ReviewState_name ReviewState.APPROVED = ''APPROVED''"
| "ReviewState_name ReviewState.CHANGES_REQUESTED = ''CHANGES_REQUESTED''"
| "ReviewState_name ReviewState.DISMISSED = ''DISMISSED''"
| "ReviewState_name ReviewState.COMMENTED = ''COMMENTED''"

record PublicationPolicy =
  pol_version :: string
  pol_allowedBaseBranches :: "string list"
  pol_recoveryBranchPrefix :: string
  pol_requireDraftPullRequest :: bool
  pol_allowForcePush :: bool
  pol_allowProtectedBranchWrites :: bool
  pol_allowAutomaticMerge :: bool
  pol_requiredChecks :: "string list"
  pol_requiredApprovals :: int
  pol_requireCodeOwnerApproval :: bool
  pol_maximumPublicationAttempts :: int
  pol_webhookReplayWindowSeconds :: int
  pol_postMergeVerificationRequired :: bool
  pol_retentionDays :: int

record ApprovedRecoveryPackage =
  pkg_recoveryId :: string
  pkg_incidentId :: string
  pkg_organizationId :: string
  pkg_repositoryId :: string
  pkg_treatmentPlanId :: string
  pkg_patchVersion :: int
  pkg_baseCommitSha :: string
  pkg_patchDigest :: string
  pkg_treeDigest :: string
  pkg_branchName :: string
  pkg_targetBaseBranch :: string
  pkg_publicationApprovalCount :: int
  pkg_publicationApprovedAt :: string
  pkg_securityReviewApproved :: bool
  pkg_verificationPassed :: bool
  pkg_pullRequestTitle :: string
  pkg_pullRequestBody :: string

record CheckState =
  chk_name :: string
  chk_status :: NormalizedCheckStatus

record ReviewEntry =
  rev_actorId :: string
  rev_state :: ReviewState
  rev_codeOwner :: bool

record MergeReadinessInput =
  mri_baseCommitCurrent :: bool
  mri_publicationIntegrityValid :: bool
  mri_requiredChecks :: "CheckState list"
  mri_reviews :: "ReviewEntry list"
  mri_unresolvedBlockingThreads :: int
  mri_blockingSecurityFindings :: int
  mri_pullRequestDraft :: bool

record MergeReadinessDecision =
  mrd_ready :: bool
  mrd_blockers :: "string list"

section \<open>Lifecycle\<close>

definition terminal_publication :: "PublicationStatus list" where
  "terminal_publication =
     [PublicationStatus.CLOSED, PublicationStatus.PUBLICATION_BLOCKED,
      PublicationStatus.CANCELLED, PublicationStatus.TIMED_OUT,
      PublicationStatus.POST_MERGE_FAILED, PublicationStatus.MERGE_REVERTED]"

primrec publication_transitions :: "PublicationStatus \<Rightarrow> PublicationStatus list" where
  "publication_transitions PublicationStatus.PUBLICATION_REQUESTED =
     [PublicationStatus.POLICY_CHECK, PublicationStatus.CANCELLED]"
| "publication_transitions PublicationStatus.POLICY_CHECK =
     [PublicationStatus.COMMIT_MATERIALIZING, PublicationStatus.PUBLICATION_BLOCKED,
      PublicationStatus.BASE_BRANCH_STALE, PublicationStatus.SECURITY_BLOCKED,
      PublicationStatus.CANCELLED]"
| "publication_transitions PublicationStatus.COMMIT_MATERIALIZING =
     [PublicationStatus.BRANCH_PUBLISHING, PublicationStatus.PUBLICATION_BLOCKED,
      PublicationStatus.BASE_BRANCH_STALE, PublicationStatus.TIMED_OUT]"
| "publication_transitions PublicationStatus.BRANCH_PUBLISHING =
     [PublicationStatus.DRAFT_PR_CREATING, PublicationStatus.PUBLICATION_BLOCKED,
      PublicationStatus.PUSH_FAILED, PublicationStatus.TIMED_OUT]"
| "publication_transitions PublicationStatus.DRAFT_PR_CREATING =
     [PublicationStatus.CI_MONITORING, PublicationStatus.PUBLICATION_BLOCKED,
      PublicationStatus.BASE_BRANCH_STALE, PublicationStatus.PR_CREATION_FAILED,
      PublicationStatus.TIMED_OUT]"
| "publication_transitions PublicationStatus.CI_MONITORING =
     [PublicationStatus.REVIEW_MONITORING, PublicationStatus.CI_FAILED,
      PublicationStatus.SECURITY_BLOCKED, PublicationStatus.CANCELLED]"
| "publication_transitions PublicationStatus.REVIEW_MONITORING =
     [PublicationStatus.AWAITING_REVIEW, PublicationStatus.CHANGES_REQUESTED,
      PublicationStatus.SECURITY_BLOCKED, PublicationStatus.CANCELLED]"
| "publication_transitions PublicationStatus.AWAITING_REVIEW =
     [PublicationStatus.READY_FOR_HUMAN_MERGE, PublicationStatus.CHANGES_REQUESTED,
      PublicationStatus.BASE_BRANCH_STALE, PublicationStatus.CI_FAILED,
      PublicationStatus.SECURITY_BLOCKED, PublicationStatus.CANCELLED]"
| "publication_transitions PublicationStatus.READY_FOR_HUMAN_MERGE =
     [PublicationStatus.MERGED, PublicationStatus.CHANGES_REQUESTED,
      PublicationStatus.BASE_BRANCH_STALE, PublicationStatus.CI_FAILED,
      PublicationStatus.SECURITY_BLOCKED]"
| "publication_transitions PublicationStatus.MERGED =
     [PublicationStatus.POST_MERGE_VERIFYING, PublicationStatus.MERGE_REVERTED]"
| "publication_transitions PublicationStatus.POST_MERGE_VERIFYING =
     [PublicationStatus.RECOVERY_CONFIRMED, PublicationStatus.POST_MERGE_FAILED,
      PublicationStatus.MERGE_REVERTED]"
| "publication_transitions PublicationStatus.RECOVERY_CONFIRMED =
     [PublicationStatus.CLOSED]"
| "publication_transitions PublicationStatus.CLOSED =
     []"
| "publication_transitions PublicationStatus.PUBLICATION_BLOCKED =
     []"
| "publication_transitions PublicationStatus.PUSH_FAILED =
     [PublicationStatus.BRANCH_PUBLISHING, PublicationStatus.CANCELLED]"
| "publication_transitions PublicationStatus.PR_CREATION_FAILED =
     [PublicationStatus.DRAFT_PR_CREATING, PublicationStatus.CANCELLED]"
| "publication_transitions PublicationStatus.CI_FAILED =
     [PublicationStatus.CI_MONITORING, PublicationStatus.REVISION_REQUIRED,
      PublicationStatus.CANCELLED]"
| "publication_transitions PublicationStatus.CHANGES_REQUESTED =
     [PublicationStatus.REVISION_REQUIRED, PublicationStatus.CANCELLED]"
| "publication_transitions PublicationStatus.REVISION_REQUIRED =
     [PublicationStatus.POLICY_CHECK, PublicationStatus.CANCELLED]"
| "publication_transitions PublicationStatus.BASE_BRANCH_STALE =
     [PublicationStatus.REVISION_REQUIRED, PublicationStatus.CANCELLED]"
| "publication_transitions PublicationStatus.SECURITY_BLOCKED =
     [PublicationStatus.REVISION_REQUIRED, PublicationStatus.CANCELLED]"
| "publication_transitions PublicationStatus.POST_MERGE_FAILED =
     []"
| "publication_transitions PublicationStatus.MERGE_REVERTED =
     []"
| "publication_transitions PublicationStatus.CANCELLED =
     []"
| "publication_transitions PublicationStatus.TIMED_OUT =
     []"
definition isTerminalPublicationStatus :: "PublicationStatus \<Rightarrow> bool" where
  "isTerminalPublicationStatus s = (s \<in> set terminal_publication)"

definition assertPublicationTransition ::
  "PublicationStatus \<Rightarrow> PublicationStatus \<Rightarrow> string + unit" where
  "assertPublicationTransition s t =
     (if s = t then Inr ()
      else if t \<notin> set (publication_transitions s)
      then Inl (''Invalid publication transition: '' @ PublicationStatus_name s @ '' -> ''
                @ PublicationStatus_name t)
      else Inr ())"

interpretation publication: lifecycle assertPublicationTransition publication_transitions
  by unfold_locales (simp add: assertPublicationTransition_def)

section \<open>Policy\<close>

text \<open>\<open>canonical\<close> of \<open>policy.ts\<close>: a string with the entries of every object sorted.\<close>

fun canonical :: "(string \<Rightarrow> string \<Rightarrow> bool) \<Rightarrow> json \<Rightarrow> string" where
  "canonical le (JArr xs) = ''['' @ join_with '','' (map (canonical le) xs) @ '']''"
| "canonical le (JObj es) =
     ''{'' @ join_with '',''
       (map (\<lambda>(k, s). quote_string k @ '':'' @ s)
         (sort_entries le (map (\<lambda>(k, v). (k, canonical le v)) es))) @ ''}''"
| "canonical le v = stringify v"

definition package_json :: "ApprovedRecoveryPackage \<Rightarrow> json" where
  "package_json p = JObj
     [(''recoveryId'', JStr (pkg_recoveryId p)), (''incidentId'', JStr (pkg_incidentId p)),
      (''organizationId'', JStr (pkg_organizationId p)),
      (''repositoryId'', JStr (pkg_repositoryId p)),
      (''treatmentPlanId'', JStr (pkg_treatmentPlanId p)),
      (''patchVersion'', JNum (pkg_patchVersion p)),
      (''baseCommitSha'', JStr (pkg_baseCommitSha p)),
      (''patchDigest'', JStr (pkg_patchDigest p)), (''treeDigest'', JStr (pkg_treeDigest p)),
      (''branchName'', JStr (pkg_branchName p)),
      (''targetBaseBranch'', JStr (pkg_targetBaseBranch p)),
      (''publicationApprovalCount'', JNum (pkg_publicationApprovalCount p)),
      (''publicationApprovedAt'', JStr (pkg_publicationApprovedAt p)),
      (''securityReviewApproved'', JBool (pkg_securityReviewApproved p)),
      (''verificationPassed'', JBool (pkg_verificationPassed p)),
      (''pullRequestTitle'', JStr (pkg_pullRequestTitle p)),
      (''pullRequestBody'', JStr (pkg_pullRequestBody p))]"

definition policy_json :: "PublicationPolicy \<Rightarrow> json" where
  "policy_json p = JObj
     [(''version'', JStr (pol_version p)),
      (''allowedBaseBranches'', JArr (map JStr (pol_allowedBaseBranches p))),
      (''recoveryBranchPrefix'', JStr (pol_recoveryBranchPrefix p)),
      (''requireDraftPullRequest'', JBool (pol_requireDraftPullRequest p)),
      (''allowForcePush'', JBool (pol_allowForcePush p)),
      (''allowProtectedBranchWrites'', JBool (pol_allowProtectedBranchWrites p)),
      (''allowAutomaticMerge'', JBool (pol_allowAutomaticMerge p)),
      (''requiredChecks'', JArr (map JStr (pol_requiredChecks p))),
      (''requiredApprovals'', JNum (pol_requiredApprovals p)),
      (''requireCodeOwnerApproval'', JBool (pol_requireCodeOwnerApproval p)),
      (''maximumPublicationAttempts'', JNum (pol_maximumPublicationAttempts p)),
      (''webhookReplayWindowSeconds'', JNum (pol_webhookReplayWindowSeconds p)),
      (''postMergeVerificationRequired'', JBool (pol_postMergeVerificationRequired p)),
      (''retentionDays'', JNum (pol_retentionDays p))]"

record PublicationPolicyDecision =
  pd_allowed :: bool
  pd_reasons :: "string list"
  pd_digest :: string

text \<open>\<open>if (b) reasons.push(r)\<close>.\<close>

definition reason_if :: "bool \<Rightarrow> string \<Rightarrow> string list" where
  "reason_if b r = (if b then [r] else [])"

lemma reason_if_Nil [simp]: "reason_if b r = [] \<longleftrightarrow> \<not> b"
  by (simp add: reason_if_def)

definition policy_reasons :: "ApprovedRecoveryPackage \<Rightarrow> PublicationPolicy \<Rightarrow> string list" where
  "policy_reasons p pol =
     reason_if (pkg_targetBaseBranch p \<notin> set (pol_allowedBaseBranches pol))
       ''Target base branch is not permitted.''
     @ reason_if (\<not> startsWith (pkg_branchName p) (pol_recoveryBranchPrefix pol))
       ''Recovery branch does not use the required prefix.''
     @ reason_if (\<not> pkg_securityReviewApproved p)
       ''Security review has not approved publication.''
     @ reason_if (\<not> pkg_verificationPassed p) ''Recovery verification has not passed.''
     @ reason_if (pkg_publicationApprovalCount p < pol_requiredApprovals pol)
       ''Required publication approval threshold has not been met.''
     @ reason_if (pkg_branchName p = pkg_targetBaseBranch p)
       ''Recovery branch cannot equal the protected base branch.''"

definition evaluatePublicationPolicy ::
  "host \<Rightarrow> ApprovedRecoveryPackage \<Rightarrow> PublicationPolicy \<Rightarrow> PublicationPolicyDecision" where
  "evaluatePublicationPolicy h p pol =
     (let reasons = policy_reasons p pol;
          payload = JObj [(''package'', package_json p), (''policy'', policy_json pol),
                          (''reasons'', JArr (map JStr reasons))]
      in \<lparr>pd_allowed = (reasons = []), pd_reasons = reasons,
          pd_digest = sha256 h (canonical (locale_le h) payload)\<rparr>)"

text \<open>\<open>replace(/[^a-z0-9]+/g, '-')\<close>: one hyphen for every run of other characters.\<close>

fun hyphenate :: "bool \<Rightarrow> string \<Rightarrow> string" where
  "hyphenate in_run [] = []"
| "hyphenate in_run (c # s) =
     (if is_lower c \<or> is_digit c then c # hyphenate False s
      else if in_run then hyphenate True s
      else CHR ''-'' # hyphenate True s)"

definition strip_hyphens :: "string \<Rightarrow> string" where
  "strip_hyphens s =
     rev (dropWhile (\<lambda>c. c = CHR ''-'') (rev (dropWhile (\<lambda>c. c = CHR ''-'') s)))"

definition clean_segment :: "string \<Rightarrow> string" where
  "clean_segment v = strip_hyphens (hyphenate False (to_lower v))"

text \<open>\<open>prefix.replace(/\/$/, '')\<close>.\<close>

definition drop_final_slash :: "string \<Rightarrow> string" where
  "drop_final_slash s = (if s \<noteq> [] \<and> last s = CHR ''/'' then butlast s else s)"

definition deterministicPublicationBranch ::
  "string \<Rightarrow> string \<Rightarrow> string \<Rightarrow> int \<Rightarrow> string" where
  "deterministicPublicationBranch pre incidentId recoveryId patchVersion =
     drop_final_slash pre @ ''/'' @ take 12 (clean_segment incidentId) @ ''-''
     @ take 12 (clean_segment recoveryId) @ ''-v'' @ show_int patchVersion"

section \<open>Checks and merge readiness\<close>

definition normalizeGithubCheck :: "string \<Rightarrow> string option \<Rightarrow> NormalizedCheckStatus" where
  "normalizeGithubCheck status conclusion =
     (let normalizedStatus = to_lower status; normalizedConclusion = map_option to_lower conclusion
      in if normalizedStatus \<in> {''queued'', ''requested'', ''waiting'', ''pending''}
         then NormalizedCheckStatus.QUEUED
         else if normalizedStatus = ''in_progress'' \<or> normalizedStatus = ''running''
         then NormalizedCheckStatus.RUNNING
         else if normalizedConclusion = Some ''success'' then NormalizedCheckStatus.PASSED
         else if normalizedConclusion
                 \<in> {Some ''failure'', Some ''action_required'', Some ''startup_failure''}
         then NormalizedCheckStatus.FAILED
         else if normalizedConclusion = Some ''cancelled'' then NormalizedCheckStatus.CANCELLED
         else if normalizedConclusion = Some ''timed_out'' then NormalizedCheckStatus.TIMED_OUT
         else if normalizedConclusion \<in> {Some ''neutral'', Some ''skipped''}
         then NormalizedCheckStatus.NEUTRAL
         else if normalizedConclusion = Some ''stale'' then NormalizedCheckStatus.STALE
         else NormalizedCheckStatus.RUNNING)"

text \<open>\<open>PASSED\<close> and \<open>NEUTRAL\<close> satisfy a required check.\<close>

definition check_ok :: "CheckState \<Rightarrow> bool" where
  "check_ok c = (chk_status c = NormalizedCheckStatus.PASSED
                 \<or> chk_status c = NormalizedCheckStatus.NEUTRAL)"

definition check_blockers :: "CheckState list \<Rightarrow> string \<Rightarrow> string list" where
  "check_blockers checks required =
     (case row_where (\<lambda>c. chk_name c = required) checks of
        None \<Rightarrow> [''Required check is missing: '' @ required]
      | Some c \<Rightarrow> if check_ok c then [] else [''Required check has not passed: '' @ required])"

text \<open>\<open>latestByActor\<close>: a map that keeps the insertion order of the actors.\<close>

definition latest_by_actor :: "ReviewEntry list \<Rightarrow> (string \<times> ReviewState) list" where
  "latest_by_actor reviews =
     foldl (\<lambda>m r. put_entry (rev_actorId r) (rev_state r) m) [] reviews"

definition code_owner_approvers :: "ReviewEntry list \<Rightarrow> string list" where
  "code_owner_approvers reviews =
     uniq (map rev_actorId
       (filter (\<lambda>r. rev_codeOwner r \<and> rev_state r = ReviewState.APPROVED) reviews))"

definition approval_count :: "ReviewEntry list \<Rightarrow> nat" where
  "approval_count reviews =
     length (filter (\<lambda>(a, s). s = ReviewState.APPROVED) (latest_by_actor reviews))"

definition evaluateMergeReadiness ::
  "MergeReadinessInput \<Rightarrow> PublicationPolicy \<Rightarrow> MergeReadinessDecision" where
  "evaluateMergeReadiness i pol =
     (let latest = latest_by_actor (mri_reviews i);
          approvals = approval_count (mri_reviews i);
          blockers =
            reason_if (\<not> mri_baseCommitCurrent i) ''Base branch has moved since publication.''
            @ reason_if (\<not> mri_publicationIntegrityValid i)
                ''Published tree or patch digest no longer matches the approved package.''
            @ concat (map (check_blockers (mri_requiredChecks i)) (pol_requiredChecks pol))
            @ reason_if (int approvals < pol_requiredApprovals pol)
                (''Only '' @ show_nat approvals @ '' of '' @ show_int (pol_requiredApprovals pol)
                 @ '' required approvals are present.'')
            @ reason_if (ReviewState.CHANGES_REQUESTED \<in> snd ` set latest)
                ''At least one reviewer has requested changes.''
            @ reason_if (pol_requireCodeOwnerApproval pol
                         \<and> code_owner_approvers (mri_reviews i) = [])
                ''A code-owner approval is required.''
            @ reason_if (0 < mri_unresolvedBlockingThreads i)
                ''Blocking review threads remain unresolved.''
            @ reason_if (0 < mri_blockingSecurityFindings i)
                ''Blocking security findings remain open.''
      in \<lparr>mrd_ready = (blockers = []), mrd_blockers = blockers\<rparr>)"

section \<open>Merge closure\<close>

record ReadinessRows =
  rr_baseCommitCurrent :: bool
  rr_publicationIntegrityValid :: bool
  rr_checks :: "CheckState list"
  rr_reviews :: "ReviewEntry list"
  rr_unresolvedBlockingThreads :: int
  rr_pullRequestDraft :: bool

definition toMergeReadinessInput :: "ReadinessRows \<Rightarrow> MergeReadinessInput" where
  "toMergeReadinessInput rows =
     \<lparr>mri_baseCommitCurrent = rr_baseCommitCurrent rows,
      mri_publicationIntegrityValid = rr_publicationIntegrityValid rows,
      mri_requiredChecks = rr_checks rows, mri_reviews = rr_reviews rows,
      mri_unresolvedBlockingThreads = rr_unresolvedBlockingThreads rows,
      mri_blockingSecurityFindings = 0,
      mri_pullRequestDraft = rr_pullRequestDraft rows\<rparr>"

definition latestReviewStates :: "(string \<times> ReviewState) list \<Rightarrow> ReviewEntry list" where
  "latestReviewStates reviews =
     map (\<lambda>(a, s). \<lparr>rev_actorId = a, rev_state = s, rev_codeOwner = False\<rparr>)
       (foldl (\<lambda>m (a, s). put_entry a s m) [] reviews)"

record PostMergeVerificationInput =
  pm_mergeObserved :: bool
  pm_mergeCommitSha :: "string option"
  pm_approvedHeadSha :: "string option"
  pm_publishedCommitSha :: "string option"
  pm_requiredChecksPassed :: bool
  pm_originalFailureResolved :: bool
  pm_rollbackObserved :: bool
  pm_postMergeVerificationRequired :: bool

datatype PostMergeOutcome = PASSED | FAILED

record PostMergeDecision =
  pmd_outcome :: PostMergeOutcome
  pmd_blockers :: "string list"

text \<open>A nullable string that is truthy: present and not empty.\<close>

definition truthy :: "string option \<Rightarrow> bool" where
  "truthy x = (case x of None \<Rightarrow> False | Some s \<Rightarrow> s \<noteq> [])"

definition decidePostMergeVerification :: "PostMergeVerificationInput \<Rightarrow> PostMergeDecision" where
  "decidePostMergeVerification i =
     (let blockers =
        reason_if (\<not> pm_mergeObserved i \<or> \<not> truthy (pm_mergeCommitSha i))
          ''No merge commit was observed.''
        @ reason_if (pm_rollbackObserved i) ''A rollback or revert was observed after merge.''
        @ reason_if (truthy (pm_approvedHeadSha i) \<and> truthy (pm_publishedCommitSha i)
                     \<and> pm_approvedHeadSha i \<noteq> pm_publishedCommitSha i)
            ''Merged head does not match the approved published commit.''
        @ reason_if (pm_postMergeVerificationRequired i \<and> \<not> pm_requiredChecksPassed i)
            ''Required checks did not pass on the merged head.''
        @ reason_if (\<not> pm_originalFailureResolved i)
            ''The original failure is not recorded as resolved.''
      in \<lparr>pmd_outcome = (if blockers = [] then PASSED else FAILED), pmd_blockers = blockers\<rparr>)"

definition requiredChecksPassed :: "PublicationPolicy \<Rightarrow> CheckState list \<Rightarrow> bool" where
  "requiredChecksPassed pol checks =
     list_all (\<lambda>required. case row_where (\<lambda>c. chk_name c = required) checks of
                 None \<Rightarrow> False | Some c \<Rightarrow> check_ok c) (pol_requiredChecks pol)"

section \<open>What the lifecycle promises\<close>

text \<open>
  How far a status is on the way from the request to the closure. A failed step ranks just below
  the step it may retry, and a status that leads back to a revision ranks lowest.
\<close>

definition publication_stages :: "PublicationStatus list" where
  "publication_stages =
     [PublicationStatus.POLICY_CHECK, PublicationStatus.COMMIT_MATERIALIZING,
      PublicationStatus.BRANCH_PUBLISHING, PublicationStatus.DRAFT_PR_CREATING,
      PublicationStatus.CI_MONITORING, PublicationStatus.REVIEW_MONITORING,
      PublicationStatus.AWAITING_REVIEW, PublicationStatus.READY_FOR_HUMAN_MERGE,
      PublicationStatus.MERGED, PublicationStatus.POST_MERGE_VERIFYING,
      PublicationStatus.RECOVERY_CONFIRMED, PublicationStatus.CLOSED]"

definition publication_stage :: "nat \<Rightarrow> PublicationStatus" where
  "publication_stage k = publication_stages ! (k - 1)"

fun publication_rank :: "PublicationStatus \<Rightarrow> nat" where
  "publication_rank PublicationStatus.POLICY_CHECK = 1"
| "publication_rank PublicationStatus.COMMIT_MATERIALIZING = 2"
| "publication_rank PublicationStatus.BRANCH_PUBLISHING = 3"
| "publication_rank PublicationStatus.DRAFT_PR_CREATING = 4"
| "publication_rank PublicationStatus.CI_MONITORING = 5"
| "publication_rank PublicationStatus.REVIEW_MONITORING = 6"
| "publication_rank PublicationStatus.AWAITING_REVIEW = 7"
| "publication_rank PublicationStatus.READY_FOR_HUMAN_MERGE = 8"
| "publication_rank PublicationStatus.MERGED = 9"
| "publication_rank PublicationStatus.POST_MERGE_VERIFYING = 10"
| "publication_rank PublicationStatus.RECOVERY_CONFIRMED = 11"
| "publication_rank PublicationStatus.CLOSED = 12"
| "publication_rank PublicationStatus.PUSH_FAILED = 2"
| "publication_rank PublicationStatus.PR_CREATION_FAILED = 3"
| "publication_rank PublicationStatus.CI_FAILED = 4"
| "publication_rank _ = 0"

lemma publication_pipeline: "pipeline publication_transitions publication_rank publication_stage"
  unfolding pipeline_def
proof
  fix a
  show "\<forall>b \<in> set (publication_transitions a). publication_rank b \<le> publication_rank a
          \<or> publication_rank b = Suc (publication_rank a) \<and> b = publication_stage (publication_rank b)"
    by (cases a) (simp_all add: publication_stage_def publication_stages_def)
qed

lemma stages_before_visited:
  assumes "accepted assertPublicationTransition PublicationStatus.PUBLICATION_REQUESTED ts"
    and "ts \<noteq> []" "0 < k" "k \<le> publication_rank (last ts)"
  shows "publication_stage k \<in> set ts"
  using publication.pipeline_stages_visited [OF publication_pipeline assms(1), of k] assms(2-4)
  by simp

text \<open>
  C34: a publication that reaches CLOSED from its request by permitted transitions has been through
  every stage: policy check, commit, branch, draft pull request, CI, review, human merge, merge,
  post-merge verification and confirmation, whatever retries and revisions lay between.
\<close>

lemma closed_after_every_stage:
  assumes "accepted assertPublicationTransition PublicationStatus.PUBLICATION_REQUESTED ts"
    and "ts \<noteq> []" "last ts = PublicationStatus.CLOSED"
  shows "set publication_stages \<subseteq> set ts"
proof
  fix st
  assume "st \<in> set publication_stages"
  then obtain i where i: "i < length publication_stages" "st = publication_stages ! i"
    by (auto simp: in_set_conv_nth)
  then have "st = publication_stage (Suc i)" "Suc i \<le> 12"
    by (simp_all add: publication_stage_def publication_stages_def)
  with stages_before_visited [OF assms(1,2), of "Suc i"] assms(3) show "st \<in> set ts" by simp
qed

text \<open>A history that fails its push once, is revised after a review, and is merged.\<close>

definition eventful_history :: "PublicationStatus list" where
  "eventful_history =
     [PublicationStatus.POLICY_CHECK, PublicationStatus.COMMIT_MATERIALIZING,
      PublicationStatus.BRANCH_PUBLISHING, PublicationStatus.PUSH_FAILED,
      PublicationStatus.BRANCH_PUBLISHING, PublicationStatus.DRAFT_PR_CREATING,
      PublicationStatus.CI_MONITORING, PublicationStatus.REVIEW_MONITORING,
      PublicationStatus.CHANGES_REQUESTED, PublicationStatus.REVISION_REQUIRED,
      PublicationStatus.POLICY_CHECK, PublicationStatus.COMMIT_MATERIALIZING,
      PublicationStatus.BRANCH_PUBLISHING, PublicationStatus.DRAFT_PR_CREATING,
      PublicationStatus.CI_MONITORING, PublicationStatus.REVIEW_MONITORING,
      PublicationStatus.AWAITING_REVIEW, PublicationStatus.READY_FOR_HUMAN_MERGE,
      PublicationStatus.MERGED, PublicationStatus.POST_MERGE_VERIFYING,
      PublicationStatus.RECOVERY_CONFIRMED, PublicationStatus.CLOSED]"

lemma closed_after_every_stage_witness:
  "PublicationStatus.AWAITING_REVIEW \<in> set eventful_history"
  by (rule subsetD [OF closed_after_every_stage]) (code_simp+)

text \<open>
  The statuses called terminal are exactly those with no way out: every change to another
  status is refused.
\<close>

lemma terminal_is_dead_end:
  "isTerminalPublicationStatus s \<longleftrightarrow>
     (\<forall>t. assertPublicationTransition s t = Inr () \<longrightarrow> t = s)"
proof -
  have succ: "isTerminalPublicationStatus s \<longleftrightarrow> publication_transitions s = []"
    by (cases s) (simp_all add: isTerminalPublicationStatus_def terminal_publication_def)
  have "s \<notin> set (publication_transitions s)" by (cases s) simp_all
  then have "publication_transitions s = [] \<longleftrightarrow> set (publication_transitions s) \<subseteq> {s}"
    by (cases "publication_transitions s") auto
  with succ show ?thesis using publication.check_accepts by auto
qed

lemma terminal_is_dead_end_witness:
  "\<not> isTerminalPublicationStatus PublicationStatus.PUSH_FAILED
   \<and> isTerminalPublicationStatus PublicationStatus.MERGE_REVERTED"
  unfolding terminal_is_dead_end
  by (auto simp: assertPublicationTransition_def
      intro!: exI [of _ PublicationStatus.BRANCH_PUBLISHING])

section \<open>What the policy and the branch name promise\<close>

text \<open>
  A package is allowed to be published exactly when its base branch is on the list, its branch
  has the required prefix and is not the base branch, the security review approved it, its
  verification passed and enough approvals were given; otherwise there is a reason.
\<close>

lemma policy_allows_iff:
  "(pd_allowed (evaluatePublicationPolicy h p pol) \<longleftrightarrow>
     pkg_targetBaseBranch p \<in> set (pol_allowedBaseBranches pol)
     \<and> prefix (pol_recoveryBranchPrefix pol) (pkg_branchName p)
     \<and> pkg_branchName p \<noteq> pkg_targetBaseBranch p
     \<and> pkg_securityReviewApproved p \<and> pkg_verificationPassed p
     \<and> pol_requiredApprovals pol \<le> pkg_publicationApprovalCount p)
   \<and> (pd_allowed (evaluatePublicationPolicy h p pol)
        \<longleftrightarrow> pd_reasons (evaluatePublicationPolicy h p pol) = [])"
  by (auto simp: evaluatePublicationPolicy_def policy_reasons_def Let_def startsWith_iff)

lemma hyphenate_chars:
  "c \<in> set (hyphenate b s) \<Longrightarrow> is_lower c \<or> is_digit c \<or> c = CHR ''-''"
  by (induction b s rule: hyphenate.induct) (auto split: if_splits)

lemma clean_segment_chars:
  "c \<in> set (clean_segment v) \<Longrightarrow> is_lower c \<or> is_digit c \<or> c = CHR ''-''"
  by (auto simp: clean_segment_def strip_hyphens_def dest!: set_dropWhileD dest: hyphenate_chars)

lemma drop_final_slash_prefix: "prefix s (drop_final_slash s @ ''/'')"
proof (cases "s \<noteq> [] \<and> last s = CHR ''/''")
  case True
  then have "drop_final_slash s @ ''/'' = s"
    using append_butlast_last_id [of s] by (simp add: drop_final_slash_def)
  then show ?thesis by simp
next
  case False
  then have "drop_final_slash s = s" by (auto simp: drop_final_slash_def)
  then show ?thesis by simp
qed

lemma show_nat_digits: "c \<in> set (show_nat n) \<Longrightarrow> is_digit c"
proof (induction n rule: show_nat.induct)
  case (1 n)
  have dig: "is_digit (char_of (48 + k))" if "k < 10" for k :: nat
  proof -
    have "k \<in> {0, 1, 2, 3, 4, 5, 6, 7, 8, 9}" using that by (simp add: numeral_eq_Suc less_Suc_eq) blast?
    then show ?thesis by (elim insertE emptyE; hypsubst; code_simp)
  qed
  show ?case
  proof (cases "n < 10")
    case True
    then show ?thesis using 1(2) dig by (subst (asm) show_nat.simps) simp
  next
    case False
    then have "c \<in> set (show_nat (n div 10)) \<or> c = char_of (48 + n mod 10)"
      using 1(2) by (subst (asm) show_nat.simps) auto
    then show ?thesis using 1(1) [OF False] dig [of "n mod 10"] by auto
  qed
qed

text \<open>
  The branch the control plane publishes to always has the policy's prefix, so the policy's
  prefix check accepts it, and after the prefix and a slash it has only lower-case letters, digits
  and hyphens: no identifier can add a path segment or an option to the name.
\<close>

lemma branch_name_shape:
  assumes "0 \<le> v"
  shows "startsWith (deterministicPublicationBranch pre i r v) pre
    \<and> (\<exists>name. deterministicPublicationBranch pre i r v = drop_final_slash pre @ ''/'' @ name
         \<and> list_all (\<lambda>c. is_lower c \<or> is_digit c \<or> c = CHR ''-'') name)"
proof
  let ?name = "take 12 (clean_segment i) @ ''-'' @ take 12 (clean_segment r) @ ''-v'' @ show_int v"
  have shape: "deterministicPublicationBranch pre i r v = drop_final_slash pre @ ''/'' @ ?name"
    by (simp add: deterministicPublicationBranch_def)
  show "startsWith (deterministicPublicationBranch pre i r v) pre"
    unfolding startsWith_iff shape using drop_final_slash_prefix [of pre]
    by (metis append_assoc prefix_prefix)
  have "is_lower (CHR ''v'')" by code_simp
  then have "list_all (\<lambda>c. is_lower c \<or> is_digit c \<or> c = CHR ''-'') ?name"
    using assms show_nat_digits
    by (auto simp: list_all_iff show_int_def dest!: in_set_takeD clean_segment_chars)
  with shape show "\<exists>name. deterministicPublicationBranch pre i r v = drop_final_slash pre @ ''/'' @ name
         \<and> list_all (\<lambda>c. is_lower c \<or> is_digit c \<or> c = CHR ''-'') name" by blast
qed

lemma branch_name_shape_witness:
  "startsWith (deterministicPublicationBranch ''codeer/recovery/'' ''INC 7/../main'' ''rec_01'' 2)
     ''codeer/recovery/''"
  using branch_name_shape [of 2 "''codeer/recovery/''" "''INC 7/../main''" "''rec_01''"] by simp

section \<open>What merge readiness promises\<close>

text \<open>A reviewer's standing is the state of their last review.\<close>

definition last_review :: "ReviewEntry list \<Rightarrow> string \<Rightarrow> ReviewState option" where
  "last_review reviews a = map_option rev_state (find (\<lambda>r. rev_actorId r = a) (rev reviews))"

lemma map_of_put_entry: "map_of (put_entry k v es) = (map_of es)(k \<mapsto> v)"
  by (induction es) auto

lemma keys_put_entry: "fst ` set (put_entry k v es) = insert k (fst ` set es)"
proof (induction es)
  case (Cons e es)
  then show ?case by (cases e) (simp add: insert_commute)
qed simp

lemma distinct_put_entry:
  "distinct (map fst es) \<Longrightarrow> distinct (map fst (put_entry k v es))"
proof (induction es)
  case (Cons e es)
  then show ?case using keys_put_entry [of k v es] by (cases e) auto
qed simp

lemma latest_by_actor_snoc:
  "latest_by_actor (rs @ [r]) = put_entry (rev_actorId r) (rev_state r) (latest_by_actor rs)"
  by (simp add: latest_by_actor_def)

lemma map_of_latest: "map_of (latest_by_actor rs) a = last_review rs a"
proof (induction rs rule: rev_induct)
  case Nil
  then show ?case by (simp add: latest_by_actor_def last_review_def)
next
  case (snoc r rs)
  then show ?case by (auto simp: latest_by_actor_snoc map_of_put_entry last_review_def)
qed

lemma distinct_latest: "distinct (map fst (latest_by_actor rs))"
proof (induction rs rule: rev_induct)
  case Nil
  then show ?case by (simp add: latest_by_actor_def)
next
  case (snoc r rs)
  then show ?case by (simp add: latest_by_actor_snoc distinct_put_entry)
qed

lemma latest_entry_iff: "(a, s) \<in> set (latest_by_actor rs) \<longleftrightarrow> last_review rs a = Some s"
  using map_of_eq_Some_iff [OF distinct_latest, of rs a s] map_of_latest [of rs a] by auto

lemma approval_count_card: "approval_count rs = card {a. last_review rs a = Some ReviewState.APPROVED}"
proof -
  let ?es = "filter (\<lambda>(a, s). s = ReviewState.APPROVED) (latest_by_actor rs)"
  have dist: "distinct (map fst ?es)"
    using distinct_latest [of rs] by (rule distinct_map_filter)
  have "set (map fst ?es) = {a. last_review rs a = Some ReviewState.APPROVED}"
    by (force simp: latest_entry_iff)
  with distinct_card [OF dist] show ?thesis by (simp add: approval_count_def)
qed

lemma concat_map_Nil_iff: "concat (map f xs) = [] \<longleftrightarrow> (\<forall>x \<in> set xs. f x = [])"
  by auto

lemma required_checks_no_blockers:
  "requiredChecksPassed pol checks \<longleftrightarrow> concat (map (check_blockers checks) (pol_requiredChecks pol)) = []"
  unfolding concat_map_Nil_iff requiredChecksPassed_def check_blockers_def list_all_iff
  by (intro ball_cong refl) (auto split: option.splits)

lemma code_owner_approvers_Nil_iff:
  "code_owner_approvers rs = [] \<longleftrightarrow>
     (\<forall>r \<in> set rs. rev_codeOwner r \<longrightarrow> rev_state r \<noteq> ReviewState.APPROVED)"
  by (auto simp: code_owner_approvers_def filter_empty_conv)

text \<open>The readiness that the decision stands for, without lists of blockers.\<close>

definition mergeable :: "MergeReadinessInput \<Rightarrow> PublicationPolicy \<Rightarrow> bool" where
  "mergeable i pol =
     (mri_baseCommitCurrent i \<and> mri_publicationIntegrityValid i
      \<and> requiredChecksPassed pol (mri_requiredChecks i)
      \<and> pol_requiredApprovals pol
          \<le> int (card {a. last_review (mri_reviews i) a = Some ReviewState.APPROVED})
      \<and> (\<forall>a. last_review (mri_reviews i) a \<noteq> Some ReviewState.CHANGES_REQUESTED)
      \<and> (pol_requireCodeOwnerApproval pol \<longrightarrow>
           (\<exists>r \<in> set (mri_reviews i). rev_codeOwner r \<and> rev_state r = ReviewState.APPROVED))
      \<and> mri_unresolvedBlockingThreads i \<le> 0 \<and> mri_blockingSecurityFindings i \<le> 0)"

text \<open>
  C35: the merge decision is ready, with no blocker, exactly when base and integrity are current,
  each required check passed, enough distinct reviewers approve in their last review and none
  asks for changes in it, a code owner approved if required, and nothing blocking is open.
\<close>

lemma merge_readiness_iff:
  "(mrd_ready (evaluateMergeReadiness i pol) \<longleftrightarrow> mergeable i pol)
   \<and> (mrd_blockers (evaluateMergeReadiness i pol) = [] \<longleftrightarrow> mergeable i pol)"
proof -
  have changes: "ReviewState.CHANGES_REQUESTED \<in> snd ` set (latest_by_actor (mri_reviews i)) \<longleftrightarrow>
      (\<exists>a. last_review (mri_reviews i) a = Some ReviewState.CHANGES_REQUESTED)"
    by (force simp: latest_entry_iff [symmetric] image_iff)
  show ?thesis
    unfolding evaluateMergeReadiness_def mergeable_def Let_def required_checks_no_blockers
    by (auto simp: code_owner_approvers_Nil_iff changes approval_count_card not_less)
qed

text \<open>
  The pull request being a draft does not enter the decision, and a code owner who approved once
  and then asked for changes still counts as a code-owner approval.
\<close>

lemma readiness_ignores_draft:
  "evaluateMergeReadiness (i\<lparr>mri_pullRequestDraft := d\<rparr>) pol = evaluateMergeReadiness i pol"
  by (simp add: evaluateMergeReadiness_def)

lemma withdrawn_code_owner_approval_counts:
  "code_owner_approvers
     [\<lparr>rev_actorId = ''ada'', rev_state = ReviewState.APPROVED, rev_codeOwner = True\<rparr>,
      \<lparr>rev_actorId = ''ada'', rev_state = ReviewState.DISMISSED, rev_codeOwner = True\<rparr>] = [''ada'']"
  by code_simp

text \<open>
  The post-merge verification passes exactly when a merge commit was observed and not rolled
  back, the merged head is the published commit whenever both are known, the required checks
  passed if the policy asks for them, and the original failure is recorded as resolved.
\<close>

lemma post_merge_passes_iff:
  "pmd_outcome (decidePostMergeVerification i) = PASSED \<longleftrightarrow>
     pm_mergeObserved i \<and> truthy (pm_mergeCommitSha i) \<and> \<not> pm_rollbackObserved i
     \<and> (truthy (pm_approvedHeadSha i) \<and> truthy (pm_publishedCommitSha i) \<longrightarrow>
          pm_approvedHeadSha i = pm_publishedCommitSha i)
     \<and> (pm_postMergeVerificationRequired i \<longrightarrow> pm_requiredChecksPassed i)
     \<and> pm_originalFailureResolved i"
  by (auto simp: decidePostMergeVerification_def Let_def)

lemma post_merge_passes_iff_witness:
  "pmd_outcome (decidePostMergeVerification
     \<lparr>pm_mergeObserved = True, pm_mergeCommitSha = Some ''c1'', pm_approvedHeadSha = Some ''a1'',
      pm_publishedCommitSha = Some ''a1'', pm_requiredChecksPassed = True,
      pm_originalFailureResolved = True, pm_rollbackObserved = False,
      pm_postMergeVerificationRequired = True\<rparr>) = PASSED"
  unfolding post_merge_passes_iff by (simp add: truthy_def)

end
