(* ===== verification/Unified_Diff.thy ===== *)
theory Unified_Diff
  imports Contracts Json
begin

text \<open>
  The two parsers of unified diffs, \<open>parseUnifiedDiff\<close> of \<open>packages/recovery/src/diff.ts\<close> and
  \<open>parseUnifiedDiffFiles\<close> of \<open>packages/publication/src/execution.ts\<close>, and the application of a
  parsed patch to a file, \<open>applyFileHunks\<close> of the latter.

  The parsers are the same loop over the lines with three differences, which are the arguments of
  the shared definitions: how a path is normalized, whether an empty line may stand inside a
  hunk, and what is checked of a file's path before its hunks are read. The index of the loops is
  the list of the lines that are left. Line numbers are unbounded integers.
\<close>

section \<open>Paths\<close>

text \<open>\<open>value.replace(/^"|"$/g, '').replace(/\\/g, '/')\<close>.\<close>

definition unquote :: "string \<Rightarrow> string" where
  "unquote s =
     (let s1 = (if startsWith s [CHR 0x22] then tl s else s)
      in if s1 \<noteq> [] \<and> last s1 = CHR 0x22 then butlast s1 else s1)"

definition path_candidate :: "string \<Rightarrow> string" where
  "path_candidate s = replace_char (CHR 0x5C) (CHR ''/'') (unquote s)"

definition dev_null :: string where
  "dev_null = ''/dev/null''"

text \<open>\<open>/^[A-Za-z]:\//\<close>.\<close>

definition drive_path :: "string \<Rightarrow> bool" where
  "drive_path s = (case s of c # d # e # _ \<Rightarrow> is_alpha c \<and> d = CHR '':'' \<and> e = CHR ''/'' | _ \<Rightarrow> False)"

definition invalid_path :: "string \<Rightarrow> bool" where
  "invalid_path s = (CHR 0x00 \<in> set s \<or> startsWith s ''/'' \<or> drive_path s)"

text \<open>\<open>normalizePatchPath\<close> of \<open>execution.ts\<close>.\<close>

definition normalizePatchPath :: "string \<Rightarrow> string + string" where
  "normalizePatchPath value =
     (let candidate = path_candidate value; segments = split_on (CHR ''/'') candidate
      in if candidate = [] \<or> candidate = dev_null then Inr candidate
         else if invalid_path candidate then Inl ''Patch contains an absolute or invalid path.''
         else if ''..'' \<in> set segments \<or> hd segments = ''.git''
         then Inl ''Patch path traversal is not allowed.''
         else Inr (join_with ''/'' (if hd segments = ''.'' then tl segments else segments)))"

text \<open>
  \<open>path.posix.normalize\<close> of a relative path: empty and \<open>.\<close> segments are dropped, \<open>..\<close> removes
  the segment before it, a final slash is kept.
\<close>

fun resolve_segments :: "string list \<Rightarrow> string list \<Rightarrow> string list" where
  "resolve_segments out [] = rev out"
| "resolve_segments out (s # ss) =
     (if s = [] \<or> s = ''.'' then resolve_segments out ss
      else if s = ''..'' \<and> out \<noteq> [] \<and> hd out \<noteq> ''..'' then resolve_segments (tl out) ss
      else resolve_segments (s # out) ss)"

definition posix_normalize :: "string \<Rightarrow> string" where
  "posix_normalize s =
     (let body = join_with ''/'' (resolve_segments [] (split_on (CHR ''/'') s));
          body' = (if body = [] then ''.'' else body)
      in if endsWith s ''/'' then body' @ ''/'' else body')"

text \<open>\<open>normalizePatchPath\<close> of \<open>diff.ts\<close>.\<close>

definition normalizeRecoveryPath :: "string \<Rightarrow> string + string" where
  "normalizeRecoveryPath value =
     (let candidate = path_candidate value; normalized = posix_normalize candidate
      in if candidate = [] \<or> candidate = dev_null then Inr candidate
         else if invalid_path candidate then Inl ''Patch contains an absolute or invalid path.''
         else if normalized = ''..'' \<or> startsWith normalized ''../'' \<or> has_text normalized ''/../''
         then Inl ''Patch path traversal is not allowed.''
         else if startsWith normalized ''.git/'' \<or> normalized = ''.git''
         then Inl ''Patches may not modify Git metadata.''
         else Inr normalized)"

section \<open>Headers\<close>

text \<open>\<open>.\<close> of a regular expression does not match a carriage return.\<close>

definition no_return :: "string \<Rightarrow> bool" where
  "no_return s = (CHR 0x0D \<notin> set s)"

text \<open>The last \<open>" b/"\<close> with something before and after it: \<open>(.+) b\/(.+)\<close> is greedy.\<close>

fun split_last_b :: "string \<Rightarrow> string \<Rightarrow> (string \<times> string) option" where
  "split_last_b pre [] = None"
| "split_last_b pre (c # s) =
     (case split_last_b (pre @ [c]) s of
        Some r \<Rightarrow> Some r
      | None \<Rightarrow> if pre \<noteq> [] \<and> startsWith (c # s) '' b/'' \<and> length (c # s) > 3
                then Some (pre, drop 3 (c # s)) else None)"

definition DIFF_HEADER :: "string \<Rightarrow> (string \<times> string) option" where
  "DIFF_HEADER line =
     (if startsWith line ''diff --git a/'' \<and> no_return line
      then split_last_b [] (drop 13 line) else None)"

definition read_number :: "string \<Rightarrow> (int \<times> string) option" where
  "read_number s =
     (let ds = takeWhile is_digit s
      in if ds = [] then None
         else Some (foldl (\<lambda>n c. 10 * n + (int (char_code c) - 48)) 0 ds, dropWhile is_digit s))"

text \<open>\<open>(\d+)(?:,(\d+))?\<close>: a start and a count, which is 1 when it is left out.\<close>

definition read_range :: "string \<Rightarrow> (int \<times> int \<times> string) option" where
  "read_range s =
     (case read_number s of
        None \<Rightarrow> None
      | Some (start, r) \<Rightarrow>
          (case r of
             c # r' \<Rightarrow> (if c = CHR '','' then map_option (\<lambda>(n, r''). (start, n, r'')) (read_number r')
                       else Some (start, 1, r))
           | [] \<Rightarrow> Some (start, 1, r)))"

definition strip_start :: "string \<Rightarrow> string \<Rightarrow> string option" where
  "strip_start p s = (if startsWith s p then Some (drop (length p) s) else None)"

definition HUNK_HEADER :: "string \<Rightarrow> (int \<times> int \<times> int \<times> int) option" where
  "HUNK_HEADER line =
     (case Option.bind (strip_start ''@@ -'' line) read_range of
        None \<Rightarrow> None
      | Some (os, ol, r) \<Rightarrow>
          (case Option.bind (strip_start '' +'' r) read_range of
             None \<Rightarrow> None
           | Some (ns, nl, r') \<Rightarrow>
               (case strip_start '' @@'' r' of
                  None \<Rightarrow> None
                | Some e \<Rightarrow> if e = [] \<or> startsWith e '' '' \<and> no_return e
                            then Some (os, ol, ns, nl) else None)))"

section \<open>A file section\<close>

record diff_section =
  sec_oldPath :: "string option"
  sec_newPath :: "string option"
  sec_newFile :: bool
  sec_deletedFile :: bool
  sec_renameFrom :: "string option"
  sec_renameTo :: "string option"

definition starts_next :: "string \<Rightarrow> bool" where
  "starts_next line = (startsWith line ''@@ '' \<or> startsWith line ''diff --git '')"

text \<open>\<open>value === '/dev/null' ? null : normalizePatchPath(value)\<close>, after \<open>a/\<close> or \<open>b/\<close> is removed.\<close>

definition marked_path :: "(string \<Rightarrow> string + string) \<Rightarrow> string \<Rightarrow> string \<Rightarrow> string + string option" where
  "marked_path nz side s =
     (let value = (if startsWith s side then drop 2 s else s)
      in if value = dev_null then Inr None else map_sum id Some (nz value))"

definition section_line ::
  "(string \<Rightarrow> string + string) \<Rightarrow> diff_section \<Rightarrow> string \<Rightarrow> string + diff_section" where
  "section_line nz s line =
     (if startsWith line ''new file mode '' then Inr (s\<lparr>sec_newFile := True\<rparr>)
      else if startsWith line ''deleted file mode '' then Inr (s\<lparr>sec_deletedFile := True\<rparr>)
      else if startsWith line ''rename from ''
      then map_sum id (\<lambda>p. s\<lparr>sec_renameFrom := Some p\<rparr>) (nz (drop 12 line))
      else if startsWith line ''rename to ''
      then map_sum id (\<lambda>p. s\<lparr>sec_renameTo := Some p\<rparr>) (nz (drop 10 line))
      else if startsWith line ''--- ''
      then map_sum id (\<lambda>p. s\<lparr>sec_oldPath := p\<rparr>) (marked_path nz ''a/'' (drop 4 line))
      else if startsWith line ''+++ ''
      then map_sum id (\<lambda>p. s\<lparr>sec_newPath := p\<rparr>) (marked_path nz ''b/'' (drop 4 line))
      else Inr s)"

fun section_lines ::
  "(string \<Rightarrow> string + string) \<Rightarrow> diff_section \<Rightarrow> string list
   \<Rightarrow> string + (diff_section \<times> string list)" where
  "section_lines nz s [] = Inr (s, [])"
| "section_lines nz s (l # ls) =
     (if starts_next l then Inr (s, l # ls)
      else (case section_line nz s l of Inl e \<Rightarrow> Inl e | Inr s' \<Rightarrow> section_lines nz s' ls))"

text \<open>A string that is present and not empty.\<close>

definition present :: "string option \<Rightarrow> bool" where
  "present x = (case x of None \<Rightarrow> False | Some s \<Rightarrow> s \<noteq> [])"

definition final_old :: "diff_section \<Rightarrow> string option" where
  "final_old s = (if sec_newFile s then None
                  else if present (sec_renameFrom s) then sec_renameFrom s else sec_oldPath s)"

definition final_new :: "diff_section \<Rightarrow> string option" where
  "final_new s = (if sec_deletedFile s then None
                  else if present (sec_renameTo s) then sec_renameTo s else sec_newPath s)"

definition effective_path :: "diff_section \<Rightarrow> string option" where
  "effective_path s = (case final_new s of Some p \<Rightarrow> Some p | None \<Rightarrow> final_old s)"

definition change_type :: "diff_section \<Rightarrow> ChangeType" where
  "change_type s =
     (if final_old s = None then ChangeType.ADD else if final_new s = None then ChangeType.DELETE
      else if present (sec_renameFrom s) then ChangeType.RENAME else ChangeType.MODIFY)"

section \<open>Hunks\<close>

definition no_newline_marker :: string where
  "no_newline_marker = CHR 0x5C # '' No newline at end of file''"

text \<open>What a content line adds: added, deleted and kept lines.\<close>

definition hunk_line :: "bool \<Rightarrow> string \<Rightarrow> string + (int \<times> int \<times> int)" where
  "hunk_line blank_ok line =
     (if startsWith line ''+'' \<and> \<not> startsWith line ''+++'' then Inr (1, 0, 0)
      else if startsWith line ''-'' \<and> \<not> startsWith line ''---'' then Inr (0, 1, 0)
      else if startsWith line '' '' then Inr (0, 0, 1)
      else if line = no_newline_marker \<or> blank_ok \<and> line = [] then Inr (0, 0, 0)
      else Inl (''Invalid hunk content line: '' @ take 120 line))"

record hunk_content =
  hc_lines :: "string list"
  hc_added :: int
  hc_deleted :: int
  hc_kept :: int

definition empty_content :: hunk_content where
  "empty_content = \<lparr>hc_lines = [], hc_added = 0, hc_deleted = 0, hc_kept = 0\<rparr>"

definition add_line :: "string \<Rightarrow> int \<times> int \<times> int \<Rightarrow> hunk_content \<Rightarrow> hunk_content" where
  "add_line l k h = (case k of (a, d, n) \<Rightarrow>
     \<lparr>hc_lines = l # hc_lines h, hc_added = a + hc_added h, hc_deleted = d + hc_deleted h,
      hc_kept = n + hc_kept h\<rparr>)"

fun read_hunk :: "bool \<Rightarrow> string list \<Rightarrow> string + (hunk_content \<times> string list)" where
  "read_hunk blank_ok [] = Inr (empty_content, [])"
| "read_hunk blank_ok (l # ls) =
     (if starts_next l then Inr (empty_content, l # ls)
      else if l = [] \<and> ls = [] then Inr (empty_content, [])
      else (case hunk_line blank_ok l of
              Inl e \<Rightarrow> Inl e
            | Inr k \<Rightarrow> map_sum id (\<lambda>(h, rest). (add_line l k h, rest)) (read_hunk blank_ok ls)))"

record raw_hunk =
  rh_header :: string
  rh_oldStart :: int
  rh_oldLines :: int
  rh_newStart :: int
  rh_newLines :: int
  rh_content :: hunk_content

lemma read_hunk_rest:
  "read_hunk b ls = Inr (h, rest) \<Longrightarrow> length rest \<le> length ls"
  by (induction b ls arbitrary: h rest rule: read_hunk.induct)
    (fastforce split: if_splits sum.splits simp: map_sum_def)+

function parse_hunks ::
  "bool \<Rightarrow> string \<Rightarrow> string list \<Rightarrow> string + (raw_hunk list \<times> string list)" where
  "parse_hunks blank_ok fpath [] = Inr ([], [])"
| "parse_hunks blank_ok fpath (l # ls) =
     (if startsWith l ''diff --git '' then Inr ([], l # ls)
      else if l = [] then parse_hunks blank_ok fpath ls
      else (case HUNK_HEADER l of
              None \<Rightarrow> Inl (''Malformed hunk header: '' @ take 200 l)
            | Some (os, ol, ns, nl) \<Rightarrow>
                (case read_hunk blank_ok ls of
                   Inl e \<Rightarrow> Inl e
                 | Inr (h, rest) \<Rightarrow>
                     if hc_deleted h + hc_kept h \<noteq> ol \<or> hc_added h + hc_kept h \<noteq> nl
                     then Inl (''Hunk line counts do not match header for '' @ fpath @ ''.'')
                     else (case parse_hunks blank_ok fpath rest of
                             Inl e \<Rightarrow> Inl e
                           | Inr (hs, rest') \<Rightarrow>
                               Inr (\<lparr>rh_header = l, rh_oldStart = os, rh_oldLines = ol,
                                     rh_newStart = ns, rh_newLines = nl, rh_content = h\<rparr> # hs,
                                    rest')))))"
  by pat_completeness auto
termination
  by (relation "measure (\<lambda>(b, p, ls). length ls)") (auto dest: read_hunk_rest)

section \<open>Files\<close>

record raw_file =
  rf_oldPath :: "string option"
  rf_newPath :: "string option"
  rf_effectivePath :: string
  rf_changeType :: ChangeType
  rf_hunks :: "raw_hunk list"

definition section_of :: "string \<Rightarrow> string \<Rightarrow> diff_section" where
  "section_of old new =
     \<lparr>sec_oldPath = Some old, sec_newPath = Some new, sec_newFile = False,
      sec_deletedFile = False, sec_renameFrom = None, sec_renameTo = None\<rparr>"

text \<open>The two paths of the header line, then the lines up to the first hunk.\<close>

definition file_section ::
  "(string \<Rightarrow> string + string) \<Rightarrow> string \<Rightarrow> string list \<Rightarrow> string + (diff_section \<times> string list)"
where
  "file_section nz l ls =
     (case DIFF_HEADER l of
        None \<Rightarrow> Inl (''Unexpected patch line outside file section: '' @ take 120 l)
      | Some (a, b) \<Rightarrow>
          (case nz a of Inl e \<Rightarrow> Inl e | Inr old \<Rightarrow>
             (case nz b of Inl e \<Rightarrow> Inl e | Inr new \<Rightarrow>
                section_lines nz (section_of old new) ls)))"

text \<open>One file: its section, the check of its path, its hunks.\<close>

definition parse_file ::
  "(string \<Rightarrow> string + string) \<Rightarrow> bool \<Rightarrow> (string \<Rightarrow> string + unit) \<Rightarrow> string \<Rightarrow> string list
   \<Rightarrow> string + (raw_file \<times> string list)" where
  "parse_file nz blank_ok check l ls =
     (case file_section nz l ls of
        Inl e \<Rightarrow> Inl e
      | Inr (s, rest) \<Rightarrow>
          if \<not> present (effective_path s) then Inl ''Patch file section has no usable path.''
          else (let fpath = the (effective_path s) in
            (case check fpath of
               Inl e \<Rightarrow> Inl e
             | Inr _ \<Rightarrow>
                 (case parse_hunks blank_ok fpath rest of
                    Inl e \<Rightarrow> Inl e
                  | Inr (hs, rest') \<Rightarrow>
                      if hs = [] \<and> \<not> present (sec_renameFrom s)
                      then Inl (''Patch file has no hunks: '' @ fpath)
                      else Inr (\<lparr>rf_oldPath = final_old s, rf_newPath = final_new s,
                                 rf_effectivePath = fpath, rf_changeType = change_type s,
                                 rf_hunks = hs\<rparr>, rest')))))"

lemma section_lines_rest:
  "section_lines nz s ls = Inr (s', rest) \<Longrightarrow> length rest \<le> length ls"
  by (induction nz s ls arbitrary: s' rest rule: section_lines.induct)
    (fastforce split: if_splits sum.splits)+

lemma parse_hunks_rest:
  "parse_hunks b p ls = Inr (hs, rest) \<Longrightarrow> length rest \<le> length ls"
proof (induction b p ls arbitrary: hs rest rule: parse_hunks.induct)
  case (2 b p l ls)
  then show ?case
    by (fastforce split: if_splits sum.splits option.splits prod.splits dest: read_hunk_rest)
qed simp

lemma parse_file_rest:
  "parse_file nz b ck l ls = Inr (f, rest) \<Longrightarrow> length rest \<le> length ls"
  by (fastforce simp: parse_file_def file_section_def Let_def
      split: if_splits sum.splits option.splits prod.splits
      dest: parse_hunks_rest section_lines_rest)

function parse_files ::
  "(string \<Rightarrow> string + string) \<Rightarrow> bool \<Rightarrow> (string \<Rightarrow> string + unit) \<Rightarrow> string list
   \<Rightarrow> string + raw_file list" where
  "parse_files nz blank_ok check [] = Inr []"
| "parse_files nz blank_ok check (l # ls) =
     (if l = [] then parse_files nz blank_ok check ls
      else (case parse_file nz blank_ok check l ls of
              Inl e \<Rightarrow> Inl e
            | Inr (f, rest) \<Rightarrow>
                map_sum id (\<lambda>fs. f # fs) (parse_files nz blank_ok check rest)))"
  by pat_completeness auto
termination
  by (relation "measure (\<lambda>(nz, b, ck, ls). length ls)") (auto dest: parse_file_rest)

definition parse_diff ::
  "(string \<Rightarrow> string + string) \<Rightarrow> bool \<Rightarrow> (string \<Rightarrow> string + unit) \<Rightarrow> string
   \<Rightarrow> string + raw_file list" where
  "parse_diff nz blank_ok check diff =
     (if trim diff = [] then Inl ''Patch must not be empty.''
      else if has_text diff ''GIT binary patch'' \<or> has_text diff ''Binary files ''
      then Inl ''Binary patches are not allowed.''
      else if CHR 0x00 \<in> set diff then Inl ''Patch contains binary data.''
      else (case parse_files nz blank_ok check (split_on (CHR 0x0A) (crlf_to_lf diff)) of
              Inl e \<Rightarrow> Inl e
            | Inr fs \<Rightarrow> if fs = [] then Inl ''Patch contains no file changes.'' else Inr fs))"

section \<open>The parser of the publication worker\<close>

record ParsedFilePatch =
  pf_oldPath :: "string option"
  pf_newPath :: "string option"
  pf_changeType :: ChangeType
  pf_hunks :: "(int \<times> int \<times> int \<times> int \<times> string list) list"

definition parsed_hunk :: "raw_hunk \<Rightarrow> int \<times> int \<times> int \<times> int \<times> string list" where
  "parsed_hunk r =
     (rh_oldStart r, rh_oldLines r, rh_newStart r, rh_newLines r, hc_lines (rh_content r))"

definition parsed_file :: "raw_file \<Rightarrow> ParsedFilePatch" where
  "parsed_file f =
     \<lparr>pf_oldPath = rf_oldPath f, pf_newPath = rf_newPath f, pf_changeType = rf_changeType f,
      pf_hunks = map parsed_hunk (rf_hunks f)\<rparr>"

definition parseUnifiedDiffFiles :: "string \<Rightarrow> string + ParsedFilePatch list" where
  "parseUnifiedDiffFiles diff =
     map_sum id (map parsed_file) (parse_diff normalizePatchPath False (\<lambda>_. Inr ()) diff)"

section \<open>The parser of the recovery engine\<close>

record PatchProvenance =
  prov_treatmentPlanStep :: int
  prov_citations :: "InvestigationCitation list"

record ParsedPatch =
  pp_files :: "PatchFile list"
  pp_changedFiles :: int
  pp_addedLines :: int
  pp_deletedLines :: int
  pp_patchDigest :: string

definition provenance_check ::
  "(string \<Rightarrow> PatchProvenance option) \<Rightarrow> string \<Rightarrow> string + unit" where
  "provenance_check prov p =
     (case prov p of
        None \<Rightarrow> Inl (''Patch file lacks treatment-plan provenance: '' @ p)
      | Some v \<Rightarrow> if prov_citations v = []
                  then Inl (''Patch file lacks treatment-plan provenance: '' @ p) else Inr ())"

text \<open>The hunk's content: its header line and its lines.\<close>

definition hunk_text :: "raw_hunk \<Rightarrow> string" where
  "hunk_text r = join_with [CHR 0x0A] (rh_header r # hc_lines (rh_content r))"

definition patch_hunk ::
  "host \<Rightarrow> (nat \<Rightarrow> string) \<Rightarrow> PatchProvenance \<Rightarrow> string \<Rightarrow> nat \<Rightarrow> nat \<Rightarrow> raw_hunk \<Rightarrow> PatchHunk" where
  "patch_hunk h uuid v file_id n i r =
     \<lparr>hunkId = uuid n, hunkFileId = file_id, sequence = int i + 1,
      oldStart = rh_oldStart r, oldLines = rh_oldLines r, newStart = rh_newStart r,
      newLines = rh_newLines r, header = rh_header r, content = hunk_text r,
      hunkAddedLines = hc_added (rh_content r), hunkDeletedLines = hc_deleted (rh_content r),
      treatmentPlanStep = prov_treatmentPlanStep v, evidenceCitations = prov_citations v,
      contentHash = sha256 h (hunk_text r)\<rparr>"

text \<open>
  The identifiers are drawn in the order of the code: the file, its hunks, its patch. The
  provenance is that of the file's path, which the check has found.
\<close>

definition patch_file ::
  "host \<Rightarrow> (nat \<Rightarrow> string) \<Rightarrow> (string \<Rightarrow> PatchProvenance option) \<Rightarrow> nat \<Rightarrow> raw_file \<Rightarrow> PatchFile" where
  "patch_file h uuid prov n f =
     (let v = (case prov (rf_effectivePath f) of Some v \<Rightarrow> v
               | None \<Rightarrow> \<lparr>prov_treatmentPlanStep = 0, prov_citations = []\<rparr>)
      in \<lparr>fileId = uuid n, patchId = uuid (n + length (rf_hunks f) + 1),
          oldPath = rf_oldPath f, newPath = rf_newPath f, changeType = rf_changeType f,
          oldDigest = None, newDigest = None,
          addedLines = sum_list (map (\<lambda>r. hc_added (rh_content r)) (rf_hunks f)),
          deletedLines = sum_list (map (\<lambda>r. hc_deleted (rh_content r)) (rf_hunks f)),
          binary = False, generated = False, sensitive = False,
          hunks = map (\<lambda>(i, r). patch_hunk h uuid v (uuid n) (n + 1 + i) i r)
                    (enumerate 0 (rf_hunks f))\<rparr>)"

fun patch_files ::
  "host \<Rightarrow> (nat \<Rightarrow> string) \<Rightarrow> (string \<Rightarrow> PatchProvenance option) \<Rightarrow> nat \<Rightarrow> raw_file list
   \<Rightarrow> PatchFile list" where
  "patch_files h uuid prov n [] = []"
| "patch_files h uuid prov n (f # fs) =
     patch_file h uuid prov n f # patch_files h uuid prov (n + length (rf_hunks f) + 2) fs"

definition parseUnifiedDiff ::
  "host \<Rightarrow> (nat \<Rightarrow> string) \<Rightarrow> string \<Rightarrow> (string \<Rightarrow> PatchProvenance option) \<Rightarrow> string + ParsedPatch"
where
  "parseUnifiedDiff h uuid diff prov =
     map_sum id (\<lambda>fs.
       let files = patch_files h uuid prov 0 fs
       in \<lparr>pp_files = files, pp_changedFiles = int (length files),
           pp_addedLines = sum_list (map addedLines files),
           pp_deletedLines = sum_list (map deletedLines files),
           pp_patchDigest = sha256 h (crlf_to_lf diff)\<rparr>)
       (parse_diff normalizeRecoveryPath True (provenance_check prov) diff)"

section \<open>Applying a parsed patch\<close>

definition LF :: char where
  "LF = CHR 0x0A"

text \<open>The lines of the base file and whether it ended with a line feed.\<close>

definition base_lines :: "string \<Rightarrow> string list \<times> bool" where
  "base_lines base =
     (if base = [] then ([], False)
      else (let ls = split_on LF base
            in if last ls = [] then (butlast ls, True) else (ls, False)))"

record apply_state =
  as_output :: "string list"
  as_oldIndex :: nat
  as_newline :: bool
  as_previous :: string

text \<open>One line of a hunk; \<open>as_previous\<close> is the kind of the line before it.\<close>

definition apply_line ::
  "string \<Rightarrow> string list \<Rightarrow> apply_state \<Rightarrow> string \<Rightarrow> string + apply_state" where
  "apply_line p base s line =
     (if line = no_newline_marker
      then Inr (if as_previous s = ''+'' \<or> as_previous s = '' '' then s\<lparr>as_newline := False\<rparr>
                else if as_previous s = ''-'' then s\<lparr>as_newline := True\<rparr> else s)
      else (let kind = take 1 line; text = drop 1 line;
                matches = (as_oldIndex s < length base \<and> base ! as_oldIndex s = text)
            in if kind = '' ''
               then (if \<not> matches
                     then Inl (''Patch context does not match base content for '' @ p @ ''.'')
                     else Inr (s\<lparr>as_output := as_output s @ [text],
                                 as_oldIndex := Suc (as_oldIndex s), as_previous := kind\<rparr>))
               else if kind = ''-''
               then (if \<not> matches
                     then Inl (''Patch removal does not match base content for '' @ p @ ''.'')
                     else Inr (s\<lparr>as_oldIndex := Suc (as_oldIndex s), as_previous := kind\<rparr>))
               else if kind = ''+''
               then Inr (s\<lparr>as_output := as_output s @ [text], as_previous := kind\<rparr>)
               else Inl (''Invalid hunk line for '' @ p @ ''.'')))"

fun apply_lines ::
  "string \<Rightarrow> string list \<Rightarrow> apply_state \<Rightarrow> string list \<Rightarrow> string + apply_state" where
  "apply_lines p base s [] = Inr s"
| "apply_lines p base s (l # ls) =
     (case apply_line p base s l of Inl e \<Rightarrow> Inl e | Inr s' \<Rightarrow> apply_lines p base s' ls)"

text \<open>\<open>hunk.oldStart === 0 ? 0 : hunk.oldStart - 1\<close>.\<close>

definition start_index :: "int \<Rightarrow> nat" where
  "start_index start = (if start = 0 then 0 else nat (start - 1))"

fun apply_hunks ::
  "string \<Rightarrow> string list \<Rightarrow> apply_state \<Rightarrow> (nat \<times> string list) list \<Rightarrow> string + apply_state" where
  "apply_hunks p base s [] =
     Inr (s\<lparr>as_output := as_output s @ drop (as_oldIndex s) base\<rparr>)"
| "apply_hunks p base s ((start, ls) # hs) =
     (if start < as_oldIndex s
      then Inl (''Patch hunks overlap or are out of order for '' @ p @ ''.'')
      else (case apply_lines p base
              (s\<lparr>as_output := as_output s @ take (start - as_oldIndex s) (drop (as_oldIndex s) base),
                 as_oldIndex := start, as_previous := []\<rparr>) ls of
              Inl e \<Rightarrow> Inl e
            | Inr s' \<Rightarrow> apply_hunks p base s' hs))"

definition hunk_positions :: "ParsedFilePatch \<Rightarrow> (nat \<times> string list) list" where
  "hunk_positions f = map (\<lambda>(os, ol, ns, nl, ls). (start_index os, ls)) (pf_hunks f)"

definition render :: "string list \<Rightarrow> bool \<Rightarrow> string" where
  "render out newline =
     (if newline \<and> out \<noteq> [] then join_with [LF] out @ [LF] else join_with [LF] out)"

definition applyFileHunks :: "string \<Rightarrow> ParsedFilePatch \<Rightarrow> string \<Rightarrow> string + string" where
  "applyFileHunks base f p =
     (case base_lines base of (ls, ends) \<Rightarrow>
        map_sum id (\<lambda>s. render (as_output s) (as_newline s))
          (apply_hunks p ls
             \<lparr>as_output = [], as_oldIndex = 0, as_newline = (base = [] \<or> ends), as_previous = []\<rparr>
             (hunk_positions f)))"

section \<open>What a parsed hunk says\<close>

definition old_side :: "string list \<Rightarrow> string list" where
  "old_side ls = map (drop 1) (filter (\<lambda>l. take 1 l \<in> {'' '', ''-''}) ls)"

definition new_side :: "string list \<Rightarrow> string list" where
  "new_side ls = map (drop 1) (filter (\<lambda>l. take 1 l \<in> {'' '', ''+''}) ls)"

definition content_line :: "string \<Rightarrow> bool" where
  "content_line l = (take 1 l \<in> {'' '', ''-'', ''+''} \<or> l = no_newline_marker)"

lemma side_simps [simp]:
  "old_side [] = []" "new_side [] = []"
  "old_side (l # ls) = (if take 1 l \<in> {'' '', ''-''} then drop 1 l # old_side ls else old_side ls)"
  "new_side (l # ls) = (if take 1 l \<in> {'' '', ''+''} then drop 1 l # new_side ls else new_side ls)"
  by (simp_all add: old_side_def new_side_def)

lemma hunk_line_cases:
  assumes "hunk_line b l = Inr k"
  shows "(take 1 l = ''+'' \<and> k = (1, 0, 0)) \<or> (take 1 l = ''-'' \<and> k = (0, 1, 0))
    \<or> (take 1 l = '' '' \<and> k = (0, 0, 1))
    \<or> ((l = no_newline_marker \<or> b \<and> l = []) \<and> k = (0, 0, 0))"
  using assms by (auto simp: hunk_line_def startsWith_def split: if_splits)

lemma marker_kind [simp]: "take (Suc 0) no_newline_marker = [CHR 0x5C]"
  by (simp add: no_newline_marker_def)

lemma content_lineI:
  "take (Suc 0) l = '' '' \<Longrightarrow> content_line l" "take (Suc 0) l = ''-'' \<Longrightarrow> content_line l"
  "take (Suc 0) l = ''+'' \<Longrightarrow> content_line l" "content_line no_newline_marker"
  by (simp_all add: content_line_def)

lemma read_hunk_counts:
  "read_hunk b ls = Inr (h, rest) \<Longrightarrow>
     hc_deleted h + hc_kept h = int (length (old_side (hc_lines h)))
     \<and> hc_added h + hc_kept h = int (length (new_side (hc_lines h)))
     \<and> (\<not> b \<longrightarrow> list_all content_line (hc_lines h))"
proof (induction b ls arbitrary: h rest rule: read_hunk.induct)
  case (1 b)
  then show ?case by (auto simp: empty_content_def)
next
  case (2 b l ls)
  show ?case
  proof (cases "starts_next l \<or> l = [] \<and> ls = []")
    case True
    with 2(2) show ?thesis by (auto simp: empty_content_def split: if_splits)
  next
    case False
    with 2(2) obtain k h' where k: "hunk_line b l = Inr k"
      and h': "read_hunk b ls = Inr (h', rest)" "h = add_line l k h'"
      by (cases "hunk_line b l"; cases "read_hunk b ls") auto
    from 2(1) [OF _ _ k h'(1)] False
    have IH: "hc_deleted h' + hc_kept h' = int (length (old_side (hc_lines h')))"
      "hc_added h' + hc_kept h' = int (length (new_side (hc_lines h')))"
      "\<not> b \<longrightarrow> list_all content_line (hc_lines h')" by auto
    from hunk_line_cases [OF k] show ?thesis
      using IH h'(2) by (elim disjE conjE) (auto simp: add_line_def intro: content_lineI)
  qed
qed

lemma parse_hunks_counts:
  "parse_hunks b p ls = Inr (hs, rest) \<Longrightarrow>
     list_all (\<lambda>r. rh_oldLines r = int (length (old_side (hc_lines (rh_content r))))
                    \<and> rh_newLines r = int (length (new_side (hc_lines (rh_content r))))
                    \<and> (\<not> b \<longrightarrow> list_all content_line (hc_lines (rh_content r)))) hs"
proof (induction b p ls arbitrary: hs rest rule: parse_hunks.induct)
  case (1 b p)
  then show ?case by auto
next
  case (2 b p l ls)
  show ?case
  proof (cases "startsWith l ''diff --git '' \<or> l = []")
    case True
    with 2 show ?thesis by (auto split: if_splits)
  next
    case False
    with "2.prems" obtain os ol ns nl h mid hs' where *: "HUNK_HEADER l = Some (os, ol, ns, nl)"
      "read_hunk b ls = Inr (h, mid)" "hc_deleted h + hc_kept h = ol" "hc_added h + hc_kept h = nl"
      "parse_hunks b p mid = Inr (hs', rest)"
      "hs = \<lparr>rh_header = l, rh_oldStart = os, rh_oldLines = ol, rh_newStart = ns,
             rh_newLines = nl, rh_content = h\<rparr> # hs'"
      by (auto split: option.splits prod.splits sum.splits if_splits)
    from False *(3,4) have IH: "list_all (\<lambda>r. rh_oldLines r = int (length (old_side (hc_lines (rh_content r))))
                    \<and> rh_newLines r = int (length (new_side (hc_lines (rh_content r))))
                    \<and> (\<not> b \<longrightarrow> list_all content_line (hc_lines (rh_content r)))) hs'"
      by (intro "2.IH"(2) [OF _ _ *(1) _ _ _ *(2) _ _ *(5)]) auto
    from IH read_hunk_counts [OF *(2)] *(3,4,6) show ?thesis by simp
  qed
qed

lemma parse_file_counts:
  assumes "parse_file nz b ck l ls = Inr (f, rest)"
  shows "list_all (\<lambda>r. rh_oldLines r = int (length (old_side (hc_lines (rh_content r))))
                    \<and> rh_newLines r = int (length (new_side (hc_lines (rh_content r))))
                    \<and> (\<not> b \<longrightarrow> list_all content_line (hc_lines (rh_content r)))) (rf_hunks f)"
  using assms unfolding parse_file_def
  by (auto simp: Let_def split: sum.splits prod.splits if_splits dest!: parse_hunks_counts)

lemma parse_files_all:
  "parse_files nz b ck ls = Inr fs \<Longrightarrow>
     (\<And>l ls f rest. parse_file nz b ck l ls = Inr (f, rest) \<Longrightarrow> P f) \<Longrightarrow> list_all P fs"
proof (induction nz b ck ls arbitrary: fs rule: parse_files.induct)
  case (1 nz b ck)
  then show ?case by simp
next
  case (2 nz b ck l ls)
  show ?case
  proof (cases "l = []")
    case True
    with 2 show ?thesis by simp
  next
    case False
    with "2.prems"(1) obtain f rest fs' where f: "parse_file nz b ck l ls = Inr (f, rest)"
      and fs: "parse_files nz b ck rest = Inr fs'" "fs = f # fs'"
      by (auto simp: map_sum_def split: sum.splits prod.splits)
    have "P f" using f by (rule "2.prems"(2))
    moreover have "list_all P fs'" by (rule "2.IH"(2) [OF False f refl fs(1) "2.prems"(2)])
    ultimately show ?thesis using fs(2) by simp
  qed
qed

section \<open>What applying a patch does\<close>

text \<open>
  The effect of hunks on the lines that are left from line \<open>i\<close> of the file: the lines before a hunk
  stay, its old side is found there and its new side takes the place.
\<close>

inductive patched ::
  "nat \<Rightarrow> (nat \<times> string list) list \<Rightarrow> string list \<Rightarrow> string list \<Rightarrow> bool" where
  no_hunk: "patched i [] rem rem"
| one_hunk: "i \<le> start \<Longrightarrow> drop (start - i) rem = old_side ls @ rest
    \<Longrightarrow> patched (start + length (old_side ls)) hs rest out
    \<Longrightarrow> patched i ((start, ls) # hs) rem (take (start - i) rem @ new_side ls @ out)"

inductive_cases patched_NilE: "patched i [] rem out"
inductive_cases patched_ConsE: "patched i (h # hs) rem out"

lemma apply_line_marker:
  "apply_line p base s no_newline_marker = Inr s' \<Longrightarrow>
     as_output s' = as_output s \<and> as_oldIndex s' = as_oldIndex s"
  by (auto simp: apply_line_def)

lemma apply_line_Inr_marker: "\<exists>s'. apply_line p base s no_newline_marker = Inr s'"
  by (simp add: apply_line_def)

lemma drop_Cons_iff: "drop i xs = x # r \<longleftrightarrow> i < length xs \<and> xs ! i = x \<and> drop (Suc i) xs = r"
  by (metis Cons_nth_drop_Suc drop_all list.distinct(1) list.inject not_le)

text \<open>The lines of one hunk go through exactly when its old side stands at the index.\<close>

lemma apply_lines_Inr:
  "apply_lines p base s ls = Inr s' \<Longrightarrow>
     as_output s' = as_output s @ new_side ls
     \<and> as_oldIndex s' = as_oldIndex s + length (old_side ls)
     \<and> prefix (old_side ls) (drop (as_oldIndex s) base)"
proof (induction ls arbitrary: s)
  case Nil
  then show ?case by simp
next
  case (Cons l ls)
  then obtain s1 where l: "apply_line p base s l = Inr s1" and ls: "apply_lines p base s1 ls = Inr s'"
    by (auto split: sum.splits)
  note IH = Cons.IH [OF ls]
  show ?case
  proof (cases "l = no_newline_marker")
    case True
    with l IH apply_line_marker [of p base s s1] show ?thesis by simp
  next
    case False
    from l False have "take 1 l = '' '' \<or> take 1 l = ''-'' \<or> take 1 l = ''+''"
      by (auto simp: apply_line_def Let_def split: if_splits)
    then show ?thesis
    proof (elim disjE)
      assume k: "take 1 l = '' ''"
      with l False have i: "as_oldIndex s < length base" "base ! as_oldIndex s = drop 1 l"
        and s1: "s1 = s\<lparr>as_output := as_output s @ [drop 1 l], as_oldIndex := Suc (as_oldIndex s),
                       as_previous := '' ''\<rparr>"
        by (auto simp: apply_line_def Let_def split: if_splits)
      from i have "drop (as_oldIndex s) base = drop 1 l # drop (Suc (as_oldIndex s)) base"
        by (simp add: drop_Cons_iff)
      with k s1 IH show ?thesis by simp
    next
      assume k: "take 1 l = ''-''"
      with l False have i: "as_oldIndex s < length base" "base ! as_oldIndex s = drop 1 l"
        and s1: "s1 = s\<lparr>as_oldIndex := Suc (as_oldIndex s), as_previous := ''-''\<rparr>"
        by (auto simp: apply_line_def Let_def split: if_splits)
      from i have "drop (as_oldIndex s) base = drop 1 l # drop (Suc (as_oldIndex s)) base"
        by (simp add: drop_Cons_iff)
      with k s1 IH show ?thesis by simp
    next
      assume k: "take 1 l = ''+''"
      with l False have "s1 = s\<lparr>as_output := as_output s @ [drop 1 l], as_previous := ''+''\<rparr>"
        by (auto simp: apply_line_def Let_def split: if_splits)
      with k IH show ?thesis by simp
    qed
  qed
qed

lemma apply_lines_total:
  assumes "list_all content_line ls" "prefix (old_side ls) (drop (as_oldIndex s) base)"
  shows "\<exists>s'. apply_lines p base s ls = Inr s'"
  using assms
proof (induction ls arbitrary: s)
  case Nil
  then show ?case by simp
next
  case (Cons l ls)
  have step: "\<exists>s1. apply_line p base s l = Inr s1 \<and> prefix (old_side ls) (drop (as_oldIndex s1) base)"
  proof (cases "take 1 l = '' '' \<or> take 1 l = ''-''")
    case True
    with Cons.prems(2) obtain r where r: "drop (as_oldIndex s) base = drop 1 l # r"
      and pre: "prefix (old_side ls) r" by (auto simp: prefix_def)
    from r have "as_oldIndex s < length base" "base ! as_oldIndex s = drop 1 l"
      "drop (Suc (as_oldIndex s)) base = r" by (simp_all add: drop_Cons_iff)
    with True pre show ?thesis by (auto simp: apply_line_def Let_def)
  next
    case False
    with Cons.prems show ?thesis by (auto simp: apply_line_def Let_def content_line_def)
  qed
  with Cons show ?case by (auto split: sum.splits)
qed

lemma apply_hunks_output_extends:
  "apply_hunks p base s hs = Inr s' \<Longrightarrow> \<exists>out. as_output s' = as_output s @ out"
proof (induction hs arbitrary: s)
  case Nil
  then show ?case by auto
next
  case (Cons h hs)
  obtain st ls where h: "h = (st, ls)" by (cases h)
  with Cons.prems obtain s1 where "apply_lines p base (s\<lparr>as_output := as_output s
      @ take (st - as_oldIndex s) (drop (as_oldIndex s) base), as_oldIndex := st, as_previous := []\<rparr>) ls
      = Inr s1" "apply_hunks p base s1 hs = Inr s'"
    by (auto split: if_splits sum.splits)
  then show ?case using Cons.IH apply_lines_Inr by fastforce
qed

lemma apply_hunks_iff:
  assumes "list_all (\<lambda>(st, ls). list_all content_line ls) hs"
  shows "(\<exists>s'. apply_hunks p base s hs = Inr s' \<and> as_output s' = as_output s @ out)
           \<longleftrightarrow> patched (as_oldIndex s) hs (drop (as_oldIndex s) base) out"
  using assms
proof (induction hs arbitrary: s out)
  case Nil
  then show ?case by (auto intro: patched.intros elim: patched_NilE)
next
  case (Cons h hs)
  obtain st ls where h: "h = (st, ls)" by (cases h)
  let ?i = "as_oldIndex s" and ?rem = "drop (as_oldIndex s) base"
  let ?s0 = "s\<lparr>as_output := as_output s @ take (st - ?i) ?rem, as_oldIndex := st, as_previous := []\<rparr>"
  show ?case
  proof (cases "st < ?i")
    case True
    then show ?thesis using h by (auto elim: patched_ConsE)
  next
    case False
    then have dr: "drop (st - ?i) ?rem = drop st base" by simp
    have ok: "list_all content_line ls" "list_all (\<lambda>(st, ls). list_all content_line ls) hs"
      using Cons.prems h by auto
    show ?thesis
    proof (cases "prefix (old_side ls) (drop st base)")
      case True
      then obtain rest where rest: "drop st base = old_side ls @ rest" by (auto simp: prefix_def)
      from True ok(1) obtain s1 where s1: "apply_lines p base ?s0 ls = Inr s1"
        using apply_lines_total [of ls ?s0 base p] by auto
      from apply_lines_Inr [OF s1] have s1': "as_output s1 = as_output s @ take (st - ?i) ?rem @ new_side ls"
        "as_oldIndex s1 = st + length (old_side ls)" by auto
      have rest': "drop (as_oldIndex s1) base = rest"
        using rest s1'(2) by (metis add.commute append_eq_conv_conj drop_drop)
      have "(\<exists>s'. apply_hunks p base s (h # hs) = Inr s' \<and> as_output s' = as_output s @ out)
            \<longleftrightarrow> (\<exists>out'. out = take (st - ?i) ?rem @ new_side ls @ out'
                  \<and> (\<exists>s'. apply_hunks p base s1 hs = Inr s' \<and> as_output s' = as_output s1 @ out'))"
        using False h s1 s1'(1) apply_hunks_output_extends [of p base s1 hs] by fastforce
      also have "\<dots> \<longleftrightarrow> (\<exists>out'. out = take (st - ?i) ?rem @ new_side ls @ out'
                  \<and> patched (st + length (old_side ls)) hs rest out')"
        using Cons.IH [OF ok(2), of s1] s1'(2) rest' by simp
      also have "\<dots> \<longleftrightarrow> patched ?i (h # hs) ?rem out"
        using False h dr rest by (fastforce intro: patched.intros elim!: patched_ConsE)
      finally show ?thesis .
    next
      case no: False
      have "\<not> patched ?i (h # hs) ?rem out"
        using h dr no by (auto elim!: patched_ConsE simp: prefix_def)
      moreover have "apply_lines p base ?s0 ls \<noteq> Inr s1" for s1
        using apply_lines_Inr [of p base ?s0 ls s1] no by auto
      ultimately show ?thesis using False h by (auto split: sum.splits)
    qed
  qed
qed

section \<open>Paths of a parsed patch\<close>

text \<open>Segments that climb stand only at the front of a resolved path.\<close>

definition climbs_first :: "string list \<Rightarrow> bool" where
  "climbs_first xs = (\<exists>k ys. xs = replicate k ''..'' @ ys \<and> ''..'' \<notin> set ys)"

definition proper_segment :: "string \<Rightarrow> bool" where
  "proper_segment s = (s \<noteq> [] \<and> s \<noteq> ''.'' \<and> CHR ''/'' \<notin> set s)"

lemma climbs_first_snoc:
  assumes "climbs_first xs" "s = ''..'' \<longrightarrow> xs = [] \<or> last xs = ''..''"
  shows "climbs_first (xs @ [s])"
proof -
  from assms(1) obtain k ys where xs: "xs = replicate k ''..'' @ ys" "''..'' \<notin> set ys"
    by (auto simp: climbs_first_def)
  show ?thesis
  proof (cases "s = ''..''")
    case True
    have "ys = []"
    proof (rule ccontr)
      assume "ys \<noteq> []"
      with xs True assms(2) have "last ys = ''..''" by auto
      with \<open>ys \<noteq> []\<close> xs(2) show False by (metis last_in_set)
    qed
    with xs True have "xs @ [s] = replicate (Suc k) ''..'' @ []"
      by (simp add: replicate_append_same)
    then show ?thesis unfolding climbs_first_def by fastforce
  next
    case False
    with xs have "xs @ [s] = replicate k ''..'' @ (ys @ [s])" "''..'' \<notin> set (ys @ [s])" by auto
    then show ?thesis unfolding climbs_first_def by blast
  qed
qed

lemma climbs_first_butlast: "climbs_first xs \<Longrightarrow> climbs_first (butlast xs)"
proof -
  assume "climbs_first xs"
  then obtain k ys where xs: "xs = replicate k ''..'' @ ys" "''..'' \<notin> set ys"
    by (auto simp: climbs_first_def)
  show ?thesis
  proof (cases "ys = []")
    case True
    then have "butlast xs = replicate (k - 1) ''..'' @ []"
      using xs by (cases k) (simp_all flip: replicate_append_same)
    then show ?thesis unfolding climbs_first_def by fastforce
  next
    case False
    then have "butlast xs = replicate k ''..'' @ butlast ys" "''..'' \<notin> set (butlast ys)"
      using xs by (auto simp: butlast_append dest: in_set_butlastD)
    then show ?thesis unfolding climbs_first_def by blast
  qed
qed

lemma resolve_segments_shape:
  assumes "climbs_first (rev out)" "list_all proper_segment out" "\<forall>s \<in> set ss. CHR ''/'' \<notin> set s"
  shows "climbs_first (resolve_segments out ss) \<and> list_all proper_segment (resolve_segments out ss)"
  using assms
proof (induction out ss rule: resolve_segments.induct)
  case (1 out)
  then show ?case by simp
next
  case (2 out s ss)
  consider (skip) "s = [] \<or> s = ''.''"
    | (pop) "\<not> (s = [] \<or> s = ''.'')" "s = ''..'' \<and> out \<noteq> [] \<and> hd out \<noteq> ''..''"
    | (push) "\<not> (s = [] \<or> s = ''.'')" "\<not> (s = ''..'' \<and> out \<noteq> [] \<and> hd out \<noteq> ''..'')"
    by blast
  then show ?case
  proof cases
    case skip
    with 2 show ?thesis by auto
  next
    case pop
    have "rev (tl out) = butlast (rev out)" by (cases out) simp_all
    then have "climbs_first (rev (tl out))"
      using climbs_first_butlast [OF 2(4)] by simp
    moreover have "list_all proper_segment (tl out)" using 2(5) by (cases out) auto
    ultimately show ?thesis using 2(2) [OF pop] pop 2(6) by auto
  next
    case push
    have "climbs_first (rev (s # out))"
      using climbs_first_snoc [OF 2(4), of s] push(2) by (cases out) auto
    moreover have "proper_segment s" using 2(6) push(1) by (simp add: proper_segment_def)
    then have "list_all proper_segment (s # out)" using 2(5) by simp
    ultimately show ?thesis using 2(3) [OF push] push 2(6) by auto
  qed
qed

lemma resolve_shape:
  "climbs_first (resolve_segments [] (split_on (CHR ''/'') s))
   \<and> list_all proper_segment (resolve_segments [] (split_on (CHR ''/'') s))"
  using resolve_segments_shape [of "[]" "split_on (CHR ''/'') s"] split_on_segments [of _ "CHR ''/''" s]
  by (auto simp: climbs_first_def)

text \<open>A path that stays inside the repository, and one that is outside its metadata as well.\<close>

definition below_root :: "string \<Rightarrow> bool" where
  "below_root p = (\<not> startsWith p ''/'' \<and> ''..'' \<notin> set (split_on (CHR ''/'') p))"

definition inside_repository :: "string \<Rightarrow> bool" where
  "inside_repository p = (below_root p \<and> hd (split_on (CHR ''/'') p) \<noteq> ''.git'')"

lemma join_with_Cons: "ws \<noteq> [] \<Longrightarrow> join_with sep (w # ws) = w @ sep @ join_with sep ws"
  by (cases ws) auto

lemma join_with_snoc_Nil: "ws \<noteq> [] \<Longrightarrow> join_with sep ws @ sep = join_with sep (ws @ [[]])"
proof (induction ws)
  case (Cons w ws)
  then show ?case by (cases ws) (simp_all add: join_with_Cons)
qed simp

lemma inside_of_segments:
  assumes segs: "segs = resolve_segments [] (split_on (CHR ''/'') s)"
    and fin: "tail = [] \<or> tail = ''/''"
    and p: "p = (if join_with ''/'' segs = [] then ''.'' else join_with ''/'' segs) @ tail"
    and no_climb: "p \<noteq> ''..''" "\<not> startsWith p ''../''"
  shows "below_root p"
    and "\<not> startsWith p ''.git/'' \<Longrightarrow> p \<noteq> ''.git'' \<Longrightarrow> inside_repository p"
proof -
  have "below_root p \<and> (\<not> startsWith p ''.git/'' \<longrightarrow> p \<noteq> ''.git'' \<longrightarrow> inside_repository p)"
  proof (cases "segs = []")
    case True
    with p fin have "p = ''.'' \<or> p = ''./''" by auto
    then show ?thesis by (elim disjE; hypsubst; code_simp)
  next
    case False
    from resolve_shape [of s] segs have cf: "climbs_first segs" and pr: "list_all proper_segment segs"
      by auto
    from pr False have body: "join_with ''/'' segs \<noteq> []"
      by (cases segs; cases "tl segs") (auto simp: proper_segment_def)
    with p have p: "p = join_with ''/'' segs @ tail" by simp
    obtain w ws where w: "segs = w # ws" using False by (cases segs) auto
    have start: "startsWith p (w @ ''/'') \<or> p = w"
      using p w fin by (cases ws) (auto simp: startsWith_iff prefix_def)
    have nd: "''..'' \<notin> set segs"
    proof
      assume "''..'' \<in> set segs"
      from cf obtain k ys where k: "segs = replicate k ''..'' @ ys" "''..'' \<notin> set ys"
        unfolding climbs_first_def by blast
      then have "k \<noteq> 0" using \<open>''..'' \<in> set segs\<close> by (metis append_Nil replicate_0)
      with k(1) w have "w = ''..''" by (cases k) simp_all
      with start no_climb show False by auto
    qed
    have git: "\<not> startsWith p ''.git/'' \<Longrightarrow> p \<noteq> ''.git'' \<Longrightarrow> w \<noteq> ''.git''" using start by auto
    have split: "split_on (CHR ''/'') p = segs @ (if tail = [] then [] else [[]])"
    proof -
      have segs_ok: "\<And>v. v \<in> set segs \<Longrightarrow> CHR ''/'' \<notin> set v"
        using pr by (auto simp: list_all_iff proper_segment_def)
      have join: "join_with ''/'' segs @ ''/'' = join_with ''/'' (segs @ [[]])"
        using False by (rule join_with_snoc_Nil)
      from fin show ?thesis
      proof
        assume "tail = []"
        with p split_join_with [of segs "CHR ''/''"] False segs_ok show ?thesis by simp
      next
        assume t: "tail = ''/''"
        have "split_on (CHR ''/'') (join_with ''/'' (segs @ [[]])) = segs @ [[]]"
          by (rule split_join_with) (use segs_ok in auto)
        with p t join show ?thesis by simp
      qed
    qed
    have "\<not> startsWith p ''/''"
    proof -
      have "w \<noteq> []" "CHR ''/'' \<notin> set w" using pr w by (auto simp: proper_segment_def)
      then obtain c v where "w = c # v" "c \<noteq> CHR ''/''" by (cases w) auto
      with start show ?thesis by (auto simp: startsWith_iff prefix_def)
    qed
    with split nd git w show ?thesis by (simp add: inside_repository_def below_root_def)
  qed
  then show "below_root p"
    and "\<not> startsWith p ''.git/'' \<Longrightarrow> p \<noteq> ''.git'' \<Longrightarrow> inside_repository p" by blast+
qed

lemma normalized_dot:
  assumes "startsWith (posix_normalize s) ''./''"
  shows "posix_normalize s = ''./''"
proof (cases "resolve_segments [] (split_on (CHR ''/'') s)")
  case Nil
  with assms show ?thesis by (auto simp: posix_normalize_def Let_def startsWith_def split: if_splits)
next
  case (Cons w ws)
  have w: "proper_segment w" using resolve_shape [of s] Cons by simp
  then obtain c v where v: "w = c # v" "c \<noteq> CHR ''/''" by (cases w) (auto simp: proper_segment_def)
  have "join_with ''/'' (w # ws) \<noteq> []" using v by (cases ws) auto
  then have "\<exists>t. posix_normalize s = w @ t"
    using Cons by (cases ws) (auto simp: posix_normalize_def Let_def)
  with assms v w show ?thesis
    by (cases v) (auto simp: startsWith_iff prefix_def proper_segment_def)
qed

lemma normalized_below_root:
  assumes "posix_normalize s \<noteq> ''..''" "\<not> startsWith (posix_normalize s) ''../''"
  shows "below_root (posix_normalize s)"
  using inside_of_segments(1) [OF refl, of "if endsWith s ''/'' then ''/'' else []" "posix_normalize s" s]
    assms by (auto simp: posix_normalize_def Let_def)

lemma normalizeRecoveryPath_inside:
  assumes "normalizeRecoveryPath v = Inr p"
  shows "p = [] \<or> p = dev_null \<or> inside_repository p"
proof (cases "path_candidate v = [] \<or> path_candidate v = dev_null")
  case True
  with assms show ?thesis by (auto simp: normalizeRecoveryPath_def Let_def)
next
  case False
  let ?c = "path_candidate v"
  from False assms have p: "p = posix_normalize ?c"
    and "p \<noteq> ''..''" "\<not> startsWith p ''../''" "\<not> startsWith p ''.git/''" "p \<noteq> ''.git''"
    by (auto simp: normalizeRecoveryPath_def Let_def split: if_splits)
  then have "inside_repository p"
    by (intro inside_of_segments(2) [OF refl, of "if endsWith ?c ''/'' then ''/'' else []" p ?c])
      (auto simp: posix_normalize_def Let_def)
  then show ?thesis by simp
qed


text \<open>Every path a section can carry passed the normalization, or is absent.\<close>

definition section_paths :: "diff_section \<Rightarrow> string list" where
  "section_paths s = concat (map (\<lambda>x. case x of None \<Rightarrow> [] | Some p \<Rightarrow> [p])
     [sec_oldPath s, sec_newPath s, sec_renameFrom s, sec_renameTo s])"

lemma set_section_paths:
  "set (section_paths s) =
     {p. sec_oldPath s = Some p \<or> sec_newPath s = Some p \<or> sec_renameFrom s = Some p
         \<or> sec_renameTo s = Some p}"
  by (auto simp: section_paths_def split: option.splits)

lemma section_line_paths:
  assumes "section_line nz s l = Inr s'" "\<And>v p. nz v = Inr p \<Longrightarrow> P p"
    and "\<forall>p \<in> set (section_paths s). P p"
  shows "\<forall>p \<in> set (section_paths s'). P p"
  using assms unfolding section_line_def marked_path_def
  by (auto simp: set_section_paths Let_def map_sum_def split: if_splits sum.splits)

lemma section_lines_paths:
  "section_lines nz s ls = Inr (s', rest) \<Longrightarrow> \<forall>v p. nz v = Inr p \<longrightarrow> P p \<Longrightarrow>
     \<forall>p \<in> set (section_paths s). P p \<Longrightarrow> \<forall>p \<in> set (section_paths s'). P p"
proof (induction nz s ls rule: section_lines.induct)
  case (1 nz s)
  then show ?case by simp
next
  case (2 nz s l ls)
  show ?case
  proof (cases "starts_next l")
    case True
    with 2 show ?thesis by simp
  next
    case False
    with "2.prems"(1) obtain s1 where s1: "section_line nz s l = Inr s1"
      "section_lines nz s1 ls = Inr (s', rest)" by (auto split: sum.splits)
    have "\<forall>p \<in> set (section_paths s1). P p"
      using section_line_paths [OF s1(1), of P] "2.prems"(2,3) by blast
    then show ?thesis using "2.IH" [OF False s1(1) s1(2) "2.prems"(2)] by blast
  qed
qed

lemma final_paths:
  "final_old s = Some p \<or> final_new s = Some p \<Longrightarrow> p \<in> set (section_paths s)"
  by (auto simp: final_old_def final_new_def set_section_paths split: if_splits)

lemma parse_file_paths:
  assumes "parse_file nz b ck l ls = Inr (f, rest)" "\<And>v p. nz v = Inr p \<Longrightarrow> P p"
  shows "(\<forall>p. rf_oldPath f = Some p \<or> rf_newPath f = Some p \<longrightarrow> P p)
    \<and> rf_effectivePath f \<noteq> [] \<and> (rf_oldPath f = Some (rf_effectivePath f)
         \<or> rf_newPath f = Some (rf_effectivePath f))"
proof -
  from assms(1) obtain s mid where fs: "file_section nz l ls = Inr (s, mid)"
    and pres: "present (effective_path s)"
    and f: "rf_oldPath f = final_old s" "rf_newPath f = final_new s"
      "rf_effectivePath f = the (effective_path s)"
    by (auto simp: parse_file_def Let_def split: sum.splits prod.splits if_splits)
  from fs obtain old new a b where nz: "nz a = Inr old" "nz b = Inr new"
    and sec: "section_lines nz (section_of old new) ls = Inr (s, mid)"
    by (auto simp: file_section_def split: option.splits prod.splits sum.splits)
  have "P old" "P new" using nz by (blast intro: assms(2))+
  then have "\<forall>p \<in> set (section_paths (section_of old new)). P p"
    by (auto simp: set_section_paths section_of_def)
  moreover have "\<forall>v p. nz v = Inr p \<longrightarrow> P p" by (blast intro: assms(2))
  ultimately have paths: "\<forall>p \<in> set (section_paths s). P p"
    using section_lines_paths [OF sec] by blast
  from pres obtain q where q: "effective_path s = Some q" "q \<noteq> []"
    by (auto simp: present_def split: option.splits)
  then have "final_old s = Some q \<or> final_new s = Some q"
    by (auto simp: effective_path_def split: option.splits)
  with f q have eff: "rf_effectivePath f \<noteq> []"
    "rf_oldPath f = Some (rf_effectivePath f) \<or> rf_newPath f = Some (rf_effectivePath f)" by auto
  have "P p" if "rf_oldPath f = Some p \<or> rf_newPath f = Some p" for p
    using that f(1,2) paths final_paths [of s p] by metis
  with eff show ?thesis by blast
qed

section \<open>The properties of the parsers and of the application\<close>

text \<open>What is true of every file of a parsed patch.\<close>

definition counted_hunk :: "int \<times> int \<times> int \<times> int \<times> string list \<Rightarrow> bool" where
  "counted_hunk hk = (case hk of (os, ol, ns, nl, ls) \<Rightarrow>
     ol = int (length (old_side ls)) \<and> nl = int (length (new_side ls)) \<and> list_all content_line ls)"

definition some_path :: "ParsedFilePatch \<Rightarrow> bool" where
  "some_path f = (pf_oldPath f \<noteq> None \<or> pf_newPath f \<noteq> None)"

lemma publication_parser_counts:
  assumes "parseUnifiedDiffFiles d = Inr fs"
  shows "fs \<noteq> []" "list_all (\<lambda>f. some_path f \<and> list_all counted_hunk (pf_hunks f)) fs"
proof -
  from assms obtain rs where rs: "parse_diff normalizePatchPath False (\<lambda>_. Inr ()) d = Inr rs"
    and fs: "fs = map parsed_file rs"
    by (auto simp: parseUnifiedDiffFiles_def map_sum_def split: sum.splits)
  from rs have ne: "rs \<noteq> []" and parsed: "parse_files normalizePatchPath False (\<lambda>_. Inr ())
      (split_on (CHR 0x0A) (crlf_to_lf d)) = Inr rs"
    by (auto simp: parse_diff_def split: if_splits sum.splits)
  have "list_all (\<lambda>f. some_path (parsed_file f) \<and> list_all counted_hunk (pf_hunks (parsed_file f))) rs"
  proof (rule parse_files_all [OF parsed], rule conjI)
    fix l ls f rest
    assume f: "parse_file normalizePatchPath False (\<lambda>_. Inr ()) l ls = Inr (f, rest)"
    show "some_path (parsed_file f)"
      using parse_file_paths [OF f, of "\<lambda>_. True"] by (auto simp: some_path_def parsed_file_def)
    show "list_all counted_hunk (pf_hunks (parsed_file f))"
      using parse_file_counts [OF f]
      by (simp add: parsed_file_def parsed_hunk_def counted_hunk_def list_all_iff)
  qed
  with ne fs show "fs \<noteq> []" "list_all (\<lambda>f. some_path f \<and> list_all counted_hunk (pf_hunks f)) fs"
    by (simp_all add: list_all_iff)
qed

text \<open>
  C30: when the publication worker's parser accepts a patch, the patch has at least one file, every
  file has a path, and in every hunk the line counts of the header are the numbers of lines of its
  old and new side, with nothing but context, added, deleted and marker lines in it.
\<close>

lemma publication_parser_sound:
  assumes "parseUnifiedDiffFiles d = Inr fs"
  shows "fs \<noteq> [] \<and> list_all some_path fs \<and> list_all (\<lambda>f. list_all counted_hunk (pf_hunks f)) fs"
  using publication_parser_counts [OF assms] by (simp add: list_all_iff)

definition sample_patch :: string where
  "sample_patch = join_with [LF]
     [''diff --git a/src/app.ts b/src/app.ts'', ''--- a/src/app.ts'', ''+++ b/src/app.ts'',
      ''@@ -1,3 +1,3 @@ export'', '' one'', ''-two'', ''+deux'', '' three'', []]"

definition sample_file :: ParsedFilePatch where
  "sample_file = \<lparr>pf_oldPath = Some ''src/app.ts'', pf_newPath = Some ''src/app.ts'',
     pf_changeType = ChangeType.MODIFY,
     pf_hunks = [(1, 3, 1, 3, ['' one'', ''-two'', ''+deux'', '' three''])]\<rparr>"

lemma sample_parses: "parseUnifiedDiffFiles sample_patch = Inr [sample_file]"
  by code_simp

lemma publication_parser_sound_witness:
  "list_all (\<lambda>f. list_all counted_hunk (pf_hunks f)) [sample_file]"
  using publication_parser_sound [OF sample_parses] by blast

text \<open>
  C31: every path in a patch the recovery engine accepts is relative, never climbs out of the
  repository and is not in its metadata, whatever quotes, backslashes and dots the patch used
  (apart from the empty path and \<open>/dev/null\<close>, which name no file).
\<close>

lemma recovery_paths_inside:
  assumes "parseUnifiedDiff h uuid d prov = Inr r" "f \<in> set (pp_files r)"
    and "oldPath f = Some p \<or> newPath f = Some p"
  shows "p = [] \<or> p = dev_null \<or> inside_repository p"
proof -
  from assms(1) obtain rs where rs: "parse_diff normalizeRecoveryPath True (provenance_check prov) d = Inr rs"
    and r: "pp_files r = patch_files h uuid prov 0 rs"
    by (auto simp: parseUnifiedDiff_def map_sum_def Let_def split: sum.splits)
  from rs have parsed: "parse_files normalizeRecoveryPath True (provenance_check prov)
      (split_on (CHR 0x0A) (crlf_to_lf d)) = Inr rs"
    by (auto simp: parse_diff_def split: if_splits sum.splits)
  have all: "list_all (\<lambda>g. \<forall>q. rf_oldPath g = Some q \<or> rf_newPath g = Some q \<longrightarrow>
      q = [] \<or> q = dev_null \<or> inside_repository q) rs"
  proof (rule parse_files_all [OF parsed])
    fix l ls g rest
    assume "parse_file normalizeRecoveryPath True (provenance_check prov) l ls = Inr (g, rest)"
    from parse_file_paths [OF this, of "\<lambda>q. q = [] \<or> q = dev_null \<or> inside_repository q"]
    show "\<forall>q. rf_oldPath g = Some q \<or> rf_newPath g = Some q \<longrightarrow>
        q = [] \<or> q = dev_null \<or> inside_repository q"
      using normalizeRecoveryPath_inside by blast
  qed
  have "\<exists>g \<in> set gs. oldPath f = rf_oldPath g \<and> newPath f = rf_newPath g"
    if "f \<in> set (patch_files h uuid prov n gs)" for n gs
    using that by (induction gs arbitrary: n) (auto simp: patch_file_def Let_def)
  with assms(2) r obtain g where "g \<in> set rs" "oldPath f = rf_oldPath g" "newPath f = rf_newPath g"
    by metis
  with all assms(3) show ?thesis by (auto simp: list_all_iff)
qed


definition sample_provenance :: "string \<Rightarrow> PatchProvenance option" where
  "sample_provenance p = Some \<lparr>prov_treatmentPlanStep = 1, prov_citations =
     [\<lparr>sourceType = CitationSourceType.REPOSITORY_FILE, sourceId = ''s'', digest = ''d'',
       path = None, lineStart = None, lineEnd = None, label = ''l'', excerpt = None\<rparr>]\<rparr>"

definition quoted_patch :: string where
  "quoted_patch = join_with [LF]
     [''diff --git a/src/app.ts b/src/app.ts'', ''--- a/./src//app.ts'', ''+++ b/lib/../src/app.ts'',
      ''@@ -0,0 +1 @@'', ''+one'', []]"

lemma recovery_paths_inside_witness:
  "map (\<lambda>f. (oldPath f, newPath f)) (pp_files (projr
      (parseUnifiedDiff plain_host show_nat quoted_patch sample_provenance)))
     = [(Some ''src/app.ts'', Some ''src/app.ts'')]
   \<and> (''src/app.ts'' = [] \<or> ''src/app.ts'' = dev_null \<or> inside_repository ''src/app.ts'')"
proof -
  let ?r = "parseUnifiedDiff plain_host show_nat quoted_patch sample_provenance"
  have paths: "map (\<lambda>f. (oldPath f, newPath f)) (pp_files (projr ?r))
      = [(Some ''src/app.ts'', Some ''src/app.ts'')]" and ok: "isl ?r = False"
    by code_simp+
  from ok have r: "?r = Inr (projr ?r)" by (cases ?r) simp_all
  from paths obtain f where "f \<in> set (pp_files (projr ?r))" "newPath f = Some ''src/app.ts''"
    by auto
  with recovery_paths_inside [OF r] paths show ?thesis by blast
qed

lemma patched_length:
  "patched i hs rem out \<Longrightarrow>
     int (length out) = int (length rem)
       + sum_list (map (\<lambda>(st, ls). int (length (new_side ls)) - int (length (old_side ls))) hs)"
proof (induction rule: patched.induct)
  case (no_hunk i rem)
  then show ?case by simp
next
  case (one_hunk i start rem ls rest hs out)
  have "int (length rem) = int (length (take (start - i) rem)) + int (length (drop (start - i) rem))"
    by simp
  also have "length (drop (start - i) rem) = length (old_side ls) + length rest"
    using one_hunk(2) by simp
  finally show ?case using one_hunk(4) by simp
qed

lemma apply_start:
  assumes "list_all counted_hunk (pf_hunks f)"
  shows "(\<exists>s. apply_hunks p base \<lparr>as_output = [], as_oldIndex = 0, as_newline = nl, as_previous = []\<rparr>
             (hunk_positions f) = Inr s \<and> as_output s = out)
           \<longleftrightarrow> patched 0 (hunk_positions f) base out"
proof -
  have "list_all (\<lambda>(st, ls). list_all content_line ls) (hunk_positions f)"
    using assms by (auto simp: hunk_positions_def counted_hunk_def list_all_iff)
  from apply_hunks_iff [OF this, of p base "\<lparr>as_output = [], as_oldIndex = 0, as_newline = nl,
      as_previous = []\<rparr>" out] show ?thesis by simp
qed

text \<open>
  C29: the worker applies a file of a parsed patch exactly when the hunks fit: each hunk lies behind
  the one before and its old side stands in the file at its start line. The result is the file
  with every old side replaced by its new side and the lines between them unchanged, longer by
  what the hunk headers announce.
\<close>

lemma publication_patch_applies:
  assumes "parseUnifiedDiffFiles d = Inr fs" "f \<in> set fs"
  shows "((\<exists>text. applyFileHunks base f p = Inr text)
           \<longleftrightarrow> (\<exists>out. patched 0 (hunk_positions f) (fst (base_lines base)) out))
    \<and> (\<forall>text. applyFileHunks base f p = Inr text \<longrightarrow>
         (\<exists>out newline. patched 0 (hunk_positions f) (fst (base_lines base)) out
            \<and> text = render out newline
            \<and> int (length out) = int (length (fst (base_lines base)))
                + sum_list (map (\<lambda>(os, ol, ns, nl, ls). nl - ol) (pf_hunks f))))"
proof -
  obtain bl ends where b: "base_lines base = (bl, ends)" by (cases "base_lines base")
  let ?s0 = "\<lparr>as_output = [], as_oldIndex = 0, as_newline = (base = [] \<or> ends), as_previous = []\<rparr>"
  have ok: "list_all counted_hunk (pf_hunks f)"
    using publication_parser_counts [OF assms(1)] assms(2) by (auto simp: list_all_iff)
  note st = apply_start [OF ok, of p bl "base = [] \<or> ends"]
  have len: "int (length out) = int (length bl)
      + sum_list (map (\<lambda>(os, ol, ns, nl, ls). nl - ol) (pf_hunks f))"
    if "patched 0 (hunk_positions f) bl out" for out
  proof -
    have "map (\<lambda>(st, ls). int (length (new_side ls)) - int (length (old_side ls))) (hunk_positions f)
          = map (\<lambda>(os, ol, ns, nl, ls). nl - ol) (pf_hunks f)"
      using ok by (auto simp: hunk_positions_def counted_hunk_def list_all_iff)
    with patched_length [OF that] show ?thesis by simp
  qed
  have ex: "(\<exists>text. applyFileHunks base f p = Inr text)
      \<longleftrightarrow> (\<exists>s. apply_hunks p bl ?s0 (hunk_positions f) = Inr s)"
    using b by (auto simp: applyFileHunks_def map_sum_def split: sum.splits)
  have res: "\<exists>s. apply_hunks p bl ?s0 (hunk_positions f) = Inr s
      \<and> t = render (as_output s) (as_newline s)" if "applyFileHunks base f p = Inr t" for t
    using b that by (auto simp: applyFileHunks_def map_sum_def split: sum.splits)
  show ?thesis
    using ex res st len b by (auto; metis)
qed

lemma publication_patch_applies_witness:
  "\<exists>out newline. patched 0 (hunk_positions sample_file)
       (fst (base_lines (join_with [LF] [''one'', ''two'', ''three'', []]))) out
     \<and> join_with [LF] [''one'', ''deux'', ''three'', []] = render out newline
     \<and> int (length out) = 3"
proof -
  let ?base = "join_with [LF] [''one'', ''two'', ''three'', []]"
  have f: "sample_file \<in> set [sample_file]" by simp
  have t: "applyFileHunks ?base sample_file ''src/app.ts''
      = Inr (join_with [LF] [''one'', ''deux'', ''three'', []])" by code_simp
  have n: "int (length (fst (base_lines ?base)))
      + sum_list (map (\<lambda>(os, ol, ns, nl, ls). nl - ol) (pf_hunks sample_file)) = 3" by code_simp
  from publication_patch_applies [OF sample_parses f, of ?base "''src/app.ts''"] t n
  show ?thesis by metis
qed

text \<open>A hunk without context lines that inserts behind line 1 is put before it.\<close>

lemma zero_context_insertion:
  "applyFileHunks (join_with [LF] [''one'', ''two'', []])
     \<lparr>pf_oldPath = Some ''f'', pf_newPath = Some ''f'', pf_changeType = ChangeType.MODIFY,
      pf_hunks = [(1, 0, 2, 1, [''+new''])]\<rparr> ''f''
   = Inr (join_with [LF] [''new'', ''one'', ''two'', []])"
  by code_simp

text \<open>The path check of the publication worker looks for the metadata before it drops \<open>./\<close>.\<close>

lemma dotted_metadata_path: "normalizePatchPath ''./.git/config'' = Inr ''.git/config''"
  and dotted_absolute_path: "normalizePatchPath ''.//etc/passwd'' = Inr ''/etc/passwd''"
  by code_simp+

text \<open>A deleted SQL comment and an added increment look like file headers to both parsers.\<close>

lemma deleted_comment_refused:
  "hunk_line b ''--- drop the table'' = Inl ''Invalid hunk content line: --- drop the table''"
  and added_increment_refused: "hunk_line b ''+++i;'' = Inl ''Invalid hunk content line: +++i;''"
  by (simp_all add: hunk_line_def startsWith_def no_newline_marker_def)

end
