(* ===== verification/Base64.thy ===== *)
theory Base64
  imports Json
begin

text \<open>
  The encodings of \<open>Buffer\<close> the code uses: \<open>base64url\<close> for tokens and signatures, and the reading of
  \<open>base64\<close> for the blobs of GitHub. Both alphabets are read.
\<close>

section \<open>base64url\<close>

definition base64url_digit :: "nat \<Rightarrow> char" where
  "base64url_digit n =
     (if n < 26 then char_of (n + 65) else if n < 52 then char_of (n + 71)
      else if n < 62 then char_of (n - 4) else if n = 62 then CHR ''-'' else CHR ''_'')"

text \<open>\<open>Buffer.from(value).toString('base64url')\<close>, the codes and the text.\<close>

fun base64url_codes :: "string \<Rightarrow> nat list" where
  "base64url_codes (a # b # c # s) =
     char_code a div 4 # ((char_code a mod 4) * 16 + char_code b div 16)
     # ((char_code b mod 16) * 4 + char_code c div 64) # char_code c mod 64 # base64url_codes s"
| "base64url_codes [a, b] =
     [char_code a div 4, (char_code a mod 4) * 16 + char_code b div 16, (char_code b mod 16) * 4]"
| "base64url_codes [a] = [char_code a div 4, (char_code a mod 4) * 16]"
| "base64url_codes [] = []"

definition base64Url :: "string \<Rightarrow> string" where
  "base64Url s = map base64url_digit (base64url_codes s)"

section \<open>Reading\<close>

text \<open>\<open>Buffer.from(content, 'base64')\<close>: characters outside the alphabet are skipped.\<close>

definition base64_value :: "char \<Rightarrow> nat option" where
  "base64_value c =
     (if is_upper c then Some (char_code c - 65) else if is_lower c then Some (char_code c - 71)
      else if is_digit c then Some (char_code c + 4)
      else if c = CHR ''+'' \<or> c = CHR ''-'' then Some 62
      else if c = CHR ''/'' \<or> c = CHR ''_'' then Some 63 else None)"

fun base64_bytes :: "nat list \<Rightarrow> string" where
  "base64_bytes (a # b # c # d # r) =
     char_of (a * 4 + b div 16) # char_of ((b mod 16) * 16 + c div 4)
     # char_of ((c mod 4) * 64 + d) # base64_bytes r"
| "base64_bytes [a, b, c] = [char_of (a * 4 + b div 16), char_of ((b mod 16) * 16 + c div 4)]"
| "base64_bytes [a, b] = [char_of (a * 4 + b div 16)]"
| "base64_bytes [a] = []"
| "base64_bytes [] = []"

definition base64_decode :: "string \<Rightarrow> string" where
  "base64_decode s =
     base64_bytes (List.map_filter base64_value (takeWhile (\<lambda>c. c \<noteq> CHR ''='') s))"

section \<open>The encoding can be read back\<close>

lemma code_bound: "char_code c < 256"
  by (simp add: char_code_def)

lemma code_of_bound: "n < 256 \<Longrightarrow> char_code (char_of n) = n"
  by (simp add: char_code_def)

lemma char_of_own_code: "char_of (char_code c) = c"
  by (simp add: char_code_def)

lemma base64_value_digit:
  assumes "n < 64"
  shows "base64_value (base64url_digit n) = Some n" "base64url_digit n \<noteq> CHR ''=''"
proof -
  have c: "char_code (CHR ''-'') = 45" "char_code (CHR ''_'') = 95" "char_code (CHR ''='') = 61"
    "char_code (CHR ''+'') = 43" "char_code (CHR ''/'') = 47"
    by (simp_all add: char_code_def)
  have code: "char_code (base64url_digit n) =
      (if n < 26 then n + 65 else if n < 52 then n + 71 else if n < 62 then n - 4
       else if n = 62 then 45 else 95)"
    using assms c by (auto simp: base64url_digit_def code_of_bound)
  have eq: "a = b \<longleftrightarrow> char_code a = char_code b" for a b by (simp add: char_code_inject)
  show "base64url_digit n \<noteq> CHR ''=''"
    using assms unfolding eq code c by auto
  consider "n < 26" | "26 \<le> n" "n < 52" | "52 \<le> n" "n < 62" | "n = 62" | "n = 63"
    using assms by linarith
  then show "base64_value (base64url_digit n) = Some n"
    unfolding base64_value_def is_upper_def is_lower_def is_digit_def in_range_def eq code c
    by cases auto
qed

lemma codes_bounded: "list_all (\<lambda>n. n < 64) (base64url_codes s)"
proof -
  have b: "char_code c div 4 < 64" "char_code c div 16 < 16" "char_code c div 64 < 4" for c
    using code_bound [of c] by (simp_all add: less_mult_imp_div_less)
  have "char_code a mod 4 * 16 + char_code b div 16 < 64"
    "char_code b mod 16 * 4 + char_code c div 64 < 64" for a b c
  proof -
    have "char_code a mod 4 < 4" "char_code b mod 16 < 16" by simp_all
    with b(2) [of b] b(3) [of c]
    show "char_code a mod 4 * 16 + char_code b div 16 < 64"
      "char_code b mod 16 * 4 + char_code c div 64 < 64" by linarith+
  qed
  moreover have "char_code a mod 4 * 16 < 64" "char_code b mod 16 * 4 < 64" for a b
  proof -
    have "char_code a mod 4 < 4" "char_code b mod 16 < 16" by simp_all
    then show "char_code a mod 4 * 16 < 64" "char_code b mod 16 * 4 < 64" by linarith+
  qed
  ultimately show ?thesis
    using b(1) by (induction s rule: base64url_codes.induct) simp_all
qed

lemma pair_parts:
  assumes "y < k"
  shows "(x * k + y) div k = x" "(x * k + y) mod k = (y::nat)"
  using assms by simp_all

lemma code_parts:
  "char_code a div 16 < 16" "char_code a div 64 < 4"
  "char_code a div 4 * 4 + char_code a mod 4 = char_code a"
  "char_code a div 16 * 16 + char_code a mod 16 = char_code a"
  "char_code a div 64 * 64 + char_code a mod 64 = char_code a"
  using code_bound [of a] by (simp_all add: less_mult_imp_div_less)

lemma bytes_of_codes: "base64_bytes (base64url_codes s) = s"
proof -
  have x: "(char_code a mod 4 * 16 + char_code b div 16) div 16 = char_code a mod 4"
    "(char_code a mod 4 * 16 + char_code b div 16) mod 16 = char_code b div 16"
    "(char_code b mod 16 * 4 + char_code c div 64) div 4 = char_code b mod 16"
    "(char_code b mod 16 * 4 + char_code c div 64) mod 4 = char_code c div 64" for a b c
    by (rule pair_parts, rule code_parts)+
  have y: "char_code a mod 4 * 16 div 16 = char_code a mod 4"
    "char_code b mod 16 * 4 div 4 = char_code b mod 16" for a b by simp_all
  show ?thesis
    by (induction s rule: base64url_codes.induct)
      (simp_all only: base64url_codes.simps base64_bytes.simps x y code_parts char_of_own_code)
qed

lemma decode_encoded: "base64_decode (base64Url s) = s"
proof -
  have "takeWhile (\<lambda>c. c \<noteq> CHR ''='') (map base64url_digit ns) = map base64url_digit ns"
    "List.map_filter base64_value (map base64url_digit ns) = ns"
    if "list_all (\<lambda>n. n < 64) ns" for ns
    using that by (induction ns) (simp_all add: base64_value_digit map_filter_simps)
  note own = this [OF codes_bounded [of s]]
  show ?thesis unfolding base64_decode_def base64Url_def own bytes_of_codes ..
qed


end
