(* ===== verification/Effects.thy ===== *)
theory Effects
  imports Prelude
begin

text \<open>
  Computations that talk to the outside: they carry a state on through failures, since a failed step
  does not undo what was already done. The clients of GitHub (\<open>Publication_Execution\<close>) and of the
  sandbox provider (\<open>Sandbox_Orchestrator\<close>) are written in it.
\<close>

type_synonym ('g, 'e, 'a) effect = "'g \<Rightarrow> ('e + 'a) \<times> 'g"

definition re_return :: "'a \<Rightarrow> ('g, 'e, 'a) effect" where
  "re_return x = (\<lambda>g. (Inr x, g))"

definition re_fail :: "'e \<Rightarrow> ('g, 'e, 'a) effect" where
  "re_fail e = (\<lambda>g. (Inl e, g))"

definition re_bind :: "('g, 'e, 'a) effect \<Rightarrow> ('a \<Rightarrow> ('g, 'e, 'b) effect) \<Rightarrow> ('g, 'e, 'b) effect" where
  "re_bind m k = (\<lambda>g. case m g of (Inl e, g') \<Rightarrow> (Inl e, g') | (Inr x, g') \<Rightarrow> k x g')"

text \<open>\<open>if (b) throw e\<close>, a computation that throws, and \<open>try m catch\<close>.\<close>

definition re_guard :: "bool \<Rightarrow> 'e \<Rightarrow> ('g, 'e, unit) effect" where
  "re_guard b e = (if b then re_fail e else re_return ())"

definition re_lift :: "'e + 'a \<Rightarrow> ('g, 'e, 'a) effect" where
  "re_lift r = (\<lambda>g. (r, g))"

definition re_catch :: "('g, 'e, 'a) effect \<Rightarrow> ('e \<Rightarrow> ('g, 'f, 'a) effect) \<Rightarrow> ('g, 'f, 'a) effect" where
  "re_catch m k = (\<lambda>g. case m g of (Inl e, g') \<Rightarrow> k e g' | (Inr x, g') \<Rightarrow> (Inr x, g'))"

definition re_when :: "bool \<Rightarrow> ('g, 'e, unit) effect \<Rightarrow> ('g, 'e, unit) effect" where
  "re_when b m = (if b then m else re_return ())"

text \<open>For running: a computation is only unfolded on a state.\<close>

lemma effect_run [code]:
  "re_return x g = (Inr x, g)" "re_fail e g = (Inl e, g)" "re_lift r g = (r, g)"
  "re_guard b e g = (if b then (Inl e, g) else (Inr (), g))"
  "re_when b m g = (if b then m g else (Inr (), g))"
  by (simp_all add: re_return_def re_fail_def re_lift_def re_guard_def re_when_def)

lemma effect_run_bind [code]:
  "re_bind m k g = (case m g of (r, g') \<Rightarrow> case r of Inl e \<Rightarrow> (Inl e, g') | Inr x \<Rightarrow> k x g')"
  "re_catch m k' g = (case m g of (r, g') \<Rightarrow> case r of Inl e \<Rightarrow> k' e g' | Inr x \<Rightarrow> (Inr x, g'))"
  by (simp_all add: re_bind_def re_catch_def split: prod.split sum.split)

text \<open>Every run of the computation keeps a property of the state, failures included.\<close>

definition stays :: "('g \<Rightarrow> bool) \<Rightarrow> ('g, 'e, 'a) effect \<Rightarrow> bool" where
  "stays I m = (\<forall>g. I g \<longrightarrow> I (snd (m g)))"

lemma staysD: "stays I m \<Longrightarrow> I g \<Longrightarrow> I (snd (m g))"
  by (simp add: stays_def)

lemma stays_pure [simp]:
  "stays I (re_return x)" "stays I (re_fail e)" "stays I (re_guard b e)" "stays I (re_lift r)"
  by (simp_all add: stays_def re_return_def re_fail_def re_guard_def re_lift_def)

lemma stays_bind [intro]: "stays I m \<Longrightarrow> (\<And>x. stays I (k x)) \<Longrightarrow> stays I (re_bind m k)"
  by (fastforce simp: stays_def re_bind_def split: prod.splits sum.splits)

lemma stays_catch [intro]: "stays I m \<Longrightarrow> (\<And>e. stays I (k e)) \<Longrightarrow> stays I (re_catch m k)"
  by (fastforce simp: stays_def re_catch_def split: prod.splits sum.splits)

lemma stays_when [intro]: "(b \<Longrightarrow> stays I m) \<Longrightarrow> stays I (re_when b m)"
  by (simp add: re_when_def)

lemma re_bind_Inr:
  "re_bind m k w = (Inr x, w') \<longleftrightarrow> (\<exists>y v. m w = (Inr y, v) \<and> k y v = (Inr x, w'))"
  by (auto simp: re_bind_def split: prod.splits sum.splits)

text \<open>
  Triples with two outcomes: from a state with \<open>P\<close> the computation answers in one with \<open>Q\<close>, or fails
  in one with \<open>E\<close>.
\<close>

definition runs_to ::
  "('g \<Rightarrow> bool) \<Rightarrow> ('g, 'e, 'a) effect \<Rightarrow> ('a \<Rightarrow> 'g \<Rightarrow> bool) \<Rightarrow> ('g \<Rightarrow> bool) \<Rightarrow> bool" where
  "runs_to P m Q E = (\<forall>g. P g \<longrightarrow> (case m g of (Inl e, g') \<Rightarrow> E g' | (Inr x, g') \<Rightarrow> Q x g'))"

lemma runs_Inr: "runs_to P m Q E \<Longrightarrow> P g \<Longrightarrow> m g = (Inr x, g') \<Longrightarrow> Q x g'"
  by (auto simp: runs_to_def)

lemma runs_Inl: "runs_to P m Q E \<Longrightarrow> P g \<Longrightarrow> m g = (Inl e, g') \<Longrightarrow> E g'"
  by (auto simp: runs_to_def)

lemma runs_bind:
  "runs_to P m Q E \<Longrightarrow> (\<And>x. runs_to (Q x) (k x) R E) \<Longrightarrow> runs_to P (re_bind m k) R E"
  by (fastforce simp: runs_to_def re_bind_def split: prod.splits sum.splits)

lemma runs_return: "(\<And>g. P g \<Longrightarrow> Q x g) \<Longrightarrow> runs_to P (re_return x) Q E"
  by (simp add: runs_to_def re_return_def)

lemma runs_fail: "(\<And>g. P g \<Longrightarrow> E g) \<Longrightarrow> runs_to P (re_fail e) Q E"
  by (simp add: runs_to_def re_fail_def)

lemma runs_lift:
  "(\<And>x g. r = Inr x \<Longrightarrow> P g \<Longrightarrow> Q x g) \<Longrightarrow> (\<And>g. P g \<Longrightarrow> E g) \<Longrightarrow> runs_to P (re_lift r) Q E"
  by (auto simp: runs_to_def re_lift_def split: sum.split)

lemma runs_when:
  "(b \<Longrightarrow> runs_to P m (\<lambda>_. P) E) \<Longrightarrow> runs_to P (re_when b m) (\<lambda>_. P) E"
  by (auto simp: re_when_def intro: runs_return)

lemma runs_stays: "stays P m \<Longrightarrow> (\<And>g. P g \<Longrightarrow> E g) \<Longrightarrow> runs_to P m (\<lambda>_. P) E"
  by (auto simp: runs_to_def stays_def split: prod.splits sum.splits)

end
