(* ===== verification/Publication_Execution.thy ===== *)
theory Publication_Execution
  imports Publication Unified_Diff Base64 Effects
begin

text \<open>
  \<open>packages/publication/src/execution.ts\<close> without the diff parser: the re-verification of the
  persisted bundle, the GitHub client, the materialization of the approved patch as a commit, the
  branch and the draft pull request, and the classification of failures.

  GitHub itself is the argument \<open>transport\<close>: what a request answers and how it changes the
  remote state, of any type \<open>'g\<close>. A remote computation carries that state on through failures,
  since a failed step does not undo what GitHub has already done.
\<close>

section \<open>Bundle\<close>

record BundlePublication =
  bp_id :: string
  bp_organizationId :: string
  bp_repositoryId :: string
  bp_status :: PublicationStatus
  bp_version :: int
  bp_attemptCount :: int
  bp_policyVersion :: string
  bp_baseBranch :: string
  bp_headBranch :: string
  bp_baseCommitSha :: string
  bp_approvedPatchVersion :: int
  bp_patchDigest :: string
  bp_expectedTreeDigest :: string
  bp_treeSha :: "string option"
  bp_commitSha :: "string option"
  bp_pullRequestNumber :: "int option"
  bp_pullRequestUrl :: "string option"

record PublicationExecutionBundle =
  bu_publication :: BundlePublication
  bu_recoveryId :: string
  bu_recoveryStatus :: string
  bu_currentPatchVersion :: "int option"
  bu_recoveryBaseCommitSha :: string
  bu_patchId :: string
  bu_patchVersion :: int
  bu_unifiedDiff :: string
  bu_patchDigest :: string
  bu_title :: string
  bu_body :: string
  bu_approvedCount :: int
  bu_latestApprovedAt :: "string option"
  bu_securityReview :: "string option"
  bu_verification :: "string option"
  bu_materialization :: "(string \<times> string) option"
  bu_policy :: PublicationPolicy
  bu_installationId :: string
  bu_repositoryOwner :: string
  bu_repositoryName :: string
  bu_providerRepoId :: string

datatype failure =
    is_PublicationFailure: PublicationFailure (failureStatus: PublicationStatus) (failureCode: string) string
  | GithubPublicationApiError int string
  | OtherError string

text \<open>The guards in the order of the code; each is the condition that throws.\<close>

definition bundle_guards ::
  "host \<Rightarrow> PublicationExecutionBundle \<Rightarrow> (bool \<times> failure) list" where
  "bundle_guards h b =
     (let p = bu_publication b; pol = bu_policy b
      in [(bu_recoveryStatus b \<noteq> ''READY_TO_PUBLISH'',
           PublicationFailure PublicationStatus.PUBLICATION_BLOCKED
             ''PUBLICATION_RECOVERY_NOT_PUBLISHABLE''
             (''Recovery is '' @ bu_recoveryStatus b @ '', not READY_TO_PUBLISH.'')),
          (bu_currentPatchVersion b \<noteq> Some (bp_approvedPatchVersion p)
             \<or> bu_patchVersion b \<noteq> bp_approvedPatchVersion p,
           PublicationFailure PublicationStatus.PUBLICATION_BLOCKED
             ''PUBLICATION_PATCH_VERSION_STALE''
             ''The approved patch version no longer matches the recovery.''),
          (bu_recoveryBaseCommitSha b \<noteq> bp_baseCommitSha p,
           PublicationFailure PublicationStatus.BASE_BRANCH_STALE ''BASE_BRANCH_STALE''
             ''The recovery base commit no longer matches the approved publication base.''),
          (sha256 h (crlf_to_lf (bu_unifiedDiff b)) \<noteq> bu_patchDigest b
             \<or> bu_patchDigest b \<noteq> bp_patchDigest p,
           PublicationFailure PublicationStatus.PUBLICATION_BLOCKED
             ''PUBLICATION_PATCH_DIGEST_MISMATCH''
             ''The persisted patch does not match the approved patch digest.''),
          (bp_baseBranch p \<notin> set (pol_allowedBaseBranches pol),
           PublicationFailure PublicationStatus.SECURITY_BLOCKED ''PUBLICATION_POLICY_BASE_BRANCH''
             (''Base branch '' @ bp_baseBranch p
              @ '' is not permitted by the repository publication policy.'')),
          (\<not> startsWith (bp_headBranch p) (pol_recoveryBranchPrefix pol),
           PublicationFailure PublicationStatus.SECURITY_BLOCKED
             ''PUBLICATION_POLICY_BRANCH_PREFIX''
             ''The publication head branch does not use the configured recovery branch prefix.''),
          (bp_headBranch p = bp_baseBranch p,
           PublicationFailure PublicationStatus.SECURITY_BLOCKED
             ''PUBLICATION_POLICY_PROTECTED_BRANCH''
             ''The publication head branch cannot equal the protected base branch.''),
          (pol_allowForcePush pol \<or> pol_allowProtectedBranchWrites pol,
           PublicationFailure PublicationStatus.SECURITY_BLOCKED
             ''PUBLICATION_POLICY_UNSAFE_WRITE''
             ''The repository publication policy permits unsafe writes.''),
          (pol_maximumPublicationAttempts pol < bp_attemptCount p,
           PublicationFailure PublicationStatus.PUBLICATION_BLOCKED
             ''PUBLICATION_ATTEMPTS_EXCEEDED''
             ''The maximum number of publication attempts has been exceeded.''),
          (bu_approvedCount b < 1 \<or> \<not> truthy (bu_latestApprovedAt b),
           PublicationFailure PublicationStatus.PUBLICATION_BLOCKED
             ''PUBLICATION_APPROVAL_MISSING''
             ''A human publication approval is required before execution.''),
          (bu_verification b \<noteq> Some ''PASSED'',
           PublicationFailure PublicationStatus.PUBLICATION_BLOCKED
             ''PUBLICATION_VERIFICATION_INCOMPLETE''
             ''Independent recovery verification has not passed for the approved patch.''),
          (bu_securityReview b \<noteq> Some ''ALLOW'',
           PublicationFailure PublicationStatus.SECURITY_BLOCKED ''SECURITY_REVIEW_REJECTED''
             ''The security review has not accepted the approved patch.'')])"

text \<open>The first guard that holds throws.\<close>

fun first_failure :: "(bool \<times> 'e) list \<Rightarrow> 'e + unit" where
  "first_failure [] = Inr ()"
| "first_failure ((b, e) # gs) = (if b then Inl e else first_failure gs)"

definition verifyPublicationBundle ::
  "host \<Rightarrow> PublicationExecutionBundle \<Rightarrow> failure + unit" where
  "verifyPublicationBundle h b = first_failure (bundle_guards h b)"

section \<open>Failures and stages\<close>

definition stageFailureStatus :: "PublicationStatus \<Rightarrow> PublicationStatus option" where
  "stageFailureStatus stage =
     (case stage of
        PublicationStatus.POLICY_CHECK \<Rightarrow> Some PublicationStatus.PUBLICATION_BLOCKED
      | PublicationStatus.COMMIT_MATERIALIZING \<Rightarrow> Some PublicationStatus.PUBLICATION_BLOCKED
      | PublicationStatus.BRANCH_PUBLISHING \<Rightarrow> Some PublicationStatus.PUSH_FAILED
      | PublicationStatus.DRAFT_PR_CREATING \<Rightarrow> Some PublicationStatus.PR_CREATION_FAILED
      | _ \<Rightarrow> None)"

definition failure_message :: "failure \<Rightarrow> string" where
  "failure_message e =
     (case e of PublicationFailure _ _ m \<Rightarrow> m | GithubPublicationApiError _ m \<Rightarrow> m | OtherError m \<Rightarrow> m)"

text \<open>The status, the code and the message.\<close>

definition classifyPublicationFailure ::
  "failure \<Rightarrow> PublicationStatus \<Rightarrow> PublicationStatus \<times> string \<times> string" where
  "classifyPublicationFailure e stage =
     (let stageStatus = (case stageFailureStatus stage of
                           None \<Rightarrow> PublicationStatus.PUBLICATION_BLOCKED | Some s \<Rightarrow> s);
          m = take 2000 (failure_message e)
      in case e of
           PublicationFailure st code _ \<Rightarrow> (st, code, m)
         | OtherError _ \<Rightarrow>
             if has_text (to_lower m) ''cancel''
             then (PublicationStatus.CANCELLED, ''PUBLICATION_CANCELLED'', m)
             else (stageStatus, ''PUBLICATION_EXECUTION_FAILED'', m)
         | GithubPublicationApiError status _ \<Rightarrow>
             if has_text (to_lower m) ''cancel''
             then (PublicationStatus.CANCELLED, ''PUBLICATION_CANCELLED'', m)
             else if status = 401 \<or> status = 403
             then (PublicationStatus.PUBLICATION_BLOCKED, ''PUBLICATION_FORBIDDEN'', m)
             else if status = 404
             then (PublicationStatus.PUBLICATION_BLOCKED, ''PUBLICATION_NOT_FOUND'', m)
             else if status = 409 then (stageStatus, ''PUBLICATION_CONFLICT'', m)
             else if status = 422 then (stageStatus, ''PUBLICATION_VALIDATION_FAILED'', m)
             else if 500 \<le> status then (stageStatus, ''PUBLICATION_GITHUB_UNAVAILABLE'', m)
             else (stageStatus, ''PUBLICATION_EXECUTION_FAILED'', m))"

fun publicationExecutionStage :: "PublicationStatus \<Rightarrow> nat" where
  "publicationExecutionStage PublicationStatus.PUBLICATION_REQUESTED = 0"
| "publicationExecutionStage PublicationStatus.POLICY_CHECK = 1"
| "publicationExecutionStage PublicationStatus.COMMIT_MATERIALIZING = 2"
| "publicationExecutionStage PublicationStatus.BRANCH_PUBLISHING = 3"
| "publicationExecutionStage PublicationStatus.PUSH_FAILED = 3"
| "publicationExecutionStage PublicationStatus.DRAFT_PR_CREATING = 4"
| "publicationExecutionStage PublicationStatus.PR_CREATION_FAILED = 4"
| "publicationExecutionStage _ = 5"

section \<open>Remote computations\<close>

type_synonym ('g, 'a) remote = "('g, failure, 'a) effect"

section \<open>The GitHub client\<close>

record response =
  rs_status :: int
  rs_json :: "string + json"
  rs_text :: string

text \<open>
  A request: the method, the URL and the body. \<open>fetch\<close> answers, or throws with a message; reading
  the body as JSON yields a value or throws.
\<close>

type_synonym 'g transport =
  "string \<Rightarrow> string \<Rightarrow> json option \<Rightarrow> 'g \<Rightarrow> (string + response) \<times> 'g"

record client =
  cl_baseUrl :: string
  cl_owner :: string
  cl_repo :: string
  cl_token :: string

definition hex_upper :: "nat \<Rightarrow> char" where
  "hex_upper n = (if n < 10 then char_of (48 + n) else char_of (55 + n))"

definition encodeURIComponent :: "string \<Rightarrow> string" where
  "encodeURIComponent s =
     concat (map (\<lambda>c. if is_alnum c \<or> c \<in> set ''-_.!~*()'' \<or> c = CHR 0x27 then [c]
       else [CHR ''%'', hex_upper (char_code c div 16), hex_upper (char_code c mod 16)]) s)"

text \<open>\<open>s.split(pattern).join(with)\<close> for a non-empty pattern.\<close>

function replace_text :: "string \<Rightarrow> string \<Rightarrow> string \<Rightarrow> string" where
  "replace_text p w [] = []"
| "replace_text p w (c # s) =
     (if p \<noteq> [] \<and> startsWith (c # s) p then w @ replace_text p w (drop (length p - 1) s)
      else c # replace_text p w s)"
  by pat_completeness auto
termination
  by (relation "measure (\<lambda>(p, w, s). length s)") auto

definition api_url :: "client \<Rightarrow> string \<Rightarrow> string" where
  "api_url cl p =
     drop_final_slash (cl_baseUrl cl) @ ''/repos/'' @ encodeURIComponent (cl_owner cl) @ ''/''
     @ encodeURIComponent (cl_repo cl) @ p"

definition request_error :: "client \<Rightarrow> string \<Rightarrow> string \<Rightarrow> response \<Rightarrow> failure" where
  "request_error cl verb p r =
     GithubPublicationApiError (rs_status r)
       (replace_text (cl_token cl) ''[redacted]''
         (''GitHub '' @ verb @ '' '' @ p @ '' failed with status '' @ show_int (rs_status r) @ '': ''
          @ take 500 (rs_text r)))"

text \<open>\<open>response.ok\<close>.\<close>

definition response_ok :: "response \<Rightarrow> bool" where
  "response_ok r = (200 \<le> rs_status r \<and> rs_status r \<le> 299)"

definition gh_request ::
  "'g transport \<Rightarrow> client \<Rightarrow> string \<Rightarrow> string \<Rightarrow> json option \<Rightarrow> bool \<Rightarrow> ('g, json option) remote"
where
  "gh_request rq cl verb p payload allowNotFound = (\<lambda>g.
     case rq verb (api_url cl p) payload g of
       (Inl m, g') \<Rightarrow> (Inl (OtherError m), g')
     | (Inr r, g') \<Rightarrow>
         if rs_status r = 404 \<and> allowNotFound then (Inr None, g')
         else if \<not> response_ok r then (Inl (request_error cl verb p r), g')
         else (map_sum OtherError Some (rs_json r), g'))"

text \<open>\<open>data?.field\<close>, and a field that holds a string, a number, an array.\<close>

definition json_field :: "string \<Rightarrow> json option \<Rightarrow> json option" where
  "json_field k v = (case v of Some (JObj es) \<Rightarrow> map_of es k | _ \<Rightarrow> None)"

definition json_str :: "json option \<Rightarrow> string option" where
  "json_str v = (case v of Some (JStr s) \<Rightarrow> Some s | _ \<Rightarrow> None)"

definition json_num :: "json option \<Rightarrow> int option" where
  "json_num v = (case v of Some (JNum n) \<Rightarrow> Some n | _ \<Rightarrow> None)"

definition json_arr :: "json option \<Rightarrow> json list option" where
  "json_arr v = (case v of Some (JArr vs) \<Rightarrow> Some vs | _ \<Rightarrow> None)"

definition or_empty :: "string option \<Rightarrow> string" where
  "or_empty s = (case s of None \<Rightarrow> [] | Some v \<Rightarrow> v)"

definition SHA40 :: "string \<Rightarrow> bool" where
  "SHA40 s = (length s = 40 \<and> list_all is_hex s)"

definition integrity_failure :: "string \<Rightarrow> failure" where
  "integrity_failure m =
     PublicationFailure PublicationStatus.PUBLICATION_BLOCKED ''PUBLICATION_INTEGRITY_FAILED'' m"

text \<open>\<open>if (!sha || !SHA40.test(sha)) throw\<close>, then the lower-case name.\<close>

definition checked_sha :: "string option \<Rightarrow> string \<Rightarrow> ('g, string) remote" where
  "checked_sha sha m =
     (if truthy sha \<and> SHA40 (or_empty sha) then re_return (to_lower (or_empty sha))
      else re_fail (integrity_failure m))"

definition getRef :: "'g transport \<Rightarrow> client \<Rightarrow> string \<Rightarrow> ('g, string option) remote" where
  "getRef rq cl branch =
     re_bind (gh_request rq cl ''GET'' (''/git/ref/heads/'' @ branch) None True) (\<lambda>data.
       let sha = json_str (json_field ''sha'' (json_field ''object'' data))
       in if \<not> truthy sha then re_return None
          else re_bind (checked_sha sha ''GitHub returned a malformed ref SHA.'')
                 (\<lambda>s. re_return (Some s)))"

record GitCommit =
  gc_sha :: string
  gc_treeSha :: string
  gc_parents :: "string list"

definition getCommit :: "'g transport \<Rightarrow> client \<Rightarrow> string \<Rightarrow> ('g, GitCommit) remote" where
  "getCommit rq cl sha =
     re_bind (gh_request rq cl ''GET'' (''/git/commits/'' @ sha) None False) (\<lambda>data.
       let m = ''GitHub returned a malformed commit object.'';
           parents = (case json_arr (json_field ''parents'' data) of None \<Rightarrow> [] | Some ps \<Rightarrow>
                        map (\<lambda>p. or_empty (json_str (json_field ''sha'' (Some p)))) ps)
       in re_bind (checked_sha (json_str (json_field ''sha'' data)) m) (\<lambda>s.
          re_bind (checked_sha (json_str (json_field ''sha'' (json_field ''tree'' data))) m) (\<lambda>t.
            re_return \<lparr>gc_sha = s, gc_treeSha = t, gc_parents = map to_lower parents\<rparr>)))"

record GitTreeEntry =
  te_path :: string
  te_mode :: string
  te_type :: string
  te_sha :: string

definition tree_entry :: "json \<Rightarrow> GitTreeEntry" where
  "tree_entry v =
     \<lparr>te_path = or_empty (json_str (json_field ''path'' (Some v))),
      te_mode = or_empty (json_str (json_field ''mode'' (Some v))),
      te_type = or_empty (json_str (json_field ''type'' (Some v))),
      te_sha = to_lower (or_empty (json_str (json_field ''sha'' (Some v))))\<rparr>"

definition getTree :: "'g transport \<Rightarrow> client \<Rightarrow> string \<Rightarrow> ('g, GitTreeEntry list) remote" where
  "getTree rq cl sha =
     re_bind (gh_request rq cl ''GET'' (''/git/trees/'' @ sha @ ''?recursive=1'') None False)
       (\<lambda>data.
         case json_arr (json_field ''tree'' data) of
           None \<Rightarrow> re_fail (integrity_failure ''GitHub returned a malformed tree object.'')
         | Some entries \<Rightarrow>
             if json_field ''truncated'' data = Some (JBool True)
             then re_fail (PublicationFailure PublicationStatus.PUBLICATION_BLOCKED
                    ''PUBLICATION_TREE_TRUNCATED''
                    ''GitHub truncated the repository tree; publication integrity cannot be verified.'')
             else re_return (map tree_entry entries))"

definition getBlobContent :: "'g transport \<Rightarrow> client \<Rightarrow> string \<Rightarrow> ('g, string) remote" where
  "getBlobContent rq cl sha =
     re_bind (gh_request rq cl ''GET'' (''/git/blobs/'' @ sha) None False) (\<lambda>data.
       case json_str (json_field ''content'' data) of
         None \<Rightarrow> re_fail (integrity_failure ''GitHub returned a malformed blob object.'')
       | Some c \<Rightarrow>
           if json_str (json_field ''encoding'' data) \<noteq> Some ''base64''
           then re_fail (integrity_failure ''GitHub returned a malformed blob object.'')
           else re_return (base64_decode c))"

definition createBlob :: "'g transport \<Rightarrow> client \<Rightarrow> string \<Rightarrow> ('g, string) remote" where
  "createBlob rq cl blob_text =
     re_bind (gh_request rq cl ''POST'' ''/git/blobs''
                (Some (JObj [(''content'', JStr blob_text), (''encoding'', JStr ''utf-8'')])) False)
       (\<lambda>data. checked_sha (json_str (json_field ''sha'' data))
                 ''GitHub returned a malformed blob SHA.'')"

text \<open>An entry of a tree to create; an entry without mode and sha deletes its path.\<close>

record TreeInput =
  ti_path :: string
  ti_blob :: "(string \<times> string) option"

definition tree_input_json :: "TreeInput \<Rightarrow> json" where
  "tree_input_json e =
     (case ti_blob e of
        None \<Rightarrow> JObj [(''path'', JStr (ti_path e)), (''sha'', JNull)]
      | Some (mode, sha) \<Rightarrow> JObj [(''path'', JStr (ti_path e)), (''mode'', JStr mode),
                                (''type'', JStr ''blob''), (''sha'', JStr sha)])"

definition createTree ::
  "'g transport \<Rightarrow> client \<Rightarrow> string \<Rightarrow> TreeInput list \<Rightarrow> ('g, string) remote" where
  "createTree rq cl base entries =
     re_bind (gh_request rq cl ''POST'' ''/git/trees''
                (Some (JObj [(''base_tree'', JStr base),
                             (''tree'', JArr (map tree_input_json entries))])) False)
       (\<lambda>data. checked_sha (json_str (json_field ''sha'' data))
                 ''GitHub returned a malformed tree SHA.'')"

definition identity_json :: "string \<Rightarrow> json" where
  "identity_json date =
     JObj [(''name'', JStr ''CodeER Recovery''),
           (''email'', JStr ''codeer-recovery@users.noreply.github.com''), (''date'', JStr date)]"

definition createCommit ::
  "'g transport \<Rightarrow> client \<Rightarrow> string \<Rightarrow> string \<Rightarrow> string \<Rightarrow> json \<Rightarrow> json \<Rightarrow> ('g, string) remote" where
  "createCommit rq cl message treeSha parentSha author committer =
     re_bind (gh_request rq cl ''POST'' ''/git/commits''
                (Some (JObj [(''message'', JStr message), (''tree'', JStr treeSha),
                             (''parents'', JArr [JStr parentSha]), (''author'', author),
                             (''committer'', committer)])) False)
       (\<lambda>data. checked_sha (json_str (json_field ''sha'' data))
                 ''GitHub returned a malformed commit SHA.'')"

definition createRef :: "'g transport \<Rightarrow> client \<Rightarrow> string \<Rightarrow> string \<Rightarrow> ('g, unit) remote" where
  "createRef rq cl branch sha =
     re_bind (gh_request rq cl ''POST'' ''/git/refs''
                (Some (JObj [(''ref'', JStr (''refs/heads/'' @ branch)), (''sha'', JStr sha)]))
                False)
       (\<lambda>_. re_return ())"

record PublicationPullRequest =
  ppr_number :: int
  ppr_nodeId :: string
  ppr_url :: string
  ppr_title :: string
  ppr_body :: string
  ppr_draft :: bool
  ppr_state :: string
  ppr_headRef :: string
  ppr_headSha :: string
  ppr_baseRef :: string
  ppr_baseSha :: string

text \<open>\<open>field ?? default\<close>.\<close>

definition str_field :: "string \<Rightarrow> json option \<Rightarrow> string \<Rightarrow> string" where
  "str_field k v fallback =
     (case json_str (json_field k v) of None \<Rightarrow> fallback | Some s \<Rightarrow> s)"

definition findOpenPullRequest ::
  "'g transport \<Rightarrow> client \<Rightarrow> string \<Rightarrow> ('g, PublicationPullRequest option) remote" where
  "findOpenPullRequest rq cl headBranch =
     re_bind (gh_request rq cl ''GET'' (''/pulls?state=open&head=''
                @ encodeURIComponent (cl_owner cl @ '':'' @ headBranch) @ ''&per_page=10'') None False)
       (\<lambda>data.
         case json_arr data of
           Some (c # _) \<Rightarrow>
             (case json_num (json_field ''number'' (Some c)) of
                None \<Rightarrow> re_return None
              | Some n \<Rightarrow> re_return (Some
                  \<lparr>ppr_number = n, ppr_nodeId = str_field ''node_id'' (Some c) [],
                   ppr_url = str_field ''html_url'' (Some c) [],
                   ppr_title = str_field ''title'' (Some c) [],
                   ppr_body = str_field ''body'' (Some c) [],
                   ppr_draft = (json_field ''draft'' (Some c) = Some (JBool True)),
                   ppr_state = str_field ''state'' (Some c) ''open'',
                   ppr_headRef = str_field ''ref'' (json_field ''head'' (Some c)) [],
                   ppr_headSha = to_lower (str_field ''sha'' (json_field ''head'' (Some c)) []),
                   ppr_baseRef = str_field ''ref'' (json_field ''base'' (Some c)) [],
                   ppr_baseSha = to_lower (str_field ''sha'' (json_field ''base'' (Some c)) [])\<rparr>))
         | _ \<Rightarrow> re_return None)"

definition createPullRequest ::
  "'g transport \<Rightarrow> client \<Rightarrow> string \<Rightarrow> string \<Rightarrow> string \<Rightarrow> string
   \<Rightarrow> ('g, PublicationPullRequest) remote" where
  "createPullRequest rq cl title pr_body headBranch baseBranch =
     re_bind (gh_request rq cl ''POST'' ''/pulls''
                (Some (JObj [(''title'', JStr title), (''body'', JStr pr_body),
                             (''head'', JStr headBranch), (''base'', JStr baseBranch),
                             (''draft'', JBool True)])) False)
       (\<lambda>data.
         case json_num (json_field ''number'' data) of
           None \<Rightarrow> re_fail (PublicationFailure PublicationStatus.PR_CREATION_FAILED
                     ''PUBLICATION_PR_INVALID''
                     ''GitHub did not return a valid draft pull request.'')
         | Some n \<Rightarrow>
             if json_field ''draft'' data \<noteq> Some (JBool True)
             then re_fail (PublicationFailure PublicationStatus.PR_CREATION_FAILED
                    ''PUBLICATION_PR_INVALID''
                    ''GitHub did not return a valid draft pull request.'')
             else re_return
               \<lparr>ppr_number = n, ppr_nodeId = str_field ''node_id'' data [],
                ppr_url = str_field ''html_url'' data [],
                ppr_title = str_field ''title'' data title,
                ppr_body = str_field ''body'' data pr_body, ppr_draft = True,
                ppr_state = str_field ''state'' data ''open'',
                ppr_headRef = str_field ''ref'' (json_field ''head'' data) headBranch,
                ppr_headSha = to_lower (str_field ''sha'' (json_field ''head'' data) []),
                ppr_baseRef = str_field ''ref'' (json_field ''base'' data) baseBranch,
                ppr_baseSha = to_lower (str_field ''sha'' (json_field ''base'' data) [])\<rparr>)"

section \<open>Materialization\<close>

definition blocked :: "string \<Rightarrow> string \<Rightarrow> failure" where
  "blocked code m = PublicationFailure PublicationStatus.PUBLICATION_BLOCKED code m"

definition base_stale :: "string \<Rightarrow> failure" where
  "base_stale m = PublicationFailure PublicationStatus.BASE_BRANCH_STALE ''BASE_BRANCH_STALE'' m"

definition digestGitTreeEntries :: "host \<Rightarrow> GitTreeEntry list \<Rightarrow> string" where
  "digestGitTreeEntries h entries =
     sha256 h (canonicalJson h (JArr
       (map (\<lambda>e. JObj [(''mode'', JStr (te_mode e)), (''path'', JStr (te_path e)),
                       (''sha'', JStr (to_lower (te_sha e)))])
         (sort_by (\<lambda>a b. locale_le h (te_path a) (te_path b))
           (filter (\<lambda>e. te_type e = ''blob'') entries)))))"

definition buildCommitMessage :: "PublicationExecutionBundle \<Rightarrow> string" where
  "buildCommitMessage b =
     join_with [LF]
       [bu_title b, [], ''CodeER-Publication: '' @ bp_id (bu_publication b),
        ''CodeER-Recovery: '' @ bu_recoveryId b,
        ''CodeER-Patch-Version: '' @ show_int (bp_approvedPatchVersion (bu_publication b)),
        ''CodeER-Patch-Digest: '' @ bp_patchDigest (bu_publication b)]"

text \<open>A \<open>Map\<close> from paths to blob entries, in insertion order.\<close>

type_synonym blob_map = "(string \<times> GitTreeEntry) list"

definition blobs_of :: "GitTreeEntry list \<Rightarrow> blob_map" where
  "blobs_of entries =
     foldl (\<lambda>m e. put_entry (te_path e) e m) [] (filter (\<lambda>e. te_type e = ''blob'') entries)"

definition delete_entry :: "string \<Rightarrow> blob_map \<Rightarrow> blob_map" where
  "delete_entry k m = filter (\<lambda>(k', _). k' \<noteq> k) m"

definition target_path :: "ParsedFilePatch \<Rightarrow> string" where
  "target_path f =
     (case pf_newPath f of Some p \<Rightarrow> p | None \<Rightarrow> or_empty (pf_oldPath f))"

definition has_blob :: "blob_map \<Rightarrow> string option \<Rightarrow> bool" where
  "has_blob m p = (truthy p \<and> map_of m (or_empty p) \<noteq> None)"

definition shown_path :: "string option \<Rightarrow> string" where
  "shown_path p = (case p of None \<Rightarrow> ''null'' | Some s \<Rightarrow> s)"

text \<open>The blob of one added, modified or renamed file: read, apply, create.\<close>

definition materialize_blob ::
  "'g transport \<Rightarrow> client \<Rightarrow> blob_map \<Rightarrow> ParsedFilePatch \<Rightarrow> ('g, GitTreeEntry) remote" where
  "materialize_blob rq cl base f =
     (let target = target_path f;
          entry = (if truthy (pf_oldPath f) then map_of base (or_empty (pf_oldPath f)) else None)
      in re_bind (re_guard (pf_changeType f = ChangeType.ADD \<and> map_of base target \<noteq> None)
           (blocked ''PUBLICATION_PATCH_INVALID''
             (''Patch adds a file that already exists in the base tree: '' @ target @ ''.''))) (\<lambda>_.
         re_bind (re_guard (pf_changeType f \<in> {ChangeType.MODIFY, ChangeType.RENAME} \<and> entry = None)
           (blocked ''PUBLICATION_PATCH_INVALID''
             (''Patch modifies a file that is absent from the base tree: ''
              @ shown_path (pf_oldPath f) @ ''.''))) (\<lambda>_.
         re_bind (case entry of None \<Rightarrow> re_return [] | Some e \<Rightarrow> getBlobContent rq cl (te_sha e))
           (\<lambda>base_text.
         case applyFileHunks base_text f target of
           Inl m \<Rightarrow> re_fail (blocked ''PUBLICATION_PATCH_INVALID'' m)
         | Inr new_text \<Rightarrow>
             re_bind (createBlob rq cl new_text) (\<lambda>sha.
               re_return \<lparr>te_path = target,
                 te_mode = (case entry of None \<Rightarrow> ''100644'' | Some e \<Rightarrow> te_mode e),
                 te_type = ''blob'', te_sha = sha\<rparr>)))))"

text \<open>The loop over the files: the expected blobs and the entries of the tree to create.\<close>

fun materialize_files ::
  "'g transport \<Rightarrow> client \<Rightarrow> blob_map \<Rightarrow> blob_map \<Rightarrow> TreeInput list \<Rightarrow> ParsedFilePatch list
   \<Rightarrow> ('g, blob_map \<times> TreeInput list) remote" where
  "materialize_files rq cl base expected tree [] = re_return (expected, tree)"
| "materialize_files rq cl base expected tree (f # fs) =
     (if pf_changeType f = ChangeType.DELETE
      then re_bind (re_guard (\<not> has_blob base (pf_oldPath f))
             (blocked ''PUBLICATION_PATCH_INVALID''
               (''Patch deletes a file that is absent from the base tree: ''
                @ shown_path (pf_oldPath f) @ ''.''))) (\<lambda>_.
           materialize_files rq cl base (delete_entry (or_empty (pf_oldPath f)) expected)
             (tree @ [\<lparr>ti_path = or_empty (pf_oldPath f), ti_blob = None\<rparr>]) fs)
      else re_bind (materialize_blob rq cl base f) (\<lambda>e.
        let expected' = put_entry (te_path e) e expected;
            tree' = tree @ [\<lparr>ti_path = te_path e, ti_blob = Some (te_mode e, te_sha e)\<rparr>]
        in if pf_changeType f = ChangeType.RENAME \<and> truthy (pf_oldPath f)
           then materialize_files rq cl base (delete_entry (or_empty (pf_oldPath f)) expected')
                  (tree' @ [\<lparr>ti_path = or_empty (pf_oldPath f), ti_blob = None\<rparr>]) fs
           else materialize_files rq cl base expected' tree' fs))"

record MaterializedPublicationCommit =
  mc_treeSha :: string
  mc_commitSha :: string
  mc_treeDigest :: string
  mc_messageDigest :: string

text \<open>The tree with the patch applied, checked against the expected blobs.\<close>

definition materialize_tree ::
  "host \<Rightarrow> 'g transport \<Rightarrow> client \<Rightarrow> string \<Rightarrow> GitTreeEntry list \<Rightarrow> ParsedFilePatch list
   \<Rightarrow> ('g, string \<times> string) remote" where
  "materialize_tree h rq cl baseTreeSha baseTree files =
     re_bind (materialize_files rq cl (blobs_of baseTree) (blobs_of baseTree) [] files)
       (\<lambda>(expected, tree).
     re_bind (createTree rq cl baseTreeSha tree) (\<lambda>treeSha.
     re_bind (getTree rq cl treeSha) (\<lambda>created.
     re_bind (re_guard (digestGitTreeEntries h (map snd expected) \<noteq> digestGitTreeEntries h created)
       (blocked ''PUBLICATION_TREE_DIGEST_MISMATCH''
         ''The materialized tree does not match the approved patch contents.'')) (\<lambda>_.
     re_return (treeSha, digestGitTreeEntries h created)))))"

definition materialize_commit ::
  "host \<Rightarrow> 'g transport \<Rightarrow> client \<Rightarrow> PublicationExecutionBundle \<Rightarrow> string \<Rightarrow> string
   \<Rightarrow> ('g, MaterializedPublicationCommit) remote" where
  "materialize_commit h rq cl b treeSha treeDigest =
     (let baseSha = bp_baseCommitSha (bu_publication b); message = buildCommitMessage b;
          identity = identity_json (case bu_latestApprovedAt b of None \<Rightarrow> iso_time h 0 | Some d \<Rightarrow> d)
      in re_bind (createCommit rq cl message treeSha baseSha identity identity) (\<lambda>commitSha.
         re_bind (getCommit rq cl commitSha) (\<lambda>c.
         re_bind (re_guard (gc_treeSha c \<noteq> treeSha
                            \<or> take 1 (gc_parents c) \<noteq> [baseSha])
           (blocked ''PUBLICATION_COMMIT_MISMATCH''
             ''The materialized commit does not reference the expected tree and base parent.''))
           (\<lambda>_. re_return \<lparr>mc_treeSha = treeSha, mc_commitSha = commitSha,
                  mc_treeDigest = treeDigest, mc_messageDigest = sha256 h message\<rparr>))))"

definition materializePublicationCommit ::
  "host \<Rightarrow> 'g transport \<Rightarrow> client \<Rightarrow> PublicationExecutionBundle
   \<Rightarrow> ('g, MaterializedPublicationCommit) remote" where
  "materializePublicationCommit h rq cl b =
     (let p = bu_publication b in
      re_bind (getRef rq cl (bp_baseBranch p)) (\<lambda>ref.
      case ref of
        None \<Rightarrow> re_fail (base_stale (''Base branch '' @ bp_baseBranch p
                        @ '' was not found on the remote.''))
      | Some sha \<Rightarrow>
          re_bind (re_guard (sha \<noteq> bp_baseCommitSha p)
            (base_stale ''The base branch moved after the recovery package was approved.'')) (\<lambda>_.
          re_bind (getCommit rq cl (bp_baseCommitSha p)) (\<lambda>baseCommit.
          re_bind (getTree rq cl (gc_treeSha baseCommit)) (\<lambda>baseTree.
          case parseUnifiedDiffFiles (bu_unifiedDiff b) of
            Inl m \<Rightarrow> re_fail (blocked ''PUBLICATION_PATCH_INVALID'' m)
          | Inr files \<Rightarrow>
              re_bind (materialize_tree h rq cl (gc_treeSha baseCommit) baseTree files)
                (\<lambda>(treeSha, digest). materialize_commit h rq cl b treeSha digest))))))"

definition verifyExistingPublicationCommit ::
  "host \<Rightarrow> 'g transport \<Rightarrow> client \<Rightarrow> PublicationExecutionBundle \<Rightarrow> ('g, string \<times> string) remote"
where
  "verifyExistingPublicationCommit h rq cl b =
     (let p = bu_publication b in
      case bu_materialization b of
        None \<Rightarrow> re_fail (blocked ''PUBLICATION_COMMIT_MISSING''
                  ''The publication has no recorded materialized commit.'')
      | Some (treeDigest, _) \<Rightarrow>
          re_bind (re_guard (\<not> truthy (bp_commitSha p) \<or> \<not> truthy (bp_treeSha p))
            (blocked ''PUBLICATION_COMMIT_MISSING''
              ''The publication has no recorded materialized commit.'')) (\<lambda>_.
          re_bind (getCommit rq cl (or_empty (bp_commitSha p))) (\<lambda>c.
          re_bind (re_guard (Some (gc_treeSha c) \<noteq> bp_treeSha p
                             \<or> take 1 (gc_parents c) \<noteq> [bp_baseCommitSha p])
            (blocked ''PUBLICATION_COMMIT_MISMATCH''
              ''The recorded commit no longer references the expected tree and base parent.''))
            (\<lambda>_.
          re_bind (getTree rq cl (gc_treeSha c)) (\<lambda>tree.
          re_bind (re_guard (digestGitTreeEntries h tree \<noteq> treeDigest)
            (blocked ''PUBLICATION_TREE_DIGEST_MISMATCH''
              ''The recorded tree no longer matches the approved patch contents.'')) (\<lambda>_.
          re_return (or_empty (bp_treeSha p), or_empty (bp_commitSha p))))))))"

section \<open>Branch and pull request\<close>

definition push_failed :: "string \<Rightarrow> string \<Rightarrow> failure" where
  "push_failed code m = PublicationFailure PublicationStatus.PUSH_FAILED code m"

definition pr_failed :: "string \<Rightarrow> string \<Rightarrow> failure" where
  "pr_failed code m = PublicationFailure PublicationStatus.PR_CREATION_FAILED code m"

text \<open>\<open>error instanceof GithubPublicationApiError && error.status === 422\<close>.\<close>

definition is_validation_error :: "failure \<Rightarrow> bool" where
  "is_validation_error e = (case e of GithubPublicationApiError s _ \<Rightarrow> s = 422 | _ \<Rightarrow> False)"

definition ensurePublicationBranch ::
  "'g transport \<Rightarrow> client \<Rightarrow> string \<Rightarrow> string \<Rightarrow> ('g, bool) remote" where
  "ensurePublicationBranch rq cl headBranch commitSha =
     re_bind (getRef rq cl headBranch) (\<lambda>existing.
       case existing of
         Some sha \<Rightarrow>
           if sha = commitSha then re_return True
           else re_fail (push_failed ''PUBLICATION_BRANCH_MISMATCH''
                  ''The publication branch already exists at an unexpected commit.'')
       | None \<Rightarrow>
           re_catch (re_bind (createRef rq cl headBranch commitSha) (\<lambda>_. re_return False))
             (\<lambda>e. if is_validation_error e
                  then re_bind (getRef rq cl headBranch) (\<lambda>raced.
                         if raced = Some commitSha then re_return True
                         else re_fail (push_failed ''PUBLICATION_BRANCH_EXISTS''
                           ''The publication branch was created concurrently at an unexpected commit.''))
                  else re_fail e))"

record PullRequestRequest =
  prq_title :: string
  prq_body :: string
  prq_headBranch :: string
  prq_baseBranch :: string
  prq_baseCommitSha :: string
  prq_commitSha :: string

definition pr_matches :: "PullRequestRequest \<Rightarrow> PublicationPullRequest \<Rightarrow> bool" where
  "pr_matches i p =
     (ppr_headRef p = prq_headBranch i \<and> ppr_baseRef p = prq_baseBranch i
      \<and> ppr_headSha p = prq_commitSha i)"

definition ensureDraftPullRequest ::
  "'g transport \<Rightarrow> client \<Rightarrow> PullRequestRequest \<Rightarrow> ('g, PublicationPullRequest \<times> bool) remote"
where
  "ensureDraftPullRequest rq cl i =
     re_bind (getRef rq cl (prq_baseBranch i)) (\<lambda>baseRef.
     re_bind (re_guard (baseRef \<noteq> Some (prq_baseCommitSha i))
       (base_stale ''The base branch moved before the draft pull request could be created.'')) (\<lambda>_.
     re_bind (findOpenPullRequest rq cl (prq_headBranch i)) (\<lambda>existing.
       case existing of
         Some p \<Rightarrow>
           if pr_matches i p then re_return (p, True)
           else re_fail (pr_failed ''PUBLICATION_PR_MISMATCH''
             ''An open pull request for the publication branch does not match the approved package.'')
       | None \<Rightarrow>
           re_catch (re_bind (createPullRequest rq cl (prq_title i) (prq_body i) (prq_headBranch i)
                        (prq_baseBranch i)) (\<lambda>p. re_return (p, False)))
             (\<lambda>e. if is_validation_error e
                  then re_bind (findOpenPullRequest rq cl (prq_headBranch i)) (\<lambda>raced.
                         case raced of
                           Some p \<Rightarrow>
                             if pr_matches i p then re_return (p, True)
                             else re_fail (pr_failed ''PUBLICATION_PR_EXISTS''
                               ''A pull request for the publication branch already exists and does not match.'')
                         | None \<Rightarrow> re_fail (pr_failed ''PUBLICATION_PR_EXISTS''
                               ''A pull request for the publication branch already exists and does not match.''))
                  else re_fail e))))"

section \<open>What the re-verification promises\<close>

lemma first_failure_Inr_iff: "first_failure gs = Inr () \<longleftrightarrow> (\<forall>(b, e) \<in> set gs. \<not> b)"
  by (induction gs rule: first_failure.induct) auto

lemma first_failure_Inr_list_all: "first_failure gs = Inr () \<longleftrightarrow> list_all (\<lambda>g. \<not> fst g) gs"
  by (induction gs rule: first_failure.induct) auto

lemma first_failure_Inl: "first_failure gs = Inl e \<Longrightarrow> \<exists>b. (b, e) \<in> set gs"
  by (induction gs rule: first_failure.induct) (auto split: if_splits)

text \<open>What must hold of the persisted state for a publication to be executed.\<close>

definition publishable :: "host \<Rightarrow> PublicationExecutionBundle \<Rightarrow> bool" where
  "publishable h b =
     (bu_recoveryStatus b = ''READY_TO_PUBLISH''
      \<and> bu_currentPatchVersion b = Some (bp_approvedPatchVersion (bu_publication b))
      \<and> bu_patchVersion b = bp_approvedPatchVersion (bu_publication b)
      \<and> bu_recoveryBaseCommitSha b = bp_baseCommitSha (bu_publication b)
      \<and> sha256 h (crlf_to_lf (bu_unifiedDiff b)) = bu_patchDigest b
      \<and> bu_patchDigest b = bp_patchDigest (bu_publication b)
      \<and> bp_baseBranch (bu_publication b) \<in> set (pol_allowedBaseBranches (bu_policy b))
      \<and> prefix (pol_recoveryBranchPrefix (bu_policy b)) (bp_headBranch (bu_publication b))
      \<and> bp_headBranch (bu_publication b) \<noteq> bp_baseBranch (bu_publication b)
      \<and> \<not> pol_allowForcePush (bu_policy b) \<and> \<not> pol_allowProtectedBranchWrites (bu_policy b)
      \<and> bp_attemptCount (bu_publication b) \<le> pol_maximumPublicationAttempts (bu_policy b)
      \<and> 1 \<le> bu_approvedCount b \<and> truthy (bu_latestApprovedAt b)
      \<and> bu_verification b = Some ''PASSED'' \<and> bu_securityReview b = Some ''ALLOW'')"

text \<open>A failure whose status the lifecycle permits from the policy check.\<close>

definition permitted_failure :: "failure \<Rightarrow> bool" where
  "permitted_failure e =
     (case e of PublicationFailure st _ _ \<Rightarrow>
        st \<in> set (publication_transitions PublicationStatus.POLICY_CHECK) | _ \<Rightarrow> False)"

lemma permitted_failureE:
  assumes "permitted_failure e"
  obtains st code m where "e = PublicationFailure st code m"
    "st \<in> set (publication_transitions PublicationStatus.POLICY_CHECK)"
  using assms by (cases e) (auto simp: permitted_failure_def simp del: publication_transitions.simps)

lemma bundle_guards_permitted: "list_all (\<lambda>g. permitted_failure (snd g)) (bundle_guards h b)"
  by (simp add: bundle_guards_def Let_def permitted_failure_def)

lemma bundle_failure_permitted: "verifyPublicationBundle h b = Inl e \<Longrightarrow> permitted_failure e"
  unfolding verifyPublicationBundle_def
  using first_failure_Inl bundle_guards_permitted [of h b, unfolded list_all_iff]
  by (metis snd_conv)

lemma verified_publishable: "verifyPublicationBundle h b = Inr () \<longleftrightarrow> publishable h b"
  unfolding verifyPublicationBundle_def first_failure_Inr_list_all bundle_guards_def Let_def
    publishable_def startsWith_iff list.pred_inject fst_conv simp_thms
  by (simp only: de_Morgan_disj not_not not_less not_le conj_assoc list.pred_inject simp_thms)


definition sample_policy :: PublicationPolicy where
  "sample_policy = \<lparr>pol_version = ''v1'', pol_allowedBaseBranches = [''main''],
     pol_recoveryBranchPrefix = ''codeer/recovery/'', pol_requireDraftPullRequest = True,
     pol_allowForcePush = False, pol_allowProtectedBranchWrites = False,
     pol_allowAutomaticMerge = False, pol_requiredChecks = [''ci''], pol_requiredApprovals = 1,
     pol_requireCodeOwnerApproval = False, pol_maximumPublicationAttempts = 3,
     pol_webhookReplayWindowSeconds = 600, pol_postMergeVerificationRequired = True,
     pol_retentionDays = 365\<rparr>"

definition sample_bundle :: PublicationExecutionBundle where
  "sample_bundle =
     \<lparr>bu_publication = \<lparr>bp_id = ''p1'', bp_organizationId = ''o1'', bp_repositoryId = ''r1'',
        bp_status = PublicationStatus.POLICY_CHECK, bp_version = 2, bp_attemptCount = 1,
        bp_policyVersion = ''v1'', bp_baseBranch = ''main'',
        bp_headBranch = ''codeer/recovery/inc-rec-v1'', bp_baseCommitSha = replicate 40 (CHR ''a''),
        bp_approvedPatchVersion = 1, bp_patchDigest = sample_patch, bp_expectedTreeDigest = ''t'',
        bp_treeSha = None, bp_commitSha = None, bp_pullRequestNumber = None,
        bp_pullRequestUrl = None\<rparr>,
      bu_recoveryId = ''rec1'', bu_recoveryStatus = ''READY_TO_PUBLISH'',
      bu_currentPatchVersion = Some 1, bu_recoveryBaseCommitSha = replicate 40 (CHR ''a''),
      bu_patchId = ''pv1'', bu_patchVersion = 1, bu_unifiedDiff = sample_patch,
      bu_patchDigest = sample_patch, bu_title = ''Fix'', bu_body = ''Body'', bu_approvedCount = 1,
      bu_latestApprovedAt = Some ''2026-01-01T00:00:00.000Z'', bu_securityReview = Some ''ALLOW'',
      bu_verification = Some ''PASSED'', bu_materialization = None, bu_policy = sample_policy,
      bu_installationId = ''7'', bu_repositoryOwner = ''acme'', bu_repositoryName = ''app'',
      bu_providerRepoId = ''42''\<rparr>"




text \<open>A retry after a failed push that no longer passes the policy cannot be blocked either.\<close>

lemma retry_cannot_be_blocked:
  "assertPublicationTransition PublicationStatus.PUSH_FAILED PublicationStatus.PUBLICATION_BLOCKED
     \<noteq> Inr ()"
  by (simp add: assertPublicationTransition_def)

section \<open>What is sent to GitHub\<close>

lemma checked_sha_stays [simp]: "stays I (checked_sha sha m)"
  by (simp add: checked_sha_def)

text \<open>
  The contract between a transport and the client: reads, and the writes \<open>ok\<close> admits, keep \<open>I\<close>.
\<close>

locale request_policy =
  fixes rq :: "'g transport" and cl :: client
    and ok :: "string \<Rightarrow> string \<Rightarrow> json option \<Rightarrow> bool" and I :: "'g \<Rightarrow> bool"
  assumes allowed: "ok verb p payload \<Longrightarrow> I g \<Longrightarrow> I (snd (rq verb (api_url cl p) payload g))"
    and reading: "ok ''GET'' p None"
begin

lemma gh_request_stays: "ok verb p payload \<Longrightarrow> stays I (gh_request rq cl verb p payload nf)"
  using allowed [of verb p payload]
  by (fastforce simp: stays_def gh_request_def split: prod.splits sum.splits)

lemmas get_stays = gh_request_stays [OF reading]

lemma getRef_stays: "stays I (getRef rq cl branch)"
  unfolding getRef_def Let_def using get_stays by (auto intro!: stays_bind)

lemma getCommit_stays: "stays I (getCommit rq cl sha)"
  unfolding getCommit_def Let_def using get_stays by (intro stays_bind) auto

lemma getTree_stays: "stays I (getTree rq cl sha)"
  unfolding getTree_def using get_stays by (intro stays_bind) (auto split: option.splits)

lemma getBlobContent_stays: "stays I (getBlobContent rq cl sha)"
  unfolding getBlobContent_def using get_stays by (intro stays_bind) (auto split: option.splits)

lemma findOpenPullRequest_stays: "stays I (findOpenPullRequest rq cl branch)"
  unfolding findOpenPullRequest_def using get_stays
  by (intro stays_bind) (auto split: option.splits list.splits)

lemma createRef_stays:
  assumes "ok ''POST'' ''/git/refs''
      (Some (JObj [(''ref'', JStr (''refs/heads/'' @ branch)), (''sha'', JStr sha)]))"
  shows "stays I (createRef rq cl branch sha)"
  unfolding createRef_def using gh_request_stays [OF assms] by (intro stays_bind) auto

lemma createPullRequest_stays:
  assumes "ok ''POST'' ''/pulls''
      (Some (JObj [(''title'', JStr t), (''body'', JStr b), (''head'', JStr hd_branch),
                   (''base'', JStr base), (''draft'', JBool True)]))"
  shows "stays I (createPullRequest rq cl t b hd_branch base)"
  unfolding createPullRequest_def using gh_request_stays [OF assms]
  by (intro stays_bind) (auto split: option.splits)

lemma object_writes_stay:
  assumes "\<And>p payload. p \<in> {''/git/blobs'', ''/git/trees'', ''/git/commits''}
             \<Longrightarrow> ok ''POST'' p (Some payload)"
  shows "stays I (createBlob rq cl c)" "stays I (createTree rq cl base entries)"
    "stays I (createCommit rq cl m t par a co)"
  unfolding createBlob_def createTree_def createCommit_def
  using gh_request_stays [OF assms] by (auto intro!: stays_bind)

lemma materialize_stays:
  assumes "\<And>p payload. p \<in> {''/git/blobs'', ''/git/trees'', ''/git/commits''}
             \<Longrightarrow> ok ''POST'' p (Some payload)"
  shows "stays I (materializePublicationCommit h rq cl b)"
proof -
  note w = object_writes_stay [OF assms]
  have blob: "stays I (materialize_blob rq cl base f)" for base f
    unfolding materialize_blob_def Let_def
    by (intro stays_bind stays_pure)
      (auto split: option.splits sum.splits intro!: stays_bind w getBlobContent_stays)
  have files: "stays I (materialize_files rq cl base ex tr fs)" for base ex tr fs
    by (induction fs arbitrary: ex tr) (auto simp: Let_def intro!: stays_bind blob)
  have tree: "stays I (materialize_tree h rq cl ts bt fs)" for ts bt fs
    unfolding materialize_tree_def by (auto intro!: stays_bind files w getTree_stays)
  have commit: "stays I (materialize_commit h rq cl b ts d)" for ts d
    unfolding materialize_commit_def Let_def by (auto intro!: stays_bind w getCommit_stays)
  show ?thesis
    unfolding materializePublicationCommit_def Let_def
    by (auto split: option.splits sum.splits
        intro!: stays_bind getRef_stays getCommit_stays getTree_stays tree commit)
qed

lemma verifyExisting_stays: "stays I (verifyExistingPublicationCommit h rq cl b)"
  unfolding verifyExistingPublicationCommit_def Let_def
  by (auto split: option.splits intro!: stays_bind getCommit_stays getTree_stays)

lemma ensureBranch_stays:
  assumes "ok ''POST'' ''/git/refs''
      (Some (JObj [(''ref'', JStr (''refs/heads/'' @ branch)), (''sha'', JStr sha)]))"
  shows "stays I (ensurePublicationBranch rq cl branch sha)"
  unfolding ensurePublicationBranch_def
  using getRef_stays createRef_stays [OF assms]
  by (intro stays_bind) (auto split: option.splits intro!: stays_catch stays_bind)

lemma ensurePullRequest_stays:
  assumes "\<And>t bd. ok ''POST'' ''/pulls''
      (Some (JObj [(''title'', JStr t), (''body'', JStr bd), (''head'', JStr (prq_headBranch i)),
                   (''base'', JStr (prq_baseBranch i)), (''draft'', JBool True)]))"
  shows "stays I (ensureDraftPullRequest rq cl i)"
  unfolding ensureDraftPullRequest_def
  using getRef_stays findOpenPullRequest_stays createPullRequest_stays [OF assms]
  by (intro stays_bind stays_pure) (auto split: option.splits intro!: stays_catch stays_bind)

end

text \<open>A transport that also keeps the list of what it sent, and the requests a publication may send.\<close>

type_synonym request = "string \<times> string \<times> json option"

definition recording :: "'g transport \<Rightarrow> ('g \<times> request list) transport" where
  "recording rq = (\<lambda>verb url payload (g, sent).
     case rq verb url payload g of (r, g') \<Rightarrow> (r, (g', sent @ [(verb, url, payload)])))"

definition publication_request ::
  "string \<Rightarrow> string \<Rightarrow> string \<Rightarrow> string \<Rightarrow> json option \<Rightarrow> bool" where
  "publication_request head base verb p payload =
     (verb = ''GET'' \<and> payload = None
      \<or> verb = ''POST''
        \<and> (p \<in> {''/git/blobs'', ''/git/trees'', ''/git/commits''} \<and> payload \<noteq> None
           \<or> p = ''/git/refs''
             \<and> (\<exists>sha. payload = Some (JObj [(''ref'', JStr (''refs/heads/'' @ head)),
                                         (''sha'', JStr sha)]))
           \<or> p = ''/pulls''
             \<and> (\<exists>t b. payload = Some (JObj [(''title'', JStr t), (''body'', JStr b),
                    (''head'', JStr head), (''base'', JStr base), (''draft'', JBool True)]))))"

definition only_sent ::
  "client \<Rightarrow> (string \<Rightarrow> string \<Rightarrow> json option \<Rightarrow> bool) \<Rightarrow> 'g \<times> request list \<Rightarrow> bool" where
  "only_sent cl ok g =
     (\<forall>(verb, url, payload) \<in> set (snd g). \<exists>p. url = api_url cl p \<and> ok verb p payload)"

lemma recording_allowed:
  "ok verb p payload \<Longrightarrow> only_sent cl ok g
   \<Longrightarrow> only_sent cl ok (snd (recording rq verb (api_url cl p) payload g))"
  by (cases g) (auto simp: recording_def only_sent_def split: prod.splits)

interpretation recorded:
  request_policy "recording rq" cl "publication_request head base"
    "only_sent cl (publication_request head base)"
  for rq :: "'g transport" and cl head base
  by unfold_locales (erule (1) recording_allowed, simp add: publication_request_def)

end
