(* ===== verification/Sequences.thy ===== *)
theory Sequences
  imports Prelude
begin

text \<open>
  Handlers as sequences of transactions. \<open>call\<close> holds what the host supplies to one transaction: its
  \<open>NOW()\<close>, the process clock, and the successive results of \<open>randomUUID()\<close>; times are milliseconds. A
  transaction that has ended stays when a later one fails, and between two of them others act:
  \<open>sc_other n\<close> is what happened to the database before transaction \<open>n\<close> of the sequence.
\<close>

record call =
  c_now :: int
  c_clock :: int
  c_ids :: "nat \<Rightarrow> string"

record 'd scene =
  sc_call :: "nat \<Rightarrow> call"
  sc_other :: "nat \<Rightarrow> 'd \<Rightarrow> 'd"

type_synonym ('d, 'e, 'a) seq = "nat \<times> 'd \<Rightarrow> ('e + 'a) \<times> (nat \<times> 'd)"

definition sq_return :: "'a \<Rightarrow> ('d, 'e, 'a) seq" where
  "sq_return x = (\<lambda>w. (Inr x, w))"

definition sq_throw :: "'e \<Rightarrow> ('d, 'e, 'a) seq" where
  "sq_throw e = (\<lambda>w. (Inl e, w))"

definition sq_bind :: "('d, 'e, 'a) seq \<Rightarrow> ('a \<Rightarrow> ('d, 'e, 'b) seq) \<Rightarrow> ('d, 'e, 'b) seq" where
  "sq_bind m k = (\<lambda>w. case m w of (Inl e, v) \<Rightarrow> (Inl e, v) | (Inr x, v) \<Rightarrow> k x v)"

text \<open>\<open>if (b) throw e\<close>, and a computation that throws.\<close>

definition sq_guard :: "bool \<Rightarrow> 'e \<Rightarrow> ('d, 'e, unit) seq" where
  "sq_guard b e = (if b then sq_throw e else sq_return ())"

definition sq_lift :: "'e + 'a \<Rightarrow> ('d, 'e, 'a) seq" where
  "sq_lift r = (\<lambda>w. (r, w))"

definition sq_run ::
  "'d scene \<Rightarrow> (string \<Rightarrow> 'e) \<Rightarrow> (call \<Rightarrow> ('d, string, 'a) tx) \<Rightarrow> ('d, 'e, 'a) seq" where
  "sq_run s fault m = (\<lambda>(n, d).
     let d0 = sc_other s n d
     in case m (sc_call s n) d0 of
          Inl e \<Rightarrow> (Inl (fault e), (Suc n, d0))
        | Inr (x, d') \<Rightarrow> (Inr x, (Suc n, d')))"

text \<open>What a controller or service throws: a client error with its message, or a store's error.\<close>

datatype http_error =
    BadRequest string
  | NotFound string
  | Forbidden string
  | Fault string

lemma sq_bind_Inr:
  "sq_bind m k w = (Inr x, w') \<longleftrightarrow> (\<exists>y v. m w = (Inr y, v) \<and> k y v = (Inr x, w'))"
  by (auto simp: sq_bind_def split: prod.splits sum.splits)

lemma sq_simps [simp]:
  "sq_return x w = (Inr x, w)" "sq_throw e w = (Inl e, w)"
  by (simp_all add: sq_return_def sq_throw_def)

lemma sq_guard_Inr: "sq_guard b e w = (Inr u, w') \<longleftrightarrow> \<not> b \<and> w' = w"
  by (auto simp: sq_guard_def)

lemma sq_lift_Inr: "sq_lift r w = (Inr x, w') \<longleftrightarrow> r = Inr x \<and> w' = w"
  by (auto simp: sq_lift_def)

lemma sq_run_Inr:
  "sq_run s f m (n, d) = (Inr x, w') \<longleftrightarrow>
     (\<exists>d'. m (sc_call s n) (sc_other s n d) = Inr (x, d') \<and> w' = (Suc n, d'))"
  by (auto simp: sq_run_def Let_def split: prod.splits sum.splits)

end
