(* ===== verification/Publication_Db.thy ===== *)
theory Publication_Db
  imports Publication Sequences
begin

text \<open>
  The tables the publication subsystem reads and writes
  (\<open>packages/database/prisma/migrations/20260713000100_sprint7_publication\<close> and the recovery tables
  it joins), as a record of row lists, and the schemas of \<open>packages/publication/src/types.ts\<close>
  that a row or a command is parsed with.

  A transaction is a function from the database (see the prelude). Unique constraints of the migration that an
  \<open>INSERT\<close> can hit are the clash relations below. Row-level security is not modelled: each
  statement here names the organization itself or a row the transaction has already found by it.
  Nor are the widths of \<open>CHAR\<close> columns and the ids of rows that nothing refers to.
\<close>

section \<open>Rows\<close>

record run_row =
  run_id :: string
  run_organizationId :: string
  run_incidentId :: string
  run_recoveryId :: string
  run_repositoryId :: string
  run_installationId :: string
  run_publicationPolicyId :: string
  run_status :: PublicationStatus
  run_version :: int
  run_policyVersion :: string
  run_baseBranch :: string
  run_headBranch :: string
  run_baseCommitSha :: string
  run_approvedPatchVersion :: int
  run_patchDigest :: string
  run_expectedTreeDigest :: string
  run_treeSha :: "string option"
  run_commitSha :: "string option"
  run_pullRequestNumber :: "int option"
  run_pullRequestUrl :: "string option"
  run_idempotencyKey :: string
  run_attemptCount :: int
  run_leaseOwner :: "string option"
  run_leaseExpiresAt :: "int option"
  run_heartbeatAt :: "int option"
  run_cancellationRequestedAt :: "int option"
  run_startedAt :: "int option"
  run_completedAt :: "int option"
  run_errorCode :: "string option"
  run_errorMessage :: "string option"
  run_createdAt :: int
  run_updatedAt :: int

record event_row =
  pe_publicationId :: string
  pe_sequence :: int
  pe_type :: string
  pe_payload :: json
  pe_previousHash :: "string option"
  pe_eventHash :: string
  pe_actorType :: ActorType
  pe_actorId :: "string option"
  pe_correlationId :: "string option"
  pe_occurredAt :: int

record outbox_row =
  ob_organizationId :: string
  ob_topic :: string
  ob_partitionKey :: string
  ob_deduplicationKey :: string
  ob_payload :: json
  ob_status :: OutboxStatus
  ob_attempts :: int
  ob_availableAt :: int

record installation_row =
  gi_id :: string
  gi_organizationId :: string
  gi_installationId :: string
  gi_accountLogin :: string
  gi_suspendedAt :: "int option"

record repository_row =
  repo_id :: string
  repo_organizationId :: string
  repo_owner :: string
  repo_name :: string
  repo_providerRepoId :: string

record recovery_row =
  rec_id :: string
  rec_organizationId :: string
  rec_incidentId :: string
  rec_repositoryId :: string
  rec_status :: RecoveryRunStatus
  rec_currentPatchVersion :: "int option"
  rec_baseCommitSha :: string

record policy_row =
  prow_id :: string
  prow_organizationId :: string
  prow_repositoryId :: string
  prow_policyVersion :: string
  prow_active :: bool
  prow_allowedBaseBranches :: "string list"
  prow_recoveryBranchPrefix :: string
  prow_requiredChecks :: "string list"
  prow_requiredApprovals :: int
  prow_requireCodeOwnerApproval :: bool
  prow_maximumPublicationAttempts :: int
  prow_webhookReplayWindowSeconds :: int
  prow_postMergeVerificationRequired :: bool
  prow_retentionDays :: int
  prow_contentHash :: string
  prow_createdBy :: string

record patch_row =
  pv_id :: string
  pv_recoveryId :: string
  pv_version :: int
  pv_unifiedDiff :: string
  pv_patchDigest :: string

record pr_package_row =
  prp_recoveryId :: string
  prp_patchId :: string
  prp_version :: int
  prp_title :: string
  prp_body :: string

record security_review_row =
  srv_patchId :: string
  srv_decision :: string
  srv_createdAt :: int

record verification_row =
  vrf_recoveryId :: string
  vrf_patchId :: string
  vrf_status :: string
  vrf_createdAt :: int

record approval_row =
  apr_recoveryId :: string
  apr_recoveryVersion :: int
  apr_decision :: string
  apr_actorId :: string
  apr_createdAt :: int

record commit_row =
  pc_publicationId :: string
  pc_baseCommitSha :: string
  pc_treeSha :: string
  pc_commitSha :: string
  pc_patchDigest :: string
  pc_treeDigest :: string
  pc_messageDigest :: string

record pull_request_row =
  prr_publicationId :: string
  prr_number :: int
  prr_nodeId :: string
  prr_url :: string
  prr_title :: string
  prr_bodyDigest :: string
  prr_baseBranch :: string
  prr_headBranch :: string
  prr_draft :: bool
  prr_state :: string
  prr_headSha :: string
  prr_baseSha :: string
  prr_createdAt :: int

record check_row =
  ck_id :: string
  ck_publicationId :: string
  ck_externalId :: string
  ck_name :: string
  ck_status :: NormalizedCheckStatus
  ck_headSha :: string
  ck_detailsUrl :: "string option"
  ck_startedAt :: "int option"
  ck_completedAt :: "int option"
  ck_rawConclusion :: "string option"
  ck_updatedAt :: int

record review_row =
  rw_id :: string
  rw_publicationId :: string
  rw_externalId :: string
  rw_reviewerLogin :: string
  rw_state :: ReviewState
  rw_bodyDigest :: "string option"
  rw_submittedAt :: "int option"
  rw_createdAt :: int
  rw_updatedAt :: int

record readiness_row =
  mr_publicationId :: string
  mr_ready :: bool
  mr_blockers :: "string list"
  mr_inputDigest :: string
  mr_policyVersion :: string
  mr_headSha :: string
  mr_baseSha :: string
  mr_evaluatedAt :: int

record merge_row =
  mo_publicationId :: string
  mo_mergeCommitSha :: string
  mo_mergedBy :: string
  mo_mergedAt :: int
  mo_approvedHeadSha :: string

record post_merge_row =
  pmv_id :: string
  pmv_publicationId :: string
  pmv_status :: PostMergeOutcome
  pmv_mergeCommitSha :: string
  pmv_approvedPatchPresent :: bool
  pmv_originalFailureResolved :: bool
  pmv_requiredChecksPassed :: bool
  pmv_evidence :: json
  pmv_digest :: string

record closure_row =
  icr_organizationId :: string
  icr_incidentId :: string
  icr_publicationId :: string
  icr_postMergeVerificationId :: string
  icr_evidenceDigest :: string

datatype WebhookDeliveryStatus = RECEIVED | PROCESSED | IGNORED | REJECTED | FAILED

record delivery_row =
  dl_id :: string
  dl_organizationId :: "string option"
  dl_installationId :: "int option"
  dl_deliveryId :: string
  dl_eventName :: string
  dl_action :: "string option"
  dl_signatureValid :: bool
  dl_payloadDigest :: string
  dl_status :: WebhookDeliveryStatus
  dl_errorCode :: "string option"
  dl_processedAt :: "int option"

record db =
  db_runs :: "run_row list"
  db_events :: "event_row list"
  db_outbox :: "outbox_row list"
  db_installations :: "installation_row list"
  db_repositories :: "repository_row list"
  db_recoveries :: "recovery_row list"
  db_policies :: "policy_row list"
  db_patches :: "patch_row list"
  db_pr_packages :: "pr_package_row list"
  db_security_reviews :: "security_review_row list"
  db_verifications :: "verification_row list"
  db_approvals :: "approval_row list"
  db_commits :: "commit_row list"
  db_pull_requests :: "pull_request_row list"
  db_checks :: "check_row list"
  db_reviews :: "review_row list"
  db_readiness :: "readiness_row list"
  db_merges :: "merge_row list"
  db_post_merge :: "post_merge_row list"
  db_closures :: "closure_row list"
  db_deliveries :: "delivery_row list"

type_synonym 'a dbtx = "(db, string, 'a) tx"

section \<open>Schemas\<close>

definition has_length :: "nat \<Rightarrow> nat \<Rightarrow> string \<Rightarrow> bool" where
  "has_length lo hi s = (lo \<le> length s \<and> length s \<le> hi)"

definition hex_of_length :: "nat \<Rightarrow> string \<Rightarrow> bool" where
  "hex_of_length n s = (length s = n \<and> list_all is_hex s)"

definition Sha40Schema :: "string \<Rightarrow> bool" where
  "Sha40Schema s = hex_of_length 40 s"

definition Sha256Schema :: "string \<Rightarrow> bool" where
  "Sha256Schema s = hex_of_length 64 s"

definition branch_char :: "char \<Rightarrow> bool" where
  "branch_char c = (is_alnum c \<or> c \<in> set ''._/-'')"

text \<open>
  The characters the negative lookahead excludes beyond these are outside the class already.
\<close>

definition SafeBranchSchema :: "string \<Rightarrow> bool" where
  "SafeBranchSchema s =
     (has_length 1 240 s \<and> list_all branch_char s \<and> \<not> startsWith s ''/''
      \<and> \<not> has_text s ''..'' \<and> \<not> has_text s ''/.'' \<and> \<not> has_text s ''./''
      \<and> \<not> endsWith s ''.lock'' \<and> \<not> endsWith s ''/'')"

definition between :: "int \<Rightarrow> int \<Rightarrow> int \<Rightarrow> bool" where
  "between lo hi i = (lo \<le> i \<and> i \<le> hi)"

definition PublicationPolicySchema :: "PublicationPolicy \<Rightarrow> bool" where
  "PublicationPolicySchema p =
     (has_length 1 64 (pol_version p)
      \<and> list_all SafeBranchSchema (pol_allowedBaseBranches p)
      \<and> between 1 20 (int (length (pol_allowedBaseBranches p)))
      \<and> has_length 1 80 (pol_recoveryBranchPrefix p)
      \<and> list_all branch_char (pol_recoveryBranchPrefix p)
      \<and> \<not> pol_allowForcePush p \<and> \<not> pol_allowProtectedBranchWrites p
      \<and> \<not> pol_allowAutomaticMerge p
      \<and> list_all (has_length 1 200) (pol_requiredChecks p) \<and> length (pol_requiredChecks p) \<le> 100
      \<and> between 0 20 (pol_requiredApprovals p)
      \<and> between 1 20 (pol_maximumPublicationAttempts p)
      \<and> between 60 86400 (pol_webhookReplayWindowSeconds p)
      \<and> between 1 3650 (pol_retentionDays p))"

definition ApprovedRecoveryPackageSchema :: "host \<Rightarrow> ApprovedRecoveryPackage \<Rightarrow> bool" where
  "ApprovedRecoveryPackageSchema h p =
     (uuid_format h (pkg_recoveryId p) \<and> uuid_format h (pkg_incidentId p)
      \<and> uuid_format h (pkg_organizationId p) \<and> uuid_format h (pkg_repositoryId p)
      \<and> uuid_format h (pkg_treatmentPlanId p) \<and> 1 \<le> pkg_patchVersion p
      \<and> Sha40Schema (pkg_baseCommitSha p) \<and> Sha256Schema (pkg_patchDigest p)
      \<and> Sha256Schema (pkg_treeDigest p) \<and> SafeBranchSchema (pkg_branchName p)
      \<and> SafeBranchSchema (pkg_targetBaseBranch p) \<and> 1 \<le> pkg_publicationApprovalCount p
      \<and> datetime_format h (pkg_publicationApprovedAt p)
      \<and> pkg_securityReviewApproved p \<and> pkg_verificationPassed p
      \<and> has_length 1 256 (pkg_pullRequestTitle p)
      \<and> has_length 1 200000 (pkg_pullRequestBody p))"

record PublicationRun =
  pub_id :: string
  pub_organizationId :: string
  pub_incidentId :: string
  pub_recoveryId :: string
  pub_repositoryId :: string
  pub_installationId :: string
  pub_status :: PublicationStatus
  pub_version :: int
  pub_policyVersion :: string
  pub_baseBranch :: string
  pub_headBranch :: string
  pub_baseCommitSha :: string
  pub_patchDigest :: string
  pub_treeSha :: "string option"
  pub_commitSha :: "string option"
  pub_pullRequestNumber :: "int option"
  pub_pullRequestUrl :: "string option"
  pub_createdAt :: string
  pub_updatedAt :: string

text \<open>\<open>schema.nullable()\<close>.\<close>

definition nullable :: "('a \<Rightarrow> bool) \<Rightarrow> 'a option \<Rightarrow> bool" where
  "nullable ok x = (case x of None \<Rightarrow> True | Some v \<Rightarrow> ok v)"

definition PublicationRunSchema :: "host \<Rightarrow> PublicationRun \<Rightarrow> bool" where
  "PublicationRunSchema h p =
     (uuid_format h (pub_id p) \<and> uuid_format h (pub_organizationId p)
      \<and> uuid_format h (pub_incidentId p) \<and> uuid_format h (pub_recoveryId p)
      \<and> uuid_format h (pub_repositoryId p)
      \<and> pub_installationId p \<noteq> [] \<and> list_all is_digit (pub_installationId p)
      \<and> 1 \<le> pub_version p \<and> pub_policyVersion p \<noteq> []
      \<and> SafeBranchSchema (pub_baseBranch p) \<and> SafeBranchSchema (pub_headBranch p)
      \<and> Sha40Schema (pub_baseCommitSha p) \<and> Sha256Schema (pub_patchDigest p)
      \<and> nullable Sha40Schema (pub_treeSha p) \<and> nullable Sha40Schema (pub_commitSha p)
      \<and> nullable (\<lambda>n. 0 < n) (pub_pullRequestNumber p)
      \<and> nullable (url_format h) (pub_pullRequestUrl p)
      \<and> datetime_format h (pub_createdAt p) \<and> datetime_format h (pub_updatedAt p))"

section \<open>Unique keys\<close>

definition same_run :: "run_row \<Rightarrow> run_row \<Rightarrow> bool" where
  "same_run a b =
     (run_id a = run_id b
      \<or> run_organizationId a = run_organizationId b \<and> run_idempotencyKey a = run_idempotencyKey b
      \<or> run_recoveryId a = run_recoveryId b
        \<and> run_approvedPatchVersion a = run_approvedPatchVersion b)"

definition same_event :: "event_row \<Rightarrow> event_row \<Rightarrow> bool" where
  "same_event a b =
     (pe_eventHash a = pe_eventHash b
      \<or> pe_publicationId a = pe_publicationId b \<and> pe_sequence a = pe_sequence b)"

definition same_outbox :: "outbox_row \<Rightarrow> outbox_row \<Rightarrow> bool" where
  "same_outbox a b = (ob_deduplicationKey a = ob_deduplicationKey b)"

definition same_policy :: "policy_row \<Rightarrow> policy_row \<Rightarrow> bool" where
  "same_policy a b =
     (prow_id a = prow_id b
      \<or> prow_repositoryId a = prow_repositoryId b \<and> prow_policyVersion a = prow_policyVersion b)"

definition same_commit :: "commit_row \<Rightarrow> commit_row \<Rightarrow> bool" where
  "same_commit a b =
     (pc_publicationId a = pc_publicationId b \<or> pc_commitSha a = pc_commitSha b)"

definition same_pull_request :: "pull_request_row \<Rightarrow> pull_request_row \<Rightarrow> bool" where
  "same_pull_request a b = (prr_publicationId a = prr_publicationId b)"

definition same_check :: "check_row \<Rightarrow> check_row \<Rightarrow> bool" where
  "same_check a b =
     (ck_id a = ck_id b
      \<or> ck_publicationId a = ck_publicationId b \<and> ck_externalId a = ck_externalId b)"

definition same_review :: "review_row \<Rightarrow> review_row \<Rightarrow> bool" where
  "same_review a b =
     (rw_id a = rw_id b
      \<or> rw_publicationId a = rw_publicationId b \<and> rw_externalId a = rw_externalId b)"

definition same_readiness :: "readiness_row \<Rightarrow> readiness_row \<Rightarrow> bool" where
  "same_readiness a b =
     (mr_publicationId a = mr_publicationId b \<and> mr_inputDigest a = mr_inputDigest b)"

definition same_merge :: "merge_row \<Rightarrow> merge_row \<Rightarrow> bool" where
  "same_merge a b = (mo_publicationId a = mo_publicationId b)"

definition same_post_merge :: "post_merge_row \<Rightarrow> post_merge_row \<Rightarrow> bool" where
  "same_post_merge a b = (pmv_id a = pmv_id b \<or> pmv_digest a = pmv_digest b)"

definition same_closure :: "closure_row \<Rightarrow> closure_row \<Rightarrow> bool" where
  "same_closure a b =
     (icr_incidentId a = icr_incidentId b \<or> icr_evidenceDigest a = icr_evidenceDigest b)"

definition same_delivery :: "delivery_row \<Rightarrow> delivery_row \<Rightarrow> bool" where
  "same_delivery a b = (dl_id a = dl_id b \<or> dl_deliveryId a = dl_deliveryId b)"

end
