(* ===== verification/Publication_Store.thy ===== *)
theory Publication_Store
  imports Publication_Db Publication_Execution
begin

text \<open>
  \<open>packages/database/src/publication-store.ts\<close>: the operations the API and the execution worker
  apply to a publication, each one transaction over the tables of \<open>Publication_Db\<close>.

  The advisory lock and \<open>FOR UPDATE\<close> serialize transactions that touch the same publication; a
  transaction here is atomic, so they have no effect of their own. A \<open>JOIN\<close> that finds no partner
  drops the row, which the reads below make explicit. \<open>listChecks\<close> and \<open>listReviews\<close>, plain reads
  ordered by the database's collation, are in \<open>Publication_Service\<close>.
\<close>

section \<open>Reading a publication\<close>

definition joined_installation :: "db \<Rightarrow> run_row \<Rightarrow> installation_row option" where
  "joined_installation d r = row_where (\<lambda>g. gi_id g = run_installationId r) (db_installations d)"

definition parsePublicationRun :: "host \<Rightarrow> PublicationRun \<Rightarrow> string + PublicationRun" where
  "parsePublicationRun h p =
     (if PublicationRunSchema h p then Inr p else Inl ''The publication row is invalid.'')"

definition mapPublication :: "host \<Rightarrow> run_row \<times> installation_row \<Rightarrow> string + PublicationRun" where
  "mapPublication h = (\<lambda>(r, g). parsePublicationRun h
     \<lparr>pub_id = run_id r, pub_organizationId = run_organizationId r,
      pub_incidentId = run_incidentId r, pub_recoveryId = run_recoveryId r,
      pub_repositoryId = run_repositoryId r, pub_installationId = gi_installationId g,
      pub_status = run_status r, pub_version = run_version r,
      pub_policyVersion = run_policyVersion r, pub_baseBranch = run_baseBranch r,
      pub_headBranch = run_headBranch r, pub_baseCommitSha = run_baseCommitSha r,
      pub_patchDigest = run_patchDigest r, pub_treeSha = run_treeSha r,
      pub_commitSha = run_commitSha r, pub_pullRequestNumber = run_pullRequestNumber r,
      pub_pullRequestUrl = run_pullRequestUrl r, pub_createdAt = iso_time h (run_createdAt r),
      pub_updatedAt = iso_time h (run_updatedAt r)\<rparr>)"

text \<open>\<open>PublicationRun JOIN GithubInstallation\<close>, the rows that have a partner.\<close>

definition joined_runs :: "db \<Rightarrow> (run_row \<times> installation_row) list" where
  "joined_runs d = concat (map (\<lambda>r.
     case joined_installation d r of None \<Rightarrow> [] | Some g \<Rightarrow> [(r, g)]) (db_runs d))"

definition is_run :: "string \<Rightarrow> string \<Rightarrow> run_row \<Rightarrow> bool" where
  "is_run publicationId org r = (run_id r = publicationId \<and> run_organizationId r = org)"

definition reload :: "host \<Rightarrow> string \<Rightarrow> string \<Rightarrow> string \<Rightarrow> PublicationRun dbtx" where
  "reload h org publicationId missing =
     tx_bind (tx_read (\<lambda>d. row_where (\<lambda>(r, g). is_run publicationId org r) (joined_runs d)))
       (\<lambda>row. tx_bind (tx_some row missing) (\<lambda>rg. tx_lift (mapPublication h rg)))"

definition getPublication :: "host \<Rightarrow> string \<Rightarrow> string \<Rightarrow> PublicationRun dbtx" where
  "getPublication h org publicationId = reload h org publicationId ''Publication was not found.''"

text \<open>\<open>ORDER BY p."createdAt" DESC\<close>.\<close>

definition newest_first :: "(run_row \<times> installation_row) list \<Rightarrow> (run_row \<times> installation_row) list"
where
  "newest_first = sort_by (\<lambda>a b. run_createdAt (fst b) \<le> run_createdAt (fst a))"

definition listForRecovery :: "host \<Rightarrow> string \<Rightarrow> string \<Rightarrow> PublicationRun list dbtx" where
  "listForRecovery h org recoveryId =
     tx_bind (tx_read (\<lambda>d. newest_first (filter (\<lambda>(r, g).
                run_organizationId r = org \<and> run_recoveryId r = recoveryId) (joined_runs d))))
       (\<lambda>rows. tx_lift (map_parse (mapPublication h) rows))"

definition listOrganization :: "host \<Rightarrow> string \<Rightarrow> int \<Rightarrow> PublicationRun list dbtx" where
  "listOrganization h org limit =
     tx_bind (tx_read (\<lambda>d. take (nat (clamp 1 100 limit)) (newest_first (filter (\<lambda>(r, g).
                run_organizationId r = org) (joined_runs d)))))
       (\<lambda>rows. tx_lift (map_parse (mapPublication h) rows))"

definition listEvents :: "string \<Rightarrow> string \<Rightarrow> event_row list dbtx" where
  "listEvents org publicationId =
     tx_read (\<lambda>d. if row_where (is_run publicationId org) (db_runs d) = None then []
                  else sort_by (\<lambda>a b. pe_sequence a \<le> pe_sequence b)
                         (filter (\<lambda>e. pe_publicationId e = publicationId) (db_events d)))"

section \<open>The event log\<close>

record EventCommand =
  ec_publicationId :: string
  ec_type :: string
  ec_payload :: json
  ec_actorType :: ActorType
  ec_actorId :: "string option"
  ec_correlationId :: "string option"

definition event_digest :: "host \<Rightarrow> EventCommand \<Rightarrow> string" where
  "event_digest h e =
     digestPayload h (JObj [(''publicationId'', JStr (ec_publicationId e)),
       (''type'', JStr (ec_type e)), (''payload'', ec_payload e),
       (''actorType'', JStr (ActorType_name (ec_actorType e))),
       (''actorId'', str_or_null (ec_actorId e)),
       (''correlationId'', str_or_null (ec_correlationId e))])"

definition latest_event :: "string \<Rightarrow> db \<Rightarrow> event_row option" where
  "latest_event publicationId d =
     row_max pe_sequence (filter (\<lambda>e. pe_publicationId e = publicationId) (db_events d))"

definition next_sequence :: "event_row option \<Rightarrow> int" where
  "next_sequence latest = (case latest of None \<Rightarrow> 0 | Some e \<Rightarrow> pe_sequence e) + 1"

definition same_event_hash :: "event_row \<Rightarrow> event_row \<Rightarrow> bool" where
  "same_event_hash a b = (pe_eventHash a = pe_eventHash b)"

definition appendPublicationEvent :: "host \<Rightarrow> call \<Rightarrow> EventCommand \<Rightarrow> unit dbtx" where
  "appendPublicationEvent h c e =
     tx_bind (tx_read (latest_event (ec_publicationId e))) (\<lambda>latest.
       insert_on_conflict db_events db_events_update same_event_hash same_event
         \<lparr>pe_publicationId = ec_publicationId e, pe_sequence = next_sequence latest,
          pe_type = ec_type e, pe_payload = canonicalize (locale_le h) (ec_payload e),
          pe_previousHash = map_option pe_eventHash latest, pe_eventHash = event_digest h e,
          pe_actorType = ec_actorType e, pe_actorId = ec_actorId e,
          pe_correlationId = ec_correlationId e, pe_occurredAt = c_now c\<rparr>)"

text \<open>\<open>{ status, ...payload }\<close>.\<close>

definition status_payload :: "PublicationStatus \<Rightarrow> (string \<times> json) list \<Rightarrow> json" where
  "status_payload st extra =
     JObj (from_entries ((''status'', JStr (PublicationStatus_name st)) # extra))"

section \<open>Leases\<close>

definition after :: "int option \<Rightarrow> int \<Rightarrow> bool" where
  "after t now = (case t of None \<Rightarrow> False | Some x \<Rightarrow> now < x)"

definition before :: "int option \<Rightarrow> int \<Rightarrow> bool" where
  "before t now = (case t of None \<Rightarrow> False | Some x \<Rightarrow> x < now)"

definition holds_lease :: "call \<Rightarrow> string \<Rightarrow> string \<Rightarrow> string \<Rightarrow> run_row \<Rightarrow> bool" where
  "holds_lease c org publicationId workerId r =
     (is_run publicationId org r \<and> run_leaseOwner r = Some workerId
      \<and> after (run_leaseExpiresAt r) (c_now c))"

definition assertPublicationLease :: "call \<Rightarrow> string \<Rightarrow> string \<Rightarrow> string \<Rightarrow> unit dbtx" where
  "assertPublicationLease c org publicationId workerId =
     tx_bind (tx_read (\<lambda>d. row_where (holds_lease c org publicationId workerId) (db_runs d)))
       (\<lambda>row. tx_guard (row \<noteq> None) ''Publication execution lease was lost.'')"

definition EXECUTABLE_PUBLICATION_STATUSES :: "PublicationStatus list" where
  "EXECUTABLE_PUBLICATION_STATUSES =
     [PublicationStatus.PUBLICATION_REQUESTED, PublicationStatus.POLICY_CHECK,
      PublicationStatus.COMMIT_MATERIALIZING, PublicationStatus.BRANCH_PUBLISHING,
      PublicationStatus.DRAFT_PR_CREATING, PublicationStatus.PUSH_FAILED,
      PublicationStatus.PR_CREATION_FAILED]"

definition IN_FLIGHT_PUBLICATION_STATUSES :: "PublicationStatus list" where
  "IN_FLIGHT_PUBLICATION_STATUSES =
     [PublicationStatus.PUBLICATION_REQUESTED, PublicationStatus.POLICY_CHECK,
      PublicationStatus.COMMIT_MATERIALIZING, PublicationStatus.BRANCH_PUBLISHING,
      PublicationStatus.DRAFT_PR_CREATING]"

definition lease_ms :: "int \<Rightarrow> int" where
  "lease_ms leaseSeconds = clamp 15 900 leaseSeconds * 1000"

definition claimable :: "call \<Rightarrow> string \<Rightarrow> string \<Rightarrow> string \<Rightarrow> run_row \<Rightarrow> bool" where
  "claimable c org publicationId workerId r =
     (is_run publicationId org r
      \<and> (run_leaseOwner r = None \<or> before (run_leaseExpiresAt r) (c_now c)
         \<or> run_leaseOwner r = Some workerId)
      \<and> run_status r \<in> set EXECUTABLE_PUBLICATION_STATUSES)"

record PublicationClaimEnvelope =
  cl_id :: string
  cl_organizationId :: string
  cl_repositoryId :: string
  cl_status :: PublicationStatus
  cl_version :: int
  cl_attemptCount :: int
  cl_cancellationRequestedAt :: "string option"

definition claimPublication ::
  "host \<Rightarrow> call \<Rightarrow> string \<Rightarrow> string \<Rightarrow> string \<Rightarrow> int \<Rightarrow> PublicationClaimEnvelope option dbtx" where
  "claimPublication h c org publicationId workerId leaseSeconds =
     tx_bind (update_returning db_runs db_runs_update (claimable c org publicationId workerId)
       (\<lambda>r. r\<lparr>run_leaseOwner := Some workerId,
              run_leaseExpiresAt := Some (c_now c + lease_ms leaseSeconds),
              run_heartbeatAt := Some (c_now c),
              run_startedAt := (case run_startedAt r of None \<Rightarrow> Some (c_now c) | Some t \<Rightarrow> Some t),
              run_attemptCount := run_attemptCount r + 1, run_updatedAt := c_now c\<rparr>))
       (\<lambda>row. tx_return (map_option (\<lambda>r.
          \<lparr>cl_id = run_id r, cl_organizationId = run_organizationId r,
           cl_repositoryId = run_repositoryId r, cl_status = run_status r,
           cl_version = run_version r, cl_attemptCount = run_attemptCount r,
           cl_cancellationRequestedAt = map_option (iso_time h) (run_cancellationRequestedAt r)\<rparr>)
          row))"

definition heartbeat :: "call \<Rightarrow> string \<Rightarrow> string \<Rightarrow> string \<Rightarrow> int \<Rightarrow> bool dbtx" where
  "heartbeat c org publicationId workerId leaseSeconds =
     tx_bind (update_returning db_runs db_runs_update (holds_lease c org publicationId workerId)
       (\<lambda>r. r\<lparr>run_heartbeatAt := Some (c_now c),
              run_leaseExpiresAt := Some (c_now c + lease_ms leaseSeconds),
              run_updatedAt := c_now c\<rparr>))
       (\<lambda>row. tx_bind (tx_some row ''Publication execution lease was lost.'')
          (\<lambda>r. tx_return (run_cancellationRequestedAt r \<noteq> None)))"

text \<open>\<open>UPDATE "PublicationRun" SET ... WHERE "id"=$1 AND "organizationId"=$2\<close>.\<close>

definition set_run :: "string \<Rightarrow> string \<Rightarrow> (run_row \<Rightarrow> run_row) \<Rightarrow> unit dbtx" where
  "set_run org publicationId f = tx_write (db_runs_update (update_where (is_run publicationId org) f))"

text \<open>\<open>"version"="version"+1,"updatedAt"=NOW()\<close>.\<close>

definition bumped :: "call \<Rightarrow> run_row \<Rightarrow> run_row" where
  "bumped c r = r\<lparr>run_version := run_version r + 1, run_updatedAt := c_now c\<rparr>"

definition releaseLease :: "call \<Rightarrow> string \<Rightarrow> string \<Rightarrow> string \<Rightarrow> unit dbtx" where
  "releaseLease c org publicationId workerId =
     tx_then (assertPublicationLease c org publicationId workerId)
       (set_run org publicationId (\<lambda>r. bumped c
          (r\<lparr>run_leaseOwner := None, run_leaseExpiresAt := None, run_heartbeatAt := Some (c_now c)\<rparr>)))"

section \<open>Creation\<close>

record CreatePublicationCommand =
  cpc_context :: StoreActorContext
  cpc_recoveryId :: string
  cpc_installationId :: string
  cpc_package :: ApprovedRecoveryPackage
  cpc_policy :: PublicationPolicy
  cpc_idempotencyKey :: string

text \<open>The checks before the transaction: the decision of the publication policy.\<close>

definition create_guards ::
  "host \<Rightarrow> CreatePublicationCommand \<Rightarrow> string + PublicationPolicyDecision" where
  "create_guards h cmd =
     (let pkg = cpc_package cmd; pol = cpc_policy cmd;
          decision = evaluatePublicationPolicy h pkg pol
      in try_then (guard (ApprovedRecoveryPackageSchema h pkg) ''The package is invalid.'') (\<lambda>_.
         try_then (guard (PublicationPolicySchema pol) ''The policy is invalid.'') (\<lambda>_.
         try_then (guard (pkg_recoveryId pkg = cpc_recoveryId cmd)
           ''Recovery package does not match the requested recovery.'') (\<lambda>_.
         try_then (guard (pkg_organizationId pkg = ctx_organizationId (cpc_context cmd))
           ''Recovery package organization does not match the actor context.'') (\<lambda>_.
         try_then (guard (pd_allowed decision) (join_with '' '' (pd_reasons decision)))
           (\<lambda>_. Inr decision))))))"

text \<open>The recovery row must be ready, at the approved patch version and base commit.\<close>

definition recovery_guards :: "CreatePublicationCommand \<Rightarrow> unit dbtx" where
  "recovery_guards cmd =
     tx_bind (tx_read (\<lambda>d. row_where (\<lambda>r. rec_id r = cpc_recoveryId cmd
                \<and> rec_organizationId r = ctx_organizationId (cpc_context cmd)) (db_recoveries d)))
       (\<lambda>row. tx_bind (tx_some row ''Recovery was not found in this organization.'') (\<lambda>r.
        tx_then (tx_guard (rec_status r = RecoveryRunStatus.READY_TO_PUBLISH)
          ''Recovery is not ready to publish.'')
        (tx_then (tx_guard (rec_currentPatchVersion r = Some (pkg_patchVersion (cpc_package cmd)))
          ''Approved patch version is stale.'')
        (tx_guard (rec_baseCommitSha r = pkg_baseCommitSha (cpc_package cmd))
          ''Approved base commit does not match the recovery.''))))"

definition active_installation :: "CreatePublicationCommand \<Rightarrow> installation_row dbtx" where
  "active_installation cmd =
     tx_bind (tx_read (\<lambda>d. row_where (\<lambda>g.
                gi_organizationId g = ctx_organizationId (cpc_context cmd)
                \<and> gi_installationId g = cpc_installationId cmd \<and> gi_suspendedAt g = None)
                (db_installations d)))
       (\<lambda>row. tx_some row ''Active GitHub installation was not found.'')"

text \<open>
  The id of the policy row, and how many of the call's ids were used: an active row of the same
  version is taken as it is, otherwise the given policy is stored.
\<close>

definition policy_row_of ::
  "call \<Rightarrow> CreatePublicationCommand \<Rightarrow> string \<Rightarrow> policy_row" where
  "policy_row_of c cmd policyDigest =
     (let pol = cpc_policy cmd in
      \<lparr>prow_id = c_ids c 0, prow_organizationId = ctx_organizationId (cpc_context cmd),
       prow_repositoryId = pkg_repositoryId (cpc_package cmd),
       prow_policyVersion = pol_version pol, prow_active = True,
       prow_allowedBaseBranches = pol_allowedBaseBranches pol,
       prow_recoveryBranchPrefix = pol_recoveryBranchPrefix pol,
       prow_requiredChecks = pol_requiredChecks pol,
       prow_requiredApprovals = pol_requiredApprovals pol,
       prow_requireCodeOwnerApproval = pol_requireCodeOwnerApproval pol,
       prow_maximumPublicationAttempts = pol_maximumPublicationAttempts pol,
       prow_webhookReplayWindowSeconds = pol_webhookReplayWindowSeconds pol,
       prow_postMergeVerificationRequired = pol_postMergeVerificationRequired pol,
       prow_retentionDays = pol_retentionDays pol, prow_contentHash = policyDigest,
       prow_createdBy = ctx_actorId (cpc_context cmd)\<rparr>)"

definition ensure_policy ::
  "call \<Rightarrow> CreatePublicationCommand \<Rightarrow> PublicationPolicyDecision \<Rightarrow> (string \<times> nat) dbtx" where
  "ensure_policy c cmd decision =
     tx_bind (tx_read (\<lambda>d. row_where (\<lambda>p.
                prow_organizationId p = ctx_organizationId (cpc_context cmd)
                \<and> prow_repositoryId p = pkg_repositoryId (cpc_package cmd)
                \<and> prow_policyVersion p = pol_version (cpc_policy cmd) \<and> prow_active p)
                (db_policies d)))
       (\<lambda>row. case row of
          Some p \<Rightarrow> tx_return (prow_id p, 0)
        | None \<Rightarrow> tx_then (insert_row db_policies db_policies_update same_policy
                     (policy_row_of c cmd (pd_digest decision))) (tx_return (c_ids c 0, 1)))"

definition new_run ::
  "call \<Rightarrow> CreatePublicationCommand \<Rightarrow> string \<Rightarrow> string \<Rightarrow> string \<Rightarrow> run_row" where
  "new_run c cmd runId installation policyId =
     (let pkg = cpc_package cmd in
      \<lparr>run_id = runId, run_organizationId = ctx_organizationId (cpc_context cmd),
       run_incidentId = pkg_incidentId pkg, run_recoveryId = cpc_recoveryId cmd,
       run_repositoryId = pkg_repositoryId pkg, run_installationId = installation,
       run_publicationPolicyId = policyId,
       run_status = PublicationStatus.PUBLICATION_REQUESTED, run_version = 1,
       run_policyVersion = pol_version (cpc_policy cmd),
       run_baseBranch = pkg_targetBaseBranch pkg, run_headBranch = pkg_branchName pkg,
       run_baseCommitSha = pkg_baseCommitSha pkg,
       run_approvedPatchVersion = pkg_patchVersion pkg, run_patchDigest = pkg_patchDigest pkg,
       run_expectedTreeDigest = pkg_treeDigest pkg, run_treeSha = None, run_commitSha = None,
       run_pullRequestNumber = None, run_pullRequestUrl = None,
       run_idempotencyKey = cpc_idempotencyKey cmd, run_attemptCount = 0,
       run_leaseOwner = None, run_leaseExpiresAt = None, run_heartbeatAt = None,
       run_cancellationRequestedAt = None, run_startedAt = None, run_completedAt = None,
       run_errorCode = None, run_errorMessage = None, run_createdAt = c_now c,
       run_updatedAt = c_now c\<rparr>)"

text \<open>The \<open>CHECK\<close> constraints of the table that the schemas do not imply: lower-case digests.\<close>

definition run_checks :: "run_row \<Rightarrow> bool" where
  "run_checks r =
     (list_all is_hex_lower (run_baseCommitSha r) \<and> list_all is_hex_lower (run_patchDigest r)
      \<and> list_all is_hex_lower (run_expectedTreeDigest r))"

definition insert_run :: "run_row \<Rightarrow> unit dbtx" where
  "insert_run r =
     tx_then (tx_guard (run_checks r) ''new row violates check constraint'')
       (insert_row db_runs db_runs_update same_run r)"

definition requested_payload :: "CreatePublicationCommand \<Rightarrow> PublicationPolicyDecision \<Rightarrow> json" where
  "requested_payload cmd decision =
     JObj [(''recoveryId'', JStr (cpc_recoveryId cmd)),
           (''patchVersion'', JNum (pkg_patchVersion (cpc_package cmd))),
           (''patchDigest'', JStr (pkg_patchDigest (cpc_package cmd))),
           (''policyDecisionDigest'', JStr (pd_digest decision))]"

definition requested_event ::
  "host \<Rightarrow> call \<Rightarrow> CreatePublicationCommand \<Rightarrow> PublicationPolicyDecision \<Rightarrow> string \<Rightarrow> event_row" where
  "requested_event h c cmd decision runId =
     (let payload = requested_payload cmd decision; ctx = cpc_context cmd in
      \<lparr>pe_publicationId = runId, pe_sequence = 1, pe_type = ''PUBLICATION_REQUESTED'',
       pe_payload = canonicalize (locale_le h) payload, pe_previousHash = None,
       pe_eventHash = digestPayload h (JObj [(''publicationId'', JStr runId),
                        (''sequence'', JNum 1), (''eventPayload'', payload)]),
       pe_actorType = ctx_actorType ctx, pe_actorId = Some (ctx_actorId ctx),
       pe_correlationId = Some (ctx_correlationId ctx), pe_occurredAt = c_now c\<rparr>)"

definition execute_message :: "host \<Rightarrow> call \<Rightarrow> CreatePublicationCommand \<Rightarrow> string \<Rightarrow> outbox_row" where
  "execute_message h c cmd runId =
     (let ctx = cpc_context cmd in
      \<lparr>ob_organizationId = ctx_organizationId ctx, ob_topic = ''publication.execute.v1'',
       ob_partitionKey = runId,
       ob_deduplicationKey = ''publication.execute:'' @ runId @ '':1'',
       ob_payload = canonicalize (locale_le h) (JObj [(''publicationId'', JStr runId),
         (''organizationId'', JStr (ctx_organizationId ctx)),
         (''repositoryId'', JStr (pkg_repositoryId (cpc_package cmd))), (''attempt'', JNum 1),
         (''correlationId'', JStr (ctx_correlationId ctx))]),
       ob_status = OutboxStatus.PENDING, ob_attempts = 0, ob_availableAt = c_now c\<rparr>)"

text \<open>The transaction when no publication has the idempotency key.\<close>

definition create_new ::
  "host \<Rightarrow> call \<Rightarrow> CreatePublicationCommand \<Rightarrow> PublicationPolicyDecision \<Rightarrow> PublicationRun dbtx" where
  "create_new h c cmd decision =
     tx_then (recovery_guards cmd)
     (tx_bind (active_installation cmd) (\<lambda>inst.
      tx_bind (ensure_policy c cmd decision) (\<lambda>(policyId, used).
      tx_then (insert_run (new_run c cmd (c_ids c used) (gi_id inst) policyId))
     (tx_then (insert_row db_events db_events_update same_event
                 (requested_event h c cmd decision (c_ids c used)))
     (tx_then (insert_or_ignore db_outbox db_outbox_update same_outbox
                 (execute_message h c cmd (c_ids c used)))
     (reload h (ctx_organizationId (cpc_context cmd)) (c_ids c used)
        ''Publication could not be reloaded.''))))))"

definition keyed_run :: "CreatePublicationCommand \<Rightarrow> run_row \<times> installation_row \<Rightarrow> bool" where
  "keyed_run cmd = (\<lambda>(r, g).
     run_organizationId r = ctx_organizationId (cpc_context cmd)
     \<and> run_idempotencyKey r = cpc_idempotencyKey cmd)"

definition createPublication ::
  "host \<Rightarrow> call \<Rightarrow> CreatePublicationCommand \<Rightarrow> PublicationRun dbtx" where
  "createPublication h c cmd =
     tx_bind (tx_lift (create_guards h cmd)) (\<lambda>decision.
     tx_bind (tx_read (\<lambda>d. row_where (keyed_run cmd) (joined_runs d))) (\<lambda>existing.
       case existing of
         Some rg \<Rightarrow> tx_lift (mapPublication h rg)
       | None \<Rightarrow> create_new h c cmd decision))"

section \<open>Transitions\<close>

text \<open>\<open>transition\<close>: the version must match; the status itself is not checked.\<close>

definition transition ::
  "host \<Rightarrow> call \<Rightarrow> StoreActorContext \<Rightarrow> string \<Rightarrow> int \<Rightarrow> PublicationStatus \<Rightarrow> PublicationRun dbtx" where
  "transition h c ctx publicationId expectedVersion st =
     tx_bind (update_returning db_runs db_runs_update
                (\<lambda>r. is_run publicationId (ctx_organizationId ctx) r
                     \<and> run_version r = expectedVersion)
                (\<lambda>r. bumped c (r\<lparr>run_status := st\<rparr>)))
       (\<lambda>row. tx_then
          (tx_guard (row \<noteq> None) ''Publication version conflict or resource not found.'')
          (reload h (ctx_organizationId ctx) publicationId ''Publication was not found.''))"

text \<open>\<open>SELECT ... WHERE "id"=$1 FOR UPDATE\<close>.\<close>

definition lock_run :: "string \<Rightarrow> run_row dbtx" where
  "lock_run publicationId =
     tx_bind (tx_read (\<lambda>d. row_where (\<lambda>r. run_id r = publicationId) (db_runs d)))
       (\<lambda>row. tx_some row ''Publication was not found.'')"

text \<open>\<open>if (current.status !== to) assertPublicationTransition(current.status, to)\<close>.\<close>

definition permit :: "PublicationStatus \<Rightarrow> PublicationStatus \<Rightarrow> unit dbtx" where
  "permit current target =
     (if current = target then tx_return ()
      else tx_lift (assertPublicationTransition current target))"

record WorkerCommand =
  wc_organizationId :: string
  wc_publicationId :: string
  wc_workerId :: string
  wc_correlationId :: "string option"

definition worker_event :: "WorkerCommand \<Rightarrow> string \<Rightarrow> json \<Rightarrow> EventCommand" where
  "worker_event w t payload =
     \<lparr>ec_publicationId = wc_publicationId w, ec_type = t, ec_payload = payload,
      ec_actorType = ActorType.SERVICE, ec_actorId = Some (wc_workerId w),
      ec_correlationId = wc_correlationId w\<rparr>"

definition assert_lease :: "call \<Rightarrow> WorkerCommand \<Rightarrow> unit dbtx" where
  "assert_lease c w =
     assertPublicationLease c (wc_organizationId w) (wc_publicationId w) (wc_workerId w)"

definition advancePublication ::
  "host \<Rightarrow> call \<Rightarrow> WorkerCommand \<Rightarrow> PublicationStatus \<Rightarrow> string \<Rightarrow> (string \<times> json) list \<Rightarrow> unit dbtx"
where
  "advancePublication h c w target eventType extra =
     tx_then (assert_lease c w)
     (tx_bind (lock_run (wc_publicationId w)) (\<lambda>current.
      tx_then (if run_status current = target then tx_return ()
               else tx_then (tx_lift (assertPublicationTransition (run_status current) target))
                      (set_run (wc_organizationId w) (wc_publicationId w)
                         (\<lambda>r. bumped c (r\<lparr>run_status := target\<rparr>))))
      (appendPublicationEvent h c (worker_event w eventType (status_payload target extra)))))"

record MaterializationCommand =
  mt_treeSha :: string
  mt_commitSha :: string
  mt_treeDigest :: string
  mt_messageDigest :: string

definition published_commit :: "string \<Rightarrow> db \<Rightarrow> commit_row option" where
  "published_commit publicationId d =
     row_where (\<lambda>r. pc_publicationId r = publicationId) (db_commits d)"

text \<open>The commit once recorded stays; another one for the same publication is an error.\<close>

definition ensure_commit :: "WorkerCommand \<Rightarrow> MaterializationCommand \<Rightarrow> run_row \<Rightarrow> unit dbtx" where
  "ensure_commit w m current =
     tx_bind (tx_read (published_commit (wc_publicationId w))) (\<lambda>existing.
       case existing of
         Some e \<Rightarrow> tx_guard (pc_commitSha e = mt_commitSha m \<and> pc_treeSha e = mt_treeSha m)
                     ''Recorded published commit does not match the materialized commit.''
       | None \<Rightarrow> insert_row db_commits db_commits_update same_commit
           \<lparr>pc_publicationId = wc_publicationId w, pc_baseCommitSha = run_baseCommitSha current,
            pc_treeSha = mt_treeSha m, pc_commitSha = mt_commitSha m,
            pc_patchDigest = run_patchDigest current, pc_treeDigest = mt_treeDigest m,
            pc_messageDigest = mt_messageDigest m\<rparr>)"

definition recordMaterialization ::
  "host \<Rightarrow> call \<Rightarrow> WorkerCommand \<Rightarrow> MaterializationCommand \<Rightarrow> unit dbtx" where
  "recordMaterialization h c w m =
     tx_then (assert_lease c w)
     (tx_bind (lock_run (wc_publicationId w)) (\<lambda>current.
      tx_then (permit (run_status current) PublicationStatus.BRANCH_PUBLISHING)
     (tx_then (ensure_commit w m current)
     (tx_then (set_run (wc_organizationId w) (wc_publicationId w)
        (\<lambda>r. bumped c (r\<lparr>run_status := PublicationStatus.BRANCH_PUBLISHING,
                        run_treeSha := Some (mt_treeSha m), run_commitSha := Some (mt_commitSha m)\<rparr>)))
     (appendPublicationEvent h c (worker_event w ''PUBLICATION_COMMIT_MATERIALIZED''
        (status_payload PublicationStatus.BRANCH_PUBLISHING
           [(''treeSha'', JStr (mt_treeSha m)), (''commitSha'', JStr (mt_commitSha m)),
            (''patchDigest'', JStr (run_patchDigest current))])))))))"

record PullRequestCommand =
  prc_number :: int
  prc_nodeId :: string
  prc_url :: string
  prc_title :: string
  prc_bodyDigest :: string
  prc_baseBranch :: string
  prc_headBranch :: string
  prc_headSha :: string
  prc_baseSha :: string
  prc_draft :: bool
  prc_state :: string

definition ensure_pull_request :: "call \<Rightarrow> WorkerCommand \<Rightarrow> PullRequestCommand \<Rightarrow> unit dbtx" where
  "ensure_pull_request c w p =
     tx_bind (tx_read (\<lambda>d. row_where (\<lambda>r. prr_publicationId r = wc_publicationId w)
                             (db_pull_requests d))) (\<lambda>existing.
       case existing of
         Some e \<Rightarrow> tx_guard (prr_number e = prc_number p)
                     ''Recorded pull request does not match the remote pull request.''
       | None \<Rightarrow> insert_row db_pull_requests db_pull_requests_update same_pull_request
           \<lparr>prr_publicationId = wc_publicationId w, prr_number = prc_number p,
            prr_nodeId = prc_nodeId p, prr_url = prc_url p, prr_title = prc_title p,
            prr_bodyDigest = prc_bodyDigest p, prr_baseBranch = prc_baseBranch p,
            prr_headBranch = prc_headBranch p, prr_draft = prc_draft p, prr_state = prc_state p,
            prr_headSha = prc_headSha p, prr_baseSha = prc_baseSha p, prr_createdAt = c_now c\<rparr>)"

definition recordPullRequest ::
  "host \<Rightarrow> call \<Rightarrow> WorkerCommand \<Rightarrow> PullRequestCommand \<Rightarrow> bool \<Rightarrow> unit dbtx" where
  "recordPullRequest h c w p reused =
     tx_then (assert_lease c w)
     (tx_bind (lock_run (wc_publicationId w)) (\<lambda>current.
      tx_then (permit (run_status current) PublicationStatus.CI_MONITORING)
     (tx_then (ensure_pull_request c w p)
     (tx_then (set_run (wc_organizationId w) (wc_publicationId w)
        (\<lambda>r. bumped c (r\<lparr>run_status := PublicationStatus.CI_MONITORING,
           run_pullRequestNumber := Some (prc_number p), run_pullRequestUrl := Some (prc_url p),
           run_commitSha := (case run_commitSha r of None \<Rightarrow> Some (prc_headSha p) | Some s \<Rightarrow> Some s),
           run_leaseOwner := None, run_leaseExpiresAt := None,
           run_heartbeatAt := Some (c_now c)\<rparr>)))
     (appendPublicationEvent h c (worker_event w ''PUBLICATION_DRAFT_PR_CREATED''
        (status_payload PublicationStatus.CI_MONITORING
           [(''number'', JNum (prc_number p)), (''url'', JStr (prc_url p)),
            (''draft'', JBool (prc_draft p)), (''headBranch'', JStr (prc_headBranch p)),
            (''baseBranch'', JStr (prc_baseBranch p)), (''reused'', JBool reused)])))))))"

definition failPublication ::
  "host \<Rightarrow> call \<Rightarrow> WorkerCommand \<Rightarrow> PublicationStatus \<Rightarrow> string \<Rightarrow> string \<Rightarrow> unit dbtx" where
  "failPublication h c w st errorCode errorMessage =
     tx_then (assert_lease c w)
     (tx_bind (lock_run (wc_publicationId w)) (\<lambda>current.
      tx_then (permit (run_status current) st)
     (tx_then (set_run (wc_organizationId w) (wc_publicationId w)
        (\<lambda>r. bumped c (r\<lparr>run_status := st, run_errorCode := Some errorCode,
           run_errorMessage := Some (take 2000 errorMessage),
           run_completedAt := (if isTerminalPublicationStatus st then Some (c_now c)
                               else run_completedAt r),
           run_leaseOwner := None, run_leaseExpiresAt := None\<rparr>)))
     (appendPublicationEvent h c (worker_event w ''PUBLICATION_FAILED''
        (status_payload st [(''errorCode'', JStr errorCode)]))))))"

section \<open>The execution bundle\<close>

text \<open>\<open>COUNT(DISTINCT "actorId")\<close> and \<open>MAX("createdAt")\<close> of the approvals of a patch version.\<close>

definition approvals_of :: "run_row \<Rightarrow> db \<Rightarrow> approval_row list" where
  "approvals_of r d =
     filter (\<lambda>a. apr_recoveryId a = run_recoveryId r
                 \<and> apr_recoveryVersion a = run_approvedPatchVersion r
                 \<and> apr_decision a = ''APPROVE'') (db_approvals d)"

definition bundle_policy :: "run_row \<Rightarrow> policy_row \<Rightarrow> PublicationPolicy" where
  "bundle_policy r p =
     \<lparr>pol_version = run_policyVersion r, pol_allowedBaseBranches = prow_allowedBaseBranches p,
      pol_recoveryBranchPrefix = prow_recoveryBranchPrefix p, pol_requireDraftPullRequest = True,
      pol_allowForcePush = False, pol_allowProtectedBranchWrites = False,
      pol_allowAutomaticMerge = False, pol_requiredChecks = prow_requiredChecks p,
      pol_requiredApprovals = prow_requiredApprovals p,
      pol_requireCodeOwnerApproval = prow_requireCodeOwnerApproval p,
      pol_maximumPublicationAttempts = prow_maximumPublicationAttempts p,
      pol_webhookReplayWindowSeconds = prow_webhookReplayWindowSeconds p,
      pol_postMergeVerificationRequired = prow_postMergeVerificationRequired p,
      pol_retentionDays = prow_retentionDays p\<rparr>"

definition bundle_publication :: "run_row \<Rightarrow> BundlePublication" where
  "bundle_publication r =
     \<lparr>bp_id = run_id r, bp_organizationId = run_organizationId r,
      bp_repositoryId = run_repositoryId r, bp_status = run_status r, bp_version = run_version r,
      bp_attemptCount = run_attemptCount r, bp_policyVersion = run_policyVersion r,
      bp_baseBranch = run_baseBranch r, bp_headBranch = run_headBranch r,
      bp_baseCommitSha = run_baseCommitSha r,
      bp_approvedPatchVersion = run_approvedPatchVersion r, bp_patchDigest = run_patchDigest r,
      bp_expectedTreeDigest = run_expectedTreeDigest r, bp_treeSha = run_treeSha r,
      bp_commitSha = run_commitSha r, bp_pullRequestNumber = run_pullRequestNumber r,
      bp_pullRequestUrl = run_pullRequestUrl r\<rparr>"

text \<open>The row of the joined query: the run and its four partners.\<close>

definition bundle_rows ::
  "string \<Rightarrow> string \<Rightarrow> db
   \<Rightarrow> (run_row \<times> installation_row \<times> repository_row \<times> recovery_row \<times> policy_row) option" where
  "bundle_rows org publicationId d =
     (case row_where (is_run publicationId org) (db_runs d) of None \<Rightarrow> None | Some r \<Rightarrow>
      (case joined_installation d r of None \<Rightarrow> None | Some g \<Rightarrow>
      (case row_where (\<lambda>x. repo_id x = run_repositoryId r) (db_repositories d) of
         None \<Rightarrow> None | Some repo \<Rightarrow>
      (case row_where (\<lambda>x. rec_id x = run_recoveryId r) (db_recoveries d) of
         None \<Rightarrow> None | Some rr \<Rightarrow>
      (case row_where (\<lambda>x. prow_id x = run_publicationPolicyId r) (db_policies d) of
         None \<Rightarrow> None | Some pol \<Rightarrow> Some (r, g, repo, rr, pol))))))"

definition loadExecutionBundle ::
  "host \<Rightarrow> string \<Rightarrow> string \<Rightarrow> PublicationExecutionBundle dbtx" where
  "loadExecutionBundle h org publicationId = (\<lambda>d.
     tx_bind (tx_some (bundle_rows org publicationId d) ''Publication was not found.'')
       (\<lambda>(r, g, repo, rr, pol).
     tx_bind (tx_some (row_where (\<lambda>x. pv_recoveryId x = run_recoveryId r
                \<and> pv_version x = run_approvedPatchVersion r) (db_patches d))
              ''Approved patch version was not found.'') (\<lambda>patch.
     tx_bind (tx_some (row_max prp_version (filter (\<lambda>x. prp_recoveryId x = run_recoveryId r
                \<and> prp_patchId x = pv_id patch) (db_pr_packages d)))
              ''Approved pull request package was not found.'') (\<lambda>pkg.
     tx_then (tx_guard (PublicationPolicySchema (bundle_policy r pol))
                ''The publication policy row is invalid.'')
     (tx_return
       \<lparr>bu_publication = bundle_publication r, bu_recoveryId = run_recoveryId r,
        bu_recoveryStatus = RecoveryRunStatus_name (rec_status rr),
        bu_currentPatchVersion = rec_currentPatchVersion rr,
        bu_recoveryBaseCommitSha = rec_baseCommitSha rr, bu_patchId = pv_id patch,
        bu_patchVersion = pv_version patch, bu_unifiedDiff = pv_unifiedDiff patch,
        bu_patchDigest = pv_patchDigest patch, bu_title = prp_title pkg, bu_body = prp_body pkg,
        bu_approvedCount = int (length (uniq (map apr_actorId (approvals_of r d)))),
        bu_latestApprovedAt = map_option (\<lambda>a. iso_time h (apr_createdAt a))
                                (row_max apr_createdAt (approvals_of r d)),
        bu_securityReview = map_option srv_decision (row_max srv_createdAt
          (filter (\<lambda>x. srv_patchId x = pv_id patch) (db_security_reviews d))),
        bu_verification = map_option vrf_status (row_max vrf_createdAt
          (filter (\<lambda>x. vrf_patchId x = pv_id patch) (db_verifications d))),
        bu_materialization = map_option (\<lambda>x. (pc_treeDigest x, pc_messageDigest x))
                               (published_commit publicationId d),
        bu_policy = bundle_policy r pol, bu_installationId = gi_installationId g,
        bu_repositoryOwner = repo_owner repo, bu_repositoryName = repo_name repo,
        bu_providerRepoId = repo_providerRepoId repo\<rparr>)))) d)"

section \<open>Stale jobs\<close>

record PublicationExecutionJob =
  job_publicationId :: string
  job_organizationId :: string
  job_repositoryId :: string
  job_attempt :: int
  job_correlationId :: string

definition PublicationExecutionJobSchema :: "host \<Rightarrow> PublicationExecutionJob \<Rightarrow> bool" where
  "PublicationExecutionJobSchema h j =
     (uuid_format h (job_publicationId j) \<and> uuid_format h (job_organizationId j)
      \<and> uuid_format h (job_repositoryId j) \<and> 1 \<le> job_attempt j
      \<and> has_length 1 128 (job_correlationId j))"

definition stale_run :: "call \<Rightarrow> int \<Rightarrow> run_row \<Rightarrow> bool" where
  "stale_run c staleSeconds r =
     (run_status r \<in> set IN_FLIGHT_PUBLICATION_STATUSES
      \<and> (run_heartbeatAt r = None
         \<or> before (run_heartbeatAt r) (c_now c - clamp 60 86400 staleSeconds * 1000))
      \<and> (run_leaseExpiresAt r = None \<or> before (run_leaseExpiresAt r) (c_now c)))"

definition last_seen :: "run_row \<Rightarrow> int" where
  "last_seen r = (case run_heartbeatAt r of None \<Rightarrow> run_createdAt r | Some t \<Rightarrow> t)"

definition reconcile_job :: "host \<Rightarrow> run_row \<Rightarrow> string + PublicationExecutionJob" where
  "reconcile_job h r =
     (let j = \<lparr>job_publicationId = run_id r, job_organizationId = run_organizationId r,
               job_repositoryId = run_repositoryId r, job_attempt = 1,
               job_correlationId = ''reconcile-'' @ run_id r\<rparr>
      in if PublicationExecutionJobSchema h j then Inr j else Inl ''The publication job is invalid.'')"

definition listStalePublicationJobs ::
  "host \<Rightarrow> call \<Rightarrow> int \<Rightarrow> int \<Rightarrow> PublicationExecutionJob list dbtx" where
  "listStalePublicationJobs h c staleSeconds limit =
     tx_bind (tx_read (\<lambda>d. take (nat (clamp 1 100 limit))
                (sort_by (\<lambda>a b. last_seen a \<le> last_seen b)
                   (filter (stale_run c staleSeconds) (db_runs d)))))
       (\<lambda>rows. tx_lift (map_parse (reconcile_job h) rows))"

end
