(* ===== verification/Event_Log.thy ===== *)
theory Event_Log
  imports Prelude
begin

text \<open>
  The contract of an append-only event log: what one append does to the log of the key it appends
  to. The publication stores (\<open>publication-store.ts\<close>, \<open>github-webhook-store.ts\<close>) each have such an
  operation; the lemmas on linked logs are proved here once.
\<close>

section \<open>Linked logs\<close>

text \<open>
  The sequence numbers are 1, 2, 3, ... and every event carries the hash of the one before it.
\<close>

definition linked :: "('e \<Rightarrow> int) \<Rightarrow> ('e \<Rightarrow> 'h option) \<Rightarrow> ('e \<Rightarrow> 'h) \<Rightarrow> 'e list \<Rightarrow> bool" where
  "linked sequ prev hash es =
     (\<forall>i < length es. sequ (es ! i) = int i + 1
        \<and> prev (es ! i) = (if i = 0 then None else Some (hash (es ! (i - 1)))))"

definition last_of :: "'e list \<Rightarrow> 'e option" where
  "last_of es = (if es = [] then None else Some (last es))"

definition follows ::
  "('e \<Rightarrow> int) \<Rightarrow> ('e \<Rightarrow> 'h option) \<Rightarrow> ('e \<Rightarrow> 'h) \<Rightarrow> 'e option \<Rightarrow> 'e \<Rightarrow> bool" where
  "follows sequ prev hash latest e =
     (sequ e = (case latest of None \<Rightarrow> 1 | Some l \<Rightarrow> sequ l + 1)
      \<and> prev e = map_option hash latest)"

lemma linked_Nil [simp]: "linked sequ prev hash []"
  by (simp add: linked_def)

lemma linked_snoc:
  "linked sequ prev hash (es @ [e]) \<longleftrightarrow>
     linked sequ prev hash es
     \<and> sequ e = int (length es) + 1
     \<and> prev e = (if es = [] then None else Some (hash (last es)))"
  (is "?l \<longleftrightarrow> ?r")
proof
  assume l: "?l"
  have "linked sequ prev hash es"
    unfolding linked_def
  proof (intro allI impI)
    fix i assume i: "i < length es"
    with l [unfolded linked_def, rule_format, of i]
    show "sequ (es ! i) = int i + 1
        \<and> prev (es ! i) = (if i = 0 then None else Some (hash (es ! (i - 1))))"
      by (auto simp: nth_append)
  qed
  moreover from l [unfolded linked_def, rule_format, of "length es"]
  have "sequ e = int (length es) + 1
      \<and> prev e = (if es = [] then None else Some (hash (last es)))"
    by (auto simp: nth_append last_conv_nth)
  ultimately show ?r by simp
next
  assume ?r
  then show ?l
    unfolding linked_def by (auto simp: nth_append less_Suc_eq last_conv_nth)
qed

lemma linked_last_sequence:
  "linked sequ prev hash es \<Longrightarrow> es \<noteq> [] \<Longrightarrow> sequ (last es) = int (length es)"
  by (cases es rule: rev_cases) (auto simp: linked_snoc)

lemma linked_row_max:
  assumes "linked sequ prev hash es"
  shows "row_max sequ es = last_of es"
proof (cases "row_max sequ es")
  case None
  then show ?thesis by (simp add: last_of_def)
next
  case (Some m)
  then have m: "m \<in> set es" "\<forall>e \<in> set es. sequ e \<le> sequ m" using row_max_SomeD by fastforce+
  then obtain i where i: "i < length es" "m = es ! i" by (auto simp: in_set_conv_nth)
  have ne: "es \<noteq> []" using m(1) by auto
  have "sequ (last es) \<le> sequ m" using m(2) ne by simp
  then have "int (length es) \<le> int i + 1"
    using assms i ne linked_last_sequence [OF assms ne] unfolding linked_def by simp
  with i have "i = length es - 1" by linarith
  with i Some ne show ?thesis by (simp add: last_of_def last_conv_nth)
qed

lemma follows_linked:
  assumes "linked sequ prev hash es" "follows sequ prev hash (last_of es) e"
  shows "linked sequ prev hash (es @ [e])"
  using assms linked_last_sequence [OF assms(1)]
  by (auto simp: linked_snoc follows_def last_of_def split: if_splits)

section \<open>The contract\<close>

locale event_log =
  fixes events :: "'d \<Rightarrow> 'e list" and key :: "'e \<Rightarrow> 'k"
    and sequ :: "'e \<Rightarrow> int" and prev :: "'e \<Rightarrow> 'h option" and hash :: "'e \<Rightarrow> 'h"
    and append_event :: "'c \<Rightarrow> ('d, 'err, unit) tx" and key_of :: "'c \<Rightarrow> 'k"
  assumes append_effect:
    "append_event c d = Inr (u, d') \<Longrightarrow>
       events d' = events d
       \<or> (\<exists>e. events d' = events d @ [e] \<and> key e = key_of c
             \<and> follows sequ prev hash
                 (row_max sequ (filter (\<lambda>x. key x = key_of c) (events d))) e)"
begin

definition log :: "'k \<Rightarrow> 'd \<Rightarrow> 'e list" where
  "log k d = filter (\<lambda>x. key x = k) (events d)"

definition all_linked :: "'d \<Rightarrow> bool" where
  "all_linked d = (\<forall>k. linked sequ prev hash (log k d))"

text \<open>The log of \<open>k\<close> is as it was, or goes on with one event.\<close>

definition continued :: "'k \<Rightarrow> 'd \<Rightarrow> 'd \<Rightarrow> bool" where
  "continued k d d' =
     (events d' = events d
      \<or> (\<exists>e. events d' = events d @ [e] \<and> key e = k
           \<and> follows sequ prev hash (row_max sequ (filter (\<lambda>x. key x = k) (events d))) e))"

lemma append_continued: "append_event c d = Inr (u, d') \<Longrightarrow> continued (key_of c) d d'"
  using append_effect [of c d u d'] by (simp add: continued_def)

lemma continued_linked:
  assumes "all_linked d" "continued k d d'"
  shows "all_linked d'"
proof (cases "events d' = events d")
  case True
  with assms(1) show ?thesis by (simp add: all_linked_def log_def)
next
  case False
  with assms(2) obtain e where e: "events d' = events d @ [e]" "key e = k"
    "follows sequ prev hash (row_max sequ (log k d)) e"
    by (auto simp: log_def continued_def)
  have all: "linked sequ prev hash (log k d)" for k using assms(1) by (simp add: all_linked_def)
  have "follows sequ prev hash (last_of (log k d)) e"
    using e(3) linked_row_max [OF all] by simp
  then have "linked sequ prev hash (log k d @ [e])" by (rule follows_linked [OF all])
  with all e(1,2) show ?thesis
    unfolding all_linked_def log_def by auto
qed

lemma append_keeps_linked:
  "all_linked d \<Longrightarrow> append_event c d = Inr (u, d') \<Longrightarrow> all_linked d'"
  by (blast intro: continued_linked append_continued)

lemma append_extends:
  assumes "append_event c d = Inr (u, d')"
  shows "\<exists>new. log k d' = log k d @ new \<and> length new \<le> 1"
  using append_effect [OF assms] by (auto simp: log_def)

lemma linked_by_events: "events d' = events d \<Longrightarrow> all_linked d' = all_linked d"
  by (simp add: all_linked_def log_def)

end

end
