(* ===== verification/Publication_Invariants.thy ===== *)
theory Publication_Invariants
  imports Publication_Store Event_Log
begin

text \<open>
  What the operations of the publication store keep: the links of the event log, the identity and
  the approved content of a publication, its recorded commit, and, for the operations of the
  execution worker, the permitted transitions and the exclusiveness of a lease.
\<close>

section \<open>Appending events\<close>

lemma append_frame:
  assumes "appendPublicationEvent h c e d = Inr (u, d')"
  shows "d' = d\<lparr>db_events := db_events d'\<rparr>"
  using assms
  by (auto simp: appendPublicationEvent_def tx_inr split: if_splits)

lemma append_events:
  assumes "appendPublicationEvent h c e d = Inr (u, d')"
  shows "db_events d' = db_events d
         \<or> (\<exists>ev. db_events d' = db_events d @ [ev] \<and> pe_publicationId ev = ec_publicationId e
              \<and> pe_eventHash ev = event_digest h e
              \<and> follows pe_sequence pe_previousHash pe_eventHash
                  (latest_event (ec_publicationId e) d) ev)"
  using assms
  by (auto simp: appendPublicationEvent_def tx_inr follows_def
      next_sequence_def split: if_splits option.splits)

interpretation publication_log:
  event_log db_events pe_publicationId pe_sequence pe_previousHash pe_eventHash
    "appendPublicationEvent h c" ec_publicationId
  for h c
  by unfold_locales (use append_events in \<open>force simp: latest_event_def\<close>)

lemma append_runs:
  assumes "appendPublicationEvent h c e d = Inr (u, d')"
  shows "db_runs d' = db_runs d" "db_commits d' = db_commits d"
    "db_pull_requests d' = db_pull_requests d"
  by (subst append_frame [OF assms], simp)+

section \<open>The effect of a worker operation\<close>

text \<open>At most one event was appended to the log of \<open>publicationId\<close>, and it continues the log.\<close>

definition logged :: "string \<Rightarrow> db \<Rightarrow> db \<Rightarrow> bool" where
  "logged publicationId d d' =
     (db_events d' = db_events d
      \<or> (\<exists>ev. db_events d' = db_events d @ [ev] \<and> pe_publicationId ev = publicationId
           \<and> follows pe_sequence pe_previousHash pe_eventHash (latest_event publicationId d) ev))"

text \<open>
  Every operation of the worker that ends a step has this effect: under the worker's lease, from a
  status that is the target or permits it, the run is changed by \<open>f\<close> and one event is logged.
\<close>

definition leased_by :: "call \<Rightarrow> WorkerCommand \<Rightarrow> db \<Rightarrow> bool" where
  "leased_by c w d =
     (\<exists>r \<in> set (db_runs d).
        holds_lease c (wc_organizationId w) (wc_publicationId w) (wc_workerId w) r)"

definition worker_effect ::
  "call \<Rightarrow> WorkerCommand \<Rightarrow> PublicationStatus \<Rightarrow> (run_row \<Rightarrow> run_row) \<Rightarrow> db \<Rightarrow> db \<Rightarrow> bool"
where
  "worker_effect c w target f d d' =
     (leased_by c w d
      \<and> (\<exists>cur. row_where (\<lambda>r. run_id r = wc_publicationId w) (db_runs d) = Some cur
           \<and> (run_status cur = target \<or> target \<in> set (publication_transitions (run_status cur))))
      \<and> db_runs d' = update_where (is_run (wc_publicationId w) (wc_organizationId w)) f (db_runs d)
      \<and> logged (wc_publicationId w) d d')"

lemma assert_lease_Inr:
  "assert_lease c w d = Inr (u, d') \<longleftrightarrow> d' = d \<and> leased_by c w d"
  by (auto simp: assert_lease_def assertPublicationLease_def leased_by_def tx_inr table_simps
      simp del: not_None_eq)

lemma lock_run_Inr:
  "lock_run p d = Inr (r, d') \<longleftrightarrow> d' = d \<and> row_where (\<lambda>r. run_id r = p) (db_runs d) = Some r"
  by (auto simp: lock_run_def tx_inr)

lemma permitted_Inr:
  "assertPublicationTransition a b = Inr u \<longleftrightarrow> a = b \<or> b \<in> set (publication_transitions a)"
  by (auto simp: assertPublicationTransition_def)

lemma permit_Inr:
  "permit a b d = Inr (u, d') \<longleftrightarrow> d' = d \<and> (a = b \<or> b \<in> set (publication_transitions a))"
  by (auto simp: permit_def tx_inr permitted_Inr)

lemma append_logged:
  assumes "appendPublicationEvent h c (worker_event w t v) d = Inr (u, d')"
  shows "db_runs d' = db_runs d" "db_commits d' = db_commits d" "logged (wc_publicationId w) d d'"
  using append_runs [OF assms] append_events [OF assms]
  by (auto simp: logged_def worker_event_def)

lemma set_then_append:
  assumes "tx_then (set_run org p f) (appendPublicationEvent h c (worker_event w t v)) d = Inr (u, d')"
  shows "db_runs d' = update_where (is_run p org) f (db_runs d)" "db_commits d' = db_commits d"
    "logged (wc_publicationId w) d d'"
proof -
  let ?s = "db_runs_update (update_where (is_run p org) f) d"
  have a: "appendPublicationEvent h c (worker_event w t v) ?s = Inr (u, d')"
    using assms by (simp add: tx_inr set_run_def)
  from append_runs [OF a] show "db_runs d' = update_where (is_run p org) f (db_runs d)"
    "db_commits d' = db_commits d" by simp_all
  from append_logged(3) [OF a] show "logged (wc_publicationId w) d d'"
    by (simp add: logged_def latest_event_def)
qed

lemma logged_events: "db_events d0 = db_events d \<Longrightarrow> logged p d0 d' = logged p d d'"
  by (simp add: logged_def latest_event_def)

text \<open>What each operation does to the run.\<close>

definition advance_run :: "call \<Rightarrow> PublicationStatus \<Rightarrow> run_row \<Rightarrow> run_row" where
  "advance_run c target r =
     (if run_status r = target then r else bumped c (r\<lparr>run_status := target\<rparr>))"

definition materialize_run :: "call \<Rightarrow> MaterializationCommand \<Rightarrow> run_row \<Rightarrow> run_row" where
  "materialize_run c m = (\<lambda>r.
     bumped c (r\<lparr>run_status := PublicationStatus.BRANCH_PUBLISHING,
                 run_treeSha := Some (mt_treeSha m), run_commitSha := Some (mt_commitSha m)\<rparr>))"

definition pull_request_run :: "call \<Rightarrow> PullRequestCommand \<Rightarrow> run_row \<Rightarrow> run_row" where
  "pull_request_run c p = (\<lambda>r.
     bumped c (r\<lparr>run_status := PublicationStatus.CI_MONITORING,
       run_pullRequestNumber := Some (prc_number p), run_pullRequestUrl := Some (prc_url p),
       run_commitSha := (case run_commitSha r of None \<Rightarrow> Some (prc_headSha p) | Some s \<Rightarrow> Some s),
       run_leaseOwner := None, run_leaseExpiresAt := None, run_heartbeatAt := Some (c_now c)\<rparr>))"

definition fail_run :: "call \<Rightarrow> PublicationStatus \<Rightarrow> string \<Rightarrow> string \<Rightarrow> run_row \<Rightarrow> run_row" where
  "fail_run c st code m = (\<lambda>r.
     bumped c (r\<lparr>run_status := st, run_errorCode := Some code,
       run_errorMessage := Some (take 2000 m),
       run_completedAt := (if isTerminalPublicationStatus st then Some (c_now c)
                           else run_completedAt r),
       run_leaseOwner := None, run_leaseExpiresAt := None\<rparr>))"

lemma lock_is_run:
  assumes "keyed same_run (db_runs d)" "row_where (\<lambda>r. run_id r = p) (db_runs d) = Some cur"
    and "r \<in> set (db_runs d)" "run_id r = p"
  shows "r = cur"
  using keyed_unique [OF assms(1,3)] row_where_SomeD [OF assms(2)] assms(4)
  by (simp add: same_run_def)

lemma advance_update:
  assumes k: "keyed same_run (db_runs d)"
    and cur: "row_where (\<lambda>r. run_id r = p) (db_runs d) = Some cur"
  shows "update_where (is_run p org) (advance_run c target) (db_runs d) =
           (if run_status cur = target then db_runs d
            else update_where (is_run p org) (\<lambda>r. bumped c (r\<lparr>run_status := target\<rparr>)) (db_runs d))"
  using lock_is_run [OF k cur]
  by (auto simp: update_where_def is_run_def advance_run_def intro: map_idI)

lemma advance_effect:
  assumes k: "keyed same_run (db_runs d)"
    and op: "advancePublication h c w target et ex d = Inr ((), d')"
  shows "worker_effect c w target (advance_run c target) d d'" "db_commits d' = db_commits d"
proof -
  obtain cur where l: "leased_by c w d"
    and cur: "row_where (\<lambda>r. run_id r = wc_publicationId w) (db_runs d) = Some cur"
    and rest: "tx_then (if run_status cur = target then tx_return ()
               else tx_then (tx_lift (assertPublicationTransition (run_status cur) target))
                      (set_run (wc_organizationId w) (wc_publicationId w)
                         (\<lambda>r. bumped c (r\<lparr>run_status := target\<rparr>))))
      (appendPublicationEvent h c (worker_event w et (status_payload target ex))) d = Inr ((), d')"
    using op unfolding advancePublication_def
    by (auto simp: tx_inr(1,2) assert_lease_Inr lock_run_Inr)
  show "worker_effect c w target (advance_run c target) d d'"
    using l cur rest append_logged [of h c w et "status_payload target ex"]
      set_then_append [of "wc_organizationId w" "wc_publicationId w" _ h c w et]
    unfolding worker_effect_def advance_update [OF k cur]
    by (cases "run_status cur = target") (fastforce simp: tx_inr permitted_Inr)+
  show "db_commits d' = db_commits d"
    using rest append_logged [of h c w et "status_payload target ex"]
    by (fastforce simp: tx_inr set_run_def split: if_splits)
qed

lemma ensure_commit_Inr:
  assumes "ensure_commit w m cur d = Inr (u, d')"
  shows "db_runs d' = db_runs d" "db_events d' = db_events d"
    "(\<exists>e. published_commit (wc_publicationId w) d = Some e \<and> pc_commitSha e = mt_commitSha m
          \<and> pc_treeSha e = mt_treeSha m \<and> db_commits d' = db_commits d)
     \<or> (\<exists>e. published_commit (wc_publicationId w) d = None \<and> db_commits d' = db_commits d @ [e]
          \<and> pc_publicationId e = wc_publicationId w \<and> pc_commitSha e = mt_commitSha m
          \<and> pc_treeSha e = mt_treeSha m)"
  using assms
  by (auto simp: ensure_commit_def tx_inr split: option.splits if_splits)

lemma materialize_effect:
  assumes op: "recordMaterialization h c w m d = Inr ((), d')"
  shows "worker_effect c w PublicationStatus.BRANCH_PUBLISHING (materialize_run c m) d d'"
    "\<exists>cur d0. ensure_commit w m cur d = Inr ((), d0) \<and> db_commits d' = db_commits d0"
proof -
  obtain cur d0 v where l: "leased_by c w d"
    and cur: "row_where (\<lambda>r. run_id r = wc_publicationId w) (db_runs d) = Some cur"
    and st: "run_status cur = PublicationStatus.BRANCH_PUBLISHING
             \<or> PublicationStatus.BRANCH_PUBLISHING \<in> set (publication_transitions (run_status cur))"
    and ens: "ensure_commit w m cur d = Inr ((), d0)"
    and rest: "tx_then (set_run (wc_organizationId w) (wc_publicationId w) (materialize_run c m))
      (appendPublicationEvent h c (worker_event w ''PUBLICATION_COMMIT_MATERIALIZED'' v)) d0
        = Inr ((), d')"
    using op unfolding recordMaterialization_def materialize_run_def [symmetric]
    by (auto simp: tx_run_inr(1) tx_run_inr(2) [of "assert_lease c w"]
        tx_run_inr(2) [of "permit a b" for a b] tx_run_inr(2) [of "ensure_commit w m a" for a]
        assert_lease_Inr lock_run_Inr permit_Inr)
  note e = ensure_commit_Inr [OF ens] and t = set_then_append [OF rest]
  show "worker_effect c w PublicationStatus.BRANCH_PUBLISHING (materialize_run c m) d d'"
    unfolding worker_effect_def using l cur st t e(1) logged_events [OF e(2)] by simp
  show "\<exists>cur d0. ensure_commit w m cur d = Inr ((), d0) \<and> db_commits d' = db_commits d0"
    using ens t(2) by blast
qed

lemma pull_request_effect:
  assumes op: "recordPullRequest h c w p reused d = Inr ((), d')"
  shows "worker_effect c w PublicationStatus.CI_MONITORING (pull_request_run c p) d d'"
    "db_commits d' = db_commits d"
proof -
  obtain cur d0 v where l: "leased_by c w d"
    and cur: "row_where (\<lambda>r. run_id r = wc_publicationId w) (db_runs d) = Some cur"
    and st: "run_status cur = PublicationStatus.CI_MONITORING
             \<or> PublicationStatus.CI_MONITORING \<in> set (publication_transitions (run_status cur))"
    and ens: "ensure_pull_request c w p d = Inr ((), d0)"
    and rest: "tx_then (set_run (wc_organizationId w) (wc_publicationId w) (pull_request_run c p))
      (appendPublicationEvent h c (worker_event w ''PUBLICATION_DRAFT_PR_CREATED'' v)) d0
        = Inr ((), d')"
    using op unfolding recordPullRequest_def pull_request_run_def [symmetric]
    by (auto simp: tx_run_inr(1) tx_run_inr(2) [of "assert_lease c w"]
        tx_run_inr(2) [of "permit a b" for a b] tx_run_inr(2) [of "ensure_pull_request c w p"]
        assert_lease_Inr lock_run_Inr permit_Inr)
  have e: "db_runs d0 = db_runs d" "db_events d0 = db_events d" "db_commits d0 = db_commits d"
    using ens by (auto simp: ensure_pull_request_def tx_inr split: option.splits if_splits)
  note t = set_then_append [OF rest]
  show "worker_effect c w PublicationStatus.CI_MONITORING (pull_request_run c p) d d'"
    unfolding worker_effect_def using l cur st t e(1) logged_events [OF e(2)] by simp
  show "db_commits d' = db_commits d" using t(2) e(3) by simp
qed

lemma fail_effect:
  assumes op: "failPublication h c w st code m d = Inr ((), d')"
  shows "worker_effect c w st (fail_run c st code m) d d'" "db_commits d' = db_commits d"
proof -
  obtain cur v where l: "leased_by c w d"
    and cur: "row_where (\<lambda>r. run_id r = wc_publicationId w) (db_runs d) = Some cur"
    and st: "run_status cur = st \<or> st \<in> set (publication_transitions (run_status cur))"
    and rest: "tx_then (set_run (wc_organizationId w) (wc_publicationId w) (fail_run c st code m))
      (appendPublicationEvent h c (worker_event w ''PUBLICATION_FAILED'' v)) d = Inr ((), d')"
    using op unfolding failPublication_def fail_run_def [symmetric]
    by (auto simp: tx_run_inr(1) tx_run_inr(2) [of "assert_lease c w"]
        tx_run_inr(2) [of "permit a b" for a b] assert_lease_Inr lock_run_Inr permit_Inr)
  note t = set_then_append [OF rest]
  show "worker_effect c w st (fail_run c st code m) d d'"
    unfolding worker_effect_def using l cur st t by simp
  show "db_commits d' = db_commits d" using t(2) by simp
qed

section \<open>What was approved does not change\<close>

text \<open>What a publication was created with.\<close>

definition approved_content ::
  "run_row \<Rightarrow> (string \<times> string \<times> string \<times> string \<times> string \<times> string \<times> string \<times> string)
    \<times> (string \<times> string \<times> string \<times> int \<times> string \<times> string \<times> string \<times> int)" where
  "approved_content r =
     ((run_id r, run_organizationId r, run_incidentId r, run_recoveryId r, run_repositoryId r,
       run_installationId r, run_publicationPolicyId r, run_policyVersion r),
      (run_baseBranch r, run_headBranch r, run_baseCommitSha r, run_approvedPatchVersion r,
       run_patchDigest r, run_expectedTreeDigest r, run_idempotencyKey r, run_createdAt r))"

lemma same_run_approved:
  "approved_content a = approved_content a' \<Longrightarrow> approved_content b = approved_content b'
   \<Longrightarrow> same_run a b = same_run a' b'"
  by (auto simp: approved_content_def same_run_def)

lemma keyed_runs_update:
  assumes "keyed same_run t" "\<And>r. approved_content (f r) = approved_content r"
  shows "keyed same_run (update_where p f t)"
  by (rule keyed_update_where [OF assms(1)]) (rule same_run_approved; simp add: assms(2))+

lemma worker_runs_status [simp]:
  "run_status (advance_run c target r) = target"
  "run_status (materialize_run c m r) = PublicationStatus.BRANCH_PUBLISHING"
  "run_status (pull_request_run c p r) = PublicationStatus.CI_MONITORING"
  "run_status (fail_run c st code msg r) = st"
  by (simp_all add: advance_run_def materialize_run_def pull_request_run_def fail_run_def bumped_def)

text \<open>The run after an operation: the approved content stays, the version does not go back.\<close>

definition run_kept :: "run_row \<Rightarrow> run_row \<Rightarrow> bool" where
  "run_kept r r' = (approved_content r' = approved_content r \<and> run_version r \<le> run_version r')"

lemma run_kept_refl [simp]: "run_kept r r"
  by (simp add: run_kept_def)

lemma worker_runs_kept [simp]:
  "run_kept r (advance_run c target r)" "run_kept r (materialize_run c m r)"
  "run_kept r (pull_request_run c p r)" "run_kept r (fail_run c st code msg r)"
  by (simp_all add: run_kept_def approved_content_def advance_run_def materialize_run_def
      pull_request_run_def fail_run_def bumped_def)

definition permitted_change :: "run_row \<Rightarrow> run_row \<Rightarrow> bool" where
  "permitted_change r r' =
     (run_kept r r' \<and> (run_status r' = run_status r
                       \<or> run_status r' \<in> set (publication_transitions (run_status r))))"

lemma permitted_change_refl [simp]: "permitted_change r r"
  by (simp add: permitted_change_def)

lemma worker_effect_permitted:
  assumes "keyed same_run (db_runs d)" "worker_effect c w target f d d'"
    and "\<And>r. run_kept r (f r)" "\<And>r. run_status (f r) = target"
  shows "list_all2 permitted_change (db_runs d) (db_runs d')"
proof -
  from assms(2) obtain cur where
    cur: "row_where (\<lambda>r. run_id r = wc_publicationId w) (db_runs d) = Some cur"
    and st: "run_status cur = target \<or> target \<in> set (publication_transitions (run_status cur))"
    and d': "db_runs d' = update_where (is_run (wc_publicationId w) (wc_organizationId w)) f (db_runs d)"
    by (auto simp: worker_effect_def)
  show ?thesis
    unfolding d' list_all2_update_where
    using lock_is_run [OF assms(1) cur] st assms(3,4)
    by (auto simp: permitted_change_def is_run_def)
qed

section \<open>The steps of the worker\<close>

inductive worker_step :: "host \<Rightarrow> call \<Rightarrow> WorkerCommand \<Rightarrow> db \<Rightarrow> db \<Rightarrow> bool" for h c w where
  claims: "claimPublication h c (wc_organizationId w) (wc_publicationId w) (wc_workerId w) s d
             = Inr (e, d') \<Longrightarrow> worker_step h c w d d'"
| beats: "heartbeat c (wc_organizationId w) (wc_publicationId w) (wc_workerId w) s d
             = Inr (b, d') \<Longrightarrow> worker_step h c w d d'"
| releases: "releaseLease c (wc_organizationId w) (wc_publicationId w) (wc_workerId w) d
             = Inr ((), d') \<Longrightarrow> worker_step h c w d d'"
| advances: "advancePublication h c w target t extra d = Inr ((), d') \<Longrightarrow> worker_step h c w d d'"
| materializes: "recordMaterialization h c w m d = Inr ((), d') \<Longrightarrow> worker_step h c w d d'"
| opens: "recordPullRequest h c w p reused d = Inr ((), d') \<Longrightarrow> worker_step h c w d d'"
| fails: "failPublication h c w st code m d = Inr ((), d') \<Longrightarrow> worker_step h c w d d'"

text \<open>A lease operation touches only lease fields of the runs, and no other table.\<close>

definition lease_only :: "run_row \<Rightarrow> run_row \<Rightarrow> bool" where
  "lease_only r r' = (run_kept r r' \<and> run_status r' = run_status r
                      \<and> run_treeSha r' = run_treeSha r \<and> run_commitSha r' = run_commitSha r)"

definition lease_change :: "db \<Rightarrow> db \<Rightarrow> bool" where
  "lease_change d d' =
     (\<exists>runs. d' = d\<lparr>db_runs := runs\<rparr> \<and> list_all2 lease_only (db_runs d) runs)"

lemma lease_change_update:
  assumes "\<And>r. lease_only r (f r)"
  shows "lease_change d (db_runs_update (update_where p f) d)"
  unfolding lease_change_def using assms
  by (intro exI [of _ "update_where p f (db_runs d)"])
    (simp add: list_all2_update_where lease_only_def)

lemma claim_change:
  "claimPublication h c org p wk s d = Inr (e, d') \<Longrightarrow> lease_change d d'"
  by (auto simp: claimPublication_def tx_inr lease_only_def run_kept_def approved_content_def
      intro!: lease_change_update)

lemma heartbeat_change:
  "heartbeat c org p wk s d = Inr (b, d') \<Longrightarrow> lease_change d d'"
  by (auto simp: heartbeat_def tx_inr lease_only_def run_kept_def approved_content_def
      intro!: lease_change_update)

lemma release_change:
  "releaseLease c org p wk d = Inr ((), d') \<Longrightarrow> lease_change d d'"
  by (auto simp: releaseLease_def assertPublicationLease_def set_run_def tx_inr lease_only_def
      run_kept_def approved_content_def bumped_def intro!: lease_change_update)

lemmas lease_changes = claim_change heartbeat_change release_change

lemma lease_change_permitted:
  "lease_change d d' \<Longrightarrow> list_all2 permitted_change (db_runs d) (db_runs d')"
  by (auto simp: lease_change_def permitted_change_def lease_only_def elim!: list_all2_mono)

text \<open>
  C3: whatever the worker does, a publication keeps what was approved, its version never goes
  back, and its status stays or takes one step the lifecycle permits.
\<close>

lemma worker_step_permitted:
  assumes "keyed same_run (db_runs d)" "worker_step h c w d d'"
  shows "list_all2 (\<lambda>r r'. approved_content r' = approved_content r
           \<and> run_version r \<le> run_version r'
           \<and> (run_status r' = run_status r
              \<or> run_status r' \<in> set (publication_transitions (run_status r))))
         (db_runs d) (db_runs d')"
proof -
  note p = worker_effect_permitted [OF assms(1)]
  from assms(2) have "list_all2 permitted_change (db_runs d) (db_runs d')"
  proof cases
    case (advances target t extra)
    then show ?thesis using p [OF advance_effect(1) [OF assms(1)]] by simp
  next
    case (materializes m)
    then show ?thesis using p [OF materialize_effect(1)] by simp
  next
    case (opens pr reused)
    then show ?thesis using p [OF pull_request_effect(1)] by simp
  next
    case (fails st code m)
    then show ?thesis using p [OF fail_effect(1)] by simp
  qed (auto dest!: lease_changes intro: lease_change_permitted)
  then show ?thesis
    by (rule list_all2_mono) (simp add: permitted_change_def run_kept_def)
qed

section \<open>A lease excludes the other workers\<close>

lemma held_lease_is_mine:
  assumes "keyed same_run (db_runs d)" "r \<in> set (db_runs d)"
    and "is_run (wc_publicationId w) (wc_organizationId w) r" "leased_by c w d"
  shows "run_leaseOwner r = Some (wc_workerId w)"
proof -
  from assms(4) obtain r' where r': "r' \<in> set (db_runs d)"
    "holds_lease c (wc_organizationId w) (wc_publicationId w) (wc_workerId w) r'"
    by (auto simp: leased_by_def)
  with assms(3) have "same_run r r'" "same_run r' r"
    by (auto simp: holds_lease_def is_run_def same_run_def)
  with keyed_unique [OF assms(1,2) r'(1)] have "r = r'" by blast
  with r'(2) show ?thesis by (simp add: holds_lease_def)
qed

lemma worker_effect_leased: "worker_effect c w target f d d' \<Longrightarrow> leased_by c w d"
  by (simp add: worker_effect_def)

lemma claim_nothing:
  assumes "\<forall>r \<in> set (db_runs d). \<not> claimable c org p wk r"
    and "claimPublication h c org p wk s d = Inr (e, d')"
  shows "e = None \<and> d' = d"
proof -
  have "row_where (claimable c org p wk) (db_runs d) = None"
    using assms(1) by (simp add: table_simps)
  moreover have "update_where (claimable c org p wk) f (db_runs d) = db_runs d" for f
    using assms(1) by (intro update_where_id) blast
  ultimately show ?thesis using assms(2) by (auto simp: claimPublication_def tx_inr)
qed

text \<open>
  C4: while a worker holds the lease of a publication, no operation of another worker on that
  publication changes anything: a claim is turned away and every other operation fails.
\<close>

lemma lease_excludes:
  assumes k: "keyed same_run (db_runs d)" and r: "r \<in> set (db_runs d)"
    and run: "is_run (wc_publicationId w) (wc_organizationId w) r"
    and held: "run_leaseOwner r = Some v" "v \<noteq> wc_workerId w"
    and live: "run_leaseExpiresAt r = Some t" "c_now c \<le> t"
    and step: "worker_step h c w d d'"
  shows "d' = d"
proof -
  have mine: "\<not> leased_by c w d" using held_lease_is_mine [OF k r run] held by auto
  have "\<not> claimable c (wc_organizationId w) (wc_publicationId w) (wc_workerId w) r'"
    if "r' \<in> set (db_runs d)" for r'
  proof
    assume c: "claimable c (wc_organizationId w) (wc_publicationId w) (wc_workerId w) r'"
    with run have "same_run r r'" "same_run r' r"
      by (auto simp: claimable_def is_run_def same_run_def)
    with keyed_unique [OF k r that] have "r' = r" by blast
    with c held live show False by (auto simp: claimable_def before_def)
  qed
  note unclaimed = this
  from step show ?thesis
  proof cases
    case (claims s e)
    with claim_nothing unclaimed show ?thesis by blast
  next
    case (beats s b)
    with mine show ?thesis
      by (auto simp: heartbeat_def tx_inr leased_by_def dest: row_where_SomeD)
  next
    case releases
    with mine show ?thesis by (auto simp: releaseLease_def tx_inr assert_lease_def [symmetric] assert_lease_Inr)
  next
    case (advances target t extra)
    with mine show ?thesis using advance_effect(1) [OF k] worker_effect_leased by blast
  next
    case (materializes m)
    with mine show ?thesis using materialize_effect(1) worker_effect_leased by blast
  next
    case (opens p reused)
    with mine show ?thesis using pull_request_effect(1) worker_effect_leased by blast
  next
    case (fails st code m)
    with mine show ?thesis using fail_effect(1) worker_effect_leased by blast
  qed
qed

section \<open>A recorded commit stays\<close>

lemma published_commit_by_commits:
  "db_commits d' = db_commits d \<Longrightarrow> published_commit p d' = published_commit p d"
  by (simp add: published_commit_def)

lemma published_commit_extended:
  assumes "published_commit p d = Some x" "db_commits d' = db_commits d @ new"
  shows "published_commit p d' = Some x"
  using assms by (simp add: published_commit_def row_where_append)

lemma ensure_commit_extends:
  "ensure_commit w m cur d = Inr (u, d') \<Longrightarrow> \<exists>new. db_commits d' = db_commits d @ new"
  using ensure_commit_Inr(3) by (metis append_Nil2)

text \<open>
  C5: the commit recorded for a publication is never replaced: it survives every operation of the
  worker, and the recording of another commit or tree for the publication fails.
\<close>

lemma recorded_commit_stays:
  assumes "published_commit p d = Some x"
  shows "(keyed same_run (db_runs d) \<longrightarrow> worker_step h c w d d' \<longrightarrow> published_commit p d' = Some x)
         \<and> (wc_publicationId w = p \<longrightarrow> (mt_commitSha m, mt_treeSha m) \<noteq> (pc_commitSha x, pc_treeSha x)
            \<longrightarrow> (\<exists>e. recordMaterialization h c w m d = Inl e))"
proof (intro conjI impI)
  assume k: "keyed same_run (db_runs d)" and "worker_step h c w d d'"
  from this(2) show "published_commit p d' = Some x"
  proof cases
    case (advances target t extra)
    with assms advance_effect(2) [OF k] show ?thesis by (metis published_commit_by_commits)
  next
    case (materializes m)
    with materialize_effect(2) ensure_commit_extends have "\<exists>new. db_commits d' = db_commits d @ new"
      by metis
    with assms show ?thesis using published_commit_extended by blast
  next
    case (opens pr reused)
    with assms pull_request_effect(2) show ?thesis by (metis published_commit_by_commits)
  next
    case (fails st code m)
    with assms fail_effect(2) show ?thesis by (metis published_commit_by_commits)
  qed (use assms in \<open>auto dest!: lease_changes simp: lease_change_def published_commit_def\<close>)
next
  assume w: "wc_publicationId w = p"
    and ne: "(mt_commitSha m, mt_treeSha m) \<noteq> (pc_commitSha x, pc_treeSha x)"
  show "\<exists>e. recordMaterialization h c w m d = Inl e"
  proof (cases "recordMaterialization h c w m d")
    case (Inr r)
    then obtain d' where "recordMaterialization h c w m d = Inr ((), d')" by (cases r) auto
    from materialize_effect(2) [OF this] obtain cur d0 where "ensure_commit w m cur d = Inr ((), d0)"
      by blast
    from ensure_commit_Inr(3) [OF this] assms w ne show ?thesis by auto
  qed simp
qed

section \<open>Repeated events\<close>

text \<open>
  The digest of an event covers neither its sequence number nor the hash before it, and an event
  whose digest is in the log already is dropped: a second failure with the same status and code,
  under the same job, changes the run and leaves no trace in the log.
\<close>

lemma repeated_event_dropped:
  assumes "\<exists>ev \<in> set (db_events d). pe_eventHash ev = event_digest h e"
  shows "appendPublicationEvent h c e d = Inr ((), d)"
  using assms
  by (auto simp: appendPublicationEvent_def tx_simps insert_on_conflict_def same_event_hash_def
      list_ex_iff)

section \<open>A sample database\<close>

definition sample_run :: run_row where
  "sample_run =
     \<lparr>run_id = ''p1'', run_organizationId = ''o1'', run_incidentId = ''i1'',
      run_recoveryId = ''rec1'', run_repositoryId = ''r1'', run_installationId = ''g1'',
      run_publicationPolicyId = ''pol1'', run_status = PublicationStatus.COMMIT_MATERIALIZING,
      run_version = 3, run_policyVersion = ''v1'', run_baseBranch = ''main'',
      run_headBranch = ''codeer/recovery/x'', run_baseCommitSha = ''b'',
      run_approvedPatchVersion = 1, run_patchDigest = ''d'', run_expectedTreeDigest = ''t'',
      run_treeSha = None, run_commitSha = None, run_pullRequestNumber = None,
      run_pullRequestUrl = None, run_idempotencyKey = ''k1'', run_attemptCount = 1,
      run_leaseOwner = Some ''w1'', run_leaseExpiresAt = Some 60000,
      run_heartbeatAt = Some 0, run_cancellationRequestedAt = None, run_startedAt = Some 0,
      run_completedAt = None, run_errorCode = None, run_errorMessage = None,
      run_createdAt = 0, run_updatedAt = 0\<rparr>"

definition empty_db :: db where
  "empty_db =
     \<lparr>db_runs = [], db_events = [], db_outbox = [], db_installations = [], db_repositories = [],
      db_recoveries = [], db_policies = [], db_patches = [], db_pr_packages = [],
      db_security_reviews = [], db_verifications = [], db_approvals = [], db_commits = [],
      db_pull_requests = [], db_checks = [], db_reviews = [], db_readiness = [], db_merges = [],
      db_post_merge = [], db_closures = [], db_deliveries = []\<rparr>"

definition sample_db :: db where
  "sample_db = empty_db\<lparr>db_runs := [sample_run]\<rparr>"

definition sample_call :: call where
  "sample_call = \<lparr>c_now = 1000, c_clock = 1000, c_ids = (\<lambda>n. ''id'' @ show_nat n)\<rparr>"

definition sample_worker :: "string \<Rightarrow> WorkerCommand" where
  "sample_worker name =
     \<lparr>wc_organizationId = ''o1'', wc_publicationId = ''p1'', wc_workerId = name,
      wc_correlationId = Some ''c''\<rparr>"

definition sample_materialization :: MaterializationCommand where
  "sample_materialization =
     \<lparr>mt_treeSha = ''t1'', mt_commitSha = ''c1'', mt_treeDigest = ''td'', mt_messageDigest = ''md''\<rparr>"

definition materialized_db :: db where
  "materialized_db =
     after_tx (recordMaterialization plain_host sample_call (sample_worker ''w1'')
       sample_materialization) sample_db"

lemmas sample_defs = sample_db_def empty_db_def sample_run_def sample_call_def sample_worker_def
  sample_materialization_def

lemma sample_keyed: "keyed same_run (db_runs sample_db)"
  by (simp add: sample_db_def keyed_def)

lemma append_first:
  assumes "db_events d = []"
  shows "\<exists>d'. appendPublicationEvent h c e d = Inr ((), d')"
proof (cases "appendPublicationEvent h c e d")
  case (Inl m)
  with assms show ?thesis
    by (simp add: appendPublicationEvent_def tx_simps insert_on_conflict_def insert_row_def)
next
  case (Inr r)
  then show ?thesis by (cases r) simp
qed

lemma materialize_first:
  assumes "leased_by c w d" "row_where (\<lambda>r. run_id r = wc_publicationId w) (db_runs d) = Some cur"
    and "PublicationStatus.BRANCH_PUBLISHING \<in> set (publication_transitions (run_status cur))"
    and "db_commits d = []" "db_events d = []"
  shows "\<exists>r. recordMaterialization h c w m d = Inr r"
proof -
  have "assert_lease c w d = Inr ((), d)" "lock_run (wc_publicationId w) d = Inr (cur, d)"
    "permit (run_status cur) PublicationStatus.BRANCH_PUBLISHING d = Inr ((), d)"
    using assms(1-3) by (simp_all add: assert_lease_Inr lock_run_Inr permit_Inr)
  with assms(4,5) show ?thesis
    by (simp add: recordMaterialization_def tx_simps ensure_commit_def published_commit_def
        insert_row_def set_run_def) (rule append_first, simp)
qed

lemma materializes_sample:
  "recordMaterialization plain_host sample_call (sample_worker ''w1'') sample_materialization
     sample_db = Inr ((), materialized_db)"
proof -
  have "\<exists>r. recordMaterialization plain_host sample_call (sample_worker ''w1'') sample_materialization
          sample_db = Inr r"
    by (rule materialize_first [where cur = sample_run])
      (simp_all add: leased_by_def holds_lease_def is_run_def after_def sample_defs)
  then show ?thesis by (auto simp: materialized_db_def after_tx_def)
qed

lemma worker_step_permitted_witness:
  "list_all2 (\<lambda>r r'. approved_content r' = approved_content r
       \<and> run_version r \<le> run_version r'
       \<and> (run_status r' = run_status r
          \<or> run_status r' \<in> set (publication_transitions (run_status r))))
     (db_runs sample_db) (db_runs materialized_db)
   \<and> map run_status (db_runs materialized_db) = [PublicationStatus.BRANCH_PUBLISHING]"
proof
  show "list_all2 (\<lambda>r r'. approved_content r' = approved_content r
       \<and> run_version r \<le> run_version r'
       \<and> (run_status r' = run_status r
          \<or> run_status r' \<in> set (publication_transitions (run_status r))))
     (db_runs sample_db) (db_runs materialized_db)"
    by (rule worker_step_permitted [OF sample_keyed worker_step.materializes [OF materializes_sample]])
  show "map run_status (db_runs materialized_db) = [PublicationStatus.BRANCH_PUBLISHING]"
    using materialize_effect(1) [OF materializes_sample]
    by (simp add: worker_effect_def sample_defs is_run_def materialize_run_def bumped_def)
qed

lemma lease_excludes_witness:
  "claimPublication plain_host sample_call ''o1'' ''p1'' ''w2'' 60 sample_db = Inr (None, sample_db)"
proof -
  let ?w = "sample_worker ''w2''"
  obtain e d' where c: "claimPublication plain_host sample_call ''o1'' ''p1'' ''w2'' 60 sample_db
      = Inr (e, d')"
    by (simp add: claimPublication_def tx_simps update_returning_def)
  have "worker_step plain_host sample_call ?w sample_db d'"
    by (rule worker_step.claims [of _ _ _ 60 _ e]) (use c in \<open>simp add: sample_worker_def\<close>)
  then have "d' = sample_db"
    by (rule lease_excludes [of sample_db sample_run ?w "''w1''" 60000 sample_call, rotated -1])
      (simp_all add: sample_keyed sample_defs is_run_def keyed_def)
  moreover have "e = None"
    using c by (auto simp: claimPublication_def tx_inr claimable_def sample_defs before_def)
  ultimately show ?thesis using c by simp
qed

lemma recorded_commit_stays_witness:
  "\<exists>x e. published_commit ''p1'' materialized_db = Some x
     \<and> recordMaterialization plain_host sample_call (sample_worker ''w1'')
         (sample_materialization\<lparr>mt_commitSha := ''c2''\<rparr>) materialized_db = Inl e"
proof -
  obtain x where x: "published_commit ''p1'' materialized_db = Some x" "pc_commitSha x = ''c1''"
  proof -
    from materialize_effect(2) [OF materializes_sample] obtain cur d0
      where e: "ensure_commit (sample_worker ''w1'') sample_materialization cur sample_db = Inr ((), d0)"
        and c: "db_commits materialized_db = db_commits d0" by blast
    from ensure_commit_Inr(3) [OF e] obtain x where "db_commits d0 = [x]" "pc_publicationId x = ''p1''"
      "pc_commitSha x = ''c1''"
      by (auto simp: sample_defs published_commit_def)
    with c that show thesis by (simp add: published_commit_def)
  qed
  with recorded_commit_stays [OF x(1), of plain_host sample_call "sample_worker ''w1''"
      materialized_db "sample_materialization\<lparr>mt_commitSha := ''c2''\<rparr>"]
  show ?thesis by (auto simp: sample_defs)
qed

end
