(* ===== verification/Publication_Creation.thy ===== *)
theory Publication_Creation
  imports Publication_Invariants
begin

text \<open>
  What \<open>createPublication\<close> of \<open>packages/database/src/publication-store.ts\<close> promises: the state a
  new publication starts in, the conditions it was created under, and idempotence.
\<close>

lemma create_guards_Inr:
  "create_guards h cmd = Inr dec \<longleftrightarrow>
     ApprovedRecoveryPackageSchema h (cpc_package cmd) \<and> PublicationPolicySchema (cpc_policy cmd)
     \<and> pkg_recoveryId (cpc_package cmd) = cpc_recoveryId cmd
     \<and> pkg_organizationId (cpc_package cmd) = ctx_organizationId (cpc_context cmd)
     \<and> dec = evaluatePublicationPolicy h (cpc_package cmd) (cpc_policy cmd) \<and> pd_allowed dec"
  by (auto simp: create_guards_def Let_def try_then_Inr_iff)

text \<open>The recovery a publication may be created from.\<close>

definition publishable_recovery :: "CreatePublicationCommand \<Rightarrow> recovery_row \<Rightarrow> bool" where
  "publishable_recovery cmd r =
     (rec_id r = cpc_recoveryId cmd
      \<and> rec_organizationId r = ctx_organizationId (cpc_context cmd)
      \<and> rec_status r = RecoveryRunStatus.READY_TO_PUBLISH
      \<and> rec_currentPatchVersion r = Some (pkg_patchVersion (cpc_package cmd))
      \<and> rec_baseCommitSha r = pkg_baseCommitSha (cpc_package cmd))"

lemma recovery_guards_Inr:
  assumes "recovery_guards cmd d = Inr (u, d')"
  shows "d' = d \<and> (\<exists>r \<in> set (db_recoveries d). publishable_recovery cmd r)"
  using assms
  by (auto simp: recovery_guards_def tx_inr publishable_recovery_def dest!: row_where_SomeD)

lemma active_installation_Inr:
  assumes "active_installation cmd d = Inr (g, d')"
  shows "d' = d \<and> g \<in> set (db_installations d) \<and> gi_suspendedAt g = None
         \<and> gi_organizationId g = ctx_organizationId (cpc_context cmd)
         \<and> gi_installationId g = cpc_installationId cmd"
  using assms by (auto simp: active_installation_def tx_inr dest!: row_where_SomeD)

lemma ensure_policy_frame:
  assumes "ensure_policy c cmd dec d = Inr ((pol, used), d')"
  shows "d' = d\<lparr>db_policies := db_policies d'\<rparr>"
  using assms by (auto simp: ensure_policy_def tx_inr split: option.splits)

text \<open>The rows a committed creation adds.\<close>

lemma create_new_Inr:
  assumes "create_new h c cmd dec d = Inr (p, d')"
  obtains r g pol used run where
    "r \<in> set (db_recoveries d)" "publishable_recovery cmd r"
    "g \<in> set (db_installations d)" "gi_suspendedAt g = None"
    "run = new_run c cmd (c_ids c used) (gi_id g) pol"
    "db_runs d' = db_runs d @ [run]" "\<not> list_ex (same_run run) (db_runs d)"
    "db_events d' = db_events d @ [requested_event h c cmd dec (c_ids c used)]"
    "\<not> list_ex (same_event (requested_event h c cmd dec (c_ids c used))) (db_events d)"
    "db_commits d' = db_commits d" "db_installations d' = db_installations d"
    "reload h (ctx_organizationId (cpc_context cmd)) (c_ids c used)
       ''Publication could not be reloaded.'' d' = Inr (p, d')"
proof -
  obtain u0 s0 g s1 pu d1 where rg0: "recovery_guards cmd d = Inr (u0, s0)"
    and ai0: "active_installation cmd s0 = Inr (g, s1)"
    and ep0: "ensure_policy c cmd dec s1 = Inr (pu, d1)"
    and rest: "(case pu of (policyId, used) \<Rightarrow>
        tx_then (insert_run (new_run c cmd (c_ids c used) (gi_id g) policyId))
       (tx_then (insert_row db_events db_events_update same_event
                   (requested_event h c cmd dec (c_ids c used)))
       (tx_then (insert_or_ignore db_outbox db_outbox_update same_outbox
                   (execute_message h c cmd (c_ids c used)))
       (reload h (ctx_organizationId (cpc_context cmd)) (c_ids c used)
          ''Publication could not be reloaded.'')))) d1 = Inr (p, d')"
    using assms unfolding create_new_def tx_run_inr(1,2) by blast
  have s: "s0 = d" "s1 = d" using recovery_guards_Inr [OF rg0] active_installation_Inr [OF ai0] by simp_all
  obtain pol used where pu: "pu = (pol, used)" by (cases pu)
  note rg = rg0 [unfolded s] and ai = ai0 [unfolded s] and ep = ep0 [unfolded s pu]
  from rest obtain u2 u3 u4 d2 d3 d4
    where ir: "insert_run (new_run c cmd (c_ids c used) (gi_id g) pol) d1 = Inr (u2, d2)"
      and ie: "insert_row db_events db_events_update same_event
                 (requested_event h c cmd dec (c_ids c used)) d2 = Inr (u3, d3)"
      and io: "insert_or_ignore db_outbox db_outbox_update same_outbox
                 (execute_message h c cmd (c_ids c used)) d3 = Inr (u4, d4)"
      and rl: "reload h (ctx_organizationId (cpc_context cmd)) (c_ids c used)
                 ''Publication could not be reloaded.'' d4 = Inr (p, d')"
    unfolding pu prod.case tx_run_inr(1,2) by blast
  have d4: "d' = d4" using rl by (auto simp: reload_def tx_inr)
  have d1: "db_runs d1 = db_runs d" "db_events d1 = db_events d" "db_commits d1 = db_commits d"
    "db_installations d1 = db_installations d"
    by (subst ensure_policy_frame [OF ep], simp)+
  have d2: "db_runs d2 = db_runs d1 @ [new_run c cmd (c_ids c used) (gi_id g) pol]"
    "\<not> list_ex (same_run (new_run c cmd (c_ids c used) (gi_id g) pol)) (db_runs d1)"
    "db_events d2 = db_events d1" "db_commits d2 = db_commits d1"
    "db_installations d2 = db_installations d1"
    using ir by (auto simp: insert_run_def tx_inr)
  have d3: "d3 = db_events_update (\<lambda>t. t @ [requested_event h c cmd dec (c_ids c used)]) d2"
    "\<not> list_ex (same_event (requested_event h c cmd dec (c_ids c used))) (db_events d2)"
    using ie by (simp_all add: insert_row_Inr_iff)
  have d4': "db_runs d4 = db_runs d3" "db_events d4 = db_events d3"
    "db_commits d4 = db_commits d3" "db_installations d4 = db_installations d3"
    using io by (auto simp: insert_or_ignore_Inr_iff split: if_splits)
  from recovery_guards_Inr [OF rg] active_installation_Inr [OF ai]
  show ?thesis
    using that [of _ g _ used pol] d1 d2 d3 d4 d4' rl by auto
qed

lemma createPublication_cases:
  assumes "createPublication h c cmd d = Inr (p, d')"
  obtains (existing) rg where "row_where (keyed_run cmd) (joined_runs d) = Some rg" "d' = d"
      "mapPublication h rg = Inr p"
  | (created) dec where "create_guards h cmd = Inr dec"
      "row_where (keyed_run cmd) (joined_runs d) = None" "create_new h c cmd dec d = Inr (p, d')"
proof -
  from assms obtain dec where dec: "create_guards h cmd = Inr dec"
    and rest: "(case row_where (keyed_run cmd) (joined_runs d) of
         Some rg \<Rightarrow> tx_lift (mapPublication h rg)
       | None \<Rightarrow> create_new h c cmd dec) d = Inr (p, d')"
    unfolding createPublication_def tx_run_inr(1,4) tx_lift_Inr_iff by blast
  show thesis
  proof (cases "row_where (keyed_run cmd) (joined_runs d)")
    case None
    with dec rest show thesis by (intro created) simp_all
  next
    case (Some rg)
    with rest show thesis by (intro existing) (auto simp: tx_lift_Inr_iff)
  qed
qed

section \<open>Idempotence\<close>

text \<open>The rows of a joined table after one run was added.\<close>

lemma joined_runs_snoc:
  assumes "db_runs d' = db_runs d @ [run]" "db_installations d' = db_installations d"
  shows "joined_runs d' = joined_runs d @
     (case joined_installation d' run of None \<Rightarrow> [] | Some g \<Rightarrow> [(run, g)])"
  using assms by (simp add: joined_runs_def joined_installation_def)

lemma joined_runs_mem: "(r, g) \<in> set (joined_runs d) \<Longrightarrow> r \<in> set (db_runs d)"
  by (auto simp: joined_runs_def split: option.splits)

text \<open>
  C11: creating a publication again with the same command, at any later time, returns the same
  publication and changes nothing: no second run, event or message comes of a repeated request.
\<close>

lemma creation_idempotent:
  assumes "createPublication h c cmd d = Inr (p, d')"
  shows "createPublication h c' cmd d' = Inr (p, d')"
  using assms
proof (cases rule: createPublication_cases)
  case (existing rg)
  obtain dec where "create_guards h cmd = Inr dec"
    using assms by (auto simp: createPublication_def tx_inr)
  with existing show ?thesis by (simp add: createPublication_def tx_simps)
next
  case (created dec)
  from created(3) show ?thesis
  proof (rule create_new_Inr)
    fix r g pol used run
    assume run: "run = new_run c cmd (c_ids c used) (gi_id g) pol"
      and runs: "db_runs d' = db_runs d @ [run]" and new: "\<not> list_ex (same_run run) (db_runs d)"
      and inst: "db_installations d' = db_installations d"
      and rl: "reload h (ctx_organizationId (cpc_context cmd)) (c_ids c used)
                 ''Publication could not be reloaded.'' d' = Inr (p, d')"
    have rid: "run_id run = c_ids c used" by (simp add: run new_run_def Let_def)
    let ?p = "\<lambda>(r, g). is_run (c_ids c used) (ctx_organizationId (cpc_context cmd)) r"
    note j = joined_runs_snoc [OF runs inst]
    have none: "row_where ?p (joined_runs d) = None"
      unfolding row_where_None_iff
    proof
      fix x assume x: "x \<in> set (joined_runs d)"
      then have "fst x \<in> set (db_runs d)" using joined_runs_mem [of "fst x" "snd x"] by simp
      with new have "\<not> same_run run (fst x)" by (auto simp: list_ex_iff)
      then show "\<not> ?p x"
        by (cases x) (auto simp: same_run_def is_run_def rid)
    qed
    from rl obtain rg where rg: "row_where ?p (joined_runs d') = Some rg" "mapPublication h rg = Inr p"
      by (auto simp: reload_def tx_inr)
    obtain g' where g': "joined_installation d' run = Some g'" "rg = (run, g')"
      using rg(1) none unfolding j by (auto simp: row_where_append split: option.splits if_splits)
    have "keyed_run cmd (run, g')" by (simp add: keyed_run_def run new_run_def Let_def)
    with created(2) g' have "row_where (keyed_run cmd) (joined_runs d') = Some rg"
      unfolding j by (simp add: row_where_append)
    with created(1) rg(2) show ?thesis by (simp add: createPublication_def tx_simps)
  qed
qed

section \<open>What a new publication is\<close>


section \<open>A sample creation\<close>

definition sample_package :: ApprovedRecoveryPackage where
  "sample_package =
     \<lparr>pkg_recoveryId = ''rec1'', pkg_incidentId = ''i1'', pkg_organizationId = ''o1'',
      pkg_repositoryId = ''r1'', pkg_treatmentPlanId = ''tp1'', pkg_patchVersion = 1,
      pkg_baseCommitSha = replicate 40 (CHR ''a''), pkg_patchDigest = replicate 64 (CHR ''b''),
      pkg_treeDigest = replicate 64 (CHR ''c''), pkg_branchName = ''codeer/recovery/x'',
      pkg_targetBaseBranch = ''main'', pkg_publicationApprovalCount = 1,
      pkg_publicationApprovedAt = ''now'', pkg_securityReviewApproved = True,
      pkg_verificationPassed = True, pkg_pullRequestTitle = ''Fix'',
      pkg_pullRequestBody = ''Body''\<rparr>"

definition sample_command :: CreatePublicationCommand where
  "sample_command =
     \<lparr>cpc_context = \<lparr>ctx_organizationId = ''o1'', ctx_actorId = ''u1'', ctx_actorType = ActorType.USER,
        ctx_actorRoles = [], ctx_requestId = ''q1'', ctx_correlationId = ''c1''\<rparr>,
      cpc_recoveryId = ''rec1'', cpc_installationId = ''7'', cpc_package = sample_package,
      cpc_policy = sample_policy, cpc_idempotencyKey = ''k1''\<rparr>"

definition ready_db :: db where
  "ready_db = empty_db\<lparr>
     db_installations := [\<lparr>gi_id = ''g1'', gi_organizationId = ''o1'', gi_installationId = ''7'',
           gi_accountLogin = ''acme'',
                           gi_suspendedAt = None\<rparr>],
     db_recoveries := [\<lparr>rec_id = ''rec1'', rec_organizationId = ''o1'', rec_incidentId = ''i1'',
        rec_repositoryId = ''r1'', rec_status = RecoveryRunStatus.READY_TO_PUBLISH,
        rec_currentPatchVersion = Some 1, rec_baseCommitSha = replicate 40 (CHR ''a'')\<rparr>]\<rparr>"

definition first_call :: call where
  "first_call = \<lparr>c_now = 1, c_clock = 1, c_ids = (\<lambda>n. if n = 0 then ''pol1'' else ''p1'')\<rparr>"

lemma sample_hex:
  "is_hex (CHR ''a'')" "is_hex (CHR ''b'')" "is_hex (CHR ''c'')"
  "is_hex_lower (CHR ''a'')" "is_hex_lower (CHR ''b'')" "is_hex_lower (CHR ''c'')"
  by code_simp+

lemma sample_branches: "SafeBranchSchema ''main''" "SafeBranchSchema ''codeer/recovery/x''"
  by code_simp+

lemmas sha_schemas = Sha40Schema_def Sha256Schema_def hex_of_length_def list_all_length sample_hex

lemma sample_guards:
  "create_guards plain_host sample_command
     = Inr (evaluatePublicationPolicy plain_host sample_package sample_policy)"
proof -
  have "ApprovedRecoveryPackageSchema plain_host sample_package"
    by (simp add: ApprovedRecoveryPackageSchema_def sample_package_def plain_host_def sha_schemas
        sample_branches has_length_def)
  moreover have "PublicationPolicySchema sample_policy" by code_simp
  moreover have "pd_allowed (evaluatePublicationPolicy plain_host sample_package sample_policy)"
    by (simp add: evaluatePublicationPolicy_def policy_reasons_def Let_def sample_package_def
        sample_policy_def reason_if_def startsWith_def)
  ultimately show ?thesis
    by (simp add: create_guards_Inr sample_command_def) (simp add: sample_package_def)
qed

lemma sample_run_schema:
  "1 \<le> v \<Longrightarrow> PublicationRunSchema plain_host
     \<lparr>pub_id = ''p1'', pub_organizationId = ''o1'', pub_incidentId = ''i1'',
      pub_recoveryId = ''rec1'', pub_repositoryId = ''r1'', pub_installationId = ''7'',
      pub_status = st, pub_version = v,
      pub_policyVersion = ''v1'', pub_baseBranch = ''main'',
      pub_headBranch = ''codeer/recovery/x'', pub_baseCommitSha = replicate 40 (CHR ''a''),
      pub_patchDigest = replicate 64 (CHR ''b''), pub_treeSha = None,
      pub_commitSha = None, pub_pullRequestNumber = None,
      pub_pullRequestUrl = None, pub_createdAt = x, pub_updatedAt = y\<rparr>"
  by (simp add: PublicationRunSchema_def plain_host_def sha_schemas sample_branches nullable_def)
    code_simp

lemma sample_steps:
  "recovery_guards sample_command ready_db = Inr ((), ready_db)"
  "active_installation sample_command ready_db =
     Inr (\<lparr>gi_id = ''g1'', gi_organizationId = ''o1'', gi_installationId = ''7'',
           gi_accountLogin = ''acme'',
           gi_suspendedAt = None\<rparr>, ready_db)"
  "ensure_policy first_call sample_command dec ready_db =
     Inr ((''pol1'', 1),
          ready_db\<lparr>db_policies := [policy_row_of first_call sample_command (pd_digest dec)]\<rparr>)"
  "run_checks (new_run first_call sample_command ''p1'' ''g1'' ''pol1'')"
  by (simp_all add: recovery_guards_def active_installation_def ensure_policy_def insert_row_def
      tx_simps sample_command_def ready_db_def empty_db_def first_call_def sample_package_def
      run_checks_def new_run_def Let_def list_all_length sample_hex)

lemma reload_run:
  "reload h org p m d =
     (case row_where (\<lambda>(r, g). is_run p org r) (joined_runs d) of
        None \<Rightarrow> Inl m | Some rg \<Rightarrow> map_sum id (\<lambda>x. (x, d)) (mapPublication h rg))"
  by (simp add: reload_def tx_simps tx_lift_def map_sum_def split: option.splits sum.splits)

lemma sample_creation:
  "case createPublication plain_host first_call sample_command ready_db of
     Inl e \<Rightarrow> False | Inr (p, d) \<Rightarrow> map run_id (db_runs d) = [''p1'']"
proof -
  have none: "joined_runs ready_db = []" by (simp add: joined_runs_def ready_db_def empty_db_def)
  have key: "c_ids first_call (Suc 0) = ''p1''" by (simp add: first_call_def)
  show ?thesis
    apply (simp add: createPublication_def tx_simps sample_guards create_new_def none key
        sample_steps(1,2) sample_steps(3) [simplified] insert_run_def insert_row_def insert_or_ignore_def)
    apply (simp add: ready_db_def empty_db_def sample_steps(4) insert_row_def tx_simps)
    apply (simp add: sample_command_def reload_run joined_runs_def joined_installation_def
        new_run_def is_run_def mapPublication_def Let_def)
    apply (simp add: parsePublicationRun_def sample_run_schema sample_package_def sample_policy_def)
    done
qed

lemma creation_idempotent_witness:
  "\<exists>p d. createPublication plain_host first_call sample_command ready_db = Inr (p, d)
     \<and> createPublication plain_host sample_call sample_command d = Inr (p, d)"
  using sample_creation creation_idempotent
  by (fastforce split: sum.splits prod.splits)


end
