(* ===== verification/Github_App.thy ===== *)
theory Github_App
  imports Publication_Execution
begin

text \<open>
  \<open>packages/publication/src/github-app.ts\<close>: the token a GitHub App signs for itself and the request
  of an installation token. Signing with the private key is an argument. The request goes through
  the transport of \<open>Publication_Execution\<close>; the headers are not part of a request there.
\<close>

section \<open>Tokens\<close>

definition createGithubAppJwt ::
  "(string \<Rightarrow> string \<Rightarrow> string) \<Rightarrow> string \<Rightarrow> string \<Rightarrow> int \<Rightarrow> string + string" where
  "createGithubAppJwt sign appId privateKeyPem nowSeconds =
     (if appId = [] \<or> \<not> list_all is_digit appId then Inl ''GitHub App ID must be numeric.''
      else
       (let jwt_header = base64Url (stringify (JObj [(''alg'', JStr ''RS256''), (''typ'', JStr ''JWT'')]));
            payload = base64Url (stringify (JObj [(''iat'', JNum (nowSeconds - 60)),
                        (''exp'', JNum (nowSeconds + 540)), (''iss'', JStr appId)]));
            unsigned = jwt_header @ ''.'' @ payload
        in Inr (unsigned @ ''.'' @ base64Url (sign privateKeyPem unsigned))))"

datatype token_error =
    GithubAppTokenError "int option" string
  | TokenTransportError string

record GithubInstallationToken =
  git_token :: string
  git_expiresAt :: string

definition token_url :: "string \<Rightarrow> string \<Rightarrow> string" where
  "token_url baseUrl installationId =
     baseUrl @ ''/app/installations/'' @ installationId @ ''/access_tokens''"

definition token_request :: "int list \<Rightarrow> json" where
  "token_request repositoryIds =
     JObj [(''repository_ids'', JArr (map JNum repositoryIds)),
           (''permissions'', JObj [(''contents'', JStr ''write''), (''pull_requests'', JStr ''write''),
              (''checks'', JStr ''read''), (''metadata'', JStr ''read'')])]"

definition createInstallationToken ::
  "'g transport \<Rightarrow> string \<Rightarrow> string \<Rightarrow> int list \<Rightarrow> 'g
   \<Rightarrow> (token_error + GithubInstallationToken) \<times> 'g" where
  "createInstallationToken rq baseUrl installationId repositoryIds g =
     (case rq ''POST'' (token_url baseUrl installationId) (Some (token_request repositoryIds)) g of
        (Inl m, g') \<Rightarrow> (Inl (TokenTransportError m), g')
      | (Inr r, g') \<Rightarrow>
          (if \<not> response_ok r
           then Inl (GithubAppTokenError (Some (rs_status r))
                  (''GitHub installation token request failed with status ''
                   @ show_int (rs_status r) @ ''.''))
           else case rs_json r of
             Inl m \<Rightarrow> Inl (TokenTransportError m)
           | Inr v \<Rightarrow>
               (let token = json_str (json_field ''token'' (Some v));
                    expires = json_str (json_field ''expires_at'' (Some v))
                in if \<not> truthy token \<or> \<not> truthy expires
                   then Inl (GithubAppTokenError None
                          ''GitHub installation token response is incomplete.'')
                   else Inr \<lparr>git_token = or_empty token, git_expiresAt = or_empty expires\<rparr>), g'))"

end
