(* ===== verification/Publication_Worker.thy ===== *)
theory Publication_Worker
  imports Publication_Invariants Github_App
begin

text \<open>
  \<open>apps/worker/src/publication-execution-worker.ts\<close>: one run of the execution worker, from the claim
  of the lease to the recorded draft pull request or the recorded failure.

  The run moves a world: the current \<open>stage\<close>, the number of transactions begun, the database and
  the state of GitHub. Between two of its transactions anything may happen to the database:
  \<open>sr_other n\<close> is what the other processes, and the worker's own heartbeat timer, did before its
  transaction \<open>n\<close>, and \<open>sr_beat n\<close> is the error the timer has left by then. The reports of progress
  to the queue may throw.
\<close>

section \<open>The world of a run\<close>

type_synonym 'g world = "PublicationStatus \<times> nat \<times> db \<times> 'g"

record surroundings =
  sr_call :: "nat \<Rightarrow> call"
  sr_other :: "nat \<Rightarrow> db \<Rightarrow> db"
  sr_beat :: "nat \<Rightarrow> string option"
  sr_progress :: "nat \<Rightarrow> string option"

record worker_config =
  wk_workerId :: string
  wk_leaseMs :: int
  wk_githubAppId :: "string option"
  wk_privateKey :: "string option"
  wk_githubApiUrl :: string
  wk_sign :: "string \<Rightarrow> string \<Rightarrow> string"

definition set_stage :: "PublicationStatus \<Rightarrow> ('g world, unit) remote" where
  "set_stage st = (\<lambda>(_, w). (Inr (), (st, w)))"

definition the_stage :: "('g world, PublicationStatus) remote" where
  "the_stage = (\<lambda>w. (Inr (fst w), w))"

definition transact :: "surroundings \<Rightarrow> (call \<Rightarrow> 'a dbtx) \<Rightarrow> ('g world, 'a) remote" where
  "transact s m = (\<lambda>(st, n, d, g).
     let d0 = sr_other s n d
     in case m (sr_call s n) d0 of
          Inl e \<Rightarrow> (Inl (OtherError e), (st, Suc n, d0, g))
        | Inr (x, d') \<Rightarrow> (Inr x, (st, Suc n, d', g)))"

definition on_github :: "('g, 'a) remote \<Rightarrow> ('g world, 'a) remote" where
  "on_github m = (\<lambda>(st, n, d, g). case m g of (r, g') \<Rightarrow> (r, (st, n, d, g')))"

definition progress :: "surroundings \<Rightarrow> nat \<Rightarrow> ('g world, unit) remote" where
  "progress s percent =
     (case sr_progress s percent of None \<Rightarrow> re_return () | Some m \<Rightarrow> re_fail (OtherError m))"

section \<open>The installation token\<close>

text \<open>
  \<open>Number(providerRepoId)\<close>, when it is a positive integer. Of the notations \<open>Number\<close> reads, only
  decimal digits occur in the ids of repositories; every other text is taken as no number.
\<close>

definition provider_repository_id :: "string \<Rightarrow> int option" where
  "provider_repository_id s =
     (let t = trim s
      in if t \<noteq> [] \<and> list_all is_digit t \<and> 0 < index_value t then Some (index_value t) else None)"

definition token_failure :: "token_error \<Rightarrow> failure" where
  "token_failure e = (case e of
     TokenTransportError m \<Rightarrow> OtherError m
   | GithubAppTokenError status m \<Rightarrow>
       PublicationFailure PublicationStatus.PUBLICATION_BLOCKED
         (if status = Some 401 \<or> status = Some 403 then ''PUBLICATION_FORBIDDEN''
          else ''PUBLICATION_AUTH_FAILED'') m)"

text \<open>\<open>privateKey.replace(/\\n/g, '\n')\<close>: a backslash and an n become a line feed.\<close>

definition key_lines :: "string \<Rightarrow> string" where
  "key_lines k = replace_text [CHR 0x5C, CHR ''n''] [CHR 0x0A] k"

definition request_token ::
  "worker_config \<Rightarrow> 'g transport \<Rightarrow> PublicationExecutionBundle \<Rightarrow> int \<Rightarrow> int \<Rightarrow> ('g, string) remote"
where
  "request_token cfg rq b repositoryId nowSeconds =
     re_bind (re_lift (map_sum OtherError id (createGithubAppJwt (wk_sign cfg)
                (or_empty (wk_githubAppId cfg)) (key_lines (or_empty (wk_privateKey cfg)))
                nowSeconds))) (\<lambda>appJwt. (\<lambda>g.
       case createInstallationToken rq (wk_githubApiUrl cfg) (bu_installationId b) [repositoryId] g of
         (r, g') \<Rightarrow> (map_sum token_failure git_token r, g')))"

definition acquireInstallationToken ::
  "worker_config \<Rightarrow> 'g transport \<Rightarrow> PublicationExecutionBundle \<Rightarrow> int \<Rightarrow> ('g, string) remote" where
  "acquireInstallationToken cfg rq b nowSeconds =
     re_bind (re_guard (\<not> truthy (wk_githubAppId cfg) \<or> \<not> truthy (wk_privateKey cfg))
       (blocked ''PUBLICATION_AUTH_MISSING''
          ''GitHub App credentials are not configured for the publication worker.'')) (\<lambda>_.
     case provider_repository_id (bu_providerRepoId b) of
       None \<Rightarrow> re_fail (blocked ''PUBLICATION_REPOSITORY_INVALID''
                 ''The repository has no valid provider repository id.'')
     | Some repositoryId \<Rightarrow> request_token cfg rq b repositoryId nowSeconds)"

section \<open>One run\<close>

record PublicationExecutionResult =
  px_publicationId :: string
  px_organizationId :: string
  px_status :: string
  px_baseBranch :: string
  px_headBranch :: string
  px_baseCommitSha :: string
  px_treeSha :: string
  px_commitSha :: string
  px_pullRequestNumber :: int
  px_pullRequestUrl :: string
  px_branchReused :: bool
  px_pullRequestReused :: bool
  px_completedAt :: string

definition PublicationExecutionResultSchema :: "host \<Rightarrow> PublicationExecutionResult \<Rightarrow> bool" where
  "PublicationExecutionResultSchema h r =
     (uuid_format h (px_publicationId r) \<and> uuid_format h (px_organizationId r)
      \<and> has_length 1 64 (trim (px_status r)) \<and> has_length 1 255 (trim (px_baseBranch r))
      \<and> has_length 1 255 (trim (px_headBranch r)) \<and> hex_of_length 40 (px_baseCommitSha r)
      \<and> hex_of_length 40 (px_treeSha r) \<and> hex_of_length 40 (px_commitSha r)
      \<and> 0 < px_pullRequestNumber r \<and> url_format h (px_pullRequestUrl r)
      \<and> datetime_format h (px_completedAt r))"

datatype run_outcome = Skipped | Completed PublicationExecutionResult

definition leaseSeconds :: "worker_config \<Rightarrow> int" where
  "leaseSeconds cfg = (wk_leaseMs cfg + 999) div 1000"

definition worker_command ::
  "worker_config \<Rightarrow> PublicationExecutionJob \<Rightarrow> PublicationClaimEnvelope \<Rightarrow> WorkerCommand" where
  "worker_command cfg job e =
     \<lparr>wc_organizationId = cl_organizationId e, wc_publicationId = cl_id e,
      wc_workerId = wk_workerId cfg, wc_correlationId = Some (job_correlationId job)\<rparr>"

definition checkControl ::
  "surroundings \<Rightarrow> worker_config \<Rightarrow> PublicationClaimEnvelope \<Rightarrow> ('g world, unit) remote" where
  "checkControl s cfg e = (\<lambda>w.
     case sr_beat s (fst (snd w)) of
       Some m \<Rightarrow> (Inl (OtherError m), w)
     | None \<Rightarrow>
         re_bind (transact s (\<lambda>c. heartbeat c (cl_organizationId e) (cl_id e) (wk_workerId cfg)
                                    (leaseSeconds cfg)))
           (\<lambda>cancelled. re_guard cancelled
              (OtherError ''Publication cancellation was requested.'')) w)"

definition advance ::
  "surroundings \<Rightarrow> host \<Rightarrow> WorkerCommand \<Rightarrow> PublicationStatus \<Rightarrow> string \<Rightarrow> (string \<times> json) list
   \<Rightarrow> ('g world, unit) remote" where
  "advance s h w st t extra = transact s (\<lambda>c. advancePublication h c w st t extra)"

text \<open>The policy check: the bundle is loaded and verified under the lease.\<close>

definition policy_stage ::
  "surroundings \<Rightarrow> worker_config \<Rightarrow> host \<Rightarrow> PublicationExecutionJob \<Rightarrow> PublicationClaimEnvelope
   \<Rightarrow> ('g world, PublicationExecutionBundle) remote" where
  "policy_stage s cfg h job e =
     (let w = worker_command cfg job e in
      re_bind (re_when (cl_status e = PublicationStatus.PUBLICATION_REQUESTED)
        (advance s h w PublicationStatus.POLICY_CHECK ''PUBLICATION_POLICY_CHECK_STARTED''
           [(''attempt'', JNum (cl_attemptCount e))])) (\<lambda>_.
      re_bind (set_stage PublicationStatus.POLICY_CHECK) (\<lambda>_.
      re_bind (transact s (\<lambda>c. loadExecutionBundle h (cl_organizationId e) (cl_id e))) (\<lambda>b.
      re_bind (re_lift (verifyPublicationBundle h b)) (\<lambda>_.
      re_bind (checkControl s cfg e) (\<lambda>_.
      re_bind (re_when (publicationExecutionStage (cl_status e) < 2)
        (advance s h w PublicationStatus.COMMIT_MATERIALIZING ''PUBLICATION_POLICY_CHECKED''
           [(''policyVersion'', JStr (pol_version (bu_policy b))),
            (''approvedCount'', JNum (bu_approvedCount b)),
            (''patchDigest'', JStr (bp_patchDigest (bu_publication b)))])) (\<lambda>_.
      re_bind (progress s 20) (\<lambda>_. re_return b))))))))"

definition bundle_client :: "worker_config \<Rightarrow> PublicationExecutionBundle \<Rightarrow> string \<Rightarrow> client" where
  "bundle_client cfg b token =
     \<lparr>cl_baseUrl = wk_githubApiUrl cfg, cl_owner = bu_repositoryOwner b,
      cl_repo = bu_repositoryName b, cl_token = token\<rparr>"

text \<open>The commit: materialized and recorded, or the recorded one verified again.\<close>

definition commit_stage ::
  "surroundings \<Rightarrow> worker_config \<Rightarrow> host \<Rightarrow> 'g transport \<Rightarrow> PublicationExecutionJob
   \<Rightarrow> PublicationClaimEnvelope \<Rightarrow> PublicationExecutionBundle \<Rightarrow> client
   \<Rightarrow> ('g world, string \<times> string) remote" where
  "commit_stage s cfg h rq job e b cl =
     re_bind (if publicationExecutionStage (cl_status e) < 3
       then re_bind (on_github (materializePublicationCommit h rq cl b)) (\<lambda>m.
            re_bind (transact s (\<lambda>c. recordMaterialization h c (worker_command cfg job e)
              \<lparr>mt_treeSha = mc_treeSha m, mt_commitSha = mc_commitSha m,
               mt_treeDigest = mc_treeDigest m, mt_messageDigest = mc_messageDigest m\<rparr>)) (\<lambda>_.
            re_return (mc_treeSha m, mc_commitSha m)))
       else on_github (verifyExistingPublicationCommit h rq cl b)) (\<lambda>shas.
     re_bind (checkControl s cfg e) (\<lambda>_.
     re_bind (progress s 55) (\<lambda>_. re_return shas)))"

definition branch_stage ::
  "surroundings \<Rightarrow> worker_config \<Rightarrow> host \<Rightarrow> 'g transport \<Rightarrow> PublicationExecutionJob
   \<Rightarrow> PublicationClaimEnvelope \<Rightarrow> PublicationExecutionBundle \<Rightarrow> client \<Rightarrow> string
   \<Rightarrow> ('g world, bool) remote" where
  "branch_stage s cfg h rq job e b cl commitSha =
     (let w = worker_command cfg job e; hd_branch = bp_headBranch (bu_publication b) in
      re_bind (re_when (cl_status e = PublicationStatus.PUSH_FAILED)
        (advance s h w PublicationStatus.BRANCH_PUBLISHING ''PUBLICATION_BRANCH_RETRY''
           [(''attempt'', JNum (cl_attemptCount e))])) (\<lambda>_.
      re_bind (on_github (ensurePublicationBranch rq cl hd_branch commitSha)) (\<lambda>reused.
      re_bind (re_when (publicationExecutionStage (cl_status e) < 4)
        (advance s h w PublicationStatus.DRAFT_PR_CREATING ''PUBLICATION_BRANCH_PUBLISHED''
           [(''headBranch'', JStr hd_branch), (''commitSha'', JStr commitSha),
            (''reused'', JBool reused)])) (\<lambda>_.
      re_bind (checkControl s cfg e) (\<lambda>_.
      re_bind (progress s 80) (\<lambda>_. re_return reused))))))"

definition pull_request_command :: "host \<Rightarrow> PublicationPullRequest \<Rightarrow> PullRequestCommand" where
  "pull_request_command h p =
     \<lparr>prc_number = ppr_number p, prc_nodeId = ppr_nodeId p, prc_url = ppr_url p,
      prc_title = ppr_title p, prc_bodyDigest = sha256 h (ppr_body p),
      prc_baseBranch = ppr_baseRef p, prc_headBranch = ppr_headRef p,
      prc_headSha = ppr_headSha p, prc_baseSha = ppr_baseSha p, prc_draft = ppr_draft p,
      prc_state = ppr_state p\<rparr>"

definition pull_request_stage ::
  "surroundings \<Rightarrow> worker_config \<Rightarrow> host \<Rightarrow> 'g transport \<Rightarrow> PublicationExecutionJob
   \<Rightarrow> PublicationClaimEnvelope \<Rightarrow> PublicationExecutionBundle \<Rightarrow> client \<Rightarrow> string
   \<Rightarrow> ('g world, PublicationPullRequest \<times> bool) remote" where
  "pull_request_stage s cfg h rq job e b cl commitSha =
     (let w = worker_command cfg job e; p = bu_publication b in
      re_bind (re_when (cl_status e = PublicationStatus.PR_CREATION_FAILED)
        (advance s h w PublicationStatus.DRAFT_PR_CREATING ''PUBLICATION_PR_RETRY''
           [(''attempt'', JNum (cl_attemptCount e))])) (\<lambda>_.
      re_bind (on_github (ensureDraftPullRequest rq cl
        \<lparr>prq_title = bu_title b, prq_body = bu_body b, prq_headBranch = bp_headBranch p,
         prq_baseBranch = bp_baseBranch p, prq_baseCommitSha = bp_baseCommitSha p,
         prq_commitSha = commitSha\<rparr>)) (\<lambda>(pr, reused).
      re_bind (transact s (\<lambda>c. recordPullRequest h c w (pull_request_command h pr) reused)) (\<lambda>_.
      re_bind (progress s 100) (\<lambda>_. re_return (pr, reused))))))"

definition run_result ::
  "surroundings \<Rightarrow> host \<Rightarrow> PublicationClaimEnvelope \<Rightarrow> PublicationExecutionBundle
   \<Rightarrow> string \<times> string \<Rightarrow> bool \<Rightarrow> PublicationPullRequest \<times> bool \<Rightarrow> ('g world, run_outcome) remote"
where
  "run_result s h e b shas branchReused prr = (\<lambda>w.
     let p = bu_publication b;
         r = \<lparr>px_publicationId = cl_id e, px_organizationId = cl_organizationId e,
              px_status = ''CI_MONITORING'', px_baseBranch = bp_baseBranch p,
              px_headBranch = bp_headBranch p, px_baseCommitSha = bp_baseCommitSha p,
              px_treeSha = fst shas, px_commitSha = snd shas,
              px_pullRequestNumber = ppr_number (fst prr), px_pullRequestUrl = ppr_url (fst prr),
              px_branchReused = branchReused, px_pullRequestReused = snd prr,
              px_completedAt = iso_time h (c_clock (sr_call s (fst (snd w))))\<rparr>
     in (if PublicationExecutionResultSchema h r then Inr (Completed r)
         else Inl (OtherError ''The execution result is invalid.''), w))"

text \<open>The \<open>try\<close> block.\<close>

definition execute_claimed ::
  "surroundings \<Rightarrow> worker_config \<Rightarrow> host \<Rightarrow> 'g transport \<Rightarrow> PublicationExecutionJob
   \<Rightarrow> PublicationClaimEnvelope \<Rightarrow> ('g world, run_outcome) remote" where
  "execute_claimed s cfg h rq job e =
     re_bind (policy_stage s cfg h job e) (\<lambda>b.
     re_bind (set_stage PublicationStatus.COMMIT_MATERIALIZING) (\<lambda>_.
     re_bind (\<lambda>w. on_github (acquireInstallationToken cfg rq b
                (c_clock (sr_call s (fst (snd w))) div 1000)) w) (\<lambda>token.
     (let cl = bundle_client cfg b token in
      re_bind (commit_stage s cfg h rq job e b cl) (\<lambda>shas.
      re_bind (set_stage PublicationStatus.BRANCH_PUBLISHING) (\<lambda>_.
      re_bind (branch_stage s cfg h rq job e b cl (snd shas)) (\<lambda>branchReused.
      re_bind (set_stage PublicationStatus.DRAFT_PR_CREATING) (\<lambda>_.
      re_bind (pull_request_stage s cfg h rq job e b cl (snd shas)) (\<lambda>prr.
      run_result s h e b shas branchReused prr)))))))))"

text \<open>The \<open>catch\<close> block: the failure is recorded if it can be, and thrown again.\<close>

definition record_failure ::
  "surroundings \<Rightarrow> worker_config \<Rightarrow> host \<Rightarrow> PublicationExecutionJob \<Rightarrow> PublicationClaimEnvelope
   \<Rightarrow> failure \<Rightarrow> ('g world, run_outcome) remote" where
  "record_failure s cfg h job e error =
     re_bind the_stage (\<lambda>stage.
       case classifyPublicationFailure error stage of (st, code, m) \<Rightarrow>
       re_bind (re_catch (transact s (\<lambda>c. failPublication h c (worker_command cfg job e) st code m))
                  (\<lambda>_. re_return ()))
         (\<lambda>_. re_fail error))"

definition processPublication ::
  "surroundings \<Rightarrow> worker_config \<Rightarrow> host \<Rightarrow> 'g transport \<Rightarrow> PublicationExecutionJob
   \<Rightarrow> ('g world, run_outcome) remote" where
  "processPublication s cfg h rq job =
     re_bind (transact s (\<lambda>c. claimPublication h c (job_organizationId job) (job_publicationId job)
                (wk_workerId cfg) (leaseSeconds cfg))) (\<lambda>envelope.
     case envelope of
       None \<Rightarrow> re_return Skipped
     | Some e \<Rightarrow>
         re_bind (set_stage PublicationStatus.POLICY_CHECK) (\<lambda>_.
           re_catch (execute_claimed s cfg h rq job e) (record_failure s cfg h job e)))"

text \<open>\<open>reconcile\<close>: the stale publications, one run each; a run that throws is passed over.\<close>

fun process_all ::
  "surroundings \<Rightarrow> worker_config \<Rightarrow> host \<Rightarrow> 'g transport \<Rightarrow> PublicationExecutionJob list
   \<Rightarrow> ('g world, unit) remote" where
  "process_all s cfg h rq [] = re_return ()"
| "process_all s cfg h rq (j # js) =
     re_bind (re_catch (re_bind (processPublication s cfg h rq j) (\<lambda>_. re_return ()))
                (\<lambda>_. re_return ()))
       (\<lambda>_. process_all s cfg h rq js)"

definition reconcile ::
  "surroundings \<Rightarrow> worker_config \<Rightarrow> host \<Rightarrow> 'g transport \<Rightarrow> int \<Rightarrow> int \<Rightarrow> ('g world, unit) remote"
where
  "reconcile s cfg h rq staleAfterMs concurrency =
     re_bind (transact s (\<lambda>c. listStalePublicationJobs h c ((staleAfterMs + 999) div 1000)
                (concurrency * 5))) (process_all s cfg h rq)"

section \<open>What a run keeps of the database\<close>

definition db_of :: "'g world \<Rightarrow> db" where
  "db_of w = fst (snd (snd w))"

definition github_of :: "'g world \<Rightarrow> 'g" where
  "github_of w = snd (snd (snd w))"

lemma world_parts [simp]:
  "db_of (st, n, d, g) = d" "github_of (st, n, d, g) = g"
  by (simp_all add: db_of_def github_of_def)

definition others_keep :: "surroundings \<Rightarrow> (db \<Rightarrow> bool) \<Rightarrow> bool" where
  "others_keep s P = (\<forall>n d. P d \<longrightarrow> P (sr_other s n d))"

lemma transact_stays:
  assumes "others_keep s P" "\<And>c d x d'. P d \<Longrightarrow> m c d = Inr (x, d') \<Longrightarrow> P d'"
  shows "stays (\<lambda>w. P (db_of w)) (transact s m)"
  using assms by (fastforce simp: stays_def transact_def others_keep_def Let_def
      split: sum.splits prod.splits)

lemma stage_stays [simp]:
  "stays (\<lambda>w. P (db_of w)) (set_stage st)" "stays (\<lambda>w. P (db_of w)) the_stage"
  "stays (\<lambda>w. P (db_of w)) (on_github m)"
  by (auto simp: stays_def set_stage_def the_stage_def on_github_def db_of_def split: prod.splits)

lemma progress_stays [simp]: "stays I (progress s n)"
  by (simp add: progress_def split: option.splits)

lemma result_stays [simp]: "stays I (run_result s h e b shas br prr)"
  by (simp add: stays_def run_result_def Let_def)

lemma load_keeps: "loadExecutionBundle h org p d = Inr (b, d') \<Longrightarrow> d' = d"
  unfolding loadExecutionBundle_def by (auto simp: tx_inr split: prod.splits)

text \<open>A property of the database that the operations of a worker keep.\<close>

locale worker_invariant =
  fixes h :: host and P :: "db \<Rightarrow> bool"
  assumes keeps: "P d \<Longrightarrow> worker_step h c w d d' \<Longrightarrow> P d'"
begin

lemma advance_stays: "others_keep s P \<Longrightarrow> stays (\<lambda>w. P (db_of w)) (advance s h w st t extra)"
  unfolding advance_def
  by (rule transact_stays) (auto intro: keeps worker_step.advances)

lemma control_stays:
  assumes "others_keep s P"
  shows "stays (\<lambda>w. P (db_of w)) (checkControl s cfg e :: ('g world, unit) remote)"
proof -
  have "stays (\<lambda>w. P (db_of w)) (transact s (\<lambda>c. heartbeat c (cl_organizationId e) (cl_id e)
          (wk_workerId cfg) (leaseSeconds cfg)) :: ('g world, bool) remote)"
    using keeps [OF _ worker_step.beats [of _ "worker_command cfg undefined e"]]
    by (intro transact_stays [OF assms]) (simp add: worker_command_def)
  then have "stays (\<lambda>w. P (db_of w)) (re_bind (transact s (\<lambda>c. heartbeat c (cl_organizationId e)
      (cl_id e) (wk_workerId cfg) (leaseSeconds cfg))) (\<lambda>cancelled. re_guard cancelled
              (OtherError ''Publication cancellation was requested.'')) :: ('g world, unit) remote)"
    by (rule stays_bind) simp
  then show ?thesis
    unfolding checkControl_def by (auto simp: stays_def split: option.splits)
qed

lemma policy_stays:
  assumes o: "others_keep s P"
  shows "stays (\<lambda>w. P (db_of w)) (policy_stage s cfg h job e)"
  unfolding policy_stage_def Let_def
  by (intro stays_bind stays_when advance_stays control_stays stage_stays stays_pure progress_stays
      transact_stays o) (use load_keeps in blast)

lemma commit_stays:
  assumes o: "others_keep s P"
  shows "stays (\<lambda>w. P (db_of w)) (commit_stage s cfg h rq job e b cl)"
proof -
  have "stays (\<lambda>w. P (db_of w)) (transact s (\<lambda>c. recordMaterialization h c w m))" for w m
    by (rule transact_stays [OF o]) (auto intro: keeps worker_step.materializes)
  then show ?thesis
    unfolding commit_stage_def
    by (intro stays_bind control_stays progress_stays stays_pure o)
      (auto intro!: stays_bind)
qed

lemma branch_stays:
  assumes o: "others_keep s P"
  shows "stays (\<lambda>w. P (db_of w)) (branch_stage s cfg h rq job e b cl sha)"
  unfolding branch_stage_def Let_def
  by (intro stays_bind stays_when advance_stays control_stays stage_stays stays_pure progress_stays o)

lemma pull_request_stays:
  assumes o: "others_keep s P"
  shows "stays (\<lambda>w. P (db_of w)) (pull_request_stage s cfg h rq job e b cl sha)"
proof -
  have "stays (\<lambda>w. P (db_of w)) (transact s (\<lambda>c. recordPullRequest h c w p reused))" for w p reused
    by (rule transact_stays [OF o]) (auto intro: keeps worker_step.opens)
  then show ?thesis
    unfolding pull_request_stage_def Let_def
    by (intro stays_bind stays_when advance_stays stage_stays o)
      (auto intro!: stays_bind split: prod.splits)
qed

lemma execute_stays:
  assumes o: "others_keep s P"
  shows "stays (\<lambda>w. P (db_of w)) (execute_claimed s cfg h rq job e)"
proof -
  have "stays (\<lambda>w. P (db_of w)) (\<lambda>w. on_github (m w) w)" for m
    by (auto simp: stays_def on_github_def db_of_def split: prod.splits)
  then show ?thesis
    unfolding execute_claimed_def Let_def
    by (intro stays_bind policy_stays commit_stays branch_stays pull_request_stays stage_stays
        result_stays o)
qed

lemma failure_stays:
  assumes o: "others_keep s P"
  shows "stays (\<lambda>w. P (db_of w)) (record_failure s cfg h job e error)"
proof -
  have "stays (\<lambda>w. P (db_of w)) (transact s (\<lambda>c. failPublication h c w st code m))" for w st code m
    by (rule transact_stays [OF o]) (auto intro: keeps worker_step.fails)
  then show ?thesis
    unfolding record_failure_def
    by (intro stays_bind stage_stays) (auto intro!: stays_bind stays_catch split: prod.splits)
qed

lemma process_stays:
  assumes o: "others_keep s P"
  shows "stays (\<lambda>w. P (db_of w)) (processPublication s cfg h rq job)"
proof -
  have "stays (\<lambda>w. P (db_of w)) (transact s (\<lambda>c. claimPublication h c (job_organizationId job)
          (job_publicationId job) (wk_workerId cfg) (leaseSeconds cfg)))"
    by (rule transact_stays [OF o])
      (use keeps [OF _ worker_step.claims [of _ _ "\<lparr>wc_organizationId = job_organizationId job,
          wc_publicationId = job_publicationId job, wc_workerId = wk_workerId cfg,
          wc_correlationId = None\<rparr>"]] in auto)
  then show ?thesis
    unfolding processPublication_def
    by (intro stays_bind)
      (auto intro!: stays_bind stays_catch execute_stays failure_stays o split: option.splits)
qed

lemma process_all_stays:
  assumes o: "others_keep s P"
  shows "stays (\<lambda>w. P (db_of w)) (process_all s cfg h rq js)"
  by (induction js) (auto intro!: stays_bind stays_catch process_stays o)

lemma reconcile_stays:
  assumes o: "others_keep s P"
  shows "stays (\<lambda>w. P (db_of w)) (reconcile s cfg h rq stale n)"
  unfolding reconcile_def
  by (intro stays_bind process_all_stays transact_stays o)
    (auto simp: listStalePublicationJobs_def tx_inr)

end

section \<open>The database stays well formed\<close>

text \<open>Keys are unique and the log of every publication is linked.\<close>

definition well_formed :: "db \<Rightarrow> bool" where
  "well_formed d = (keyed same_run (db_runs d) \<and> publication_log.all_linked d)"

lemma logged_continued: "logged p d d' = publication_log.continued p d d'"
  by (simp add: logged_def publication_log.continued_def latest_event_def)

lemma worker_effect_well_formed:
  assumes "well_formed d" "worker_effect c w target f d d'"
    and "\<And>r. run_kept r (f r)"
  shows "well_formed d'"
  using assms publication_log.continued_linked [of d "wc_publicationId w" d'] keyed_runs_update
  by (auto simp: well_formed_def worker_effect_def logged_continued run_kept_def)

lemma keyed_lease_only:
  "keyed same_run t \<Longrightarrow> list_all2 lease_only t t' \<Longrightarrow> keyed same_run t'"
  by (erule keyed_list_all2, assumption)
    (auto simp: lease_only_def run_kept_def intro!: same_run_approved)

lemma lease_change_well_formed: "well_formed d \<Longrightarrow> lease_change d d' \<Longrightarrow> well_formed d'"
  using publication_log.linked_by_events [of d' d] keyed_lease_only
  by (auto simp: well_formed_def lease_change_def)

lemma worker_step_well_formed:
  assumes d: "well_formed d" and step: "worker_step h c w d d'"
  shows "well_formed d'"
proof -
  have k: "keyed same_run (db_runs d)" using d by (simp add: well_formed_def)
  note e = worker_effect_well_formed [OF d]
  from step show ?thesis
  proof cases
    case (advances target t extra)
    then show ?thesis using e [OF advance_effect(1) [OF k]] by simp
  next
    case (materializes m)
    then show ?thesis using e [OF materialize_effect(1)] by simp
  next
    case (opens pr reused)
    then show ?thesis using e [OF pull_request_effect(1)] by simp
  next
    case (fails st code m)
    then show ?thesis using e [OF fail_effect(1)] by simp
  qed (auto dest!: lease_changes intro: lease_change_well_formed [OF d])
qed

interpretation well_formed_worker: worker_invariant h well_formed for h
  by unfold_locales (rule worker_step_well_formed)


section \<open>What a run sends to GitHub\<close>

text \<open>
  The request of an installation token for the one repository of the bundle, and the requests of a
  publication on its two branches.
\<close>

definition worker_request ::
  "worker_config \<Rightarrow> PublicationExecutionBundle \<Rightarrow> string \<Rightarrow> string \<Rightarrow> json option \<Rightarrow> bool" where
  "worker_request cfg b verb url payload =
     (verb = ''POST'' \<and> url = token_url (wk_githubApiUrl cfg) (bu_installationId b)
        \<and> (\<exists>i. provider_repository_id (bu_providerRepoId b) = Some i
              \<and> payload = Some (token_request [i]))
      \<or> (\<exists>p. url = api_url (bundle_client cfg b []) p
            \<and> publication_request (bp_headBranch (bu_publication b))
                (bp_baseBranch (bu_publication b)) verb p payload))"

definition sent_for ::
  "worker_config \<Rightarrow> PublicationExecutionBundle \<Rightarrow> 'g \<times> request list \<Rightarrow> bool" where
  "sent_for cfg b g = (\<forall>(verb, url, payload) \<in> set (snd g). worker_request cfg b verb url payload)"

lemma recording_sent:
  "worker_request cfg b verb url payload \<Longrightarrow> sent_for cfg b g
   \<Longrightarrow> sent_for cfg b (snd (recording rq verb url payload g))"
  by (cases g) (auto simp: recording_def sent_for_def split: prod.splits)

lemma bundle_url: "api_url (bundle_client cfg b token) p = api_url (bundle_client cfg b []) p"
  by (simp add: api_url_def bundle_client_def)

interpretation worker_sends:
  request_policy "recording rq" "bundle_client cfg b token"
    "publication_request (bp_headBranch (bu_publication b)) (bp_baseBranch (bu_publication b))"
    "sent_for cfg b"
  for rq :: "'g transport" and cfg b token
proof unfold_locales
  show "sent_for cfg b (snd (recording rq verb (api_url (bundle_client cfg b token) p) payload g))"
    if "publication_request (bp_headBranch (bu_publication b)) (bp_baseBranch (bu_publication b))
          verb p payload" "sent_for cfg b g" for verb p payload g
    using that(1) by (intro recording_sent that(2), subst bundle_url)
      (unfold worker_request_def, blast)
qed (simp add: publication_request_def)

lemma snd_token:
  "snd (createInstallationToken rq u i ids g) =
     snd (rq ''POST'' (token_url u i) (Some (token_request ids)) g)"
  by (simp add: createInstallationToken_def split: prod.splits sum.splits)

lemma token_stays: "stays (sent_for cfg b) (acquireInstallationToken cfg (recording rq) b now)"
proof -
  have "stays (sent_for cfg b) (\<lambda>g. case createInstallationToken (recording rq) (wk_githubApiUrl cfg)
          (bu_installationId b) [i] g of (r, g') \<Rightarrow> (f r, g'))"
    if i: "provider_repository_id (bu_providerRepoId b) = Some i" for i and f :: "_ \<Rightarrow> failure + string"
  proof -
    have "sent_for cfg b (snd (recording rq ''POST'' (token_url (wk_githubApiUrl cfg)
        (bu_installationId b)) (Some (token_request [i])) g))" if "sent_for cfg b g" for g
      by (rule recording_sent [OF _ that]) (simp add: worker_request_def i)
    then show ?thesis by (simp add: stays_def snd_token case_prod_beta)
  qed
  then show ?thesis
    unfolding acquireInstallationToken_def request_token_def
    by (intro stays_bind stays_pure) (auto split: option.splits intro!: stays_bind)
qed

text \<open>Only \<open>on_github\<close> touches GitHub.\<close>

lemma on_github_stays: "stays I m \<Longrightarrow> stays (\<lambda>w. I (github_of w)) (on_github m)"
  by (fastforce simp: stays_def on_github_def github_of_def split: prod.splits)

lemma local_stays [simp]:
  "stays (\<lambda>w. I (github_of w)) (transact s m)" "stays (\<lambda>w. I (github_of w)) (set_stage st)"
  "stays (\<lambda>w. I (github_of w)) the_stage" "stays (\<lambda>w. I (github_of w)) (advance s h w st t extra)"
  by (auto simp: stays_def transact_def set_stage_def the_stage_def github_of_def advance_def Let_def
      split: sum.splits prod.splits)

lemma control_local [simp]:
  "stays (\<lambda>w. I (github_of w)) (checkControl s cfg e :: ('g world, unit) remote)"
proof -
  have "stays (\<lambda>w. I (github_of w)) (re_bind (transact s (\<lambda>c. heartbeat c (cl_organizationId e)
      (cl_id e) (wk_workerId cfg) (leaseSeconds cfg))) (\<lambda>cancelled. re_guard cancelled
        (OtherError ''Publication cancellation was requested.'')) :: ('g world, unit) remote)"
    by (rule stays_bind) simp_all
  then show ?thesis
    unfolding checkControl_def by (auto simp: stays_def split: option.splits)
qed

lemma failure_local: "stays (\<lambda>w. I (github_of w)) (record_failure s cfg h job e error)"
  unfolding record_failure_def
  by (intro stays_bind local_stays) (auto intro!: stays_bind stays_catch split: prod.splits)

lemma policy_local: "stays (\<lambda>w. I (github_of w)) (policy_stage s cfg h job e)"
  unfolding policy_stage_def Let_def
  by (intro stays_bind stays_when local_stays control_local stays_pure progress_stays)

lemma stages_sent:
  "stays (\<lambda>w. sent_for cfg b (github_of w))
     (commit_stage s cfg h (recording rq) job e b (bundle_client cfg b token))"
  "stays (\<lambda>w. sent_for cfg b (github_of w))
     (branch_stage s cfg h (recording rq) job e b (bundle_client cfg b token) sha)"
  "stays (\<lambda>w. sent_for cfg b (github_of w))
     (pull_request_stage s cfg h (recording rq) job e b (bundle_client cfg b token) sha)"
proof -
  show "stays (\<lambda>w. sent_for cfg b (github_of w))
     (commit_stage s cfg h (recording rq) job e b (bundle_client cfg b token))"
    unfolding commit_stage_def
    by (intro stays_bind control_local progress_stays stays_pure)
      (auto intro!: stays_bind on_github_stays worker_sends.materialize_stays
        worker_sends.verifyExisting_stays simp: publication_request_def)
  show "stays (\<lambda>w. sent_for cfg b (github_of w))
     (branch_stage s cfg h (recording rq) job e b (bundle_client cfg b token) sha)"
    unfolding branch_stage_def Let_def
    by (intro stays_bind stays_when local_stays control_local stays_pure progress_stays
        on_github_stays worker_sends.ensureBranch_stays) (simp add: publication_request_def)
  show "stays (\<lambda>w. sent_for cfg b (github_of w))
     (pull_request_stage s cfg h (recording rq) job e b (bundle_client cfg b token) sha)"
    unfolding pull_request_stage_def Let_def
    by (intro stays_bind stays_when local_stays on_github_stays worker_sends.ensurePullRequest_stays)
      (auto simp: publication_request_def intro!: stays_bind split: prod.splits)
qed

text \<open>The bundle the policy stage lets through.\<close>

definition loaded_bundle :: "host \<Rightarrow> string \<Rightarrow> string \<Rightarrow> PublicationExecutionBundle \<Rightarrow> bool" where
  "loaded_bundle h org publicationId b =
     (publishable h b \<and> (\<exists>d. loadExecutionBundle h org publicationId d = Inr (b, d)))"

lemma transact_Inr:
  "transact s m w = (Inr x, w') \<Longrightarrow> \<exists>c d d'. m c d = Inr (x, d')"
  by (auto simp: transact_def Let_def split: prod.splits sum.splits)

lemma policy_bundle:
  assumes "policy_stage s cfg h job e (w :: 'g world) = (Inr b, w')"
  shows "loaded_bundle h (cl_organizationId e) (cl_id e) b"
proof -
  from assms obtain v v' :: "'g world" where
    "transact s (\<lambda>c. loadExecutionBundle h (cl_organizationId e) (cl_id e)) v = (Inr b, v')"
    "verifyPublicationBundle h b = Inr ()"
    unfolding policy_stage_def Let_def
    by (auto simp: re_bind_Inr re_lift_def re_return_def)
  with verified_publishable load_keeps show ?thesis
    unfolding loaded_bundle_def by (metis transact_Inr)
qed

text \<open>The whole run: nothing is sent before the bundle has passed, and then only its requests.\<close>

definition nothing_or_for ::
  "worker_config \<Rightarrow> host \<Rightarrow> string \<Rightarrow> string \<Rightarrow> 'g \<times> request list \<Rightarrow> bool" where
  "nothing_or_for cfg h org publicationId g =
     (snd g = [] \<or> (\<exists>b. loaded_bundle h org publicationId b \<and> sent_for cfg b g))"

lemma execute_sent:
  assumes "snd (github_of w) = []"
  shows "nothing_or_for cfg h (cl_organizationId e) (cl_id e)
           (github_of (snd (execute_claimed s cfg h (recording rq) job e w)))"
proof -
  obtain r w' where Pair: "policy_stage s cfg h job e w = (r, w')"
    by (cases "policy_stage s cfg h job e w")
  have w': "snd (github_of w') = []"
    using staysD [OF policy_local [of "\<lambda>g. snd g = []"], of w] assms Pair by (metis snd_conv)
  show ?thesis
  proof (cases r)
    case (Inl x)
    with Pair w' show ?thesis
      by (simp add: execute_claimed_def re_bind_def nothing_or_for_def)
  next
    case (Inr b)
    have tok: "stays (\<lambda>w. sent_for cfg b (github_of w)) (\<lambda>w. on_github
        (acquireInstallationToken cfg (recording rq) b (c_clock (sr_call s (fst (snd w))) div 1000)) w)"
      unfolding stays_def using staysD [OF on_github_stays [OF token_stays [of cfg b rq]]] by blast
    have rest: "stays (\<lambda>w. sent_for cfg b (github_of w)) (\<lambda>w.
      re_bind (set_stage PublicationStatus.COMMIT_MATERIALIZING) (\<lambda>_.
      re_bind (\<lambda>w. on_github (acquireInstallationToken cfg (recording rq) b
                (c_clock (sr_call s (fst (snd w))) div 1000)) w) (\<lambda>token.
     (let cl = bundle_client cfg b token in
      re_bind (commit_stage s cfg h (recording rq) job e b cl) (\<lambda>shas.
      re_bind (set_stage PublicationStatus.BRANCH_PUBLISHING) (\<lambda>_.
      re_bind (branch_stage s cfg h (recording rq) job e b cl (snd shas)) (\<lambda>branchReused.
      re_bind (set_stage PublicationStatus.DRAFT_PR_CREATING) (\<lambda>_.
      re_bind (pull_request_stage s cfg h (recording rq) job e b cl (snd shas)) (\<lambda>prr.
      run_result s h e b shas branchReused prr)))))))) w)"
      unfolding Let_def by (intro stays_bind local_stays tok stages_sent result_stays)
    have "sent_for cfg b (github_of w')" using w' by (simp add: sent_for_def)
    from staysD [OF rest this] policy_bundle [OF Pair [unfolded Inr]] Pair Inr show ?thesis
      by (auto simp: execute_claimed_def re_bind_def nothing_or_for_def)
  qed
qed

lemma claim_ids:
  assumes "transact s (\<lambda>c. claimPublication h c org p wk secs) w = (Inr (Some e), w')"
  shows "cl_organizationId e = org \<and> cl_id e = p"
proof -
  from transact_Inr [OF assms] obtain c d d' where
    "claimPublication h c org p wk secs d = Inr (Some e, d')" by blast
  then show ?thesis
    by (cases "row_where (claimable c org p wk) (db_runs d)")
      (auto simp: claimPublication_def tx_inr claimable_def is_run_def dest!: row_where_SomeD)
qed

text \<open>
  C1: whatever else happens to the database meanwhile, a run of the worker sends nothing to GitHub
  unless a bundle loaded for its publication was publishable, and then only requests for that
  bundle: the token of its repository, reads, new objects, the creation of its recovery branch and
  a draft pull request from it to its base branch.
\<close>

lemma worker_sends_only_publishable:
  assumes "processPublication s cfg h (recording rq) job (st, n, d, g, []) = (r, st', n', d', g', sent)"
  shows "sent = []
    \<or> (\<exists>b. publishable h b
         \<and> (\<exists>x. loadExecutionBundle h (job_organizationId job) (job_publicationId job) x = Inr (b, x))
         \<and> (\<forall>(verb, url, payload) \<in> set sent. worker_request cfg b verb url payload))"
proof -
  let ?w = "(st, n, d, g, [] :: request list)"
  let ?claim = "transact s (\<lambda>c. claimPublication h c (job_organizationId job)
    (job_publicationId job) (wk_workerId cfg) (leaseSeconds cfg))"
  obtain x v where c: "?claim ?w = (x, v)" by (cases "?claim ?w")
  have v: "snd (github_of v) = []"
    using staysD [OF local_stays(1) [of "\<lambda>g. snd g = []"], of ?w] c
    by (metis github_of_def snd_conv)
  have "nothing_or_for cfg h (job_organizationId job) (job_publicationId job)
          (github_of (snd (processPublication s cfg h (recording rq) job ?w)))"
  proof (cases "\<exists>e. x = Inr (Some e)")
    case False
    then show ?thesis
      using c v by (cases x) (auto simp: processPublication_def re_bind_def re_return_def
          nothing_or_for_def)
  next
    case True
    then obtain e where e: "x = Inr (Some e)" by blast
    obtain v' where v': "set_stage PublicationStatus.POLICY_CHECK v = (Inr (), v')"
      "github_of v' = github_of v" by (cases v) (simp add: set_stage_def github_of_def)
    obtain y u where y: "execute_claimed s cfg h (recording rq) job e v' = (y, u)"
      by (cases "execute_claimed s cfg h (recording rq) job e v'")
    have u: "nothing_or_for cfg h (job_organizationId job) (job_publicationId job) (github_of u)"
      using execute_sent [of v' cfg h e s rq job] v v'(2) y claim_ids [OF c [unfolded e]] by simp
    then show ?thesis
      using staysD [OF failure_local [of "nothing_or_for cfg h (job_organizationId job)
          (job_publicationId job)"] u] c e v'(1) y
      by (cases y) (simp_all add: processPublication_def re_bind_def re_catch_def)
  qed
  with assms show ?thesis
    by (auto simp: nothing_or_for_def github_of_def loaded_bundle_def sent_for_def
        dest: load_keeps)
qed

text \<open>
  C32: a run of the worker, and a reconciliation, leaves the database well formed as long as what
  happens around it does: no two publications share a key, and the event log of every
  publication is numbered from 1 without gaps and linked by hashes.
\<close>

lemma worker_run_well_formed:
  assumes "others_keep s well_formed" "well_formed d"
  shows "well_formed (db_of (snd (processPublication s cfg h rq job (st, n, d, g))))
         \<and> well_formed (db_of (snd (reconcile s cfg h rq stale k (st, n, d, g))))"
  using staysD [OF well_formed_worker.process_stays [OF assms(1)], of "(st, n, d, g)"]
    staysD [OF well_formed_worker.reconcile_stays [OF assms(1)], of "(st, n, d, g)"] assms(2)
  by simp

definition quiet :: surroundings where
  "quiet = \<lparr>sr_call = (\<lambda>n. sample_call), sr_other = (\<lambda>n d. d), sr_beat = (\<lambda>n. None),
            sr_progress = (\<lambda>n. None)\<rparr>"

definition sample_config :: worker_config where
  "sample_config = \<lparr>wk_workerId = ''w1'', wk_leaseMs = 60000, wk_githubAppId = Some ''1'',
     wk_privateKey = Some ''k'', wk_githubApiUrl = ''api'', wk_sign = (\<lambda>k m. ''s'')\<rparr>"

definition sample_job :: PublicationExecutionJob where
  "sample_job = \<lparr>job_publicationId = ''p1'', job_organizationId = ''o1'', job_repositoryId = ''r1'',
     job_attempt = 1, job_correlationId = ''c''\<rparr>"

definition publishable_db :: db where
  "publishable_db = sample_db\<lparr>
     db_runs := [sample_run\<lparr>run_baseCommitSha := ''b'', run_patchDigest := sample_patch\<rparr>],
     db_installations := [\<lparr>gi_id = ''g1'', gi_organizationId = ''o1'', gi_installationId = ''7'',
       gi_accountLogin = ''acme'', gi_suspendedAt = None\<rparr>],
     db_repositories := [\<lparr>repo_id = ''r1'', repo_organizationId = ''o1'', repo_owner = ''acme'',
       repo_name = ''app'', repo_providerRepoId = ''42''\<rparr>],
     db_recoveries := [\<lparr>rec_id = ''rec1'', rec_organizationId = ''o1'', rec_incidentId = ''i1'',
       rec_repositoryId = ''r1'', rec_status = RecoveryRunStatus.READY_TO_PUBLISH,
       rec_currentPatchVersion = Some 1, rec_baseCommitSha = ''b''\<rparr>],
     db_policies := [\<lparr>prow_id = ''pol1'', prow_organizationId = ''o1'', prow_repositoryId = ''r1'',
       prow_policyVersion = ''v1'', prow_active = True, prow_allowedBaseBranches = [''main''],
       prow_recoveryBranchPrefix = ''codeer/recovery/'', prow_requiredChecks = [''ci''],
       prow_requiredApprovals = 1, prow_requireCodeOwnerApproval = False,
       prow_maximumPublicationAttempts = 3, prow_webhookReplayWindowSeconds = 600,
       prow_postMergeVerificationRequired = True, prow_retentionDays = 365,
       prow_contentHash = ''h'', prow_createdBy = ''a1''\<rparr>],
     db_patches := [\<lparr>pv_id = ''pv1'', pv_recoveryId = ''rec1'', pv_version = 1,
       pv_unifiedDiff = sample_patch, pv_patchDigest = sample_patch\<rparr>],
     db_pr_packages := [\<lparr>prp_recoveryId = ''rec1'', prp_patchId = ''pv1'', prp_version = 1,
       prp_title = ''Fix'', prp_body = ''Body''\<rparr>],
     db_security_reviews := [\<lparr>srv_patchId = ''pv1'', srv_decision = ''ALLOW'', srv_createdAt = 0\<rparr>],
     db_verifications := [\<lparr>vrf_recoveryId = ''rec1'', vrf_patchId = ''pv1'', vrf_status = ''PASSED'',
       vrf_createdAt = 0\<rparr>],
     db_approvals := [\<lparr>apr_recoveryId = ''rec1'', apr_recoveryVersion = 1,
       apr_decision = ''APPROVE'', apr_actorId = ''h1'', apr_createdAt = 0\<rparr>]\<rparr>"

text \<open>GitHub refuses the token.\<close>

definition refusing :: "unit transport" where
  "refusing = (\<lambda>verb url payload g. (Inr \<lparr>rs_status = 401, rs_json = Inr JNull, rs_text = []\<rparr>, g))"

definition claimed_run :: run_row where
  "claimed_run = sample_run\<lparr>run_patchDigest := sample_patch, run_attemptCount := 2,
     run_leaseExpiresAt := Some 61000, run_heartbeatAt := Some 1000, run_updatedAt := 1000\<rparr>"

definition claimed_db :: db where
  "claimed_db = publishable_db\<lparr>db_runs := [claimed_run]\<rparr>"

definition sample_envelope :: PublicationClaimEnvelope where
  "sample_envelope =
     \<lparr>cl_id = ''p1'', cl_organizationId = ''o1'', cl_repositoryId = ''r1'',
      cl_status = PublicationStatus.COMMIT_MATERIALIZING, cl_version = 3, cl_attemptCount = 2,
      cl_cancellationRequestedAt = None\<rparr>"

lemma sample_claims:
  "claimPublication plain_host sample_call ''o1'' ''p1'' ''w1'' 60 publishable_db
     = Inr (Some sample_envelope, claimed_db)"
  by (simp add: claimPublication_def tx_simps update_returning_def claimable_def is_run_def
      sample_defs publishable_db_def claimed_db_def claimed_run_def sample_envelope_def
      EXECUTABLE_PUBLICATION_STATUSES_def lease_ms_def clamp_def)

lemma sample_beats:
  "heartbeat sample_call ''o1'' ''p1'' ''w1'' 60 claimed_db = Inr (False, claimed_db)"
  by (simp add: heartbeat_def tx_simps update_returning_def holds_lease_def is_run_def after_def
      sample_defs claimed_db_def claimed_run_def lease_ms_def clamp_def publishable_db_def)

lemma sample_policy_valid: "PublicationPolicySchema sample_policy"
  by code_simp

lemma sample_loads:
  "\<exists>b. loadExecutionBundle plain_host ''o1'' ''p1'' claimed_db = Inr (b, claimed_db)
     \<and> publishable plain_host b \<and> bu_providerRepoId b = ''42'' \<and> bu_installationId b = ''7''"
proof -
  have pol: "bundle_policy claimed_run (hd (db_policies claimed_db)) = sample_policy"
    by (simp add: bundle_policy_def claimed_run_def claimed_db_def publishable_db_def
        sample_policy_def sample_defs)
  have lf: "crlf_to_lf sample_patch = sample_patch" and z: "show_nat 0 \<noteq> []" by code_simp+
  show ?thesis
    using pol sample_policy_valid
    by (simp add: loadExecutionBundle_def bundle_rows_def joined_installation_def is_run_def
        published_commit_def approvals_of_def uniq_def claimed_db_def publishable_db_def tx_simps
        claimed_run_def sample_defs)
      (simp add: publishable_def plain_host_def bundle_publication_def lf sample_policy_def
        truthy_def show_int_def z)
qed

lemma sample_token:
  assumes "bu_providerRepoId b = ''42''" "bu_installationId b = ''7''"
  shows "\<exists>e. acquireInstallationToken sample_config (recording refusing) b now ((), [])
     = (Inl e, ((), [(''POST'', token_url ''api'' ''7'', Some (token_request [42]))]))"
proof -
  have id: "provider_repository_id ''42'' = Some 42"
    "list_all is_digit ''1''" by code_simp+
  show ?thesis
    using assms id
    by (simp add: acquireInstallationToken_def request_token_def re_bind_def re_guard_def re_lift_def
        re_return_def sample_config_def truthy_def or_empty_def createGithubAppJwt_def
        createInstallationToken_def recording_def refusing_def response_ok_def Let_def
        provider_repository_id_def)
qed

text \<open>The run that ends when GitHub refuses the token: it has sent the request of the token.\<close>

lemma sample_processed:
  "\<exists>r st n d. processPublication quiet sample_config plain_host (recording refusing) sample_job
      (PublicationStatus.POLICY_CHECK, 0, publishable_db, (), [] :: request list)
    = (r, st, n, d, (), [(''POST'', token_url ''api'' ''7'', Some (token_request [42]))])"
proof -
  obtain b where b: "loadExecutionBundle plain_host ''o1'' ''p1'' claimed_db = Inr (b, claimed_db)"
    "verifyPublicationBundle plain_host b = Inr ()" "bu_providerRepoId b = ''42''"
    "bu_installationId b = ''7''"
    using sample_loads verified_publishable by blast
  have sec: "leaseSeconds sample_config = 60" by (simp add: leaseSeconds_def sample_config_def)
  have claim: "transact quiet (\<lambda>c. claimPublication plain_host c (job_organizationId sample_job)
      (job_publicationId sample_job) (wk_workerId sample_config) (leaseSeconds sample_config))
      (PublicationStatus.POLICY_CHECK, 0, publishable_db, (), [] :: request list)
    = (Inr (Some sample_envelope), PublicationStatus.POLICY_CHECK, 1, claimed_db, (), [] :: request list)"
    using sample_claims sec by (simp add: transact_def quiet_def sample_job_def sample_config_def)
  have control: "checkControl quiet sample_config sample_envelope
      (PublicationStatus.POLICY_CHECK, 2, claimed_db, (), [] :: request list)
    = (Inr (), PublicationStatus.POLICY_CHECK, 3, claimed_db, (), [] :: request list)"
    using sample_beats sec
    by (simp add: checkControl_def transact_def quiet_def sample_envelope_def sample_config_def
        re_bind_def re_guard_def re_return_def)
  have load: "transact quiet (\<lambda>c. loadExecutionBundle plain_host (cl_organizationId sample_envelope)
      (cl_id sample_envelope)) (PublicationStatus.POLICY_CHECK, 1, claimed_db, (), [] :: request list)
    = (Inr b, PublicationStatus.POLICY_CHECK, 2, claimed_db, (), [] :: request list)"
    using b(1) by (simp add: transact_def quiet_def sample_envelope_def)
  have "policy_stage quiet sample_config plain_host sample_job sample_envelope
      (PublicationStatus.POLICY_CHECK, 1, claimed_db, (), [] :: request list)
    = (Inr b, PublicationStatus.POLICY_CHECK, 3, claimed_db, (), [] :: request list)"
    using load control b(2)
    by (simp add: policy_stage_def re_bind_def re_when_def re_return_def re_lift_def set_stage_def
        progress_def quiet_def sample_envelope_def)
  moreover obtain e where "acquireInstallationToken sample_config (recording refusing) b
      (c_clock (sr_call quiet 3) div 1000) ((), [])
    = (Inl e, ((), [(''POST'', token_url ''api'' ''7'', Some (token_request [42]))]))"
    using sample_token [OF b(3,4)] by blast
  ultimately have ex: "execute_claimed quiet sample_config plain_host (recording refusing) sample_job
      sample_envelope (PublicationStatus.POLICY_CHECK, 1, claimed_db, (), [] :: request list)
    = (Inl e, PublicationStatus.COMMIT_MATERIALIZING, 3, claimed_db, (),
       [(''POST'', token_url ''api'' ''7'', Some (token_request [42]))])" (is "_ = (_, ?w)")
    by (simp add: execute_claimed_def re_bind_def set_stage_def on_github_def)
  have "github_of (snd (record_failure quiet sample_config plain_host sample_job sample_envelope e ?w))
      = github_of ?w"
    using staysD [OF failure_local [of "\<lambda>g. g = github_of ?w"], of ?w] by simp
  with claim ex show ?thesis
    by (cases "record_failure quiet sample_config plain_host sample_job sample_envelope e ?w")
      (auto simp: processPublication_def re_bind_def re_catch_def set_stage_def github_of_def)
qed

lemma worker_sends_only_publishable_witness:
  "\<exists>b. publishable plain_host b
     \<and> worker_request sample_config b ''POST'' (token_url ''api'' ''7'') (Some (token_request [42]))"
  using sample_processed worker_sends_only_publishable by fastforce

lemma sample_others: "others_keep quiet P"
  by (simp add: others_keep_def quiet_def)

lemma publishable_db_well_formed: "well_formed publishable_db"
  by (simp add: well_formed_def publication_log.all_linked_def publication_log.log_def keyed_def
      publishable_db_def sample_defs)

lemma worker_run_well_formed_witness:
  "well_formed (db_of (snd (processPublication quiet sample_config plain_host (recording refusing)
      sample_job (PublicationStatus.POLICY_CHECK, 0, publishable_db, (), [] :: request list))))"
  by (rule conjunct1 [OF worker_run_well_formed [OF sample_others publishable_db_well_formed]])

end
