(* ===== verification/Webhook.thy ===== *)
theory Webhook
  imports Publication
begin

text \<open>
  The pure part of the webhook ingress: the signature check and the in-memory replay guard of
  \<open>packages/publication/src/webhook.ts\<close>, and the extraction of bounded metadata from a payload,
  \<open>packages/publication/src/webhook-processing.ts\<close>. A payload is a JSON value; a missing field and
  a value of another type are \<open>None\<close>.
\<close>

section \<open>Signature\<close>

definition hex_nibble :: "char \<Rightarrow> nat" where
  "hex_nibble c =
     (if is_digit c then char_code c - 48 else char_code (lower_char c) - 87)"

text \<open>\<open>Buffer.from(hex, 'hex')\<close> of hexadecimal digits.\<close>

fun hex_bytes :: "string \<Rightarrow> string" where
  "hex_bytes (a # b # s) = char_of (16 * hex_nibble a + hex_nibble b) # hex_bytes s"
| "hex_bytes _ = []"

definition verifyGithubWebhookSignature ::
  "host \<Rightarrow> string \<Rightarrow> string \<Rightarrow> string option \<Rightarrow> bool" where
  "verifyGithubWebhookSignature h secret rawBody signatureHeader =
     (case signatureHeader of
        None \<Rightarrow> False
      | Some s \<Rightarrow>
          (let suppliedHex = drop 7 s
           in startsWith s ''sha256='' \<and> length suppliedHex = 64 \<and> list_all is_hex suppliedHex
              \<and> hex_bytes suppliedHex = hmac_sha256 h secret rawBody))"

section \<open>Replay guard\<close>

definition WEBHOOK_DELIVERY_ID_PATTERN :: "string \<Rightarrow> bool" where
  "WEBHOOK_DELIVERY_ID_PATTERN s =
     (8 \<le> length s \<and> length s \<le> 128 \<and> list_all (\<lambda>c. is_alnum c \<or> c = CHR ''-'') s)"

text \<open>The deliveries seen with their times, in milliseconds.\<close>

type_synonym replay_guard = "(string \<times> int) list"

definition accept_delivery :: "int \<Rightarrow> int \<Rightarrow> string \<Rightarrow> replay_guard \<Rightarrow> bool \<times> replay_guard" where
  "accept_delivery replayWindowSeconds now deliveryId seen =
     (if \<not> WEBHOOK_DELIVERY_ID_PATTERN deliveryId then (False, seen)
      else (let kept = filter (\<lambda>(i, t). \<not> t < now - replayWindowSeconds * 1000) seen
            in if map_of kept deliveryId \<noteq> None then (False, kept)
               else (True, kept @ [(deliveryId, now)])))"

section \<open>Payload fields\<close>

definition asRecord :: "json option \<Rightarrow> (string \<times> json) list option" where
  "asRecord v = (case v of Some (JObj es) \<Rightarrow> Some es | _ \<Rightarrow> None)"

definition asString :: "json option \<Rightarrow> string option" where
  "asString v = (case v of Some (JStr s) \<Rightarrow> if s = [] then None else Some s | _ \<Rightarrow> None)"

definition asNumber :: "json option \<Rightarrow> int option" where
  "asNumber v = (case v of Some (JNum n) \<Rightarrow> Some n | _ \<Rightarrow> None)"

text \<open>\<open>record?.field\<close>.\<close>

definition field :: "(string \<times> json) list option \<Rightarrow> string \<Rightarrow> json option" where
  "field r k = Option.bind r (\<lambda>es. map_of es k)"

definition subrecord :: "(string \<times> json) list option \<Rightarrow> string \<Rightarrow> (string \<times> json) list option" where
  "subrecord r k = asRecord (field r k)"

record WebhookIngressContext =
  wi_installationExternalId :: "int option"
  wi_repositoryExternalId :: "string option"
  wi_action :: "string option"

definition extractIngressContext :: "json \<Rightarrow> WebhookIngressContext" where
  "extractIngressContext payload =
     (let root = asRecord (Some payload)
      in \<lparr>wi_installationExternalId = asNumber (field (subrecord root ''installation'') ''id''),
          wi_repositoryExternalId =
            map_option show_int (asNumber (field (subrecord root ''repository'') ''id'')),
          wi_action = asString (field root ''action'')\<rparr>)"

section \<open>Events\<close>

record NormalizedPullRequestEvent =
  np_number :: int
  np_nodeId :: string
  np_url :: string
  np_title :: string
  np_state :: string
  np_draft :: bool
  np_headBranch :: string
  np_headSha :: string
  np_baseBranch :: string
  np_baseSha :: string
  np_merged :: bool
  np_mergedBy :: "string option"
  np_mergedAt :: "string option"
  np_mergeCommitSha :: "string option"
  np_bodyDigest :: "string option"

definition string_or_empty :: "string option \<Rightarrow> string" where
  "string_or_empty s = (case s of None \<Rightarrow> [] | Some v \<Rightarrow> v)"

definition mapPullRequestEvent :: "host \<Rightarrow> json \<Rightarrow> NormalizedPullRequestEvent option" where
  "mapPullRequestEvent h payload =
     (let pr = subrecord (asRecord (Some payload)) ''pull_request'';
          head = subrecord pr ''head''; base = subrecord pr ''base'';
          merged = (field pr ''merged'' = Some (JBool True))
      in case (asString (field head ''ref''), asString (field head ''sha''),
               asString (field base ''ref''), asString (field base ''sha''),
               asNumber (field pr ''number''), asString (field pr ''html_url'')) of
           (Some headRef, Some headSha, Some baseRef, Some baseSha, Some number, Some url) \<Rightarrow>
             if number = 0 then None
             else Some
               \<lparr>np_number = number, np_nodeId = string_or_empty (asString (field pr ''node_id'')),
                np_url = url, np_title = string_or_empty (asString (field pr ''title'')),
                np_state = (if merged then ''merged''
                            else if asString (field pr ''state'') = Some ''open'' then ''open''
                            else ''closed''),
                np_draft = (field pr ''draft'' = Some (JBool True)), np_headBranch = headRef,
                np_headSha = headSha, np_baseBranch = baseRef, np_baseSha = baseSha,
                np_merged = merged,
                np_mergedBy = asString (field (subrecord pr ''merged_by'') ''login''),
                np_mergedAt = asString (field pr ''merged_at''),
                np_mergeCommitSha = asString (field pr ''merge_commit_sha''),
                np_bodyDigest = map_option (sha256 h) (asString (field pr ''body''))\<rparr>
         | _ \<Rightarrow> None)"

record NormalizedReviewEvent =
  nr_externalId :: string
  nr_reviewerLogin :: string
  nr_state :: ReviewState
  nr_submittedAt :: "string option"
  nr_bodyDigest :: "string option"
  nr_headSha :: "string option"
  nr_pullRequestNumber :: "int option"

definition review_state_of :: "string \<Rightarrow> ReviewState" where
  "review_state_of rawState =
     (if rawState = ''APPROVED'' then ReviewState.APPROVED
      else if rawState = ''CHANGES_REQUESTED'' then ReviewState.CHANGES_REQUESTED
      else if rawState = ''DISMISSED'' then ReviewState.DISMISSED
      else if rawState = ''COMMENTED'' then ReviewState.COMMENTED else ReviewState.PENDING)"

definition mapReviewEvent :: "host \<Rightarrow> json \<Rightarrow> NormalizedReviewEvent option" where
  "mapReviewEvent h payload =
     (let root = asRecord (Some payload); review = subrecord root ''review'';
          pr = subrecord root ''pull_request''
      in case (asNumber (field review ''id''), asString (field (subrecord review ''user'') ''login'')) of
           (Some reviewId, Some reviewer) \<Rightarrow> Some
             \<lparr>nr_externalId = show_int reviewId, nr_reviewerLogin = reviewer,
              nr_state = review_state_of
                (to_upper (string_or_empty (asString (field review ''state'')))),
              nr_submittedAt = asString (field review ''submitted_at''),
              nr_bodyDigest = map_option (sha256 h) (asString (field review ''body'')),
              nr_headSha = asString (field (subrecord pr ''head'') ''sha''),
              nr_pullRequestNumber = asNumber (field pr ''number'')\<rparr>
         | _ \<Rightarrow> None)"

record NormalizedCheckEvent =
  nc_externalId :: string
  nc_name :: string
  nc_status :: NormalizedCheckStatus
  nc_headSha :: "string option"
  nc_detailsUrl :: "string option"
  nc_startedAt :: "string option"
  nc_completedAt :: "string option"
  nc_rawConclusion :: "string option"

text \<open>\<open>a ?? b\<close>.\<close>

definition or_else :: "'a option \<Rightarrow> 'a option \<Rightarrow> 'a option" where
  "or_else a b = (case a of None \<Rightarrow> b | Some x \<Rightarrow> Some x)"

definition mapCheckEvent :: "string \<Rightarrow> json \<Rightarrow> NormalizedCheckEvent option" where
  "mapCheckEvent eventName payload =
     (let root = asRecord (Some payload);
          source = subrecord root (if eventName = ''check_run'' then ''check_run'' else ''check_suite'');
          app = asString (field (subrecord source ''app'') ''name'');
          suite = (eventName = ''check_suite'');
          name = or_else (asString (field source ''name'')) (if suite then app else None)
      in case (asNumber (field source ''id''), name) of
           (Some checkId, Some n) \<Rightarrow> Some
             \<lparr>nc_externalId = show_int checkId,
              nc_name = (if suite then (case app of None \<Rightarrow> n | Some a \<Rightarrow> a) else n),
              nc_status = normalizeGithubCheck
                (case asString (field source ''status'') of None \<Rightarrow> ''completed'' | Some s \<Rightarrow> s)
                (asString (field source ''conclusion'')),
              nc_headSha = asString (field source ''head_sha''),
              nc_detailsUrl = or_else (asString (field source ''details_url''))
                                      (asString (field source ''html_url'')),
              nc_startedAt = asString (field source ''started_at''),
              nc_completedAt = asString (field source ''completed_at''),
              nc_rawConclusion = asString (field source ''conclusion'')\<rparr>
         | _ \<Rightarrow> None)"

definition isSupportedWebhookEvent :: "string \<Rightarrow> bool" where
  "isSupportedWebhookEvent eventName =
     (eventName \<in> {''pull_request'', ''pull_request_review'', ''check_run'', ''check_suite''})"

section \<open>What the ingress promises\<close>

text \<open>Codes of characters; facts about hexadecimal digits are inequalities of their codes.\<close>

lemma char_code_less: "char_code c < 256"
  by (simp add: char_code_def)

lemma char_code_of: "n < 256 \<Longrightarrow> char_code (char_of n) = n"
  by (simp add: char_code_def)

lemma char_of_code: "char_of (char_code c) = c"
  by (simp add: char_code_def)

lemma code_hex_digit: "n < 16 \<Longrightarrow> char_code (hex_digit n) = (if n < 10 then 48 + n else 87 + n)"
  by (simp add: hex_digit_def char_code_of)

lemma code_lower_char:
  "char_code (lower_char c) = (if 65 \<le> char_code c \<and> char_code c \<le> 90 then char_code c + 32 else char_code c)"
  by (simp add: lower_char_def is_upper_def in_range_def char_code_of)

lemmas hex_code = is_hex_def is_hex_lower_def is_digit_def in_range_def code_lower_char hex_nibble_def

lemma hex_nibble_less: "is_hex c \<Longrightarrow> hex_nibble c < 16"
  by (auto simp: hex_code)

lemma hex_digit_nibble:
  assumes "is_hex c"
  shows "hex_digit (hex_nibble c) = lower_char c"
proof -
  have "char_code (hex_digit (hex_nibble c)) = char_code (lower_char c)"
    using assms unfolding code_hex_digit [OF hex_nibble_less [OF assms]] by (auto simp: hex_code)
  then show ?thesis by (simp add: char_code_inject)
qed

lemma lower_hex: "is_hex_lower (lower_char c) \<Longrightarrow> is_hex c"
  by (auto simp: hex_code split: if_splits)

lemma hex_digit_facts:
  assumes "n < 16"
  shows "is_hex_lower (hex_digit n)" "hex_nibble (hex_digit n) = n"
  using assms by (auto simp: hex_code code_hex_digit)

text \<open>The lower-case encoding of bytes.\<close>

fun hex_encode :: "string \<Rightarrow> string" where
  "hex_encode [] = []"
| "hex_encode (c # s) =
     hex_digit (char_code c div 16) # hex_digit (char_code c mod 16) # hex_encode s"

lemma nibble_char:
  assumes "a < 16" "b < 16" "char_code c = 16 * a + b"
  shows "char_code c div 16 = a" "char_code c mod 16 = b"
  using assms by auto

lemma hex_encode_bytes:
  "list_all is_hex s \<Longrightarrow> even (length s) \<Longrightarrow> hex_encode (hex_bytes s) = to_lower s"
proof (induction s rule: hex_bytes.induct)
  case (1 a b s)
  have lt: "hex_nibble a < 16" "hex_nibble b < 16" using 1 hex_nibble_less by auto
  then have "char_code (char_of (16 * hex_nibble a + hex_nibble b)) = 16 * hex_nibble a + hex_nibble b"
    by (intro char_code_of) simp
  from nibble_char [OF lt this] 1 show ?case
    by (simp add: hex_digit_nibble to_lower_def)
qed (simp_all add: to_lower_def)

lemma nibbles: "char_code c div 16 < 16" "char_code c mod 16 < 16"
  using char_code_less [of c] by (simp_all add: less_mult_imp_div_less)

lemma hex_bytes_encode: "hex_bytes (hex_encode s) = s"
proof (induction s)
  case (Cons c s)
  have "char_of (16 * (char_code c div 16) + char_code c mod 16) = c"
    by (simp add: char_of_code)
  with Cons show ?case by (simp add: hex_digit_facts nibbles)
qed simp

lemma length_hex_encode: "length (hex_encode s) = 2 * length s"
  by (induction s) auto

lemma hex_encode_lower: "list_all is_hex_lower (hex_encode s)"
  by (induction s) (auto intro: hex_digit_facts nibbles)

lemma hex_bytes_lower: "list_all is_hex s \<Longrightarrow> even (length s) \<Longrightarrow> hex_bytes (to_lower s) = hex_bytes s"
  by (metis hex_bytes_encode hex_encode_bytes)

text \<open>
  C38: a request is taken as GitHub's exactly when its header is \<open>sha256=\<close> followed by the
  hexadecimal form, in letters of either case, of the HMAC of the raw body under the secret.
\<close>

lemma signature_iff:
  assumes "length (hmac_sha256 h secret rawBody) = 32"
  shows "verifyGithubWebhookSignature h secret rawBody hdr \<longleftrightarrow>
           (\<exists>u. hdr = Some (''sha256='' @ u) \<and> to_lower u = hex_encode (hmac_sha256 h secret rawBody))"
proof
  assume "verifyGithubWebhookSignature h secret rawBody hdr"
  then obtain s where s: "hdr = Some s" "startsWith s ''sha256=''" "length (drop 7 s) = 64"
    "list_all is_hex (drop 7 s)" "hex_bytes (drop 7 s) = hmac_sha256 h secret rawBody"
    by (auto simp: verifyGithubWebhookSignature_def Let_def split: option.splits)
  have "s = ''sha256='' @ drop 7 s"
    using s(2) by (auto simp: startsWith_iff prefix_def)
  with s hex_encode_bytes [of "drop 7 s"]
  show "\<exists>u. hdr = Some (''sha256='' @ u) \<and> to_lower u = hex_encode (hmac_sha256 h secret rawBody)"
    by (intro exI [of _ "drop 7 s"]) simp
next
  assume "\<exists>u. hdr = Some (''sha256='' @ u) \<and> to_lower u = hex_encode (hmac_sha256 h secret rawBody)"
  then obtain u where u: "hdr = Some (''sha256='' @ u)"
    "to_lower u = hex_encode (hmac_sha256 h secret rawBody)" by blast
  have len: "length u = 64"
    using arg_cong [OF u(2), of length] assms by (simp add: length_hex_encode to_lower_def)
  have "list_all is_hex_lower (to_lower u)" using u(2) hex_encode_lower by simp
  then have hex: "list_all is_hex u" using lower_hex by (auto simp: list_all_iff to_lower_def)
  with len u(2) have "hex_bytes u = hmac_sha256 h secret rawBody"
    using hex_bytes_lower [of u] hex_bytes_encode by simp
  with u(1) len hex show "verifyGithubWebhookSignature h secret rawBody hdr"
    by (simp add: verifyGithubWebhookSignature_def startsWith_def)
qed

lemma signature_iff_witness:
  "verifyGithubWebhookSignature (plain_host\<lparr>hmac_sha256 := (\<lambda>k m. replicate 32 (CHR ''J''))\<rparr>)
     ''key'' ''body'' (Some (''sha256='' @ concat (replicate 32 ''4A'')))"
proof -
  let ?h = "plain_host\<lparr>hmac_sha256 := (\<lambda>k m. replicate 32 (CHR ''J''))\<rparr>"
  have "to_lower (concat (replicate 32 ''4A'')) = hex_encode (replicate 32 (CHR ''J''))"
    by code_simp
  with signature_iff [of ?h "''key''" "''body''" "Some (''sha256='' @ concat (replicate 32 ''4A''))"]
  show ?thesis by simp
qed

section \<open>Replays\<close>

text \<open>Which of a sequence of deliveries, with the times they come at, are accepted.\<close>

fun accepted_deliveries :: "int \<Rightarrow> replay_guard \<Rightarrow> (int \<times> string) list \<Rightarrow> bool list" where
  "accepted_deliveries window seen [] = []"
| "accepted_deliveries window seen ((now, i) # ds) =
     (case accept_delivery window now i seen of
        (ok, seen') \<Rightarrow> ok # accepted_deliveries window seen' ds)"

definition keeps_delivery :: "string \<Rightarrow> int \<Rightarrow> replay_guard \<Rightarrow> bool" where
  "keeps_delivery i t seen = (map_of seen i = Some t)"

lemma map_of_filter_kept:
  "map_of seen i = Some t \<Longrightarrow> P t \<Longrightarrow> distinct (map fst seen)
   \<Longrightarrow> map_of (filter (\<lambda>(i, t). P t) seen) i = Some t"
  by (induction seen) (auto split: if_splits dest: map_of_SomeD simp: image_iff)

lemma accept_step:
  assumes "accept_delivery window now i seen = (ok, seen')" "distinct (map fst seen)"
  shows "distinct (map fst seen')"
    "map_of seen j = Some t \<Longrightarrow> now \<le> t + window * 1000 \<Longrightarrow> map_of seen' j = Some t"
    "map_of seen i = Some t \<Longrightarrow> now \<le> t + window * 1000 \<Longrightarrow> \<not> ok"
    "ok \<Longrightarrow> map_of seen' i = Some now"
proof -
  let ?P = "\<lambda>t. \<not> t < now - window * 1000"
  let ?kept = "filter (\<lambda>(i, t). ?P t) seen"
  have d: "distinct (map fst ?kept)"
    using assms(2) by (simp add: distinct_map_filter)
  have k: "map_of ?kept j = Some t" if "map_of seen j = Some t" "now \<le> t + window * 1000" for j t
    using map_of_filter_kept [OF that(1) _ assms(2), of ?P] that(2) by simp
  show "distinct (map fst seen')"
    using assms d by (auto simp: accept_delivery_def Let_def map_of_eq_None_iff split: if_splits)
  show "map_of seen' j = Some t" if "map_of seen j = Some t" "now \<le> t + window * 1000"
    using assms(1) that k [OF that]
    by (auto simp: accept_delivery_def Let_def map_add_def split: if_splits)
  show "\<not> ok" if "map_of seen i = Some t" "now \<le> t + window * 1000"
    using assms(1) k [OF that] by (auto simp: accept_delivery_def Let_def split: if_splits)
  show "map_of seen' i = Some now" if ok
    using assms(1) that by (auto simp: accept_delivery_def Let_def map_add_def split: if_splits)
qed

lemma remembered_rejected:
  "map_of seen i = Some t \<Longrightarrow> distinct (map fst seen) \<Longrightarrow> sorted (map fst ds)
   \<Longrightarrow> k < length ds \<Longrightarrow> ds ! k = (now, i) \<Longrightarrow> now \<le> t + window * 1000
   \<Longrightarrow> \<not> accepted_deliveries window seen ds ! k"
proof (induction ds arbitrary: seen k)
  case Nil
  then show ?case by simp
next
  case (Cons d ds)
  obtain n j where d: "d = (n, j)" by (cases d)
  obtain ok seen' where a: "accept_delivery window n j seen = (ok, seen')" by fastforce
  note st = accept_step [OF a Cons.prems(2)]
  show ?case
  proof (cases k)
    case 0
    with Cons.prems d st(3) a show ?thesis by auto
  next
    case (Suc k')
    with Cons.prems(3-5) d have "n \<le> now" by (auto simp: in_set_conv_nth) (metis fst_conv nth_mem)
    with Cons.prems st(2) have "map_of seen' i = Some t" by simp
    with Cons.IH [OF this st(1)] Cons.prems Suc d a show ?thesis by simp
  qed
qed

text \<open>
  with a clock that does not go back, the guard never accepts a delivery a second time within
  the replay window.
\<close>

lemma replay_within_window_rejected:
  assumes "sorted (map fst ds)" "k < m" "m < length ds" "ds ! k = (t, i)" "ds ! m = (now, i)"
    and "accepted_deliveries window [] ds ! k" "now \<le> t + window * 1000"
  shows "\<not> accepted_deliveries window [] ds ! m"
proof -
  have "\<not> accepted_deliveries window seen ds ! m"
    if "distinct (map fst seen)" "accepted_deliveries window seen ds ! k" for seen
    using that assms(1-5)
  proof (induction ds arbitrary: seen k m)
    case Nil
    then show ?case by simp
  next
    case (Cons d ds)
    obtain n j where d: "d = (n, j)" by (cases d)
    obtain ok seen' where a: "accept_delivery window n j seen = (ok, seen')" by fastforce
    note st = accept_step [OF a Cons.prems(1)]
    obtain m' where m: "m = Suc m'" using Cons.prems(4) by (cases m) auto
    show ?case
    proof (cases k)
      case 0
      with Cons.prems d a st(4) have "map_of seen' i = Some t" by auto
      from remembered_rejected [OF this st(1)] Cons.prems m d a assms(7) show ?thesis by simp
    next
      case (Suc k')
      from Cons.IH [OF st(1), of k' m'] Cons.prems Suc m d a show ?thesis by simp
    qed
  qed
  with assms(6) show ?thesis by simp
qed

lemma replay_within_window_rejected_witness:
  "\<not> accepted_deliveries 60 [] [(0, ''delivery-1''), (5000, ''delivery-1'')] ! 1"
proof (rule replay_within_window_rejected [of _ 0 1 0 "''delivery-1''" 5000])
  show "accepted_deliveries 60 [] [(0, ''delivery-1''), (5000, ''delivery-1'')] ! 0"
    by code_simp
qed simp_all

end
