(* ===== verification/Webhook_Store.thy ===== *)
theory Webhook_Store
  imports Webhook Publication_Store
begin

text \<open>
  \<open>packages/database/src/github-webhook-store.ts\<close>: the reservation of a delivery, the resolution of
  its tenant, and the application of a normalized event to checks, reviews and pull requests. Each
  method is one transaction, but \<open>resolveAndAssignTenant\<close>, which is three.
\<close>

section \<open>The event log\<close>

record WebhookEvent =
  we_publicationId :: string
  we_type :: string
  we_payload :: json
  we_actorId :: string
  we_correlationId :: string

definition webhook_event_row :: "host \<Rightarrow> call \<Rightarrow> WebhookEvent \<Rightarrow> event_row option \<Rightarrow> event_row" where
  "webhook_event_row h c e latest =
     (let occurredAt = c_clock c; previous = map_option pe_eventHash latest
      in \<lparr>pe_publicationId = we_publicationId e, pe_sequence = next_sequence latest,
          pe_type = we_type e, pe_payload = canonicalize (locale_le h) (we_payload e),
          pe_previousHash = previous,
          pe_eventHash = digestPayload h (JObj [(''publicationId'', JStr (we_publicationId e)),
            (''sequence'', JNum (next_sequence latest)), (''type'', JStr (we_type e)),
            (''payload'', we_payload e), (''previousHash'', str_or_null previous),
            (''occurredAt'', JStr (iso_time h occurredAt))]),
          pe_actorType = ActorType.SYSTEM, pe_actorId = Some (we_actorId e),
          pe_correlationId = Some (we_correlationId e), pe_occurredAt = occurredAt\<rparr>)"

definition appendWebhookEvent :: "host \<Rightarrow> call \<Rightarrow> WebhookEvent \<Rightarrow> unit dbtx" where
  "appendWebhookEvent h c e =
     tx_bind (tx_read (latest_event (we_publicationId e))) (\<lambda>latest.
       insert_row db_events db_events_update same_event (webhook_event_row h c e latest))"

section \<open>Deliveries\<close>

record ReserveWebhookDeliveryInput =
  rd_deliveryId :: string
  rd_eventName :: string
  rd_action :: "string option"
  rd_signatureValid :: bool
  rd_payloadDigest :: string
  rd_installationExternalId :: "int option"

definition reserved :: "string \<Rightarrow> db \<Rightarrow> bool" where
  "reserved deliveryId d = list_ex (\<lambda>x. dl_deliveryId x = deliveryId) (db_deliveries d)"

definition reserveWebhookDelivery ::
  "call \<Rightarrow> ReserveWebhookDeliveryInput \<Rightarrow> string option dbtx" where
  "reserveWebhookDelivery c i =
     tx_bind (tx_read (reserved (rd_deliveryId i))) (\<lambda>known.
       if known then tx_return None
       else tx_then (insert_row db_deliveries db_deliveries_update same_delivery
              \<lparr>dl_id = c_ids c 0, dl_organizationId = None,
               dl_installationId = rd_installationExternalId i,
               dl_deliveryId = rd_deliveryId i, dl_eventName = rd_eventName i,
               dl_action = rd_action i, dl_signatureValid = rd_signatureValid i,
               dl_payloadDigest = rd_payloadDigest i, dl_status = WebhookDeliveryStatus.RECEIVED,
               dl_errorCode = None, dl_processedAt = None\<rparr>)
            (tx_return (Some (c_ids c 0))))"

record ResolvedWebhookTenant =
  rt_organizationId :: string
  rt_installationUuid :: string
  rt_accountLogin :: string
  rt_repositoryId :: "string option"

text \<open>The SQL functions \<open>codeer_resolve_github_installation\<close> and \<open>codeer_resolve_github_repository\<close>.\<close>

definition resolve_installation :: "int \<Rightarrow> db \<Rightarrow> installation_row option" where
  "resolve_installation external d =
     row_where (\<lambda>g. gi_installationId g = show_int external \<and> gi_suspendedAt g = None)
       (db_installations d)"

definition resolve_repository :: "string \<Rightarrow> string \<Rightarrow> db \<Rightarrow> string option" where
  "resolve_repository org external d =
     map_option repo_id (row_where (\<lambda>r. repo_organizationId r = org
                                        \<and> repo_providerRepoId r = external) (db_repositories d))"

definition assign_tenant :: "string \<Rightarrow> string \<Rightarrow> unit dbtx" where
  "assign_tenant deliveryId org =
     tx_write (db_deliveries_update (update_where (\<lambda>x. dl_deliveryId x = deliveryId)
       (\<lambda>x. x\<lparr>dl_organizationId := Some org\<rparr>)))"

text \<open>The two reads and the assignment, with nothing between them.\<close>

definition resolveAndAssignTenant ::
  "string \<Rightarrow> int \<Rightarrow> string option \<Rightarrow> ResolvedWebhookTenant option dbtx" where
  "resolveAndAssignTenant deliveryId installationExternalId repositoryExternalId =
     tx_bind (tx_read (resolve_installation installationExternalId)) (\<lambda>inst. case inst of
       None \<Rightarrow> tx_return None
     | Some g \<Rightarrow>
         tx_bind (tx_read (\<lambda>d. if truthy repositoryExternalId
                    then resolve_repository (gi_organizationId g) (the repositoryExternalId) d
                    else None)) (\<lambda>repositoryId.
         tx_then (assign_tenant deliveryId (gi_organizationId g))
           (tx_return (Some \<lparr>rt_organizationId = gi_organizationId g,
              rt_installationUuid = gi_id g, rt_accountLogin = gi_accountLogin g,
              rt_repositoryId = repositoryId\<rparr>))))"

definition markUnresolvedDeliveryStatus ::
  "call \<Rightarrow> string \<Rightarrow> WebhookDeliveryStatus \<Rightarrow> string option \<Rightarrow> unit dbtx" where
  "markUnresolvedDeliveryStatus c deliveryId st errorCode =
     tx_write (db_deliveries_update (update_where
       (\<lambda>x. dl_deliveryId x = deliveryId \<and> dl_organizationId x = None)
       (\<lambda>x. x\<lparr>dl_status := st, dl_errorCode := errorCode, dl_processedAt := Some (c_now c)\<rparr>)))"

definition settled_delivery :: "WebhookDeliveryStatus \<Rightarrow> bool" where
  "settled_delivery st =
     (st \<in> {WebhookDeliveryStatus.PROCESSED, WebhookDeliveryStatus.IGNORED,
             WebhookDeliveryStatus.REJECTED})"

definition markWebhookDeliveryStatus ::
  "call \<Rightarrow> string \<Rightarrow> string \<Rightarrow> WebhookDeliveryStatus \<Rightarrow> string option \<Rightarrow> unit dbtx" where
  "markWebhookDeliveryStatus c org deliveryId st errorCode =
     tx_write (db_deliveries_update (update_where
       (\<lambda>x. dl_deliveryId x = deliveryId \<and> dl_organizationId x = Some org)
       (\<lambda>x. x\<lparr>dl_status := st, dl_errorCode := errorCode,
              dl_processedAt := (if settled_delivery st then Some (c_now c)
                                 else dl_processedAt x)\<rparr>)))"

record WebhookMessage =
  wm_deliveryId :: string
  wm_organizationId :: string
  wm_eventName :: string
  wm_correlationId :: string
  wm_normalized :: json

definition GITHUB_WEBHOOK_OUTBOX_TOPIC :: string where
  "GITHUB_WEBHOOK_OUTBOX_TOPIC = ''github.webhook.process.v1''"

definition webhook_job :: "WebhookMessage \<Rightarrow> json" where
  "webhook_job m =
     JObj [(''deliveryId'', JStr (wm_deliveryId m)),
           (''organizationId'', JStr (wm_organizationId m)),
           (''eventName'', JStr (wm_eventName m)), (''attempt'', JNum 1),
           (''correlationId'', JStr (wm_correlationId m)), (''normalized'', wm_normalized m)]"

definition enqueueWebhookProcessMessage :: "host \<Rightarrow> call \<Rightarrow> WebhookMessage \<Rightarrow> unit dbtx" where
  "enqueueWebhookProcessMessage h c m =
     insert_or_ignore db_outbox db_outbox_update same_outbox
       \<lparr>ob_organizationId = wm_organizationId m, ob_topic = GITHUB_WEBHOOK_OUTBOX_TOPIC,
        ob_partitionKey = wm_deliveryId m,
        ob_deduplicationKey = ''github.webhook.process:'' @ wm_deliveryId m @ '':1'',
        ob_payload = canonicalize (locale_le h) (webhook_job m),
        ob_status = OutboxStatus.PENDING, ob_attempts = 0, ob_availableAt = c_now c\<rparr>"

section \<open>Finding the publication\<close>

text \<open>\<open>PullRequestRecord JOIN PublicationRun\<close> of an organization, the newest record that matches.\<close>

definition run_of_organization :: "string \<Rightarrow> string \<Rightarrow> db \<Rightarrow> bool" where
  "run_of_organization org publicationId d = list_ex (is_run publicationId org) (db_runs d)"

definition newest_record ::
  "string \<Rightarrow> (pull_request_row \<Rightarrow> bool) \<Rightarrow> db \<Rightarrow> pull_request_row option" where
  "newest_record org p d =
     row_max prr_createdAt (filter (\<lambda>r. p r \<and> run_of_organization org (prr_publicationId r) d)
       (db_pull_requests d))"

definition findPublicationIdByHeadSha :: "string \<Rightarrow> string \<Rightarrow> string option dbtx" where
  "findPublicationIdByHeadSha org headSha =
     tx_read (\<lambda>d. map_option prr_publicationId (newest_record org (\<lambda>r. prr_headSha r = headSha) d))"

definition findPublicationIdByPullRequestNumber :: "string \<Rightarrow> int \<Rightarrow> string option dbtx" where
  "findPublicationIdByPullRequestNumber org number =
     tx_read (\<lambda>d. map_option prr_publicationId (newest_record org (\<lambda>r. prr_number r = number) d))"

section \<open>Checks and reviews\<close>

text \<open>A text cast to an enumeration of the database, to a timestamp; a required column.\<close>

definition all_check_statuses :: "NormalizedCheckStatus list" where
  "all_check_statuses =
     [NormalizedCheckStatus.QUEUED, NormalizedCheckStatus.RUNNING, NormalizedCheckStatus.PASSED,
      NormalizedCheckStatus.FAILED, NormalizedCheckStatus.CANCELLED,
      NormalizedCheckStatus.TIMED_OUT, NormalizedCheckStatus.NEUTRAL, NormalizedCheckStatus.STALE]"

definition all_review_states :: "ReviewState list" where
  "all_review_states =
     [ReviewState.PENDING, ReviewState.APPROVED, ReviewState.CHANGES_REQUESTED,
      ReviewState.DISMISSED, ReviewState.COMMENTED]"

definition cast_to :: "('a \<Rightarrow> string) \<Rightarrow> 'a list \<Rightarrow> string \<Rightarrow> 'a dbtx" where
  "cast_to name_of values s =
     tx_some (row_where (\<lambda>v. name_of v = s) values) ''invalid input value for enum''"

definition timestamp_param :: "host \<Rightarrow> string option \<Rightarrow> int option dbtx" where
  "timestamp_param h s = (case s of
     None \<Rightarrow> tx_return None
   | Some t \<Rightarrow> tx_bind (tx_some (timestamp_of h t) ''invalid input syntax for type timestamp'')
                 (\<lambda>x. tx_return (Some x)))"

definition required_column :: "'a option \<Rightarrow> 'a dbtx" where
  "required_column v = tx_some v ''null value violates not-null constraint''"

text \<open>The foreign key to the publication.\<close>

definition references_run :: "string \<Rightarrow> unit dbtx" where
  "references_run publicationId =
     tx_bind (tx_read (\<lambda>d. list_ex (\<lambda>r. run_id r = publicationId) (db_runs d)))
       (\<lambda>b. tx_guard b ''insert violates foreign key constraint'')"

record CheckUpdate =
  cu_publicationId :: string
  cu_externalId :: string
  cu_name :: string
  cu_status :: string
  cu_headSha :: "string option"
  cu_detailsUrl :: "string option"
  cu_startedAt :: "string option"
  cu_completedAt :: "string option"
  cu_rawConclusion :: "string option"
  cu_correlationId :: string

definition existing_check :: "string \<Rightarrow> CheckUpdate \<Rightarrow> db \<Rightarrow> check_row option" where
  "existing_check org i d =
     row_where (\<lambda>x. ck_publicationId x = cu_publicationId i \<and> ck_externalId x = cu_externalId i
                    \<and> run_of_organization org (ck_publicationId x) d) (db_checks d)"

definition write_check ::
  "call \<Rightarrow> CheckUpdate \<Rightarrow> check_row option \<Rightarrow> NormalizedCheckStatus \<Rightarrow> string
   \<Rightarrow> int option \<Rightarrow> int option \<Rightarrow> unit dbtx" where
  "write_check c i existing st headSha started completed = (case existing of
     Some x \<Rightarrow> tx_write (db_checks_update (update_where
         (\<lambda>r. ck_id r = ck_id x \<and> ck_publicationId r = cu_publicationId i)
         (\<lambda>r. r\<lparr>ck_status := st, ck_headSha := headSha, ck_detailsUrl := cu_detailsUrl i,
                ck_startedAt := started, ck_completedAt := completed,
                ck_rawConclusion := cu_rawConclusion i, ck_updatedAt := c_now c\<rparr>)))
   | None \<Rightarrow> tx_then (references_run (cu_publicationId i))
       (insert_row db_checks db_checks_update same_check
         \<lparr>ck_id = c_ids c 0, ck_publicationId = cu_publicationId i,
          ck_externalId = cu_externalId i, ck_name = cu_name i, ck_status = st,
          ck_headSha = headSha, ck_detailsUrl = cu_detailsUrl i, ck_startedAt = started,
          ck_completedAt = completed, ck_rawConclusion = cu_rawConclusion i,
          ck_updatedAt = c_now c\<rparr>))"

definition upsertPublicationCheck :: "host \<Rightarrow> call \<Rightarrow> string \<Rightarrow> CheckUpdate \<Rightarrow> unit dbtx" where
  "upsertPublicationCheck h c org i =
     tx_bind (tx_read (existing_check org i)) (\<lambda>existing.
     tx_bind (cast_to NormalizedCheckStatus_name all_check_statuses (cu_status i)) (\<lambda>st.
     tx_bind (required_column (cu_headSha i)) (\<lambda>headSha.
     tx_bind (timestamp_param h (cu_startedAt i)) (\<lambda>started.
     tx_bind (timestamp_param h (cu_completedAt i)) (\<lambda>completed.
     tx_then (write_check c i existing st headSha started completed)
       (appendWebhookEvent h c \<lparr>we_publicationId = cu_publicationId i,
          we_type = ''CHECK_SYNCHRONIZED'',
          we_payload = JObj [(''externalId'', JStr (cu_externalId i)), (''name'', JStr (cu_name i)),
            (''status'', JStr (cu_status i)), (''headSha'', str_or_null (cu_headSha i))],
          we_actorId = ''github-webhook-worker'', we_correlationId = cu_correlationId i\<rparr>))))))"

record ReviewUpdate =
  ru_publicationId :: string
  ru_externalId :: string
  ru_reviewerLogin :: string
  ru_state :: string
  ru_submittedAt :: "string option"
  ru_bodyDigest :: "string option"
  ru_correlationId :: string

definition existing_review :: "string \<Rightarrow> ReviewUpdate \<Rightarrow> db \<Rightarrow> review_row option" where
  "existing_review org i d =
     row_where (\<lambda>x. rw_publicationId x = ru_publicationId i \<and> rw_externalId x = ru_externalId i
                    \<and> run_of_organization org (rw_publicationId x) d) (db_reviews d)"

definition write_review ::
  "call \<Rightarrow> ReviewUpdate \<Rightarrow> review_row option \<Rightarrow> ReviewState \<Rightarrow> int option \<Rightarrow> unit dbtx" where
  "write_review c i existing st submitted = (case existing of
     Some x \<Rightarrow> tx_write (db_reviews_update (update_where
         (\<lambda>r. rw_id r = rw_id x \<and> rw_publicationId r = ru_publicationId i)
         (\<lambda>r. r\<lparr>rw_state := st, rw_submittedAt := submitted, rw_bodyDigest := ru_bodyDigest i,
                rw_updatedAt := c_now c\<rparr>)))
   | None \<Rightarrow> tx_then (references_run (ru_publicationId i))
       (insert_row db_reviews db_reviews_update same_review
         \<lparr>rw_id = c_ids c 0, rw_publicationId = ru_publicationId i,
          rw_externalId = ru_externalId i, rw_reviewerLogin = ru_reviewerLogin i,
          rw_state = st, rw_bodyDigest = ru_bodyDigest i, rw_submittedAt = submitted,
          rw_createdAt = c_now c, rw_updatedAt = c_now c\<rparr>))"

definition upsertPublicationReview :: "host \<Rightarrow> call \<Rightarrow> string \<Rightarrow> ReviewUpdate \<Rightarrow> unit dbtx" where
  "upsertPublicationReview h c org i =
     tx_bind (tx_read (existing_review org i)) (\<lambda>existing.
     tx_bind (cast_to ReviewState_name all_review_states (ru_state i)) (\<lambda>st.
     tx_bind (timestamp_param h (ru_submittedAt i)) (\<lambda>submitted.
     tx_then (write_review c i existing st submitted)
       (appendWebhookEvent h c \<lparr>we_publicationId = ru_publicationId i,
          we_type = ''REVIEW_SYNCHRONIZED'',
          we_payload = JObj [(''externalId'', JStr (ru_externalId i)),
            (''reviewerLogin'', JStr (ru_reviewerLogin i)), (''state'', JStr (ru_state i))],
          we_actorId = ''github-webhook-worker'', we_correlationId = ru_correlationId i\<rparr>))))"

section \<open>Pull requests\<close>

record PullRequestUpdate =
  pu_number :: int
  pu_state :: string
  pu_draft :: bool
  pu_headSha :: string
  pu_baseSha :: string
  pu_merged :: bool
  pu_mergedBy :: "string option"
  pu_mergedAt :: "string option"
  pu_mergeCommitSha :: "string option"
  pu_correlationId :: string

definition update_record ::
  "string \<Rightarrow> PullRequestUpdate \<Rightarrow> unit dbtx" where
  "update_record publicationId i =
     tx_then (tx_guard (pu_state i \<in> {''open'', ''closed'', ''merged''})
                ''new row violates check constraint'')
       (tx_write (db_pull_requests_update (update_where
          (\<lambda>r. prr_publicationId r = publicationId \<and> prr_number r = pu_number i)
          (\<lambda>r. r\<lparr>prr_state := pu_state i, prr_draft := pu_draft i, prr_headSha := pu_headSha i,
                 prr_baseSha := pu_baseSha i\<rparr>))))"

definition observe_merge :: "host \<Rightarrow> call \<Rightarrow> string \<Rightarrow> PullRequestUpdate \<Rightarrow> string \<Rightarrow> unit dbtx" where
  "observe_merge h c publicationId i mergeCommitSha =
     tx_bind (required_column (pu_mergedBy i)) (\<lambda>mergedBy.
     tx_bind (timestamp_param h (pu_mergedAt i)) (\<lambda>mergedAt.
       insert_or_ignore db_merges db_merges_update same_merge
         \<lparr>mo_publicationId = publicationId, mo_mergeCommitSha = mergeCommitSha,
          mo_mergedBy = mergedBy,
          mo_mergedAt = (case mergedAt of None \<Rightarrow> c_clock c | Some t \<Rightarrow> t),
          mo_approvedHeadSha = pu_headSha i\<rparr>))"

definition merge_event :: "string \<Rightarrow> PullRequestUpdate \<Rightarrow> WebhookEvent" where
  "merge_event publicationId i =
     \<lparr>we_publicationId = publicationId, we_type = ''MERGE_OBSERVED'',
      we_payload = JObj [(''mergeCommitSha'', str_or_null (pu_mergeCommitSha i)),
        (''mergedBy'', str_or_null (pu_mergedBy i)), (''headSha'', JStr (pu_headSha i))],
      we_actorId = ''github-webhook-worker'', we_correlationId = pu_correlationId i\<rparr>"

text \<open>\<open>UPDATE "PublicationRun" SET "status"=..., "version"="version"+1\<close>.\<close>

definition move_run :: "call \<Rightarrow> string \<Rightarrow> string \<Rightarrow> PublicationStatus \<Rightarrow> unit dbtx" where
  "move_run c org publicationId st =
     set_run org publicationId (\<lambda>r. bumped c (r\<lparr>run_status := st\<rparr>))"

text \<open>
  The \<open>try\<close> block: a transition that is not permitted is passed over with the observation kept. A
  statement that fails inside it aborts the transaction, and its \<open>COMMIT\<close> rolls back to \<open>d0\<close>.
\<close>

definition mark_merged ::
  "host \<Rightarrow> call \<Rightarrow> string \<Rightarrow> string \<Rightarrow> PullRequestUpdate \<Rightarrow> db \<Rightarrow> bool dbtx" where
  "mark_merged h c org publicationId i d0 = (\<lambda>d.
     case row_where (is_run publicationId org) (db_runs d) of
       None \<Rightarrow> Inr (False, d)
     | Some run \<Rightarrow>
         if run_status run = PublicationStatus.MERGED
           \<or> assertPublicationTransition (run_status run) PublicationStatus.MERGED \<noteq> Inr ()
         then Inr (False, d)
         else (case tx_then (move_run c org publicationId PublicationStatus.MERGED)
                      (appendWebhookEvent h c (merge_event publicationId i)) d of
                 Inl e \<Rightarrow> Inr (False, d0)
               | Inr (u, d') \<Rightarrow> Inr (True, d')))"

definition applyPullRequestUpdate ::
  "host \<Rightarrow> call \<Rightarrow> string \<Rightarrow> PullRequestUpdate \<Rightarrow> (string \<times> bool) option dbtx" where
  "applyPullRequestUpdate h c org i = (\<lambda>d0.
     tx_bind (tx_read (newest_record org (\<lambda>r. prr_number r = pu_number i))) (\<lambda>found. case found of
       None \<Rightarrow> tx_return None
     | Some r \<Rightarrow>
         tx_then (update_record (prr_publicationId r) i)
         (tx_bind (if pu_merged i \<and> truthy (pu_mergeCommitSha i)
                   then tx_then (observe_merge h c (prr_publicationId r) i (the (pu_mergeCommitSha i)))
                          (mark_merged h c org (prr_publicationId r) i d0)
                   else tx_return False)
           (\<lambda>merged. tx_return (Some (prr_publicationId r, merged))))) d0)"

end
