(* ===== verification/Merge_Closure_Store.thy ===== *)
theory Merge_Closure_Store
  imports Webhook_Store
begin

text \<open>
  \<open>packages/database/src/merge-closure-store.ts\<close>: the evaluation of merge readiness over the
  synchronized rows, and the verification and closure after an observed merge. Both write to the
  event log through \<open>appendWebhookEvent\<close>.
\<close>

section \<open>The rows a decision is made from\<close>

text \<open>\<open>SELECT DISTINCT ON (name) ... ORDER BY name, updatedAt DESC\<close>: the latest row of each name.\<close>

definition latest_checks :: "host \<Rightarrow> string \<Rightarrow> db \<Rightarrow> CheckState list" where
  "latest_checks h publicationId d =
     (let rows = filter (\<lambda>x. ck_publicationId x = publicationId) (db_checks d)
      in concat (map (\<lambda>n. case row_max ck_updatedAt (filter (\<lambda>x. ck_name x = n) rows) of
                            None \<Rightarrow> []
                          | Some x \<Rightarrow> [\<lparr>chk_name = ck_name x, chk_status = ck_status x\<rparr>])
           (sort_by (db_le h) (uniq (map ck_name rows)))))"

text \<open>\<open>ORDER BY "submittedAt" NULLS LAST, "createdAt"\<close>.\<close>

definition review_before :: "review_row \<Rightarrow> review_row \<Rightarrow> bool" where
  "review_before a b =
     (case (rw_submittedAt a, rw_submittedAt b) of
        (None, None) \<Rightarrow> rw_createdAt a \<le> rw_createdAt b
      | (None, Some t) \<Rightarrow> False
      | (Some s, None) \<Rightarrow> True
      | (Some s, Some t) \<Rightarrow> s < t \<or> s = t \<and> rw_createdAt a \<le> rw_createdAt b)"

definition ordered_reviews :: "string \<Rightarrow> db \<Rightarrow> ReviewEntry list" where
  "ordered_reviews publicationId d =
     map (\<lambda>x. \<lparr>rev_actorId = rw_reviewerLogin x, rev_state = rw_state x, rev_codeOwner = False\<rparr>)
       (sort_by review_before (filter (\<lambda>x. rw_publicationId x = publicationId) (db_reviews d)))"

definition pull_request_of :: "string \<Rightarrow> db \<Rightarrow> pull_request_row option" where
  "pull_request_of publicationId d =
     row_where (\<lambda>x. prr_publicationId x = publicationId) (db_pull_requests d)"

text \<open>The policy the decision functions are given: the columns they read, constants for the rest.\<close>

definition closure_policy :: "run_row \<Rightarrow> policy_row \<Rightarrow> PublicationPolicy" where
  "closure_policy r p =
     \<lparr>pol_version = run_policyVersion r, pol_allowedBaseBranches = [],
      pol_recoveryBranchPrefix = [], pol_requireDraftPullRequest = True,
      pol_allowForcePush = False, pol_allowProtectedBranchWrites = False,
      pol_allowAutomaticMerge = False, pol_requiredChecks = prow_requiredChecks p,
      pol_requiredApprovals = prow_requiredApprovals p,
      pol_requireCodeOwnerApproval = prow_requireCodeOwnerApproval p,
      pol_maximumPublicationAttempts = prow_maximumPublicationAttempts p,
      pol_webhookReplayWindowSeconds = prow_webhookReplayWindowSeconds p,
      pol_postMergeVerificationRequired = prow_postMergeVerificationRequired p,
      pol_retentionDays = 365\<rparr>"

definition policy_of :: "run_row \<Rightarrow> db \<Rightarrow> policy_row option" where
  "policy_of r d = row_where (\<lambda>p. prow_id p = run_publicationPolicyId r) (db_policies d)"

section \<open>Merge readiness\<close>

definition readiness_input :: "host \<Rightarrow> run_row \<Rightarrow> db \<Rightarrow> MergeReadinessInput" where
  "readiness_input h r d =
     (let pr = pull_request_of (run_id r) d in toMergeReadinessInput
        \<lparr>rr_baseCommitCurrent =
           (case pr of None \<Rightarrow> True | Some x \<Rightarrow> prr_baseSha x = run_baseCommitSha r),
         rr_publicationIntegrityValid =
           (case published_commit (run_id r) d of
              None \<Rightarrow> True | Some x \<Rightarrow> pc_patchDigest x = run_patchDigest r),
         rr_checks = latest_checks h (run_id r) d, rr_reviews = ordered_reviews (run_id r) d,
         rr_unresolvedBlockingThreads = 0,
         rr_pullRequestDraft = (case pr of None \<Rightarrow> False | Some x \<Rightarrow> prr_draft x)\<rparr>)"

definition readiness_input_json :: "MergeReadinessInput \<Rightarrow> json" where
  "readiness_input_json i =
     JObj [(''baseCommitCurrent'', JBool (mri_baseCommitCurrent i)),
       (''publicationIntegrityValid'', JBool (mri_publicationIntegrityValid i)),
       (''requiredChecks'', JArr (map (\<lambda>x. JObj [(''name'', JStr (chk_name x)),
          (''status'', JStr (NormalizedCheckStatus_name (chk_status x)))]) (mri_requiredChecks i))),
       (''reviews'', JArr (map (\<lambda>x. JObj [(''actorId'', JStr (rev_actorId x)),
          (''state'', JStr (ReviewState_name (rev_state x))),
          (''codeOwner'', JBool (rev_codeOwner x))]) (mri_reviews i))),
       (''unresolvedBlockingThreads'', JNum (mri_unresolvedBlockingThreads i)),
       (''blockingSecurityFindings'', JNum (mri_blockingSecurityFindings i)),
       (''pullRequestDraft'', JBool (mri_pullRequestDraft i))]"

definition strings_json :: "string list \<Rightarrow> json" where
  "strings_json ss = JArr (map JStr ss)"

definition readiness_json :: "MergeReadinessDecision \<Rightarrow> (string \<times> json) list" where
  "readiness_json x =
     [(''ready'', JBool (mrd_ready x)), (''blockers'', strings_json (mrd_blockers x))]"

definition readiness_row_of ::
  "host \<Rightarrow> call \<Rightarrow> run_row \<Rightarrow> MergeReadinessInput \<Rightarrow> MergeReadinessDecision \<Rightarrow> string \<Rightarrow> readiness_row"
where
  "readiness_row_of h c r i decision headSha =
     \<lparr>mr_publicationId = run_id r, mr_ready = mrd_ready decision,
      mr_blockers = mrd_blockers decision,
      mr_inputDigest = digestPayload h (JObj [(''publicationId'', JStr (run_id r)),
        (''input'', readiness_input_json i), (''decision'', JObj (readiness_json decision))]),
      mr_policyVersion = run_policyVersion r, mr_headSha = headSha,
      mr_baseSha = run_baseCommitSha r, mr_evaluatedAt = c_now c\<rparr>"

definition closure_event :: "string \<Rightarrow> string \<Rightarrow> string \<Rightarrow> (string \<times> json) list \<Rightarrow> WebhookEvent" where
  "closure_event publicationId correlationId t payload =
     \<lparr>we_publicationId = publicationId, we_type = t, we_payload = JObj payload,
      we_actorId = ''github-webhook-worker'', we_correlationId = correlationId\<rparr>"

definition decide_readiness ::
  "host \<Rightarrow> call \<Rightarrow> string \<Rightarrow> run_row \<Rightarrow> MergeReadinessDecision dbtx" where
  "decide_readiness h c correlationId r =
     tx_bind (tx_read (policy_of r)) (\<lambda>policyRow.
     tx_bind (tx_some policyRow ''Publication policy is missing for readiness evaluation.'') (\<lambda>p.
     tx_bind (tx_read (readiness_input h r)) (\<lambda>i.
     tx_bind (required_column (run_commitSha r)) (\<lambda>headSha.
       (let decision = evaluateMergeReadiness i (closure_policy r p)
        in tx_then (insert_or_ignore db_readiness db_readiness_update same_readiness
                      (readiness_row_of h c r i decision headSha))
           (tx_then (appendWebhookEvent h c (closure_event (run_id r) correlationId
                       ''MERGE_READINESS_EVALUATED'' (readiness_json decision)))
              (tx_return decision)))))))"

definition evaluateAndPersistMergeReadiness ::
  "host \<Rightarrow> call \<Rightarrow> string \<Rightarrow> string \<Rightarrow> string \<Rightarrow> MergeReadinessDecision option dbtx" where
  "evaluateAndPersistMergeReadiness h c org publicationId correlationId =
     tx_bind (tx_read (\<lambda>d. row_where (is_run publicationId org) (db_runs d))) (\<lambda>row. case row of
       None \<Rightarrow> tx_return None
     | Some r \<Rightarrow> tx_bind (decide_readiness h c correlationId r) (\<lambda>x. tx_return (Some x)))"

text \<open>\<open>ORDER BY d."evaluatedAt" DESC LIMIT 1\<close>.\<close>

definition latestMergeReadiness ::
  "string \<Rightarrow> string \<Rightarrow> MergeReadinessDecision option dbtx" where
  "latestMergeReadiness org publicationId =
     tx_read (\<lambda>d. if run_of_organization org publicationId d
       then map_option (\<lambda>x. \<lparr>mrd_ready = mr_ready x, mrd_blockers = mr_blockers x\<rparr>)
              (row_max mr_evaluatedAt
                 (filter (\<lambda>x. mr_publicationId x = publicationId) (db_readiness d)))
       else None)"

section \<open>After the merge\<close>

definition merge_of :: "string \<Rightarrow> db \<Rightarrow> merge_row option" where
  "merge_of publicationId d = row_where (\<lambda>x. mo_publicationId x = publicationId) (db_merges d)"

definition recovery_verified :: "run_row \<Rightarrow> db \<Rightarrow> bool" where
  "recovery_verified r d =
     list_ex (\<lambda>x. vrf_recoveryId x = run_recoveryId r \<and> vrf_status x = ''PASSED'')
       (db_verifications d)"

definition post_merge_input ::
  "host \<Rightarrow> run_row \<Rightarrow> policy_row \<Rightarrow> db \<Rightarrow> PostMergeVerificationInput" where
  "post_merge_input h r p d =
     (let pol = closure_policy r p; observation = merge_of (run_id r) d
      in \<lparr>pm_mergeObserved = (observation \<noteq> None),
          pm_mergeCommitSha = map_option mo_mergeCommitSha observation,
          pm_approvedHeadSha = map_option mo_approvedHeadSha observation,
          pm_publishedCommitSha = map_option pc_commitSha (published_commit (run_id r) d),
          pm_requiredChecksPassed = requiredChecksPassed pol (latest_checks h (run_id r) d),
          pm_originalFailureResolved = recovery_verified r d, pm_rollbackObserved = False,
          pm_postMergeVerificationRequired = pol_postMergeVerificationRequired pol\<rparr>)"

definition patch_present :: "PostMergeVerificationInput \<Rightarrow> bool" where
  "patch_present i =
     (case (pm_approvedHeadSha i, pm_publishedCommitSha i) of
        (Some a, Some b) \<Rightarrow> a = b | _ \<Rightarrow> False)"

primrec PostMergeOutcome_name :: "PostMergeOutcome \<Rightarrow> string" where
  "PostMergeOutcome_name PostMergeOutcome.PASSED = ''PASSED''"
| "PostMergeOutcome_name PostMergeOutcome.FAILED = ''FAILED''"

definition post_merge_json :: "PostMergeDecision \<Rightarrow> json" where
  "post_merge_json x =
     JObj [(''outcome'', JStr (PostMergeOutcome_name (pmd_outcome x))),
           (''blockers'', strings_json (pmd_blockers x))]"

definition evidence_note :: string where
  "evidence_note =
     ''Control-plane verification: merge observation, approved-commit integrity and ''
     @ ''required-check state from persisted synchronized records. Live re-execution of the ''
     @ ''failure check is tracked under issue #22.''"

definition post_merge_row_of ::
  "host \<Rightarrow> run_row \<Rightarrow> string \<Rightarrow> string \<Rightarrow> PostMergeVerificationInput \<Rightarrow> PostMergeDecision
   \<Rightarrow> post_merge_row" where
  "post_merge_row_of h r correlationId verificationId i decision =
     \<lparr>pmv_id = verificationId, pmv_publicationId = run_id r, pmv_status = pmd_outcome decision,
      pmv_mergeCommitSha = (case pm_mergeCommitSha i of
          None \<Rightarrow> replicate 40 CHR ''0'' | Some s \<Rightarrow> s),
      pmv_approvedPatchPresent = patch_present i,
      pmv_originalFailureResolved = pm_originalFailureResolved i,
      pmv_requiredChecksPassed = pm_requiredChecksPassed i,
      pmv_evidence = canonicalize (locale_le h) (JObj [(''decision'', post_merge_json decision),
        (''correlationId'', JStr correlationId), (''note'', JStr evidence_note)]),
      pmv_digest = digestPayload h (JObj [(''publicationId'', JStr (run_id r)),
        (''verificationId'', JStr verificationId), (''decision'', post_merge_json decision)])\<rparr>"

text \<open>\<open>transition\<close>: the step must be permitted from the status the run was last given.\<close>

definition closing_step ::
  "call \<Rightarrow> string \<Rightarrow> string \<Rightarrow> PublicationStatus \<Rightarrow> PublicationStatus \<Rightarrow> unit dbtx" where
  "closing_step c org publicationId current target =
     tx_then (tx_lift (assertPublicationTransition current target))
       (move_run c org publicationId target)"

definition closure_row_of :: "host \<Rightarrow> string \<Rightarrow> run_row \<Rightarrow> string \<Rightarrow> closure_row" where
  "closure_row_of h org r verificationId =
     \<lparr>icr_organizationId = org, icr_incidentId = run_incidentId r, icr_publicationId = run_id r,
      icr_postMergeVerificationId = verificationId,
      icr_evidenceDigest = digestPayload h (JObj [(''publicationId'', JStr (run_id r)),
        (''verificationId'', JStr verificationId), (''closure'', JBool True)])\<rparr>"

definition same_incident :: "closure_row \<Rightarrow> closure_row \<Rightarrow> bool" where
  "same_incident a b = (icr_incidentId a = icr_incidentId b)"

definition close_run ::
  "host \<Rightarrow> call \<Rightarrow> string \<Rightarrow> string \<Rightarrow> run_row \<Rightarrow> string \<Rightarrow> unit dbtx" where
  "close_run h c org correlationId r verificationId =
     tx_then (closing_step c org (run_id r) PublicationStatus.POST_MERGE_VERIFYING
                PublicationStatus.RECOVERY_CONFIRMED)
     (tx_then (closing_step c org (run_id r) PublicationStatus.RECOVERY_CONFIRMED
                PublicationStatus.CLOSED)
     (tx_then (insert_on_conflict db_closures db_closures_update same_incident same_closure
                (closure_row_of h org r verificationId))
     (appendWebhookEvent h c (closure_event (run_id r) correlationId ''INCIDENT_CLOSED''
        [(''verificationId'', JStr verificationId), (''incidentId'', JStr (run_incidentId r))]))))"

definition verify_merge ::
  "host \<Rightarrow> call \<Rightarrow> string \<Rightarrow> string \<Rightarrow> run_row \<Rightarrow> policy_row \<Rightarrow> PostMergeOutcome dbtx" where
  "verify_merge h c org correlationId r p =
     tx_bind (tx_read (post_merge_input h r p)) (\<lambda>i.
       (let decision = decidePostMergeVerification i; verificationId = c_ids c 0;
            passed = (pmd_outcome decision = PostMergeOutcome.PASSED)
        in tx_then (insert_row db_post_merge db_post_merge_update same_post_merge
                      (post_merge_row_of h r correlationId verificationId i decision))
           (tx_then (appendWebhookEvent h c (closure_event (run_id r) correlationId
                (if passed then ''POST_MERGE_VERIFICATION_PASSED''
                 else ''POST_MERGE_VERIFICATION_FAILED'')
                [(''verificationId'', JStr verificationId),
                 (''outcome'', JStr (PostMergeOutcome_name (pmd_outcome decision))),
                 (''blockers'', strings_json (pmd_blockers decision))]))
           (tx_then (closing_step c org (run_id r) (run_status r)
                       PublicationStatus.POST_MERGE_VERIFYING)
           (tx_then (if passed then close_run h c org correlationId r verificationId
                     else closing_step c org (run_id r) PublicationStatus.POST_MERGE_VERIFYING
                            PublicationStatus.POST_MERGE_FAILED)
              (tx_return (pmd_outcome decision)))))))"

definition applyPostMergeVerification ::
  "host \<Rightarrow> call \<Rightarrow> string \<Rightarrow> string \<Rightarrow> string \<Rightarrow> PostMergeOutcome option dbtx" where
  "applyPostMergeVerification h c org publicationId correlationId =
     tx_bind (tx_read (\<lambda>d. row_where (is_run publicationId org) (db_runs d))) (\<lambda>row. case row of
       None \<Rightarrow> tx_return None
     | Some r \<Rightarrow>
         if run_status r \<noteq> PublicationStatus.MERGED then tx_return None
         else tx_bind (tx_read (policy_of r)) (\<lambda>policyRow.
              tx_bind (tx_some policyRow
                         ''Publication policy is missing for post-merge verification.'') (\<lambda>p.
              tx_bind (verify_merge h c org correlationId r p) (\<lambda>x. tx_return (Some x)))))"

end
