(* ===== verification/Webhook_Worker.thy ===== *)
theory Webhook_Worker
  imports Merge_Closure_Store
begin

text \<open>
  The ingress \<open>apps/api/src/publications/github-webhook.controller.ts\<close> and the worker
  \<open>apps/worker/src/github-webhook-worker.ts\<close>: how a signed request becomes a queued event, and how
  a queued event is applied. Both are sequences of transactions; a transaction that has ended stays
  when a later one fails.

  The JSON of the request body is an argument (\<open>None\<close> when it does not parse), and so is the
  interference of other processes (see \<open>Sequences\<close>).
\<close>

section \<open>Ingress\<close>

record webhook_request =
  wr_rawBody :: "string option"
  wr_signature :: "string option"
  wr_deliveryId :: "string option"
  wr_eventName :: "string option"

text \<open>\<open>{ accepted, duplicate, ignored?, deliveryId }\<close>.\<close>

datatype webhook_reply = Duplicate string | Ignored string | Accepted string

definition pull_request_json :: "NormalizedPullRequestEvent \<Rightarrow> (string \<times> json) list" where
  "pull_request_json e =
     [(''number'', JNum (np_number e)), (''nodeId'', JStr (np_nodeId e)), (''url'', JStr (np_url e)),
      (''title'', JStr (np_title e)), (''state'', JStr (np_state e)),
      (''draft'', JBool (np_draft e)), (''headBranch'', JStr (np_headBranch e)),
      (''headSha'', JStr (np_headSha e)), (''baseBranch'', JStr (np_baseBranch e)),
      (''baseSha'', JStr (np_baseSha e)), (''merged'', JBool (np_merged e)),
      (''mergedBy'', str_or_null (np_mergedBy e)), (''mergedAt'', str_or_null (np_mergedAt e)),
      (''mergeCommitSha'', str_or_null (np_mergeCommitSha e)),
      (''bodyDigest'', str_or_null (np_bodyDigest e))]"

definition review_json :: "NormalizedReviewEvent \<Rightarrow> (string \<times> json) list" where
  "review_json e =
     [(''externalId'', JStr (nr_externalId e)), (''reviewerLogin'', JStr (nr_reviewerLogin e)),
      (''state'', JStr (ReviewState_name (nr_state e))),
      (''submittedAt'', str_or_null (nr_submittedAt e)),
      (''bodyDigest'', str_or_null (nr_bodyDigest e)), (''headSha'', str_or_null (nr_headSha e)),
      (''pullRequestNumber'', num_or_null (nr_pullRequestNumber e))]"

definition check_json :: "NormalizedCheckEvent \<Rightarrow> (string \<times> json) list" where
  "check_json e =
     [(''externalId'', JStr (nc_externalId e)), (''name'', JStr (nc_name e)),
      (''status'', JStr (NormalizedCheckStatus_name (nc_status e))),
      (''headSha'', str_or_null (nc_headSha e)), (''detailsUrl'', str_or_null (nc_detailsUrl e)),
      (''startedAt'', str_or_null (nc_startedAt e)),
      (''completedAt'', str_or_null (nc_completedAt e)),
      (''rawConclusion'', str_or_null (nc_rawConclusion e))]"

definition normalizeEvent :: "host \<Rightarrow> string \<Rightarrow> json \<Rightarrow> (string \<times> json) list option" where
  "normalizeEvent h eventName payload =
     (if eventName = ''pull_request''
      then map_option pull_request_json (mapPullRequestEvent h payload)
      else if eventName = ''pull_request_review''
      then map_option review_json (mapReviewEvent h payload)
      else map_option check_json (mapCheckEvent eventName payload))"

definition mark ::
  "db scene \<Rightarrow> string \<Rightarrow> string \<Rightarrow> WebhookDeliveryStatus \<Rightarrow> string \<Rightarrow> (db, http_error, unit) seq" where
  "mark s org deliveryId st errorCode =
     sq_run s Fault (\<lambda>c. markWebhookDeliveryStatus c org deliveryId st (Some errorCode))"

definition reject_delivery ::
  "db scene \<Rightarrow> string \<Rightarrow> string \<Rightarrow> http_error \<Rightarrow> (db, http_error, webhook_reply) seq" where
  "reject_delivery s deliveryId errorCode e =
     sq_bind (sq_run s Fault (\<lambda>c. markUnresolvedDeliveryStatus c deliveryId
                WebhookDeliveryStatus.REJECTED (Some errorCode))) (\<lambda>_. sq_throw e)"

text \<open>What is done with an event whose tenant is known.\<close>

definition route_event ::
  "db scene \<Rightarrow> host \<Rightarrow> string \<Rightarrow> string \<Rightarrow> json \<Rightarrow> ResolvedWebhookTenant
   \<Rightarrow> (db, http_error, webhook_reply) seq" where
  "route_event s h deliveryId eventName payload tenant =
     (let org = rt_organizationId tenant in
      if \<not> isSupportedWebhookEvent eventName
      then sq_bind (mark s org deliveryId WebhookDeliveryStatus.IGNORED ''UNSUPPORTED_EVENT'')
             (\<lambda>_. sq_return (Ignored deliveryId))
      else case (normalizeEvent h eventName payload, rt_repositoryId tenant) of
        (Some normalized, Some repositoryId) \<Rightarrow>
          if repositoryId = []
          then sq_bind (mark s org deliveryId WebhookDeliveryStatus.IGNORED
                 ''UNMATCHED_REPOSITORY_OR_PAYLOAD'') (\<lambda>_. sq_return (Ignored deliveryId))
          else sq_bind (sq_run s Fault (\<lambda>c. enqueueWebhookProcessMessage h c
                 \<lparr>wm_deliveryId = deliveryId, wm_organizationId = org, wm_eventName = eventName,
                  wm_correlationId = deliveryId,
                  wm_normalized = JObj (from_entries
                    (normalized @ [(''repositoryId'', JStr repositoryId)]))\<rparr>))
               (\<lambda>_. sq_return (Accepted deliveryId))
      | _ \<Rightarrow> sq_bind (mark s org deliveryId WebhookDeliveryStatus.IGNORED
               ''UNMATCHED_REPOSITORY_OR_PAYLOAD'') (\<lambda>_. sq_return (Ignored deliveryId)))"

definition accept_event ::
  "db scene \<Rightarrow> host \<Rightarrow> string \<Rightarrow> string \<Rightarrow> string \<Rightarrow> json \<Rightarrow> (db, http_error, webhook_reply) seq" where
  "accept_event s h deliveryId eventName rawBody payload =
     (let context = extractIngressContext payload in
      sq_bind (sq_run s Fault (\<lambda>c. reserveWebhookDelivery c
        \<lparr>rd_deliveryId = deliveryId, rd_eventName = eventName, rd_action = wi_action context,
         rd_signatureValid = True, rd_payloadDigest = sha256 h rawBody,
         rd_installationExternalId = wi_installationExternalId context\<rparr>)) (\<lambda>reservedId.
      if \<not> truthy reservedId then sq_return (Duplicate deliveryId)
      else case wi_installationExternalId context of
        None \<Rightarrow> reject_delivery s deliveryId ''NO_INSTALLATION''
                  (BadRequest ''GitHub webhook has no installation context.'')
      | Some inst \<Rightarrow>
          sq_bind (sq_run s Fault (\<lambda>c. resolveAndAssignTenant deliveryId inst
                     (wi_repositoryExternalId context))) (\<lambda>tenant.
          case tenant of
            None \<Rightarrow> reject_delivery s deliveryId ''UNKNOWN_INSTALLATION''
                      (NotFound ''GitHub installation is not registered.'')
          | Some t \<Rightarrow> route_event s h deliveryId eventName payload t)))"

definition receive ::
  "db scene \<Rightarrow> host \<Rightarrow> (string \<Rightarrow> json option) \<Rightarrow> string option \<Rightarrow> webhook_request
   \<Rightarrow> (db, http_error, webhook_reply) seq" where
  "receive s h parse_json secret rq =
     (case secret of
        None \<Rightarrow> sq_throw (BadRequest ''GitHub webhook ingress is not configured.'')
      | Some key \<Rightarrow>
      if length key < 32 then sq_throw (BadRequest ''GitHub webhook ingress is not configured.'')
      else case wr_rawBody rq of
        None \<Rightarrow> sq_throw (BadRequest ''Raw webhook body is unavailable.'')
      | Some raw \<Rightarrow>
      (case (wr_deliveryId rq, wr_eventName rq) of
        (Some deliveryId, Some eventName) \<Rightarrow>
          if eventName = [] \<or> \<not> WEBHOOK_DELIVERY_ID_PATTERN deliveryId
          then sq_throw (BadRequest ''Required GitHub headers are missing.'')
          else if \<not> verifyGithubWebhookSignature h key raw (wr_signature rq)
          then sq_throw (BadRequest ''GitHub webhook signature is invalid.'')
          else (case parse_json raw of
            None \<Rightarrow> sq_throw (BadRequest ''GitHub webhook payload is not valid JSON.'')
          | Some payload \<Rightarrow> accept_event s h deliveryId eventName raw payload)
      | _ \<Rightarrow> sq_throw (BadRequest ''Required GitHub headers are missing.'')))"

section \<open>The worker\<close>

record WebhookJob =
  wj_deliveryId :: string
  wj_organizationId :: string
  wj_eventName :: string
  wj_correlationId :: string
  wj_normalized :: "(string \<times> json) list"

text \<open>\<open>String(value)\<close>; a value the ingress does not write is shown as JSON.\<close>

definition string_of :: "json option \<Rightarrow> string" where
  "string_of v = (case v of
     None \<Rightarrow> ''undefined'' | Some (JStr s) \<Rightarrow> s | Some x \<Rightarrow> stringify x)"

text \<open>\<open>(value as string | null) ?? null\<close>, as a parameter of a statement.\<close>

definition nullable_string :: "json option \<Rightarrow> string option" where
  "nullable_string v = (case v of
     None \<Rightarrow> None | Some JNull \<Rightarrow> None | Some (JStr s) \<Rightarrow> Some s | Some x \<Rightarrow> Some (stringify x))"

definition nf :: "WebhookJob \<Rightarrow> string \<Rightarrow> json option" where
  "nf job k = map_of (wj_normalized job) k"

definition resolvePublication :: "db scene \<Rightarrow> WebhookJob \<Rightarrow> (db, string, string option) seq" where
  "resolvePublication s job =
     (let by_sha = (case nf job ''headSha'' of
            Some (JStr sha) \<Rightarrow> if length sha = 40
              then sq_run s id (\<lambda>c. findPublicationIdByHeadSha (wj_organizationId job) sha)
              else sq_return None
          | _ \<Rightarrow> sq_return None)
      in case nf job ''pullRequestNumber'' of
           Some (JNum n) \<Rightarrow>
             sq_bind (sq_run s id (\<lambda>c. findPublicationIdByPullRequestNumber (wj_organizationId job) n))
               (\<lambda>found. if truthy found then sq_return found else by_sha)
         | _ \<Rightarrow> by_sha)"

definition synchronize_review ::
  "db scene \<Rightarrow> host \<Rightarrow> WebhookJob \<Rightarrow> string \<Rightarrow> (db, string, bool) seq" where
  "synchronize_review s h job publicationId =
     sq_bind (sq_run s id (\<lambda>c. upsertPublicationReview h c (wj_organizationId job)
        \<lparr>ru_publicationId = publicationId, ru_externalId = string_of (nf job ''externalId''),
         ru_reviewerLogin = string_of (nf job ''reviewerLogin''),
         ru_state = string_of (nf job ''state''),
         ru_submittedAt = nullable_string (nf job ''submittedAt''),
         ru_bodyDigest = nullable_string (nf job ''bodyDigest''),
         ru_correlationId = wj_correlationId job\<rparr>)) (\<lambda>_.
     sq_bind (sq_run s id (\<lambda>c. evaluateAndPersistMergeReadiness h c (wj_organizationId job)
                publicationId (wj_correlationId job))) (\<lambda>_. sq_return True))"

definition synchronize_check ::
  "db scene \<Rightarrow> host \<Rightarrow> WebhookJob \<Rightarrow> string \<Rightarrow> string \<Rightarrow> (db, string, bool) seq" where
  "synchronize_check s h job headSha publicationId =
     sq_bind (sq_run s id (\<lambda>c. upsertPublicationCheck h c (wj_organizationId job)
        \<lparr>cu_publicationId = publicationId, cu_externalId = string_of (nf job ''externalId''),
         cu_name = string_of (nf job ''name''), cu_status = string_of (nf job ''status''),
         cu_headSha = Some headSha, cu_detailsUrl = nullable_string (nf job ''detailsUrl''),
         cu_startedAt = nullable_string (nf job ''startedAt''),
         cu_completedAt = nullable_string (nf job ''completedAt''),
         cu_rawConclusion = nullable_string (nf job ''rawConclusion''),
         cu_correlationId = wj_correlationId job\<rparr>)) (\<lambda>_.
     sq_bind (sq_run s id (\<lambda>c. evaluateAndPersistMergeReadiness h c (wj_organizationId job)
                publicationId (wj_correlationId job))) (\<lambda>_. sq_return True))"

text \<open>
  \<open>Number(normalized.number)\<close>. The ingress writes a number; of the other values, \<open>null\<close> and the
  booleans are numbers, and the rest is taken as \<open>NaN\<close>, which is no integer for the statement.
\<close>

definition number_of :: "json option \<Rightarrow> int option" where
  "number_of v = (case v of
     Some (JNum n) \<Rightarrow> Some n | Some JNull \<Rightarrow> Some 0 | Some (JBool b) \<Rightarrow> Some (if b then 1 else 0)
   | _ \<Rightarrow> None)"

definition pull_request_update :: "WebhookJob \<Rightarrow> int \<Rightarrow> PullRequestUpdate" where
  "pull_request_update job number =
     \<lparr>pu_number = number, pu_state = string_of (nf job ''state''),
      pu_draft = (nf job ''draft'' = Some (JBool True)),
      pu_headSha = string_of (nf job ''headSha''), pu_baseSha = string_of (nf job ''baseSha''),
      pu_merged = (nf job ''merged'' = Some (JBool True)),
      pu_mergedBy = nullable_string (nf job ''mergedBy''),
      pu_mergedAt = nullable_string (nf job ''mergedAt''),
      pu_mergeCommitSha = nullable_string (nf job ''mergeCommitSha''),
      pu_correlationId = wj_correlationId job\<rparr>"

definition synchronize_pull_request ::
  "db scene \<Rightarrow> host \<Rightarrow> WebhookJob \<Rightarrow> int \<Rightarrow> (db, string, bool) seq" where
  "synchronize_pull_request s h job number =
     sq_bind (sq_run s id (\<lambda>c. applyPullRequestUpdate h c (wj_organizationId job)
                (pull_request_update job number))) (\<lambda>r. case r of
       None \<Rightarrow> sq_return False
     | Some (publicationId, merged) \<Rightarrow>
         if merged
         then sq_bind (sq_run s id (\<lambda>c. applyPostMergeVerification h c (wj_organizationId job)
                publicationId (wj_correlationId job))) (\<lambda>_. sq_return True)
         else sq_return True)"

definition applyWebhookEvent :: "db scene \<Rightarrow> host \<Rightarrow> WebhookJob \<Rightarrow> (db, string, bool) seq" where
  "applyWebhookEvent s h job =
     (if wj_eventName job = ''pull_request_review''
      then sq_bind (resolvePublication s job) (\<lambda>found. case found of
             Some p \<Rightarrow> if p = [] then sq_return False else synchronize_review s h job p
           | None \<Rightarrow> sq_return False)
      else if wj_eventName job = ''check_run'' \<or> wj_eventName job = ''check_suite''
      then (case nullable_string (nf job ''headSha'') of
             None \<Rightarrow> sq_return False
           | Some sha \<Rightarrow> if sha = [] then sq_return False
               else sq_bind (sq_run s id (\<lambda>c. findPublicationIdByHeadSha (wj_organizationId job) sha))
                 (\<lambda>found. case found of
                    Some p \<Rightarrow> if p = [] then sq_return False else synchronize_check s h job sha p
                  | None \<Rightarrow> sq_return False))
      else if wj_eventName job = ''pull_request''
      then (case number_of (nf job ''number'') of
             Some n \<Rightarrow> synchronize_pull_request s h job n
           | None \<Rightarrow> sq_throw ''invalid input syntax for type integer'')
      else sq_return False)"

definition process_webhook :: "db scene \<Rightarrow> host \<Rightarrow> WebhookJob \<Rightarrow> (db, string, bool) seq" where
  "process_webhook s h job =
     sq_bind (applyWebhookEvent s h job) (\<lambda>applied.
     sq_bind (sq_run s id (\<lambda>c. markWebhookDeliveryStatus c (wj_organizationId job)
                (wj_deliveryId job)
                (if applied then WebhookDeliveryStatus.PROCESSED else WebhookDeliveryStatus.IGNORED)
                (if applied then None else Some ''NO_MATCHING_PUBLICATION'')))
       (\<lambda>_. sq_return applied))"

end
