(* ===== verification/Tx_Relation.thy ===== *)
theory Tx_Relation
  imports Prelude
begin

text \<open>
  Transactions that stay within a reflexive and transitive relation of the states: a frame that is
  built up from the statements of an operation, whatever it does in between.
\<close>

locale tx_relation =
  fixes R :: "'s \<Rightarrow> 's \<Rightarrow> bool"
  assumes refl: "R s s" and trans: "R s t \<Longrightarrow> R t u \<Longrightarrow> R s u"
begin

definition within :: "('s, 'e, 'a) tx \<Rightarrow> bool" where
  "within m = (\<forall>s x s'. m s = Inr (x, s') \<longrightarrow> R s s')"

lemma withinD: "within m \<Longrightarrow> m s = Inr (x, s') \<Longrightarrow> R s s'"
  by (simp add: within_def)

lemma withinI: "(\<And>s x s'. m s = Inr (x, s') \<Longrightarrow> R s s') \<Longrightarrow> within m"
  by (simp add: within_def)

lemma within_pure [simp]:
  "within (tx_return x)" "within (tx_fail e)" "within (tx_read f)" "within (tx_guard b e)"
  "within (tx_some v e)" "within (tx_lift r)"
  by (auto simp: within_def tx_inr refl)

lemma within_bind [intro]: "within m \<Longrightarrow> (\<And>x. within (k x)) \<Longrightarrow> within (tx_bind m k)"
  by (fastforce simp: within_def tx_inr intro: trans)

lemma within_then [intro]: "within m \<Longrightarrow> within m' \<Longrightarrow> within (tx_then m m')"
  by (fastforce simp: within_def tx_inr intro: trans)

lemma within_write: "(\<And>s. R s (f s)) \<Longrightarrow> within (tx_write f)"
  by (auto simp: within_def tx_inr)

lemma within_insert:
  assumes "\<And>s. R s (upd (\<lambda>t. t @ [row]) s)"
  shows "within (insert_row tbl upd clash row)" "within (insert_or_ignore tbl upd clash row)"
    "within (insert_on_conflict tbl upd target clash row)"
  using assms by (auto simp: within_def tx_inr refl split: if_splits)

lemma within_update:
  "(\<And>s. R s (upd (update_where p f) s)) \<Longrightarrow> within (update_returning tbl upd p f)"
  by (auto simp: within_def tx_inr)

end

end
