(* ===== verification/Webhook_Ingress.thy ===== *)
theory Webhook_Ingress
  imports Webhook_Worker Tx_Relation
begin

text \<open>
  What the webhook ingress promises: an unsigned request changes nothing, a delivery is taken once,
  and what is queued names the tenant that the database, not the payload, knows.
\<close>

section \<open>Signed requests only\<close>

lemma signed_cases:
  "(\<exists>m. receive s h parse_json secret rq w = (Inl (BadRequest m), w))
   \<or> (\<exists>key raw i ev payload. secret = Some key \<and> 32 \<le> length key \<and> wr_rawBody rq = Some raw
        \<and> verifyGithubWebhookSignature h key raw (wr_signature rq)
        \<and> wr_deliveryId rq = Some i \<and> WEBHOOK_DELIVERY_ID_PATTERN i
        \<and> parse_json raw = Some payload
        \<and> receive s h parse_json secret rq w = accept_event s h i ev raw payload w)"
  by (cases secret; cases "wr_rawBody rq"; cases "wr_deliveryId rq"; cases "wr_eventName rq")
    (auto simp: receive_def split: option.splits)


section \<open>A delivery is taken once\<close>

text \<open>Reservations stay.\<close>

definition keeps_reserved :: "db \<Rightarrow> db \<Rightarrow> bool" where
  "keeps_reserved d d' = (\<forall>i. reserved i d \<longrightarrow> reserved i d')"

interpretation reservations: tx_relation keeps_reserved
  by unfold_locales (auto simp: keeps_reserved_def)

lemma kept_frame: "db_deliveries d' = db_deliveries d \<Longrightarrow> keeps_reserved d d'"
  by (simp add: keeps_reserved_def reserved_def)

lemma kept_update:
  "(\<And>x. dl_deliveryId (f x) = dl_deliveryId x)
   \<Longrightarrow> keeps_reserved d (db_deliveries_update (update_where p f) d)"
  by (auto simp: keeps_reserved_def reserved_def list_ex_iff set_update_where)

lemma deliveries_kept [simp]:
  "reservations.within (reserveWebhookDelivery c i)"
  "reservations.within (resolveAndAssignTenant dlv n x)"
  "reservations.within (markUnresolvedDeliveryStatus c dlv st er)"
  "reservations.within (markWebhookDeliveryStatus c org dlv st er)"
  "reservations.within (enqueueWebhookProcessMessage h c m)"
proof -
  have ins: "reservations.within (insert_row db_deliveries db_deliveries_update same_delivery row)" for row
    by (rule reservations.within_insert) (simp add: keeps_reserved_def reserved_def)
  have out: "reservations.within (insert_or_ignore db_outbox db_outbox_update same_outbox row)" for row
    by (rule reservations.within_insert) (simp add: kept_frame)
  show "reservations.within (reserveWebhookDelivery c i)"
    unfolding reserveWebhookDelivery_def
    by (auto intro!: reservations.within_bind reservations.within_then ins)
  show "reservations.within (resolveAndAssignTenant dlv n x)"
    unfolding resolveAndAssignTenant_def assign_tenant_def
    by (auto intro!: reservations.within_bind reservations.within_then reservations.within_write
        kept_update split: option.splits)
  show "reservations.within (markUnresolvedDeliveryStatus c dlv st er)"
    "reservations.within (markWebhookDeliveryStatus c org dlv st er)"
    unfolding markUnresolvedDeliveryStatus_def markWebhookDeliveryStatus_def
    by (auto intro!: reservations.within_write kept_update)
  show "reservations.within (enqueueWebhookProcessMessage h c m)"
    unfolding enqueueWebhookProcessMessage_def by (rule out)
qed

lemma reserve_known:
  "reserved (rd_deliveryId i) d \<Longrightarrow> reserveWebhookDelivery c i d = Inr (None, d)"
  by (simp add: reserveWebhookDelivery_def tx_simps)

lemma reserve_effect:
  "reserveWebhookDelivery c i d = Inr (x, d') \<Longrightarrow> reserved (rd_deliveryId i) d'"
  by (auto simp: reserveWebhookDelivery_def tx_inr reserved_def split: if_splits)

definition scene_keeps :: "db scene \<Rightarrow> string \<Rightarrow> bool" where
  "scene_keeps s i = (\<forall>n d. reserved i d \<longrightarrow> reserved i (sc_other s n d))"

lemma run_reserved:
  assumes "scene_keeps s i" "\<And>c. reservations.within (m c)" "reserved i (snd w)"
  shows "reserved i (snd (snd (sq_run s f m w)))"
  using assms reservations.withinD [OF assms(2)]
  by (cases w) (fastforce simp: sq_run_def scene_keeps_def keeps_reserved_def Let_def
      split: sum.splits prod.splits)

lemma bind_reserved:
  assumes "reserved i (snd (snd (m w)))" "\<And>x v. reserved i (snd v) \<Longrightarrow> reserved i (snd (snd (k x v)))"
  shows "reserved i (snd (snd (sq_bind m k w)))"
  using assms by (auto simp: sq_bind_def split: prod.splits sum.splits)

lemma route_reserved:
  assumes "scene_keeps s i" "reserved i (snd w)"
  shows "reserved i (snd (snd (route_event s h j ev payload t w)))"
  using assms unfolding route_event_def mark_def Let_def
  by (auto intro!: bind_reserved run_reserved split: option.splits)

lemma reject_reserved:
  assumes "scene_keeps s i" "reserved i (snd w)"
  shows "reserved i (snd (snd (reject_delivery s j er e w)))"
  using assms unfolding reject_delivery_def by (auto intro!: bind_reserved run_reserved)

text \<open>
  C6: a delivery is taken once. A request whose delivery id is reserved already is answered as a
  duplicate, and the transaction that finds this out changes nothing; a request that was accepted
  or ignored leaves its delivery id reserved.
\<close>

lemma delivery_taken_once:
  assumes keeps: "scene_keeps s i" and id: "wr_deliveryId rq = Some i"
  shows "(reserved i d \<longrightarrow>
      (\<exists>m. receive s h parse_json secret rq (n, d) = (Inl (BadRequest m), (n, d)))
      \<or> receive s h parse_json secret rq (n, d) = (Inr (Duplicate i), (Suc n, sc_other s n d)))
    \<and> (receive s h parse_json secret rq (n, d) = (Inr reply, (n', d')) \<longrightarrow> reserved i d')"
proof (cases "\<exists>m. receive s h parse_json secret rq (n, d) = (Inl (BadRequest m), (n, d))")
  case True
  then show ?thesis by auto
next
  case False
  then obtain ev raw payload where acc: "receive s h parse_json secret rq (n, d)
      = accept_event s h i ev raw payload (n, d)"
    using signed_cases [of s h parse_json secret rq "(n, d)"] id by auto
  have dup: "accept_event s h i ev raw payload (n, d) = (Inr (Duplicate i), (Suc n, sc_other s n d))"
    if "reserved i d"
  proof -
    have "reserved i (sc_other s n d)" using keeps that by (simp add: scene_keeps_def)
    then show ?thesis
      by (simp add: accept_event_def Let_def sq_bind_def sq_run_def reserve_known truthy_def)
  qed
  have taken: "reserved i d'"
    if r: "accept_event s h i ev raw payload (n, d) = (Inr reply, (n', d'))"
  proof -
    let ?c = "extractIngressContext payload"
    define rest where "rest reservedId =
      (if \<not> truthy reservedId then sq_return (Duplicate i)
       else case wi_installationExternalId ?c of
        None \<Rightarrow> reject_delivery s i ''NO_INSTALLATION''
                  (BadRequest ''GitHub webhook has no installation context.'')
      | Some inst \<Rightarrow>
          sq_bind (sq_run s Fault (\<lambda>c. resolveAndAssignTenant i inst
                     (wi_repositoryExternalId ?c))) (\<lambda>tenant.
          case tenant of
            None \<Rightarrow> reject_delivery s i ''UNKNOWN_INSTALLATION''
                      (NotFound ''GitHub installation is not registered.'')
          | Some t \<Rightarrow> route_event s h i ev payload t))" for reservedId
    from r obtain y d1 where res: "reserved i d1" and k: "rest y (Suc n, d1) = (Inr reply, (n', d'))"
      unfolding accept_event_def Let_def sq_bind_Inr sq_run_Inr rest_def
      by (auto dest: reserve_effect)
    have "reserved i (snd (snd (rest y (Suc n, d1))))"
      using res unfolding rest_def
      by (auto intro!: bind_reserved run_reserved reject_reserved route_reserved keeps
          split: option.splits)
    with k show ?thesis by simp
  qed
  from acc dup taken show ?thesis by auto
qed

section \<open>The tenant\<close>

lemma resolved_tenant:
  assumes "resolveAndAssignTenant i inst ext d = Inr (Some t, d')"
  shows "d' = d\<lparr>db_deliveries := db_deliveries d'\<rparr>"
    "\<exists>g \<in> set (db_installations d). gi_installationId g = show_int inst \<and> gi_suspendedAt g = None
       \<and> gi_organizationId g = rt_organizationId t"
    "rt_repositoryId t = Some r \<Longrightarrow> \<exists>x e. ext = Some e \<and> x \<in> set (db_repositories d)
       \<and> repo_id x = r \<and> repo_organizationId x = rt_organizationId t \<and> repo_providerRepoId x = e"
  using assms
  by (auto simp: resolveAndAssignTenant_def tx_inr resolve_installation_def resolve_repository_def
      assign_tenant_def truthy_def split: option.splits if_splits dest!: row_where_SomeD)

lemma mark_then_ignored:
  "sq_bind (mark s org i st er) (\<lambda>_. sq_return (Ignored i)) w \<noteq> (Inr (Accepted j), w')"
  by (auto simp: sq_bind_def split: prod.splits sum.splits)

lemma route_accepted:
  assumes "route_event s h i ev payload t (n, d) = (Inr (Accepted j), (n', d'))"
  shows "isSupportedWebhookEvent ev
    \<and> (\<exists>c normalized r. normalizeEvent h ev payload = Some normalized \<and> rt_repositoryId t = Some r
       \<and> enqueueWebhookProcessMessage h c
           \<lparr>wm_deliveryId = i, wm_organizationId = rt_organizationId t, wm_eventName = ev,
            wm_correlationId = i,
            wm_normalized = JObj (from_entries (normalized @ [(''repositoryId'', JStr r)]))\<rparr>
           (sc_other s n d) = Inr ((), d'))"
  using assms mark_then_ignored
  by (auto simp: route_event_def Let_def sq_bind_Inr sq_run_Inr split: if_splits option.splits)

text \<open>
  An accepted delivery was reserved, then resolved to a tenant with a repository, then queued; the
  reservation and the resolution change nothing but the table of deliveries.
\<close>

lemma accepted_steps:
  assumes quiet: "\<And>n d. sc_other s n d = d"
    and op: "accept_event s h i ev raw payload (n, d) = (Inr (Accepted j), (n', d'))"
  obtains inst t d1 d2 c m rid where
    "wi_installationExternalId (extractIngressContext payload) = Some inst"
    "db_installations d1 = db_installations d" "db_repositories d1 = db_repositories d"
    "db_outbox d2 = db_outbox d" "rt_repositoryId t = Some rid" "isSupportedWebhookEvent ev"
    "resolveAndAssignTenant i inst (wi_repositoryExternalId (extractIngressContext payload)) d1
       = Inr (Some t, d2)"
    "enqueueWebhookProcessMessage h c m d2 = Inr ((), d')"
    "wm_deliveryId m = i" "wm_organizationId m = rt_organizationId t"
proof -
  let ?c = "extractIngressContext payload"
  from op obtain y d1 where res: "reserveWebhookDelivery (sc_call s n)
        \<lparr>rd_deliveryId = i, rd_eventName = ev, rd_action = wi_action ?c, rd_signatureValid = True,
         rd_payloadDigest = sha256 h raw, rd_installationExternalId = wi_installationExternalId ?c\<rparr> d
        = Inr (y, d1)"
    and k: "(if \<not> truthy y then sq_return (Duplicate i)
      else case wi_installationExternalId ?c of
        None \<Rightarrow> reject_delivery s i ''NO_INSTALLATION''
                  (BadRequest ''GitHub webhook has no installation context.'')
      | Some inst \<Rightarrow>
          sq_bind (sq_run s Fault (\<lambda>c. resolveAndAssignTenant i inst
                     (wi_repositoryExternalId ?c))) (\<lambda>tenant.
          case tenant of
            None \<Rightarrow> reject_delivery s i ''UNKNOWN_INSTALLATION''
                      (NotFound ''GitHub installation is not registered.'')
          | Some t \<Rightarrow> route_event s h i ev payload t)) (Suc n, d1)
        = (Inr (Accepted j), (n', d'))"
    unfolding accept_event_def Let_def sq_bind_Inr sq_run_Inr by (auto simp: quiet)
  have rej: "reject_delivery s i er e w \<noteq> (Inr z, w')" for er e w z w'
    by (auto simp: reject_delivery_def sq_bind_Inr)
  from k rej obtain inst where inst: "wi_installationExternalId ?c = Some inst"
    by (auto split: if_splits option.splits)
  with k rej quiet obtain t d2 where
    t: "resolveAndAssignTenant i inst (wi_repositoryExternalId ?c) d1 = Inr (Some t, d2)"
    and r: "route_event s h i ev payload t (Suc (Suc n), d2) = (Inr (Accepted j), (n', d'))"
    by (auto simp: sq_bind_Inr sq_run_Inr split: if_splits option.splits)
  have d1: "d1 = d\<lparr>db_deliveries := db_deliveries d1\<rparr>"
    using res by (auto simp: reserveWebhookDelivery_def tx_inr split: if_splits)
  have same: "db_installations d1 = db_installations d" "db_repositories d1 = db_repositories d"
    "db_outbox d1 = db_outbox d" by (subst d1, simp)+
  have out2: "db_outbox d2 = db_outbox d1" by (subst resolved_tenant(1) [OF t], simp)
  from route_accepted [OF r] obtain c m rid where
    sup: "isSupportedWebhookEvent ev" and rid: "rt_repositoryId t = Some rid"
    and e: "enqueueWebhookProcessMessage h c m d2 = Inr ((), d')"
    and m: "wm_deliveryId m = i" "wm_organizationId m = rt_organizationId t"
    using quiet by fastforce
  show thesis
    by (rule that [OF inst same(1,2) _ rid sup t e m]) (use out2 same(3) in simp)
qed


section \<open>A sample delivery\<close>

definition quiet_scene :: "db scene" where
  "quiet_scene = \<lparr>sc_call = (\<lambda>n. \<lparr>c_now = 1000, c_clock = 1000, c_ids = (\<lambda>k. ''id'')\<rparr>),
     sc_other = (\<lambda>n d. d)\<rparr>"

definition sample_payload :: json where
  "sample_payload = JObj [(''installation'', JObj [(''id'', JNum 7)]),
     (''repository'', JObj [(''id'', JNum 42)]),
     (''check_run'', JObj [(''id'', JNum 9), (''name'', JStr ''ci''), (''head_sha'', JStr ''c1'')])]"

definition tenant_db :: db where
  "tenant_db =
     \<lparr>db_runs = [], db_events = [], db_outbox = [],
      db_installations = [\<lparr>gi_id = ''g1'', gi_organizationId = ''o1'', gi_installationId = ''7'',
        gi_accountLogin = ''acme'', gi_suspendedAt = None\<rparr>],
      db_repositories = [\<lparr>repo_id = ''r1'', repo_organizationId = ''o1'', repo_owner = ''acme'',
        repo_name = ''app'', repo_providerRepoId = ''42''\<rparr>],
      db_recoveries = [], db_policies = [], db_patches = [], db_pr_packages = [],
      db_security_reviews = [], db_verifications = [], db_approvals = [], db_commits = [],
      db_pull_requests = [], db_checks = [], db_reviews = [], db_readiness = [], db_merges = [],
      db_post_merge = [], db_closures = [], db_deliveries = []\<rparr>"

lemma sample_accepted:
  "case accept_event quiet_scene plain_host ''delivery-1'' ''check_run'' ''raw'' sample_payload
      (0, tenant_db) of (Inr (Accepted _), _) \<Rightarrow> True | _ \<Rightarrow> False"
  by code_simp


text \<open>The request of a delivery that was reserved before.\<close>

definition known_delivery :: delivery_row where
  "known_delivery =
     \<lparr>dl_id = ''x'', dl_organizationId = None, dl_installationId = None,
      dl_deliveryId = ''delivery-1'', dl_eventName = ''ping'', dl_action = None,
      dl_signatureValid = True, dl_payloadDigest = [],
      dl_status = WebhookDeliveryStatus.RECEIVED, dl_errorCode = None, dl_processedAt = None\<rparr>"

definition repeated_request :: webhook_request where
  "repeated_request =
     \<lparr>wr_rawBody = Some ''raw'', wr_signature = Some (''sha256='' @ concat (replicate 32 ''4A'')),
      wr_deliveryId = Some ''delivery-1'', wr_eventName = Some ''check_run''\<rparr>"

lemma delivery_taken_once_witness:
  "(\<exists>m. receive quiet_scene plain_host (\<lambda>raw. Some sample_payload) (Some (replicate 32 (CHR ''s'')))
       repeated_request (0, tenant_db\<lparr>db_deliveries := [known_delivery]\<rparr>)
     = (Inl (BadRequest m), (0, tenant_db\<lparr>db_deliveries := [known_delivery]\<rparr>)))
   \<or> receive quiet_scene plain_host (\<lambda>raw. Some sample_payload) (Some (replicate 32 (CHR ''s'')))
       repeated_request (0, tenant_db\<lparr>db_deliveries := [known_delivery]\<rparr>)
     = (Inr (Duplicate ''delivery-1''), (Suc 0, tenant_db\<lparr>db_deliveries := [known_delivery]\<rparr>))"
proof -
  have "scene_keeps quiet_scene ''delivery-1''"
    "reserved ''delivery-1'' (tenant_db\<lparr>db_deliveries := [known_delivery]\<rparr>)"
    "wr_deliveryId repeated_request = Some ''delivery-1''"
    "sc_other quiet_scene n d = d" for n d
    by (simp_all add: scene_keeps_def quiet_scene_def reserved_def known_delivery_def
        repeated_request_def)
  with delivery_taken_once [of quiet_scene "''delivery-1''" repeated_request]
  show ?thesis by metis
qed

end
