(* ===== verification/Webhook_Invariants.thy ===== *)
theory Webhook_Invariants
  imports Webhook_Worker Publication_Invariants Tx_Relation
begin

text \<open>
  What the operations of the webhook store and of the merge closure store keep: the approved
  content, the lifecycle, the links of the event log, the recorded commits and the first
  observation of a merge.
\<close>

section \<open>The webhook appender is an event log\<close>

lemma webhook_append_frame:
  assumes "appendWebhookEvent h c e d = Inr (u, d')"
  shows "d' = d\<lparr>db_events := db_events d'\<rparr>"
  using assms by (auto simp: appendWebhookEvent_def tx_inr)

interpretation webhook_log:
  event_log db_events pe_publicationId pe_sequence pe_previousHash pe_eventHash
    "appendWebhookEvent h c" we_publicationId
  for h c
  by unfold_locales
    (auto simp: appendWebhookEvent_def tx_inr webhook_event_row_def Let_def follows_def
      latest_event_def next_sequence_def split: option.splits)

section \<open>Lawful changes\<close>

definition along :: "run_row \<Rightarrow> run_row \<Rightarrow> bool" where
  "along r r' =
     (run_kept r r'
      \<and> (\<lambda>a b. b \<in> set (publication_transitions a))\<^sup>*\<^sup>* (run_status r) (run_status r'))"

text \<open>
  The runs keep what was approved and move along the lifecycle, the logs stay linked, the commits
  recorded stay, and so do the merges observed and the verifications made.
\<close>

definition lawful :: "db \<Rightarrow> db \<Rightarrow> bool" where
  "lawful d d' =
     (list_all2 along (db_runs d) (db_runs d')
      \<and> (publication_log.all_linked d \<longrightarrow> publication_log.all_linked d')
      \<and> db_commits d' = db_commits d
      \<and> prefix (db_merges d) (db_merges d') \<and> prefix (db_post_merge d) (db_post_merge d'))"

lemma along_refl [simp]: "along r r"
  by (simp add: along_def)

lemma along_trans: "along r s \<Longrightarrow> along s t \<Longrightarrow> along r t"
  by (auto simp: along_def run_kept_def)

interpretation lawful: tx_relation lawful
proof
  show "lawful d d" for d by (simp add: lawful_def list.rel_refl)
  show "lawful d v" if "lawful d t" "lawful t v" for d t v
  proof -
    have "list_all2 along (db_runs d) (db_runs v)"
    proof (rule list_all2_trans)
      show "list_all2 along (db_runs d) (db_runs t)" "list_all2 along (db_runs t) (db_runs v)"
        using that unfolding lawful_def by blast+
    qed (rule along_trans)
    moreover have "prefix (db_merges d) (db_merges v)" "prefix (db_post_merge d) (db_post_merge v)"
      using that unfolding lawful_def by (blast intro: prefix_order.trans)+
    ultimately show ?thesis using that by (simp add: lawful_def)
  qed
qed

lemma lawful_frame:
  assumes "db_runs d' = db_runs d" "db_events d' = db_events d" "db_commits d' = db_commits d"
    and "prefix (db_merges d) (db_merges d')" "prefix (db_post_merge d) (db_post_merge d')"
  shows "lawful d d'"
  using assms publication_log.linked_by_events [OF assms(2)]
  by (simp add: lawful_def list.rel_refl)

lemma append_within [simp]: "lawful.within (appendWebhookEvent h c e)"
proof (rule lawful.withinI)
  fix d u d'
  assume a: "appendWebhookEvent h c e d = Inr (u, d')"
  note f = webhook_append_frame [OF a]
  have "db_runs d' = db_runs d" "db_commits d' = db_commits d" "db_merges d' = db_merges d"
    "db_post_merge d' = db_post_merge d" by (subst f, simp)+
  with webhook_log.append_keeps_linked [OF _ a] show "lawful d d'"
    by (simp add: lawful_def list.rel_refl)
qed

text \<open>The tables whose rows come and go without touching a run.\<close>

lemma table_within [simp]:
  "lawful.within (insert_row db_checks db_checks_update cl ck)"
  "lawful.within (insert_row db_reviews db_reviews_update cl2 rv)"
  "lawful.within (insert_row db_deliveries db_deliveries_update cl3 dl)"
  "lawful.within (insert_row db_post_merge db_post_merge_update cl4 pm)"
  "lawful.within (insert_or_ignore db_outbox db_outbox_update cl5 ob)"
  "lawful.within (insert_or_ignore db_merges db_merges_update cl6 mo)"
  "lawful.within (insert_or_ignore db_readiness db_readiness_update cl7 mr)"
  "lawful.within (insert_on_conflict db_closures db_closures_update cl8 cl9 icr)"
  "lawful.within (tx_write (db_checks_update f1))"
  "lawful.within (tx_write (db_reviews_update f2))"
  "lawful.within (tx_write (db_deliveries_update f3))"
  "lawful.within (tx_write (db_pull_requests_update f4))"
  by ((rule lawful.within_insert lawful.within_write, rule lawful_frame; simp)+)

lemma params_within [simp]:
  "lawful.within (cast_to nm vs s)" "lawful.within (timestamp_param h t)"
  "lawful.within (required_column v)" "lawful.within (references_run p)"
  by (auto simp: cast_to_def timestamp_param_def required_column_def references_run_def
      split: option.splits)

section \<open>Deliveries, checks and reviews\<close>

lemma delivery_within [simp]:
  "lawful.within (reserveWebhookDelivery c i)"
  "lawful.within (resolveAndAssignTenant dlv n x)"
  "lawful.within (markUnresolvedDeliveryStatus c dlv st er)"
  "lawful.within (markWebhookDeliveryStatus c org dlv st er)"
  "lawful.within (enqueueWebhookProcessMessage h c m)"
  "lawful.within (findPublicationIdByHeadSha org sha)"
  "lawful.within (findPublicationIdByPullRequestNumber org k)"
  unfolding reserveWebhookDelivery_def resolveAndAssignTenant_def assign_tenant_def
    markUnresolvedDeliveryStatus_def markWebhookDeliveryStatus_def enqueueWebhookProcessMessage_def
    findPublicationIdByHeadSha_def findPublicationIdByPullRequestNumber_def
  by (auto intro!: lawful.within_bind lawful.within_then split: option.splits)

lemma upsert_check_within [simp]: "lawful.within (upsertPublicationCheck h c org i)"
  unfolding upsertPublicationCheck_def write_check_def
  by (auto intro!: lawful.within_bind lawful.within_then split: option.splits)

lemma upsert_review_within [simp]: "lawful.within (upsertPublicationReview h c org i)"
  unfolding upsertPublicationReview_def write_review_def
  by (auto intro!: lawful.within_bind lawful.within_then split: option.splits)

lemma readiness_within [simp]: "lawful.within (evaluateAndPersistMergeReadiness h c org p ci)"
  unfolding evaluateAndPersistMergeReadiness_def decide_readiness_def Let_def
  by (auto intro!: lawful.within_bind lawful.within_then split: option.splits)

section \<open>Moving a run\<close>

lemma move_lawful:
  assumes k: "keyed same_run (db_runs d)" and r: "r \<in> set (db_runs d)" "is_run p org r"
    and ok: "(\<lambda>a b. b \<in> set (publication_transitions a))\<^sup>*\<^sup>* (run_status r) st"
    and op: "move_run c org p st d = Inr (u, d')"
  shows "lawful d d'"
proof -
  have d': "d' = db_runs_update (update_where (is_run p org) (\<lambda>r. bumped c (r\<lparr>run_status := st\<rparr>))) d"
    using op by (simp add: move_run_def set_run_def tx_inr)
  have "along x (bumped c (x\<lparr>run_status := st\<rparr>))" if "x \<in> set (db_runs d)" "is_run p org x" for x
  proof -
    have "x = r" using keyed_unique [OF k that(1) r(1)] that(2) r(2) by (simp add: same_run_def is_run_def)
    with ok show ?thesis by (simp add: along_def run_kept_def approved_content_def bumped_def)
  qed
  then show ?thesis
    using publication_log.linked_by_events [of d' d]
    by (simp add: d' lawful_def list_all2_update_where)
qed

lemma keyed_along: "keyed same_run t \<Longrightarrow> list_all2 along t t' \<Longrightarrow> keyed same_run t'"
  by (erule keyed_list_all2, assumption)
    (auto simp: along_def run_kept_def intro!: same_run_approved)

lemma lawful_well_formed_runs:
  "keyed same_run (db_runs d) \<Longrightarrow> lawful d d' \<Longrightarrow> keyed same_run (db_runs d')"
  by (auto simp: lawful_def intro: keyed_along)


section \<open>The observed merge\<close>

lemma record_within [simp]:
  "lawful.within (update_record p i)" "lawful.within (observe_merge h c p i sha)"
  unfolding update_record_def observe_merge_def
  by (auto intro!: lawful.within_bind lawful.within_then)

lemma permits_once: "b \<in> set (publication_transitions a) \<or> a = b
   \<Longrightarrow> (\<lambda>a b. b \<in> set (publication_transitions a))\<^sup>*\<^sup>* a b"
  by auto

lemma mark_merged_lawful:
  assumes k: "keyed same_run (db_runs d)" and d0: "lawful d0 d"
    and op: "mark_merged h c org p i d0 d = Inr (b, d')"
  shows "lawful d d' \<or> d' = d0"
proof (cases "row_where (is_run p org) (db_runs d)")
  case None
  with op show ?thesis by (simp add: mark_merged_def lawful.refl)
next
  case (Some run)
  show ?thesis
  proof (cases "run_status run = PublicationStatus.MERGED
      \<or> assertPublicationTransition (run_status run) PublicationStatus.MERGED \<noteq> Inr ()")
    case True
    with Some op show ?thesis by (auto simp: mark_merged_def lawful.refl)
  next
    case False
    then have ok: "(\<lambda>a b. b \<in> set (publication_transitions a))\<^sup>*\<^sup>* (run_status run) PublicationStatus.MERGED"
      by (intro permits_once) (auto simp: permitted_Inr)
    from row_where_SomeD [OF Some] have run: "run \<in> set (db_runs d)" "is_run p org run" by auto
    show ?thesis
    proof (cases "tx_then (move_run c org p PublicationStatus.MERGED)
                    (appendWebhookEvent h c (merge_event p i)) d")
      case (Inl e)
      with Some False op show ?thesis by (simp add: mark_merged_def)
    next
      case (Inr r)
      then obtain d1 u where m: "move_run c org p PublicationStatus.MERGED d = Inr ((), d1)"
        "appendWebhookEvent h c (merge_event p i) d1 = Inr ((), u)" "r = ((), u)"
        by (cases r) (auto simp: tx_inr)
      from move_lawful [OF k run ok m(1)] lawful.withinD [OF append_within m(2)]
      have "lawful d u" by (rule lawful.trans)
      with Some False op Inr m(3) show ?thesis by (simp add: mark_merged_def)
    qed
  qed
qed

lemma pull_request_update_lawful:
  assumes k: "keyed same_run (db_runs d)"
    and op: "applyPullRequestUpdate h c org i d = Inr (x, d')"
  shows "lawful d d'"
proof (cases "newest_record org (\<lambda>r. prr_number r = pu_number i) d")
  case None
  with op show ?thesis by (auto simp: applyPullRequestUpdate_def tx_inr lawful.refl)
next
  case (Some r)
  let ?p = "prr_publicationId r"
  from Some op obtain d1 b where d1: "update_record ?p i d = Inr ((), d1)"
    and rest: "(if pu_merged i \<and> truthy (pu_mergeCommitSha i)
                then tx_then (observe_merge h c ?p i (the (pu_mergeCommitSha i)))
                       (mark_merged h c org ?p i d)
                else tx_return False) d1 = Inr (b, d')"
    by (auto simp: applyPullRequestUpdate_def tx_inr)
  have l1: "lawful d d1" by (rule lawful.withinD [OF record_within(1) d1])
  show ?thesis
  proof (cases "pu_merged i \<and> truthy (pu_mergeCommitSha i)")
    case False
    with rest l1 show ?thesis by (auto simp: tx_inr)
  next
    case True
    with rest obtain d2 where d2: "observe_merge h c ?p i (the (pu_mergeCommitSha i)) d1 = Inr ((), d2)"
      and m: "mark_merged h c org ?p i d d2 = Inr (b, d')" by (auto simp: tx_inr)
    have l2: "lawful d d2" by (rule lawful.trans [OF l1 lawful.withinD [OF record_within(2) d2]])
    from mark_merged_lawful [OF lawful_well_formed_runs [OF k l2] l2 m] l2 show ?thesis
      by (auto intro: lawful.trans lawful.refl)
  qed
qed

section \<open>The closure\<close>

lemma closing_step_Inr:
  "closing_step c org p a b d = Inr (u, d') \<longleftrightarrow>
     (a = b \<or> b \<in> set (publication_transitions a)) \<and> move_run c org p b d = Inr (u, d')"
  by (auto simp: closing_step_def tx_inr permitted_Inr)

text \<open>A run of a known status, moved.\<close>

definition run_at :: "string \<Rightarrow> string \<Rightarrow> PublicationStatus \<Rightarrow> db \<Rightarrow> bool" where
  "run_at p org st d =
     (keyed same_run (db_runs d) \<and> (\<exists>r \<in> set (db_runs d). is_run p org r \<and> run_status r = st))"

lemma move_at:
  assumes "run_at p org a d" "a = b \<or> b \<in> set (publication_transitions a)"
    and "move_run c org p b d = Inr (u, d')"
  shows "lawful d d' \<and> run_at p org b d'"
proof -
  from assms(1) obtain r where k: "keyed same_run (db_runs d)"
    and r: "r \<in> set (db_runs d)" "is_run p org r" "run_status r = a" by (auto simp: run_at_def)
  have l: "lawful d d'"
    using move_lawful [OF k r(1,2) _ assms(3)] permits_once [of b a] assms(2) r(3) by blast
  have d': "db_runs d' = update_where (is_run p org) (\<lambda>r. bumped c (r\<lparr>run_status := b\<rparr>)) (db_runs d)"
    using assms(3) by (simp add: move_run_def set_run_def tx_inr)
  have "bumped c (r\<lparr>run_status := b\<rparr>) \<in> set (db_runs d')"
    using r by (auto simp: d' set_update_where image_iff)
  moreover have "is_run p org (bumped c (r\<lparr>run_status := b\<rparr>))"
    using r(2) by (simp add: is_run_def bumped_def)
  ultimately show ?thesis
    using l lawful_well_formed_runs [OF k l] by (auto simp: run_at_def bumped_def)
qed

lemma step_at:
  assumes "run_at p org a d" "closing_step c org p a b d = Inr (u, d')"
  shows "lawful d d' \<and> run_at p org b d'"
proof -
  from assms(2) have "a = b \<or> b \<in> set (publication_transitions a)"
    and "move_run c org p b d = Inr (u, d')" by (simp_all add: closing_step_Inr)
  then show ?thesis by (rule move_at [OF assms(1)])
qed

lemma frame_at:
  assumes "run_at p org a d" "lawful d d'" "db_runs d' = db_runs d"
  shows "run_at p org a d'"
  using assms by (simp add: run_at_def)

lemma append_runs_webhook: "appendWebhookEvent h c e d = Inr (u, d') \<Longrightarrow> db_runs d' = db_runs d"
  by (subst webhook_append_frame, assumption, simp)

lemma close_run_lawful:
  assumes "run_at (run_id r) org PublicationStatus.POST_MERGE_VERIFYING d"
    and "close_run h c org ci r v d = Inr (u, d')"
  shows "lawful d d'"
proof -
  from assms(2) obtain d1 d2 d3 where
    s1: "closing_step c org (run_id r) PublicationStatus.POST_MERGE_VERIFYING
           PublicationStatus.RECOVERY_CONFIRMED d = Inr ((), d1)" and
    s2: "closing_step c org (run_id r) PublicationStatus.RECOVERY_CONFIRMED
           PublicationStatus.CLOSED d1 = Inr ((), d2)" and
    s3: "insert_on_conflict db_closures db_closures_update same_incident same_closure
           (closure_row_of h org r v) d2 = Inr ((), d3)" and
    s4: "appendWebhookEvent h c (closure_event (run_id r) ci ''INCIDENT_CLOSED''
        [(''verificationId'', JStr v), (''incidentId'', JStr (run_incidentId r))]) d3 = Inr (u, d')"
    unfolding close_run_def tx_run_inr(2) by auto
  from step_at [OF assms(1) s1] have a: "lawful d d1"
    "run_at (run_id r) org PublicationStatus.RECOVERY_CONFIRMED d1" by auto
  from step_at [OF a(2) s2] have b: "lawful d1 d2" by auto
  from lawful.trans [OF a(1) b] lawful.withinD [OF table_within(8) s3]
  have "lawful d d3" by (rule lawful.trans)
  from this lawful.withinD [OF append_within s4] show ?thesis by (rule lawful.trans)
qed

lemma verify_merge_steps:
  assumes "verify_merge h c org ci r pol d = Inr (y, d')"
  defines "i \<equiv> post_merge_input h r pol d"
  defines "dec \<equiv> decidePostMergeVerification i"
  obtains d1 e d2 d3 where "y = pmd_outcome dec"
    "insert_row db_post_merge db_post_merge_update same_post_merge
       (post_merge_row_of h r ci (c_ids c 0) i dec) d = Inr ((), d1)"
    "appendWebhookEvent h c e d1 = Inr ((), d2)"
    "closing_step c org (run_id r) (run_status r) PublicationStatus.POST_MERGE_VERIFYING d2
       = Inr ((), d3)"
    "(if y = PostMergeOutcome.PASSED then close_run h c org ci r (c_ids c 0)
      else closing_step c org (run_id r) PublicationStatus.POST_MERGE_VERIFYING
             PublicationStatus.POST_MERGE_FAILED) d3 = Inr ((), d')"
  using assms(1) unfolding verify_merge_def Let_def tx_run_inr i_def [symmetric]
  by (auto simp: dec_def)

lemma post_merge_cases:
  assumes "applyPostMergeVerification h c org p ci d = Inr (x, d')"
  obtains "x = None" "d' = d"
  | r pol y where "x = Some y" "row_where (is_run p org) (db_runs d) = Some r"
      "run_status r = PublicationStatus.MERGED" "policy_of r d = Some pol"
      "verify_merge h c org ci r pol d = Inr (y, d')"
  using assms
  by (cases "row_where (is_run p org) (db_runs d)")
    (auto simp: applyPostMergeVerification_def tx_inr split: if_splits)

text \<open>The run is at \<open>POST_MERGE_VERIFYING\<close> when the outcome is acted on.\<close>

lemma verified_at:
  assumes k: "keyed same_run (db_runs d)"
    and r: "row_where (is_run p org) (db_runs d) = Some r" "run_status r = PublicationStatus.MERGED"
    and s1: "insert_row db_post_merge db_post_merge_update same_post_merge row d = Inr ((), d1)"
    and s2: "appendWebhookEvent h c e d1 = Inr ((), d2)"
    and s3: "closing_step c org (run_id r) (run_status r) PublicationStatus.POST_MERGE_VERIFYING d2
       = Inr ((), d3)"
  shows "lawful d d3" "run_at p org PublicationStatus.POST_MERGE_VERIFYING d3" "run_id r = p"
proof -
  from row_where_SomeD [OF r(1)] have r': "r \<in> set (db_runs d)" "is_run p org r" by auto
  then show p: "run_id r = p" by (simp add: is_run_def)
  have l: "lawful d d2"
    by (rule lawful.trans [OF lawful.withinD [OF table_within(4) s1] lawful.withinD [OF append_within s2]])
  have "db_runs d2 = db_runs d" using append_runs_webhook [OF s2] s1 by (auto simp: tx_inr)
  with k r' have "run_at p org (run_status r) d2" by (auto simp: run_at_def)
  from step_at [OF this s3 [unfolded p]] l show "lawful d d3"
    "run_at p org PublicationStatus.POST_MERGE_VERIFYING d3" by (auto intro: lawful.trans)
qed

lemma post_merge_lawful:
  assumes k: "keyed same_run (db_runs d)"
    and op: "applyPostMergeVerification h c org p ci d = Inr (x, d')"
  shows "lawful d d'"
  using op
proof (cases rule: post_merge_cases)
  case 1
  then show ?thesis by (simp add: lawful.refl)
next
  case (2 r pol y)
  from 2(5) show ?thesis
  proof (rule verify_merge_steps)
    fix d1 e d2 d3
    assume y: "y = pmd_outcome (decidePostMergeVerification (post_merge_input h r pol d))"
      and s: "insert_row db_post_merge db_post_merge_update same_post_merge
       (post_merge_row_of h r ci (c_ids c 0) (post_merge_input h r pol d)
         (decidePostMergeVerification (post_merge_input h r pol d))) d = Inr ((), d1)"
      "appendWebhookEvent h c e d1 = Inr ((), d2)"
      "closing_step c org (run_id r) (run_status r) PublicationStatus.POST_MERGE_VERIFYING d2
       = Inr ((), d3)"
      and s4: "(if y = PostMergeOutcome.PASSED then close_run h c org ci r (c_ids c 0)
        else closing_step c org (run_id r) PublicationStatus.POST_MERGE_VERIFYING
             PublicationStatus.POST_MERGE_FAILED) d3 = Inr ((), d')"
    note at = verified_at [OF k 2(2,3) s]
    have "lawful d3 d'"
      using s4 close_run_lawful [of r org d3] step_at [OF at(2)] at(2,3) by (auto split: if_splits)
    with at(1) show "lawful d d'" by (rule lawful.trans)
  qed
qed

text \<open>What the closure leaves: the run closed, and the incident with a closure record.\<close>

lemma close_run_effect:
  assumes at: "run_at (run_id r) org PublicationStatus.POST_MERGE_VERIFYING d"
    and op: "close_run h c org ci r v d = Inr (u, d')"
  shows "run_at (run_id r) org PublicationStatus.CLOSED d'"
    "\<exists>icr \<in> set (db_closures d'). icr_incidentId icr = run_incidentId r"
proof -
  from op obtain d1 d2 d3 e where
    s1: "closing_step c org (run_id r) PublicationStatus.POST_MERGE_VERIFYING
           PublicationStatus.RECOVERY_CONFIRMED d = Inr ((), d1)" and
    s2: "closing_step c org (run_id r) PublicationStatus.RECOVERY_CONFIRMED
           PublicationStatus.CLOSED d1 = Inr ((), d2)" and
    s3: "insert_on_conflict db_closures db_closures_update same_incident same_closure
           (closure_row_of h org r v) d2 = Inr ((), d3)" and
    s4: "appendWebhookEvent h c e d3 = Inr (u, d')"
    unfolding close_run_def tx_run_inr(2) by auto
  have "run_at (run_id r) org PublicationStatus.CLOSED d2"
    using step_at [OF conjunct2 [OF step_at [OF at s1]] s2] by blast
  then show "run_at (run_id r) org PublicationStatus.CLOSED d'"
    using s3 append_runs_webhook [OF s4] by (auto simp: tx_inr run_at_def split: if_splits)
  have "db_closures d' = db_closures d3" by (subst webhook_append_frame [OF s4], simp)
  then show "\<exists>icr \<in> set (db_closures d'). icr_incidentId icr = run_incidentId r"
    using s3 by (auto simp: tx_inr same_incident_def closure_row_of_def list_ex_iff split: if_splits)
qed

lemma outcome_passed:
  "pmd_outcome (decidePostMergeVerification i) = PostMergeOutcome.PASSED \<longleftrightarrow>
     pm_mergeObserved i \<and> truthy (pm_mergeCommitSha i) \<and> \<not> pm_rollbackObserved i
     \<and> (truthy (pm_approvedHeadSha i) \<and> truthy (pm_publishedCommitSha i)
        \<longrightarrow> pm_approvedHeadSha i = pm_publishedCommitSha i)
     \<and> (pm_postMergeVerificationRequired i \<longrightarrow> pm_requiredChecksPassed i)
     \<and> pm_originalFailureResolved i"
  by (auto simp: decidePostMergeVerification_def Let_def reason_if_def)

text \<open>
  C2: the verification after a merge acts only on a merged publication. It closes it exactly when a
  merge commit was observed, the head that was merged is the published commit (when one was
  recorded), the required checks passed if the policy asks for them, and a verification of the
  recovery passed; then the incident has a closure record. Otherwise the publication is marked
  failed.
\<close>

lemma closure_effect:
  assumes k: "keyed same_run (db_runs d)"
    and op: "applyPostMergeVerification h c org p ci d = Inr (Some y, d')"
  shows "\<exists>r pol. r \<in> set (db_runs d) \<and> is_run p org r \<and> run_status r = PublicationStatus.MERGED
    \<and> policy_of r d = Some pol
    \<and> (y = PostMergeOutcome.PASSED \<longleftrightarrow>
         (\<exists>m. merge_of p d = Some m \<and> mo_mergeCommitSha m \<noteq> []
            \<and> (\<forall>x. published_commit p d = Some x \<longrightarrow> mo_approvedHeadSha m \<noteq> [] \<longrightarrow> pc_commitSha x \<noteq> []
                 \<longrightarrow> mo_approvedHeadSha m = pc_commitSha x))
         \<and> (prow_postMergeVerificationRequired pol
              \<longrightarrow> requiredChecksPassed (closure_policy r pol) (latest_checks h p d))
         \<and> recovery_verified r d)
    \<and> (y = PostMergeOutcome.PASSED \<longrightarrow> run_at p org PublicationStatus.CLOSED d'
         \<and> (\<exists>icr \<in> set (db_closures d'). icr_incidentId icr = run_incidentId r))
    \<and> (y = PostMergeOutcome.FAILED \<longrightarrow> run_at p org PublicationStatus.POST_MERGE_FAILED d')"
  using op
proof (cases rule: post_merge_cases)
  case 1
  then show ?thesis by simp
next
  case (2 r pol y')
  from row_where_SomeD [OF 2(2)] have r: "r \<in> set (db_runs d)" "is_run p org r" by auto
  from 2(1,5) have v: "verify_merge h c org ci r pol d = Inr (y, d')" by simp
  then show ?thesis
  proof (rule verify_merge_steps)
    fix d1 e d2 d3
    assume y: "y = pmd_outcome (decidePostMergeVerification (post_merge_input h r pol d))"
      and s: "insert_row db_post_merge db_post_merge_update same_post_merge
       (post_merge_row_of h r ci (c_ids c 0) (post_merge_input h r pol d)
         (decidePostMergeVerification (post_merge_input h r pol d))) d = Inr ((), d1)"
      "appendWebhookEvent h c e d1 = Inr ((), d2)"
      "closing_step c org (run_id r) (run_status r) PublicationStatus.POST_MERGE_VERIFYING d2
       = Inr ((), d3)"
      and s4: "(if y = PostMergeOutcome.PASSED then close_run h c org ci r (c_ids c 0)
        else closing_step c org (run_id r) PublicationStatus.POST_MERGE_VERIFYING
             PublicationStatus.POST_MERGE_FAILED) d3 = Inr ((), d')"
    note at = verified_at [OF k 2(2,3) s]
    have "y = PostMergeOutcome.PASSED \<longleftrightarrow>
         (\<exists>m. merge_of p d = Some m \<and> mo_mergeCommitSha m \<noteq> []
            \<and> (\<forall>x. published_commit p d = Some x \<longrightarrow> mo_approvedHeadSha m \<noteq> [] \<longrightarrow> pc_commitSha x \<noteq> []
                 \<longrightarrow> mo_approvedHeadSha m = pc_commitSha x))
         \<and> (prow_postMergeVerificationRequired pol
              \<longrightarrow> requiredChecksPassed (closure_policy r pol) (latest_checks h p d))
         \<and> recovery_verified r d"
      unfolding y outcome_passed
      by (auto simp: post_merge_input_def Let_def at(3) truthy_def closure_policy_def
          split: option.splits)
    moreover have "run_at p org PublicationStatus.CLOSED d'
         \<and> (\<exists>icr \<in> set (db_closures d'). icr_incidentId icr = run_incidentId r)"
      if "y = PostMergeOutcome.PASSED"
      using s4 that close_run_effect [of r org d3] at(2,3) by auto
    moreover have "run_at p org PublicationStatus.POST_MERGE_FAILED d'"
      if "y = PostMergeOutcome.FAILED"
      using s4 that step_at [OF at(2)] at(3) by auto
    ultimately show ?thesis using r 2(3,4) by blast
  qed
qed

section \<open>A sample merge\<close>

definition sample_policy_row :: policy_row where
  "sample_policy_row =
     \<lparr>prow_id = ''pol1'', prow_organizationId = ''o1'', prow_repositoryId = ''r1'',
       prow_policyVersion = ''v1'', prow_active = True, prow_allowedBaseBranches = [''main''],
       prow_recoveryBranchPrefix = ''codeer/recovery/'', prow_requiredChecks = [''ci''],
       prow_requiredApprovals = 1, prow_requireCodeOwnerApproval = False,
       prow_maximumPublicationAttempts = 3, prow_webhookReplayWindowSeconds = 600,
       prow_postMergeVerificationRequired = True, prow_retentionDays = 365,
       prow_contentHash = ''h'', prow_createdBy = ''a1''\<rparr>"

text \<open>A merged publication whose recovery was never verified.\<close>

definition merged_db :: db where
  "merged_db = sample_db\<lparr>
     db_runs := [sample_run\<lparr>run_status := PublicationStatus.MERGED, run_commitSha := Some ''c1''\<rparr>],
     db_policies := [sample_policy_row],
     db_merges := [\<lparr>mo_publicationId = ''p1'', mo_mergeCommitSha = ''m1'', mo_mergedBy = ''alice'',
       mo_mergedAt = 5, mo_approvedHeadSha = ''c1''\<rparr>]\<rparr>"

lemma sample_verification_fails:
  "\<exists>d. applyPostMergeVerification h sample_call ''o1'' ''p1'' ''c'' merged_db
         = Inr (Some PostMergeOutcome.FAILED, d)"
proof -
  let ?r = "sample_run\<lparr>run_status := PublicationStatus.MERGED, run_commitSha := Some ''c1''\<rparr>"
  let ?dec = "decidePostMergeVerification (post_merge_input h ?r sample_policy_row merged_db)"
  have failed: "pmd_outcome ?dec = PostMergeOutcome.FAILED"
    using outcome_passed [of "post_merge_input h ?r sample_policy_row merged_db"]
    by (cases "pmd_outcome ?dec")
      (auto simp: post_merge_input_def Let_def recovery_verified_def merged_db_def sample_defs)
  have ap: "\<exists>d'. appendWebhookEvent h sample_call e d = Inr ((), d') \<and> db_runs d' = db_runs d"
    if "db_events d = []" for e d
    using that by (auto simp: appendWebhookEvent_def tx_simps insert_row_def)
  obtain d1 where d1: "insert_row db_post_merge db_post_merge_update same_post_merge
       (post_merge_row_of h ?r ''c'' (c_ids sample_call 0)
         (post_merge_input h ?r sample_policy_row merged_db) ?dec) merged_db = Inr ((), d1)"
    "db_events d1 = []" "db_runs d1 = [?r]"
    by (simp add: insert_row_def merged_db_def sample_defs)
  obtain d2 where d2: "appendWebhookEvent h sample_call (closure_event (run_id ?r) ''c''
      ''POST_MERGE_VERIFICATION_FAILED''
      [(''verificationId'', JStr (c_ids sample_call 0)),
       (''outcome'', JStr (PostMergeOutcome_name PostMergeOutcome.FAILED)),
       (''blockers'', strings_json (pmd_blockers ?dec))]) d1 = Inr ((), d2)"
    using ap [OF d1(2)] by blast
  have "\<exists>d'. verify_merge h sample_call ''o1'' ''c'' ?r sample_policy_row merged_db
          = Inr (PostMergeOutcome.FAILED, d')"
    using d1(1) d2
    by (simp add: verify_merge_def tx_simps failed Let_def closing_step_def
        assertPublicationTransition_def move_run_def set_run_def)
  moreover have "policy_of ?r merged_db = Some sample_policy_row"
    by (simp add: policy_of_def merged_db_def sample_policy_row_def sample_defs)
  moreover have "row_where (is_run ''p1'' ''o1'') (db_runs merged_db) = Some ?r"
    by (simp add: merged_db_def sample_defs is_run_def)
  ultimately show ?thesis
    by (auto simp: applyPostMergeVerification_def tx_simps)
qed

lemma merged_keyed: "keyed same_run (db_runs merged_db)"
  by (simp add: merged_db_def keyed_def)

lemma closure_effect_witness:
  "\<exists>d. applyPostMergeVerification plain_host sample_call ''o1'' ''p1'' ''c'' merged_db
         = Inr (Some PostMergeOutcome.FAILED, d)
     \<and> run_at ''p1'' ''o1'' PublicationStatus.POST_MERGE_FAILED d"
  using sample_verification_fails [of plain_host] closure_effect [OF merged_keyed] by blast
end
