(* ===== verification/Access_Control.thy ===== *)
theory Access_Control
  imports Contracts Base64
begin

text \<open>
  \<open>packages/security/src/index.ts\<close> without its redaction: roles and permissions, and the signed
  identity context; and the middlewares of the API that rest on it,
  \<open>apps/api/src/security/request-context.middleware.ts\<close> and \<open>api-auth.middleware.ts\<close>.

  \<open>Date.parse\<close> is an argument.
\<close>

section \<open>Roles and permissions\<close>

datatype CodeerPermission =
    Incident IncidentPermission
  | Repository RepositoryPermission

definition all_incident_permissions :: "IncidentPermission list" where
  "all_incident_permissions =
     [IncidentPermission.READ, IncidentPermission.CREATE, IncidentPermission.ADD_EVIDENCE,
      IncidentPermission.REQUEST_TRIAGE, IncidentPermission.TRANSITION,
      IncidentPermission.READ_AUDIT, IncidentPermission.OVERRIDE_SEVERITY,
      IncidentPermission.MANAGE_RESTRICTED_EVIDENCE, IncidentPermission.REQUEST_REPRODUCTION,
      IncidentPermission.READ_REPRODUCTION, IncidentPermission.CANCEL_REPRODUCTION,
      IncidentPermission.OVERRIDE_SANDBOX_POLICY, IncidentPermission.START_INVESTIGATION,
      IncidentPermission.READ_INVESTIGATION, IncidentPermission.CANCEL_INVESTIGATION,
      IncidentPermission.RESUME_INVESTIGATION, IncidentPermission.REQUEST_PLAN_REVISION,
      IncidentPermission.APPROVE_TREATMENT_PLAN, IncidentPermission.REJECT_TREATMENT_PLAN,
      IncidentPermission.ADMINISTER_AI_POLICY, IncidentPermission.START_RECOVERY,
      IncidentPermission.READ_RECOVERY, IncidentPermission.CANCEL_RECOVERY,
      IncidentPermission.RESUME_RECOVERY, IncidentPermission.REQUEST_RECOVERY_REVISION,
      IncidentPermission.APPROVE_RECOVERY_PUBLICATION,
      IncidentPermission.REJECT_RECOVERY_PUBLICATION,
      IncidentPermission.ADMINISTER_RECOVERY_POLICY, IncidentPermission.START_PUBLICATION,
      IncidentPermission.READ_PUBLICATION, IncidentPermission.CANCEL_PUBLICATION,
      IncidentPermission.RETRY_PUBLICATION, IncidentPermission.REQUEST_PUBLICATION_REVISION,
      IncidentPermission.MARK_PUBLICATION_READY, IncidentPermission.READ_INCIDENT_CLOSURE,
      IncidentPermission.ADMINISTER_PUBLICATION_POLICY]"

definition allPermissions :: "CodeerPermission list" where
  "allPermissions =
     map Incident all_incident_permissions
     @ map Repository [RepositoryPermission.READ, RepositoryPermission.ADMIT]"

definition viewer_permissions :: "CodeerPermission list" where
  "viewer_permissions =
     map Incident [IncidentPermission.READ, IncidentPermission.READ_REPRODUCTION,
       IncidentPermission.READ_INVESTIGATION, IncidentPermission.READ_RECOVERY,
       IncidentPermission.READ_PUBLICATION, IncidentPermission.READ_INCIDENT_CLOSURE]
     @ [Repository RepositoryPermission.READ]"

definition responder_permissions :: "CodeerPermission list" where
  "responder_permissions =
     map Incident [IncidentPermission.READ, IncidentPermission.CREATE,
       IncidentPermission.ADD_EVIDENCE, IncidentPermission.REQUEST_TRIAGE,
       IncidentPermission.REQUEST_REPRODUCTION, IncidentPermission.READ_REPRODUCTION,
       IncidentPermission.READ_INVESTIGATION, IncidentPermission.READ_RECOVERY,
       IncidentPermission.READ_PUBLICATION, IncidentPermission.READ_INCIDENT_CLOSURE]
     @ [Repository RepositoryPermission.READ]"

definition commander_permissions :: "CodeerPermission list" where
  "commander_permissions =
     map Incident [IncidentPermission.READ, IncidentPermission.CREATE,
       IncidentPermission.ADD_EVIDENCE, IncidentPermission.REQUEST_TRIAGE,
       IncidentPermission.TRANSITION, IncidentPermission.READ_AUDIT,
       IncidentPermission.OVERRIDE_SEVERITY, IncidentPermission.MANAGE_RESTRICTED_EVIDENCE,
       IncidentPermission.REQUEST_REPRODUCTION, IncidentPermission.READ_REPRODUCTION,
       IncidentPermission.CANCEL_REPRODUCTION, IncidentPermission.START_INVESTIGATION,
       IncidentPermission.READ_INVESTIGATION, IncidentPermission.CANCEL_INVESTIGATION,
       IncidentPermission.RESUME_INVESTIGATION, IncidentPermission.REQUEST_PLAN_REVISION,
       IncidentPermission.APPROVE_TREATMENT_PLAN, IncidentPermission.REJECT_TREATMENT_PLAN,
       IncidentPermission.START_RECOVERY, IncidentPermission.READ_RECOVERY,
       IncidentPermission.CANCEL_RECOVERY, IncidentPermission.RESUME_RECOVERY,
       IncidentPermission.REQUEST_RECOVERY_REVISION,
       IncidentPermission.APPROVE_RECOVERY_PUBLICATION,
       IncidentPermission.REJECT_RECOVERY_PUBLICATION, IncidentPermission.START_PUBLICATION,
       IncidentPermission.READ_PUBLICATION, IncidentPermission.CANCEL_PUBLICATION,
       IncidentPermission.RETRY_PUBLICATION, IncidentPermission.REQUEST_PUBLICATION_REVISION,
       IncidentPermission.MARK_PUBLICATION_READY, IncidentPermission.READ_INCIDENT_CLOSURE]
     @ [Repository RepositoryPermission.READ]"

primrec rolePermissions :: "ActorRole \<Rightarrow> CodeerPermission list" where
  "rolePermissions ActorRole.ORGANIZATION_OWNER = allPermissions"
| "rolePermissions ActorRole.ORGANIZATION_ADMIN = allPermissions"
| "rolePermissions ActorRole.INCIDENT_COMMANDER = commander_permissions"
| "rolePermissions ActorRole.RESPONDER = responder_permissions"
| "rolePermissions ActorRole.VIEWER = viewer_permissions"
| "rolePermissions ActorRole.SERVICE = allPermissions"

definition MAX_CONTEXT_ROLES :: nat where
  "MAX_CONTEXT_ROLES = 10"

definition normalizeActorRoles :: "ActorRole list \<Rightarrow> ActorRole list" where
  "normalizeActorRoles roles =
     take MAX_CONTEXT_ROLES
       (sort_by (\<lambda>a b. string_le (ActorRole_name a) (ActorRole_name b)) (uniq roles))"

definition hasCodeerPermission :: "ActorRole list \<Rightarrow> CodeerPermission \<Rightarrow> bool" where
  "hasCodeerPermission roles permission =
     list_ex (\<lambda>role. permission \<in> set (rolePermissions role)) (normalizeActorRoles roles)"

definition assertCodeerPermission :: "ActorRole list \<Rightarrow> CodeerPermission \<Rightarrow> CodeerPermission + unit"
where
  "assertCodeerPermission roles permission =
     (if hasCodeerPermission roles permission then Inr () else Inl permission)"

text \<open>The message of an \<open>AuthorizationError\<close> names the permission.\<close>

primrec IncidentPermission_name :: "IncidentPermission \<Rightarrow> string" where
  "IncidentPermission_name IncidentPermission.READ = ''incident:read''"
| "IncidentPermission_name IncidentPermission.CREATE = ''incident:create''"
| "IncidentPermission_name IncidentPermission.ADD_EVIDENCE = ''incident:evidence:add''"
| "IncidentPermission_name IncidentPermission.REQUEST_TRIAGE = ''incident:triage:request''"
| "IncidentPermission_name IncidentPermission.TRANSITION = ''incident:transition''"
| "IncidentPermission_name IncidentPermission.READ_AUDIT = ''incident:audit:read''"
| "IncidentPermission_name IncidentPermission.OVERRIDE_SEVERITY = ''incident:severity:override''"
| "IncidentPermission_name IncidentPermission.MANAGE_RESTRICTED_EVIDENCE = ''incident:evidence:restricted''"
| "IncidentPermission_name IncidentPermission.REQUEST_REPRODUCTION = ''incident:reproduction:request''"
| "IncidentPermission_name IncidentPermission.READ_REPRODUCTION = ''incident:reproduction:read''"
| "IncidentPermission_name IncidentPermission.CANCEL_REPRODUCTION = ''incident:reproduction:cancel''"
| "IncidentPermission_name IncidentPermission.OVERRIDE_SANDBOX_POLICY = ''incident:sandbox:override''"
| "IncidentPermission_name IncidentPermission.START_INVESTIGATION = ''incident:investigation:start''"
| "IncidentPermission_name IncidentPermission.READ_INVESTIGATION = ''incident:investigation:read''"
| "IncidentPermission_name IncidentPermission.CANCEL_INVESTIGATION = ''incident:investigation:cancel''"
| "IncidentPermission_name IncidentPermission.RESUME_INVESTIGATION = ''incident:investigation:resume''"
| "IncidentPermission_name IncidentPermission.REQUEST_PLAN_REVISION = ''incident:treatment-plan:revision''"
| "IncidentPermission_name IncidentPermission.APPROVE_TREATMENT_PLAN = ''incident:treatment-plan:approve''"
| "IncidentPermission_name IncidentPermission.REJECT_TREATMENT_PLAN = ''incident:treatment-plan:reject''"
| "IncidentPermission_name IncidentPermission.ADMINISTER_AI_POLICY = ''organization:ai-policy:manage''"
| "IncidentPermission_name IncidentPermission.START_RECOVERY = ''incident:recovery:start''"
| "IncidentPermission_name IncidentPermission.READ_RECOVERY = ''incident:recovery:read''"
| "IncidentPermission_name IncidentPermission.CANCEL_RECOVERY = ''incident:recovery:cancel''"
| "IncidentPermission_name IncidentPermission.RESUME_RECOVERY = ''incident:recovery:resume''"
| "IncidentPermission_name IncidentPermission.REQUEST_RECOVERY_REVISION = ''incident:recovery:revision''"
| "IncidentPermission_name IncidentPermission.APPROVE_RECOVERY_PUBLICATION = ''incident:recovery:publication:approve''"
| "IncidentPermission_name IncidentPermission.REJECT_RECOVERY_PUBLICATION = ''incident:recovery:publication:reject''"
| "IncidentPermission_name IncidentPermission.ADMINISTER_RECOVERY_POLICY = ''organization:recovery-policy:manage''"
| "IncidentPermission_name IncidentPermission.START_PUBLICATION = ''incident:publication:start''"
| "IncidentPermission_name IncidentPermission.READ_PUBLICATION = ''incident:publication:read''"
| "IncidentPermission_name IncidentPermission.CANCEL_PUBLICATION = ''incident:publication:cancel''"
| "IncidentPermission_name IncidentPermission.RETRY_PUBLICATION = ''incident:publication:retry''"
| "IncidentPermission_name IncidentPermission.REQUEST_PUBLICATION_REVISION = ''incident:publication:revision''"
| "IncidentPermission_name IncidentPermission.MARK_PUBLICATION_READY = ''incident:publication:mark-ready''"
| "IncidentPermission_name IncidentPermission.READ_INCIDENT_CLOSURE = ''incident:closure:read''"
| "IncidentPermission_name IncidentPermission.ADMINISTER_PUBLICATION_POLICY = ''organization:publication-policy:manage''"

primrec RepositoryPermission_name :: "RepositoryPermission \<Rightarrow> string" where
  "RepositoryPermission_name RepositoryPermission.READ = ''repository:read''"
| "RepositoryPermission_name RepositoryPermission.ADMIT = ''repository:admit''"

primrec CodeerPermission_name :: "CodeerPermission \<Rightarrow> string" where
  "CodeerPermission_name (Incident p) = IncidentPermission_name p"
| "CodeerPermission_name (Repository p) = RepositoryPermission_name p"

definition authorization_message :: "CodeerPermission \<Rightarrow> string" where
  "authorization_message p = ''Actor is not authorized for '' @ CodeerPermission_name p @ ''.''"

definition assertIncidentPermission ::
  "ActorRole list \<Rightarrow> IncidentPermission \<Rightarrow> CodeerPermission + unit" where
  "assertIncidentPermission roles permission = assertCodeerPermission roles (Incident permission)"

definition assertRepositoryPermission ::
  "ActorRole list \<Rightarrow> RepositoryPermission \<Rightarrow> CodeerPermission + unit" where
  "assertRepositoryPermission roles permission = assertCodeerPermission roles (Repository permission)"

section \<open>The signed context\<close>

record TrustedContextSignatureInput =
  tc_method :: string
  tc_path :: string
  tc_requestId :: string
  tc_correlationId :: string
  tc_organizationId :: string
  tc_actorId :: string
  tc_actorType :: ActorType
  tc_actorRoles :: "ActorRole list"
  tc_timestamp :: string

definition contextSignaturePayload :: "TrustedContextSignatureInput \<Rightarrow> string" where
  "contextSignaturePayload i =
     join_with [CHR 0x0A]
       [''v1'', to_upper (tc_method i), tc_path i, tc_requestId i, tc_correlationId i,
        tc_organizationId i, tc_actorId i, ActorType_name (tc_actorType i),
        join_with '','' (map ActorRole_name (normalizeActorRoles (tc_actorRoles i))),
        tc_timestamp i]"

definition signTrustedContext ::
  "host \<Rightarrow> TrustedContextSignatureInput \<Rightarrow> string \<Rightarrow> string + string" where
  "signTrustedContext h i secret =
     (if length secret < 32 then Inl ''Context signing secret must be at least 32 characters.''
      else Inr (base64Url (hmac_sha256 h secret (contextSignaturePayload i))))"

definition verifyTrustedContextSignature ::
  "host \<Rightarrow> TrustedContextSignatureInput \<Rightarrow> string list \<Rightarrow> string option \<Rightarrow> bool" where
  "verifyTrustedContextSignature h i secrets signature =
     (signature \<noteq> None \<and> signature \<noteq> Some []
      \<and> list_ex (\<lambda>secret. \<not> length secret < 32
           \<and> signTrustedContext h i secret = Inr (the signature)) secrets)"

definition isTrustedContextFresh ::
  "(string \<Rightarrow> int option) \<Rightarrow> string \<Rightarrow> int \<Rightarrow> int \<Rightarrow> bool" where
  "isTrustedContextFresh parse_date timestamp maxAgeSeconds now =
     (case parse_date timestamp of
        None \<Rightarrow> False | Some t \<Rightarrow> \<bar>now - t\<bar> \<le> maxAgeSeconds * 1000)"

section \<open>The middlewares\<close>

record http_request =
  rq_method :: string
  rq_path :: string
  rq_originalUrl :: string
  rq_header :: "string \<Rightarrow> string option"

record CodeerRequestContext =
  cx_requestId :: string
  cx_correlationId :: string
  cx_organizationId :: string
  cx_actorId :: string
  cx_actorType :: ActorType
  cx_actorRoles :: "ActorRole list"
  cx_trustedContext :: bool

record RequestContextOptions =
  ro_requireTenantContext :: bool
  ro_defaultOrganizationId :: string
  ro_requireSignedContext :: bool
  ro_signingSecrets :: "string list"
  ro_signatureMaxAgeSeconds :: int

definition safe_context_char :: "char \<Rightarrow> bool" where
  "safe_context_char c = (is_alnum c \<or> c \<in> set ''._:@/-'')"

definition SAFE_CONTEXT_ID :: "string \<Rightarrow> bool" where
  "SAFE_CONTEXT_ID s = (1 \<le> length s \<and> length s \<le> 128 \<and> list_all safe_context_char s)"

definition safeHeader :: "string option \<Rightarrow> string option" where
  "safeHeader v = (case v of None \<Rightarrow> None | Some s \<Rightarrow> if SAFE_CONTEXT_ID s then Some s else None)"

definition all_actor_types :: "ActorType list" where
  "all_actor_types = [ActorType.USER, ActorType.SERVICE, ActorType.AGENT, ActorType.SYSTEM]"

definition all_actor_roles :: "ActorRole list" where
  "all_actor_roles =
     [ActorRole.ORGANIZATION_OWNER, ActorRole.ORGANIZATION_ADMIN, ActorRole.INCIDENT_COMMANDER,
      ActorRole.RESPONDER, ActorRole.VIEWER, ActorRole.SERVICE]"

definition parseActorType :: "string option \<Rightarrow> ActorType" where
  "parseActorType v =
     (case row_where (\<lambda>t. Some (ActorType_name t) = v) all_actor_types of
        None \<Rightarrow> ActorType.USER | Some t \<Rightarrow> t)"

definition role_named :: "string \<Rightarrow> ActorRole option" where
  "role_named s = row_where (\<lambda>r. ActorRole_name r = s) all_actor_roles"

text \<open>\<open>Inr None\<close> for no header, \<open>Inl ()\<close> for \<open>null\<close>: a header that is not a list of roles.\<close>

definition parseActorRoles :: "string option \<Rightarrow> unit + ActorRole list option" where
  "parseActorRoles v =
     (case v of
        None \<Rightarrow> Inr None
      | Some s \<Rightarrow>
          if s = [] then Inr None
          else (let names = filter (\<lambda>w. w \<noteq> []) (map trim (split_on (CHR '','') s))
                in if names = [] \<or> 10 < length names \<or> list_ex (\<lambda>w. role_named w = None) names
                   then Inl ()
                   else Inr (Some (normalizeActorRoles (map (\<lambda>w. the (role_named w)) names)))))"

definition localDefaultRoles :: "ActorType \<Rightarrow> ActorRole list" where
  "localDefaultRoles t =
     (if t = ActorType.SERVICE \<or> t = ActorType.SYSTEM then [ActorRole.SERVICE]
      else [ActorRole.ORGANIZATION_OWNER])"

text \<open>The pattern of the organization id: a UUID of a version from 1 to 5.\<close>

definition uuid_text :: "string \<Rightarrow> bool" where
  "uuid_text s =
     (case split_on (CHR ''-'') s of
        [a, b, c, d, e] \<Rightarrow>
          length a = 8 \<and> length b = 4 \<and> length c = 4 \<and> length d = 4 \<and> length e = 12
          \<and> list_all is_hex (a @ b @ c @ d @ e)
          \<and> hd c \<in> set ''12345'' \<and> hd d \<in> set ''89abAB''
      | _ \<Rightarrow> False)"

definition HEALTH_PREFIX :: string where
  "HEALTH_PREFIX = ''/api/v1/health''"

definition WEBHOOK_PREFIX :: string where
  "WEBHOOK_PREFIX = ''/api/v1/webhooks/github''"

definition request_id :: "string \<Rightarrow> http_request \<Rightarrow> string" where
  "request_id fresh rq =
     (case safeHeader (rq_header rq ''x-request-id'') of None \<Rightarrow> fresh | Some s \<Rightarrow> s)"

definition correlation_id :: "string \<Rightarrow> http_request \<Rightarrow> string" where
  "correlation_id fresh rq =
     (case safeHeader (rq_header rq ''x-correlation-id'') of
        None \<Rightarrow> request_id fresh rq | Some s \<Rightarrow> s)"

text \<open>The identity the request claims, in the form its signature covers.\<close>

definition claimed_identity ::
  "RequestContextOptions \<Rightarrow> string \<Rightarrow> http_request \<Rightarrow> ActorRole list option \<Rightarrow> string
   \<Rightarrow> TrustedContextSignatureInput" where
  "claimed_identity opts fresh rq roles timestamp =
     (let actorType = parseActorType (rq_header rq ''x-codeer-actor-type'')
      in \<lparr>tc_method = rq_method rq, tc_path = rq_originalUrl rq, tc_requestId = request_id fresh rq,
          tc_correlationId = correlation_id fresh rq,
          tc_organizationId = (case rq_header rq ''x-codeer-organization-id'' of
             None \<Rightarrow> ro_defaultOrganizationId opts | Some s \<Rightarrow> s),
          tc_actorId = (case safeHeader (rq_header rq ''x-codeer-actor-id'') of
             None \<Rightarrow> ''local-development-user'' | Some s \<Rightarrow> s),
          tc_actorType = actorType,
          tc_actorRoles = (case roles of None \<Rightarrow> localDefaultRoles actorType | Some rs \<Rightarrow> rs),
          tc_timestamp = timestamp\<rparr>)"

definition trusted ::
  "host \<Rightarrow> (string \<Rightarrow> int option) \<Rightarrow> int \<Rightarrow> RequestContextOptions \<Rightarrow> http_request
   \<Rightarrow> TrustedContextSignatureInput \<Rightarrow> bool" where
  "trusted h parse_date now opts rq i =
     (tc_timestamp i \<noteq> [] \<and> ro_signingSecrets opts \<noteq> []
      \<and> isTrustedContextFresh parse_date (tc_timestamp i) (ro_signatureMaxAgeSeconds opts) now
      \<and> verifyTrustedContextSignature h i (ro_signingSecrets opts)
           (rq_header rq ''x-codeer-context-signature''))"

definition system_context :: "RequestContextOptions \<Rightarrow> string \<Rightarrow> http_request \<Rightarrow> CodeerRequestContext" where
  "system_context opts fresh rq =
     \<lparr>cx_requestId = request_id fresh rq, cx_correlationId = correlation_id fresh rq,
      cx_organizationId = ro_defaultOrganizationId opts,
      cx_actorId = (if startsWith (rq_path rq) WEBHOOK_PREFIX then ''github-webhook-ingress''
                    else ''codeer-health-check''),
      cx_actorType = ActorType.SYSTEM, cx_actorRoles = [ActorRole.SERVICE],
      cx_trustedContext = True\<rparr>"

text \<open>The context of a request, or the status and the message of the rejection.\<close>

definition createRequestContext ::
  "host \<Rightarrow> (string \<Rightarrow> int option) \<Rightarrow> int \<Rightarrow> string \<Rightarrow> RequestContextOptions \<Rightarrow> http_request
   \<Rightarrow> (nat \<times> string) + CodeerRequestContext" where
  "createRequestContext h parse_date now fresh opts rq =
     (if startsWith (rq_path rq) HEALTH_PREFIX \<or> startsWith (rq_path rq) WEBHOOK_PREFIX
      then Inr (system_context opts fresh rq)
      else case parseActorRoles (rq_header rq ''x-codeer-actor-roles'') of
        Inl _ \<Rightarrow> Inl (400, ''x-codeer-actor-roles contains an unsupported role.'')
      | Inr roles \<Rightarrow>
          (let timestamp = (case rq_header rq ''x-codeer-context-timestamp'' of
                              None \<Rightarrow> [] | Some s \<Rightarrow> s);
               i = claimed_identity opts fresh rq roles timestamp;
               ok = trusted h parse_date now opts rq i
           in if ro_requireTenantContext opts
                 \<and> (rq_header rq ''x-codeer-organization-id'' = None
                    \<or> rq_header rq ''x-codeer-organization-id'' = Some [])
              then Inl (400, ''x-codeer-organization-id is required.'')
              else if \<not> uuid_text (tc_organizationId i)
              then Inl (400, ''x-codeer-organization-id must be a UUID.'')
              else if ro_requireSignedContext opts \<and> \<not> ok
              then Inl (401, ''A valid, fresh signed identity context is required.'')
              else Inr \<lparr>cx_requestId = tc_requestId i, cx_correlationId = tc_correlationId i,
                        cx_organizationId = tc_organizationId i, cx_actorId = tc_actorId i,
                        cx_actorType = tc_actorType i, cx_actorRoles = tc_actorRoles i,
                        cx_trustedContext = ok\<rparr>))"

definition isValidApiKey :: "host \<Rightarrow> string option \<Rightarrow> string option \<Rightarrow> bool" where
  "isValidApiKey h expected candidate =
     (case (expected, candidate) of
        (Some e, Some c) \<Rightarrow> e \<noteq> [] \<and> c \<noteq> [] \<and> sha256 h e = sha256 h c
      | _ \<Rightarrow> False)"

definition bearerToken :: "http_request \<Rightarrow> string option" where
  "bearerToken rq =
     (case rq_header rq ''authorization'' of
        None \<Rightarrow> None
      | Some a \<Rightarrow> if \<not> startsWith a ''Bearer '' then None
                  else (let t = trim (drop 7 a) in if t = [] then None else Some t))"

definition api_authenticated :: "host \<Rightarrow> bool \<Rightarrow> string option \<Rightarrow> http_request \<Rightarrow> bool" where
  "api_authenticated h disabled apiKey rq =
     (disabled \<or> startsWith (rq_path rq) HEALTH_PREFIX \<or> startsWith (rq_path rq) WEBHOOK_PREFIX
      \<or> isValidApiKey h apiKey (bearerToken rq))"

section \<open>What the roles permit\<close>

lemma length_sort_by [simp]: "length (sort_by le xs) = length xs"
proof -
  have ins: "length (insort_by le x ys) = Suc (length ys)" for x ys by (induction ys) auto
  show ?thesis unfolding sort_by_def by (induction xs) (simp_all add: ins)
qed

lemma set_actor_roles: "set all_actor_roles = UNIV"
  unfolding all_actor_roles_def by (auto intro: ActorRole.exhaust)

lemma few_roles: "length (uniq (roles :: ActorRole list)) \<le> 6"
proof -
  have "finite (set all_actor_roles)" by simp
  then have "card (set (uniq roles)) \<le> card (set all_actor_roles)"
    by (rule card_mono) (simp add: set_actor_roles)
  also have "\<dots> \<le> 6" using card_length [of all_actor_roles] by (simp add: all_actor_roles_def)
  finally show ?thesis by (simp add: distinct_card del: set_uniq)
qed

lemma set_normalized: "set (normalizeActorRoles roles) = set roles"
  using few_roles [of roles] by (simp add: normalizeActorRoles_def MAX_CONTEXT_ROLES_def)

text \<open>
  The normalization of the roles, which sorts them, drops repetitions and cuts the list, takes
  no permission away: an actor has a permission exactly when one of its roles grants it. Every
  permission of a viewer is one of a responder, and so on up to the owner, who has all.
\<close>

lemma permission_iff_role:
  "(hasCodeerPermission roles p \<longleftrightarrow> (\<exists>role \<in> set roles. p \<in> set (rolePermissions role)))
   \<and> set viewer_permissions \<subseteq> set responder_permissions
   \<and> set responder_permissions \<subseteq> set commander_permissions
   \<and> set commander_permissions \<subseteq> set (rolePermissions ActorRole.ORGANIZATION_OWNER)
   \<and> set (rolePermissions ActorRole.ORGANIZATION_OWNER) = UNIV"
proof (intro conjI)
  have all: "p \<in> set (rolePermissions ActorRole.ORGANIZATION_OWNER)"
 for p
  proof (cases p)
    case (Incident i)
    then show ?thesis
      by (cases i) (simp_all add: allPermissions_def all_incident_permissions_def)
  next
    case (Repository r)
    then show ?thesis by (cases r) (simp_all add: allPermissions_def)
  qed
  then show "set (rolePermissions ActorRole.ORGANIZATION_OWNER) = UNIV"
    and "set commander_permissions \<subseteq> set (rolePermissions ActorRole.ORGANIZATION_OWNER)" by auto
  show "hasCodeerPermission roles p \<longleftrightarrow> (\<exists>role \<in> set roles. p \<in> set (rolePermissions role))"
    by (simp add: hasCodeerPermission_def list_ex_iff set_normalized)
  show "set viewer_permissions \<subseteq> set responder_permissions"
    unfolding viewer_permissions_def responder_permissions_def by auto
  show "set responder_permissions \<subseteq> set commander_permissions"
    unfolding responder_permissions_def commander_permissions_def by auto
qed

section \<open>What a signature covers\<close>

text \<open>The fields of an identity, with the method in upper case and the roles normalized.\<close>

definition no_line_break :: "string \<Rightarrow> bool" where
  "no_line_break s = (CHR 0x0A \<notin> set s)"

definition one_line :: "TrustedContextSignatureInput \<Rightarrow> bool" where
  "one_line i =
     list_all no_line_break
       [to_upper (tc_method i), tc_path i, tc_requestId i, tc_correlationId i, tc_organizationId i,
        tc_actorId i, tc_timestamp i]"

lemma names_one_line:
  "no_line_break (ActorType_name t)" "no_line_break (ActorRole_name r)"
  by (cases t; simp add: no_line_break_def) (cases r; simp add: no_line_break_def)

lemma set_join_with: "set (join_with sep ws) \<subseteq> set sep \<union> (\<Union>w \<in> set ws. set w)"
  by (induction sep ws rule: join_with.induct) auto

lemma roles_one_line: "no_line_break (join_with '','' (map ActorRole_name rs))"
  using set_join_with [of "'',''" "map ActorRole_name rs"] names_one_line(2)
  by (fastforce simp: no_line_break_def)

lemma join_with_inject:
  assumes "join_with [d] ws = join_with [d] vs" "ws \<noteq> []" "vs \<noteq> []"
    and "\<forall>w \<in> set ws. d \<notin> set w" "\<forall>v \<in> set vs. d \<notin> set v"
  shows "ws = vs"
  using assms split_join_with [of ws d] split_join_with [of vs d] by metis

lemma role_name_inject: "ActorRole_name a = ActorRole_name b \<longleftrightarrow> a = b"
  by (cases a; cases b) simp_all

lemma actor_type_name_inject: "ActorType_name a = ActorType_name b \<longleftrightarrow> a = b"
  by (cases a; cases b) simp_all

lemma role_list_inject:
  assumes "join_with '','' (map ActorRole_name rs) = join_with '','' (map ActorRole_name ss)"
  shows "rs = ss"
proof -
  have no_comma: "CHR '','' \<notin> set (ActorRole_name r)" "ActorRole_name r \<noteq> []" for r
    by (cases r; simp)+
  have nil: "rs = []" if "join_with '','' (map ActorRole_name rs) = []" for rs
    using that no_comma(2) by (cases rs; cases "tl rs") (auto split: list.splits)
  have "map ActorRole_name rs = map ActorRole_name ss"
  proof (cases "rs = [] \<or> ss = []")
    case True
    with nil assms show ?thesis by (metis join_with.simps(1) list.simps(8))
  next
    case False
    then show ?thesis using no_comma(1) by (intro join_with_inject [OF assms]) auto
  qed
  then show ?thesis by (simp add: inj_map_eq_map inj_def role_name_inject)
qed

text \<open>
  the text that is signed determines the identity: for values without line breaks (those of
  HTTP headers), two identities with the same text agree in every field, up to the letter case of
  the method and the order and repetition of the roles.
\<close>

lemma signed_text_determines_identity:
  assumes "one_line i" "one_line j" "contextSignaturePayload i = contextSignaturePayload j"
  shows "to_upper (tc_method i) = to_upper (tc_method j) \<and> tc_path i = tc_path j
    \<and> tc_requestId i = tc_requestId j \<and> tc_correlationId i = tc_correlationId j
    \<and> tc_organizationId i = tc_organizationId j \<and> tc_actorId i = tc_actorId j
    \<and> tc_actorType i = tc_actorType j \<and> set (tc_actorRoles i) = set (tc_actorRoles j)
    \<and> tc_timestamp i = tc_timestamp j"
proof -
  have v: "CHR 0x0A \<notin> set ''v1''" by simp
  have "[''v1'', to_upper (tc_method i), tc_path i, tc_requestId i, tc_correlationId i,
      tc_organizationId i, tc_actorId i, ActorType_name (tc_actorType i),
      join_with '','' (map ActorRole_name (normalizeActorRoles (tc_actorRoles i))), tc_timestamp i]
    = [''v1'', to_upper (tc_method j), tc_path j, tc_requestId j, tc_correlationId j,
      tc_organizationId j, tc_actorId j, ActorType_name (tc_actorType j),
      join_with '','' (map ActorRole_name (normalizeActorRoles (tc_actorRoles j))), tc_timestamp j]"
    using assms v names_one_line(1) roles_one_line
    by (intro join_with_inject [of "CHR 0x0A"])
      (simp_all add: contextSignaturePayload_def one_line_def no_line_break_def)
  then have "normalizeActorRoles (tc_actorRoles i) = normalizeActorRoles (tc_actorRoles j)"
    and rest: "to_upper (tc_method i) = to_upper (tc_method j)" "tc_path i = tc_path j"
    "tc_requestId i = tc_requestId j" "tc_correlationId i = tc_correlationId j"
    "tc_organizationId i = tc_organizationId j" "tc_actorId i = tc_actorId j"
    "tc_actorType i = tc_actorType j" "tc_timestamp i = tc_timestamp j"
    by (simp_all add: actor_type_name_inject role_list_inject)
  then have "set (tc_actorRoles i) = set (tc_actorRoles j)" by (metis set_normalized)
  with rest show ?thesis by simp
qed

definition sample_identity :: "ActorRole list \<Rightarrow> TrustedContextSignatureInput" where
  "sample_identity roles =
     \<lparr>tc_method = ''post'', tc_path = ''/api/v1/incidents'', tc_requestId = ''r1'',
      tc_correlationId = ''c1'', tc_organizationId = ''o1'', tc_actorId = ''a1'',
      tc_actorType = ActorType.USER, tc_actorRoles = roles, tc_timestamp = ''t''\<rparr>"

lemma signed_text_determines_identity_witness:
  "set (tc_actorRoles (sample_identity [ActorRole.VIEWER, ActorRole.RESPONDER]))
     = set (tc_actorRoles (sample_identity [ActorRole.RESPONDER, ActorRole.VIEWER]))"
proof -
  have "contextSignaturePayload (sample_identity [ActorRole.VIEWER, ActorRole.RESPONDER])
      = contextSignaturePayload (sample_identity [ActorRole.RESPONDER, ActorRole.VIEWER])"
    "one_line (sample_identity [ActorRole.VIEWER, ActorRole.RESPONDER])"
    "one_line (sample_identity [ActorRole.RESPONDER, ActorRole.VIEWER])"
    by code_simp+
  with signed_text_determines_identity show ?thesis by blast
qed

text \<open>
  C8: under a required signature, every request outside the health and webhook routes that is let
  through carries a fresh signature, with one of the configured secrets of 32 characters at least,
  of exactly the identity its context then has; the context is never more than what was signed.
\<close>

lemma context_is_signed:
  assumes "createRequestContext h parse_date now fresh opts rq = Inr ctx"
    and "\<not> startsWith (rq_path rq) HEALTH_PREFIX" "\<not> startsWith (rq_path rq) WEBHOOK_PREFIX"
    and "ro_requireSignedContext opts \<or> cx_trustedContext ctx"
  shows "\<exists>secret \<in> set (ro_signingSecrets opts). \<exists>i t.
    32 \<le> length secret
    \<and> rq_header rq ''x-codeer-context-signature''
        = Some (base64Url (hmac_sha256 h secret (contextSignaturePayload i)))
    \<and> parse_date (tc_timestamp i) = Some t \<and> \<bar>now - t\<bar> \<le> ro_signatureMaxAgeSeconds opts * 1000
    \<and> tc_method i = rq_method rq \<and> tc_path i = rq_originalUrl rq
    \<and> tc_requestId i = cx_requestId ctx \<and> tc_correlationId i = cx_correlationId ctx
    \<and> tc_organizationId i = cx_organizationId ctx \<and> tc_actorId i = cx_actorId ctx
    \<and> tc_actorType i = cx_actorType ctx \<and> tc_actorRoles i = cx_actorRoles ctx"
proof -
  from assms(1-3) obtain roles where "parseActorRoles (rq_header rq ''x-codeer-actor-roles'') = Inr roles"
    by (auto simp: createRequestContext_def split: sum.splits)
  then obtain i where i: "i = claimed_identity opts fresh rq roles
      (case rq_header rq ''x-codeer-context-timestamp'' of None \<Rightarrow> [] | Some s \<Rightarrow> s)"
    and ok: "trusted h parse_date now opts rq i"
    and ctx: "ctx = \<lparr>cx_requestId = tc_requestId i, cx_correlationId = tc_correlationId i,
        cx_organizationId = tc_organizationId i, cx_actorId = tc_actorId i,
        cx_actorType = tc_actorType i, cx_actorRoles = tc_actorRoles i,
        cx_trustedContext = True\<rparr>"
    using assms by (auto simp: createRequestContext_def Let_def split: if_splits)
  from ok obtain secret t where "secret \<in> set (ro_signingSecrets opts)" "32 \<le> length secret"
    "rq_header rq ''x-codeer-context-signature''
        = Some (base64Url (hmac_sha256 h secret (contextSignaturePayload i)))"
    "parse_date (tc_timestamp i) = Some t" "\<bar>now - t\<bar> \<le> ro_signatureMaxAgeSeconds opts * 1000"
    by (auto simp: trusted_def verifyTrustedContextSignature_def signTrustedContext_def
        isTrustedContextFresh_def list_ex_iff split: option.splits if_splits)
  moreover have "tc_method i = rq_method rq" "tc_path i = rq_originalUrl rq"
    by (simp_all add: i claimed_identity_def Let_def)
  ultimately show ?thesis using ctx by (intro bexI exI) (auto simp del: ex_simps)
qed

definition signing_host :: host where
  "signing_host = plain_host\<lparr>hmac_sha256 := (\<lambda>k m. ''sig'')\<rparr>"

definition sample_options :: RequestContextOptions where
  "sample_options =
     \<lparr>ro_requireTenantContext = True, ro_defaultOrganizationId = [], ro_requireSignedContext = True,
      ro_signingSecrets = [replicate 32 (CHR ''s'')], ro_signatureMaxAgeSeconds = 300\<rparr>"

definition sample_request :: http_request where
  "sample_request =
     \<lparr>rq_method = ''GET'', rq_path = ''/api/v1/incidents'', rq_originalUrl = ''/api/v1/incidents'',
      rq_header = map_of [(''x-codeer-organization-id'', ''11111111-1111-4111-8111-111111111111''),
        (''x-codeer-context-timestamp'', ''now''), (''x-codeer-actor-id'', ''a1''),
        (''x-codeer-context-signature'', base64Url ''sig'')]\<rparr>"

lemma context_is_signed_witness:
  "\<exists>ctx secret i. createRequestContext signing_host (\<lambda>s. Some 0) 1000 ''r1'' sample_options sample_request
       = Inr ctx
     \<and> secret \<in> set (ro_signingSecrets sample_options)
     \<and> rq_header sample_request ''x-codeer-context-signature''
         = Some (base64Url (hmac_sha256 signing_host secret (contextSignaturePayload i)))
     \<and> tc_actorId i = cx_actorId ctx"
proof -
  have ok: "case createRequestContext signing_host (\<lambda>s. Some 0) 1000 ''r1'' sample_options sample_request of
      Inl _ \<Rightarrow> False | Inr _ \<Rightarrow> True"
    "\<not> startsWith (rq_path sample_request) HEALTH_PREFIX"
    "\<not> startsWith (rq_path sample_request) WEBHOOK_PREFIX"
    by code_simp+
  then obtain ctx where c: "createRequestContext signing_host (\<lambda>s. Some 0) 1000 ''r1''
      sample_options sample_request = Inr ctx" by (auto split: sum.splits)
  from context_is_signed [OF c ok(2,3)] have "\<exists>secret \<in> set (ro_signingSecrets sample_options). \<exists>i.
      rq_header sample_request ''x-codeer-context-signature''
        = Some (base64Url (hmac_sha256 signing_host secret (contextSignaturePayload i)))
      \<and> tc_actorId i = cx_actorId ctx"
    by (auto simp: sample_options_def)
  with c show ?thesis by blast
qed

end
