(* ===== verification/Publication_Service.thy ===== *)
theory Publication_Service
  imports Webhook_Worker Access_Control Publication_Creation
begin

text \<open>
  The publication service of the API (\<open>apps/api/src/publications/publications.service.ts\<close>) with the
  two reads of the store it alone uses: authorization, the human decisions and their preconditions,
  and the translation of store errors. Inputs come as values of the types their schemas describe,
  with the schemas as predicates; the text of a schema error is not modelled.
\<close>

section \<open>Reading checks and reviews\<close>

definition listChecks :: "host \<Rightarrow> string \<Rightarrow> string \<Rightarrow> check_row list dbtx" where
  "listChecks h org publicationId =
     tx_read (\<lambda>d. if row_where (is_run publicationId org) (db_runs d) = None then []
                  else sort_by (\<lambda>a b. db_le h (ck_name a) (ck_name b))
                         (filter (\<lambda>x. ck_publicationId x = publicationId) (db_checks d)))"

definition listReviews :: "string \<Rightarrow> string \<Rightarrow> review_row list dbtx" where
  "listReviews org publicationId =
     tx_read (\<lambda>d. if row_where (is_run publicationId org) (db_runs d) = None then []
                  else sort_by review_before
                         (filter (\<lambda>x. rw_publicationId x = publicationId) (db_reviews d)))"

section \<open>Guards\<close>

definition authorize :: "CodeerRequestContext \<Rightarrow> IncidentPermission \<Rightarrow> ('d, http_error, unit) seq" where
  "authorize ctx permission =
     (case assertIncidentPermission (cx_actorRoles ctx) permission of
        Inl p \<Rightarrow> sq_throw (Forbidden (authorization_message p))
      | Inr _ \<Rightarrow> sq_return ())"

definition trusted_human :: "CodeerRequestContext \<Rightarrow> bool" where
  "trusted_human ctx =
     (cx_actorType ctx = ActorType.USER \<and> ActorRole.SERVICE \<notin> set (cx_actorRoles ctx)
      \<and> cx_trustedContext ctx)"

definition requireHuman :: "CodeerRequestContext \<Rightarrow> ('d, http_error, unit) seq" where
  "requireHuman ctx =
     sq_guard (\<not> trusted_human ctx)
       (Forbidden ''This publication decision requires a trusted human identity.'')"

definition toHttp :: "string \<Rightarrow> http_error" where
  "toHttp m =
     (if has_text (to_lower m) ''not found'' then NotFound m
      else if list_ex (has_text (to_lower m))
        [''organization'', ''policy'', ''stale'', ''ready'', ''match'', ''conflict'']
      then BadRequest m
      else BadRequest ''Publication request could not be completed.'')"

definition invalid_input :: http_error where
  "invalid_input = BadRequest ''Invalid input.''"

definition store_context :: "CodeerRequestContext \<Rightarrow> StoreActorContext" where
  "store_context ctx =
     \<lparr>ctx_organizationId = cx_organizationId ctx, ctx_actorId = cx_actorId ctx,
      ctx_actorType = cx_actorType ctx, ctx_actorRoles = cx_actorRoles ctx,
      ctx_requestId = cx_requestId ctx, ctx_correlationId = cx_correlationId ctx\<rparr>"

section \<open>Schemas\<close>

record StartPublicationInput =
  spi_installationId :: string
  spi_approvedPackage :: ApprovedRecoveryPackage
  spi_policy :: PublicationPolicy

definition StartPublicationSchema :: "host \<Rightarrow> StartPublicationInput \<Rightarrow> bool" where
  "StartPublicationSchema h i =
     (spi_installationId i \<noteq> [] \<and> list_all is_digit (spi_installationId i)
      \<and> ApprovedRecoveryPackageSchema h (spi_approvedPackage i)
      \<and> PublicationPolicySchema (spi_policy i))"

text \<open>The one field of the request, \<open>expectedVersion\<close>.\<close>

definition PublicationTransitionRequestSchema :: "int \<Rightarrow> bool" where
  "PublicationTransitionRequestSchema expectedVersion = (1 \<le> expectedVersion)"

definition MergeReadinessInputSchema :: "MergeReadinessInput \<Rightarrow> bool" where
  "MergeReadinessInputSchema i =
     (0 \<le> mri_unresolvedBlockingThreads i \<and> 0 \<le> mri_blockingSecurityFindings i)"

text \<open>\<open>/^[A-Za-z0-9._:-]{8,128}$/\<close>\<close>

definition IDEMPOTENCY_KEY :: "string \<Rightarrow> bool" where
  "IDEMPOTENCY_KEY s =
     (has_length 8 128 s \<and> list_all (\<lambda>c. is_alnum c \<or> c \<in> set ''._:-'') s)"

section \<open>Operations\<close>

definition create_publication ::
  "db scene \<Rightarrow> host \<Rightarrow> CodeerRequestContext \<Rightarrow> string \<Rightarrow> StartPublicationInput \<Rightarrow> string option
   \<Rightarrow> (db, http_error, PublicationRun) seq" where
  "create_publication s h ctx recoveryId rawInput idempotencyKey =
     sq_bind (authorize ctx IncidentPermission.START_PUBLICATION) (\<lambda>_.
     case idempotencyKey of
       None \<Rightarrow> sq_throw (BadRequest ''A valid Idempotency-Key header is required.'')
     | Some key \<Rightarrow>
     sq_bind (sq_guard (key = [] \<or> \<not> IDEMPOTENCY_KEY key)
       (BadRequest ''A valid Idempotency-Key header is required.'')) (\<lambda>_.
     sq_bind (sq_guard (\<not> StartPublicationSchema h rawInput) invalid_input) (\<lambda>_.
     sq_run s toHttp (\<lambda>c. createPublication h c
       \<lparr>cpc_context = store_context ctx, cpc_recoveryId = recoveryId,
        cpc_installationId = spi_installationId rawInput,
        cpc_package = spi_approvedPackage rawInput, cpc_policy = spi_policy rawInput,
        cpc_idempotencyKey = key\<rparr>))))"

definition list_for_recovery ::
  "db scene \<Rightarrow> host \<Rightarrow> CodeerRequestContext \<Rightarrow> string \<Rightarrow> (db, http_error, PublicationRun list) seq"
where
  "list_for_recovery s h ctx recoveryId =
     sq_bind (authorize ctx IncidentPermission.READ_PUBLICATION) (\<lambda>_.
     sq_run s Fault (\<lambda>c. listForRecovery h (cx_organizationId ctx) recoveryId))"

text \<open>\<open>to_number\<close> is \<open>Number(text)\<close>, when it is an integer.\<close>

definition list_organization ::
  "db scene \<Rightarrow> host \<Rightarrow> (string \<Rightarrow> int option) \<Rightarrow> CodeerRequestContext \<Rightarrow> string option
   \<Rightarrow> (db, http_error, PublicationRun list) seq" where
  "list_organization s h to_number ctx rawLimit =
     sq_bind (authorize ctx IncidentPermission.READ_PUBLICATION) (\<lambda>_.
     case (if truthy rawLimit then to_number (or_empty rawLimit) else Some 100) of
       None \<Rightarrow> sq_throw (BadRequest ''Publication limit must be an integer from 1 to 100.'')
     | Some limit \<Rightarrow>
         sq_bind (sq_guard (limit < 1 \<or> 100 < limit)
           (BadRequest ''Publication limit must be an integer from 1 to 100.'')) (\<lambda>_.
         sq_run s Fault (\<lambda>c. listOrganization h (cx_organizationId ctx) limit)))"

definition get_publication ::
  "db scene \<Rightarrow> host \<Rightarrow> CodeerRequestContext \<Rightarrow> string
   \<Rightarrow> (db, http_error, PublicationRun \<times> event_row list \<times> check_row list \<times> review_row list) seq"
where
  "get_publication s h ctx publicationId =
     sq_bind (authorize ctx IncidentPermission.READ_PUBLICATION) (\<lambda>_.
     sq_bind (sq_run s toHttp (\<lambda>c. getPublication h (cx_organizationId ctx) publicationId)) (\<lambda>p.
     sq_bind (sq_run s toHttp (\<lambda>c. listEvents (cx_organizationId ctx) publicationId)) (\<lambda>es.
     sq_bind (sq_run s toHttp (\<lambda>c. listChecks h (cx_organizationId ctx) publicationId)) (\<lambda>cs.
     sq_bind (sq_run s toHttp (\<lambda>c. listReviews (cx_organizationId ctx) publicationId)) (\<lambda>rs.
     sq_return (p, es, cs, rs))))))"

definition cancel ::
  "db scene \<Rightarrow> host \<Rightarrow> CodeerRequestContext \<Rightarrow> string \<Rightarrow> int \<Rightarrow> (db, http_error, PublicationRun) seq"
where
  "cancel s h ctx publicationId expectedVersion =
     sq_bind (requireHuman ctx) (\<lambda>_.
     sq_bind (authorize ctx IncidentPermission.CANCEL_PUBLICATION) (\<lambda>_.
     sq_bind (sq_guard (\<not> PublicationTransitionRequestSchema expectedVersion) invalid_input) (\<lambda>_.
     sq_run s Fault (\<lambda>c. transition h c (store_context ctx) publicationId expectedVersion
       PublicationStatus.CANCELLED))))"

definition retryable :: "PublicationStatus list" where
  "retryable =
     [PublicationStatus.PUSH_FAILED, PublicationStatus.PR_CREATION_FAILED,
      PublicationStatus.CI_FAILED, PublicationStatus.REVISION_REQUIRED,
      PublicationStatus.BASE_BRANCH_STALE, PublicationStatus.SECURITY_BLOCKED]"

definition retry ::
  "db scene \<Rightarrow> host \<Rightarrow> CodeerRequestContext \<Rightarrow> string \<Rightarrow> int \<Rightarrow> (db, http_error, PublicationRun) seq"
where
  "retry s h ctx publicationId expectedVersion =
     sq_bind (requireHuman ctx) (\<lambda>_.
     sq_bind (authorize ctx IncidentPermission.RETRY_PUBLICATION) (\<lambda>_.
     sq_bind (sq_guard (\<not> PublicationTransitionRequestSchema expectedVersion) invalid_input) (\<lambda>_.
     sq_bind (sq_run s Fault (\<lambda>c. getPublication h (cx_organizationId ctx) publicationId)) (\<lambda>current.
     sq_bind (sq_guard (pub_status current \<notin> set retryable)
       (BadRequest ''Publication is not in a retryable state.'')) (\<lambda>_.
     sq_run s Fault (\<lambda>c. transition h c (store_context ctx) publicationId expectedVersion
       PublicationStatus.POLICY_CHECK))))))"

definition mergeReadiness ::
  "CodeerRequestContext \<Rightarrow> MergeReadinessInput \<Rightarrow> PublicationPolicy
   \<Rightarrow> ('d, http_error, MergeReadinessDecision) seq" where
  "mergeReadiness ctx rawInput policyInput =
     sq_bind (authorize ctx IncidentPermission.READ_PUBLICATION) (\<lambda>_.
     sq_bind (sq_guard (\<not> MergeReadinessInputSchema rawInput) invalid_input) (\<lambda>_.
     sq_bind (sq_guard (\<not> PublicationPolicySchema policyInput) invalid_input) (\<lambda>_.
     sq_return (evaluateMergeReadiness rawInput policyInput))))"

definition markReady ::
  "db scene \<Rightarrow> host \<Rightarrow> CodeerRequestContext \<Rightarrow> string \<Rightarrow> int \<Rightarrow> (db, http_error, PublicationRun) seq"
where
  "markReady s h ctx publicationId expectedVersion =
     sq_bind (requireHuman ctx) (\<lambda>_.
     sq_bind (authorize ctx IncidentPermission.MARK_PUBLICATION_READY) (\<lambda>_.
     sq_bind (sq_guard (\<not> PublicationTransitionRequestSchema expectedVersion) invalid_input) (\<lambda>_.
     sq_bind (sq_run s Fault (\<lambda>c. getPublication h (cx_organizationId ctx) publicationId)) (\<lambda>current.
     sq_bind (sq_guard (pub_status current \<noteq> PublicationStatus.AWAITING_REVIEW)
       (BadRequest ''Publication must be awaiting review before it can be marked ready.'')) (\<lambda>_.
     sq_bind (sq_run s Fault (\<lambda>c. latestMergeReadiness (cx_organizationId ctx) publicationId))
       (\<lambda>readiness. case readiness of
          None \<Rightarrow> sq_throw (BadRequest ''No merge readiness decision exists yet; wait for check and review synchronization.'')
        | Some x \<Rightarrow>
     sq_bind (sq_guard (\<not> mrd_ready x)
       (BadRequest (''Publication is not merge-ready: '' @ join_with '' '' (mrd_blockers x)))) (\<lambda>_.
     sq_run s Fault (\<lambda>c. transition h c (store_context ctx) publicationId expectedVersion
       PublicationStatus.READY_FOR_HUMAN_MERGE))))))))"

section \<open>Human decisions\<close>

lemma authorize_Inr:
  "authorize ctx permission w = (Inr u, w') \<longleftrightarrow>
     hasCodeerPermission (cx_actorRoles ctx) (Incident permission) \<and> w' = w"
  by (auto simp: authorize_def assertIncidentPermission_def assertCodeerPermission_def)

lemma requireHuman_Inr: "requireHuman ctx w = (Inr u, w') \<longleftrightarrow> trusted_human ctx \<and> w' = w"
  by (auto simp: requireHuman_def sq_guard_Inr)

text \<open>
  The one run of the publication at the version the caller has seen moves to \<open>st\<close> and to the next
  version; nothing else changes.
\<close>

definition moved_once ::
  "call \<Rightarrow> string \<Rightarrow> string \<Rightarrow> int \<Rightarrow> PublicationStatus \<Rightarrow> db \<Rightarrow> db \<Rightarrow> bool" where
  "moved_once c org publicationId expectedVersion st d d' =
     ((\<exists>r \<in> set (db_runs d). is_run publicationId org r \<and> run_version r = expectedVersion)
      \<and> d' = d\<lparr>db_runs := update_where
          (\<lambda>r. is_run publicationId org r \<and> run_version r = expectedVersion)
          (\<lambda>r. r\<lparr>run_status := st, run_version := expectedVersion + 1, run_updatedAt := c_now c\<rparr>)
          (db_runs d)\<rparr>)"

lemma transition_moves:
  assumes "transition h c ctx publicationId v st d = Inr (x, d')"
  shows "moved_once c (ctx_organizationId ctx) publicationId v st d d'"
proof -
  let ?p = "\<lambda>r. is_run publicationId (ctx_organizationId ctx) r \<and> run_version r = v"
  have "update_where ?p (\<lambda>r. bumped c (r\<lparr>run_status := st\<rparr>)) (db_runs d)
      = update_where ?p (\<lambda>r. r\<lparr>run_status := st, run_version := v + 1, run_updatedAt := c_now c\<rparr>)
          (db_runs d)"
    by (auto simp: update_where_def bumped_def)
  with assms show ?thesis
    unfolding moved_once_def
    by (auto simp: transition_def tx_inr reload_def dest!: row_where_SomeD split: option.splits)
qed

lemma getPublication_keeps: "getPublication h org p d = Inr (x, d') \<Longrightarrow> d' = d"
  by (auto simp: getPublication_def reload_def tx_inr split: option.splits)

lemma latestMergeReadiness_keeps: "latestMergeReadiness org p d = Inr (x, d') \<Longrightarrow> d' = d"
  by (auto simp: latestMergeReadiness_def tx_inr)


text \<open>
  The decisions are not checked against the lifecycle: a retry moves back to \<open>POLICY_CHECK\<close> from
  statuses that do not permit it, and a cancellation is possible from any status.
\<close>

lemma retries_off_the_lifecycle:
  "filter (\<lambda>st. PublicationStatus.POLICY_CHECK \<notin> set (publication_transitions st)) retryable
     = [PublicationStatus.PUSH_FAILED, PublicationStatus.PR_CREATION_FAILED,
        PublicationStatus.CI_FAILED, PublicationStatus.BASE_BRANCH_STALE,
        PublicationStatus.SECURITY_BLOCKED]"
  by (simp add: retryable_def)

text \<open>A closed publication, and a commander who cancels it.\<close>

definition closed_run :: run_row where
  "closed_run = (new_run first_call sample_command ''p1'' ''g1'' ''pol1'')
     \<lparr>run_status := PublicationStatus.CLOSED\<rparr>"

definition commander :: CodeerRequestContext where
  "commander = \<lparr>cx_requestId = ''q1'', cx_correlationId = ''c1'', cx_organizationId = ''o1'',
     cx_actorId = ''u1'', cx_actorType = ActorType.USER,
     cx_actorRoles = [ActorRole.ORGANIZATION_OWNER], cx_trustedContext = True\<rparr>"

definition still_scene :: "db scene" where
  "still_scene = \<lparr>sc_call = (\<lambda>n. first_call), sc_other = (\<lambda>n d. d)\<rparr>"

lemma closed_cancelled:
  "\<exists>x w. cancel still_scene plain_host commander ''p1'' 1 (0, ready_db\<lparr>db_runs := [closed_run]\<rparr>)
     = (Inr x, w)"
proof -
  have guards: "requireHuman commander w = (Inr (), w)"
    "authorize commander IncidentPermission.CANCEL_PUBLICATION w = (Inr (), w)" for w :: "nat \<times> db"
    by (auto simp: requireHuman_Inr authorize_Inr trusted_human_def commander_def
        hasCodeerPermission_def list_ex_iff set_normalized allPermissions_def
        all_incident_permissions_def)
  have "\<exists>y. transition plain_host first_call (store_context commander) ''p1'' 1
      PublicationStatus.CANCELLED (ready_db\<lparr>db_runs := [closed_run]\<rparr>) = Inr y"
    apply (simp add: transition_def update_returning_def tx_simps closed_run_def new_run_def Let_def
        is_run_def sample_command_def store_context_def commander_def)
    apply (simp add: ready_db_def empty_db_def reload_run joined_runs_def joined_installation_def
        is_run_def mapPublication_def bumped_def Let_def)
    apply (simp add: parsePublicationRun_def sample_run_schema sample_package_def sample_policy_def)
    done
  then show ?thesis
    by (auto simp: cancel_def sq_bind_def guards sq_guard_def PublicationTransitionRequestSchema_def
        sq_run_def still_scene_def)
qed


end
