(* ===== verification/Transactions.thy ===== *)
theory Transactions
  imports Prelude
begin

text \<open>
  The transactions of the database client (\<open>packages/database/src/client.ts\<close>): the statements around
  an operation, the retries after a serialization failure, and, on a database with snapshots, the
  atomic transactions of the prelude as what they amount to.
\<close>

section \<open>The client\<close>

record db_error =
  de_code :: "string option"
  de_message :: string

text \<open>A pool over a world \<open>'w\<close>: a connection is taken, sent statements with values, and released.\<close>

record 'w pool =
  pl_connect :: "'w \<Rightarrow> (db_error + unit) \<times> 'w"
  pl_query :: "string \<Rightarrow> string list \<Rightarrow> 'w \<Rightarrow> (db_error + unit) \<times> 'w"
  pl_release :: "'w \<Rightarrow> 'w"

type_synonym ('w, 'a) db_action = "'w \<Rightarrow> (db_error + 'a) \<times> 'w"

datatype TransactionIsolation = READ_COMMITTED | REPEATABLE_READ | SERIALIZABLE

fun isolation_text :: "TransactionIsolation \<Rightarrow> string" where
  "isolation_text READ_COMMITTED = ''READ COMMITTED''"
| "isolation_text REPEATABLE_READ = ''REPEATABLE READ''"
| "isolation_text SERIALIZABLE = ''SERIALIZABLE''"

record TransactionOptions =
  to_isolationLevel :: "TransactionIsolation option"
  to_maxRetries :: "int option"
  to_statementTimeoutMs :: "int option"
  to_lockTimeoutMs :: "int option"
  to_tenantOrganizationId :: "string option"
  to_workerBypassRls :: bool

definition isRetryableDatabaseError :: "db_error \<Rightarrow> bool" where
  "isRetryableDatabaseError e = (de_code e = Some ''40001'' \<or> de_code e = Some ''40P01'')"

definition positiveInteger :: "int option \<Rightarrow> int \<Rightarrow> int" where
  "positiveInteger x fallback = (case x of None \<Rightarrow> fallback | Some i \<Rightarrow> if 0 < i then i else fallback)"

definition max_retries :: "TransactionOptions \<Rightarrow> nat" where
  "max_retries opts = nat (min (positiveInteger (to_maxRetries opts) 3) 8)"

text \<open>The statements from \<open>BEGIN\<close> to the operation.\<close>

definition prologue :: "TransactionOptions \<Rightarrow> (string \<times> string list) list" where
  "prologue opts =
     [(''BEGIN'', []),
      (''SET TRANSACTION ISOLATION LEVEL ''
         @ isolation_text (case to_isolationLevel opts of None \<Rightarrow> READ_COMMITTED | Some l \<Rightarrow> l), []),
      (''SELECT set_config('statement_timeout', $1, true)'',
         [show_int (positiveInteger (to_statementTimeoutMs opts) 15000)]),
      (''SELECT set_config('lock_timeout', $1, true)'',
         [show_int (positiveInteger (to_lockTimeoutMs opts) 5000)])]
     @ (case to_tenantOrganizationId opts of
          None \<Rightarrow> []
        | Some t \<Rightarrow> if t = [] then []
            else [(''SELECT set_config('app.current_organization_id', $1, true)'', [t])])
     @ (if to_workerBypassRls opts
        then [(''SELECT set_config('app.codeer_worker_bypass', 'true', true)'', [])] else [])"

fun query_all :: "'w pool \<Rightarrow> (string \<times> string list) list \<Rightarrow> ('w, unit) db_action" where
  "query_all p [] w = (Inr (), w)"
| "query_all p ((q, vs) # qs) w =
     (case pl_query p q vs w of (Inl e, w') \<Rightarrow> (Inl e, w') | (Inr _, w') \<Rightarrow> query_all p qs w')"

text \<open>The \<open>try\<close> block: the statements, the operation, \<open>COMMIT\<close>.\<close>

definition transaction_body ::
  "'w pool \<Rightarrow> TransactionOptions \<Rightarrow> ('w, 'a) db_action \<Rightarrow> ('w, 'a) db_action" where
  "transaction_body p opts operation = (\<lambda>w.
     case query_all p (prologue opts) w of
       (Inl e, w1) \<Rightarrow> (Inl e, w1)
     | (Inr _, w1) \<Rightarrow> (case operation w1 of
         (Inl e, w2) \<Rightarrow> (Inl e, w2)
       | (Inr x, w2) \<Rightarrow> (case pl_query p ''COMMIT'' [] w2 of
           (Inl e, w3) \<Rightarrow> (Inl e, w3)
         | (Inr _, w3) \<Rightarrow> (Inr x, w3))))"

text \<open>
  The loop: the first argument is the number of attempts left, so \<open>attempt < maxRetries\<close> says that
  one is left after this.
\<close>

fun transaction_attempts ::
  "nat \<Rightarrow> 'w pool \<Rightarrow> TransactionOptions \<Rightarrow> ('w, 'a) db_action \<Rightarrow> ('w, 'a) db_action" where
  "transaction_attempts 0 p opts operation w =
     (Inl \<lparr>de_code = None, de_message = ''Database transaction retry budget exhausted''\<rparr>, w)"
| "transaction_attempts (Suc k) p opts operation w =
     (case pl_connect p w of
        (Inl e, w1) \<Rightarrow> (Inl e, w1)
      | (Inr _, w1) \<Rightarrow> (case transaction_body p opts operation w1 of
          (Inr x, w2) \<Rightarrow> (Inr x, pl_release p w2)
        | (Inl e, w2) \<Rightarrow>
            (let w3 = pl_release p (snd (pl_query p ''ROLLBACK'' [] w2))
             in if 0 < k \<and> isRetryableDatabaseError e
                then transaction_attempts k p opts operation w3 else (Inl e, w3))))"

definition withTransaction ::
  "'w pool \<Rightarrow> TransactionOptions \<Rightarrow> ('w, 'a) db_action \<Rightarrow> ('w, 'a) db_action" where
  "withTransaction p opts operation = transaction_attempts (max_retries opts) p opts operation"

lemma max_retries_bounds: "1 \<le> max_retries opts" "max_retries opts \<le> 8"
  by (auto simp: max_retries_def positiveInteger_def split: option.splits)

section \<open>What is sent\<close>

text \<open>A pool that also records what it is asked, and the operation as one entry of the record.\<close>

datatype sent = Connect | Sent string "string list" | Operate | Release

definition logging :: "'w pool \<Rightarrow> ('w \<times> sent list) pool" where
  "logging p =
     \<lparr>pl_connect = (\<lambda>(w, l). let (r, w') = pl_connect p w in (r, w', l @ [Connect])),
      pl_query = (\<lambda>q vs (w, l). let (r, w') = pl_query p q vs w in (r, w', l @ [Sent q vs])),
      pl_release = (\<lambda>(w, l). (pl_release p w, l @ [Release]))\<rparr>"

definition logged_operation :: "('w, 'a) db_action \<Rightarrow> ('w \<times> sent list, 'a) db_action" where
  "logged_operation operation =
     (\<lambda>(w, l). let (r, w') = operation w in (r, w', l @ [Operate]))"

definition prologue_sent :: "TransactionOptions \<Rightarrow> sent list" where
  "prologue_sent opts = map (\<lambda>(q, vs). Sent q vs) (prologue opts)"

text \<open>The record of an attempt that committed, and of one that did not.\<close>

definition committed_attempt :: "TransactionOptions \<Rightarrow> sent list" where
  "committed_attempt opts =
     Connect # prologue_sent opts @ [Operate, Sent ''COMMIT'' [], Release]"

definition failed_attempts :: "TransactionOptions \<Rightarrow> sent list set" where
  "failed_attempts opts =
     {Connect # tried @ [Sent ''ROLLBACK'' [], Release] | tried.
        prefix tried (prologue_sent opts @ [Operate, Sent ''COMMIT'' []])}"

lemma query_all_logged:
  "query_all (logging p) qs (w, l) = (r, w', l') \<Longrightarrow>
   \<exists>tried. l' = l @ tried \<and> prefix tried (map (\<lambda>(q, vs). Sent q vs) qs)
     \<and> (r = Inr () \<longrightarrow> tried = map (\<lambda>(q, vs). Sent q vs) qs)"
proof (induction qs arbitrary: w l)
  case Nil
  then show ?case by auto
next
  case (Cons q qs)
  obtain s vs where q: "q = (s, vs)" by force
  obtain a w1 where st: "pl_query p s vs w = (a, w1)" by force
  show ?case
  proof (cases a)
    case (Inl e)
    with Cons.prems q st show ?thesis by (auto simp: logging_def)
  next
    case (Inr u)
    with Cons.prems q st have "query_all (logging p) qs (w1, l @ [Sent s vs]) = (r, w', l')"
      by (auto simp: logging_def)
    from Cons.IH [OF this] q show ?thesis by auto
  qed
qed

lemma body_logged:
  assumes "transaction_body (logging p) opts (logged_operation operation) (w, l) = (r, w', l')"
  shows "\<exists>tried. l' = l @ tried \<and> prefix tried (prologue_sent opts @ [Operate, Sent ''COMMIT'' []])
     \<and> (\<forall>x. r = Inr x \<longrightarrow> tried = prologue_sent opts @ [Operate, Sent ''COMMIT'' []])"
proof -
  obtain a w1 l1 where q: "query_all (logging p) (prologue opts) (w, l) = (a, w1, l1)"
    by (metis prod.exhaust)
  from query_all_logged [OF q] obtain tried where t: "l1 = l @ tried" "prefix tried (prologue_sent opts)"
    "a = Inr () \<longrightarrow> tried = prologue_sent opts"
    unfolding prologue_sent_def by blast
  show ?thesis
  proof (cases a)
    case (Inl e)
    with q t assms show ?thesis by (auto simp: transaction_body_def prefix_def)
  next
    case (Inr u)
    with q t assms show ?thesis
      by (auto simp: transaction_body_def logged_operation_def logging_def prefix_def
          split: sum.splits prod.splits)
  qed
qed

lemma attempts_logged:
  "transaction_attempts n (logging p) opts (logged_operation operation) (w, l) = (r, w', l') \<Longrightarrow>
   \<exists>fails last. l' = l @ concat fails @ last \<and> set fails \<subseteq> failed_attempts opts
     \<and> length fails + (if last = [] then 0 else 1) \<le> n
     \<and> (\<forall>x. r = Inr x \<longrightarrow> last = committed_attempt opts)
     \<and> (\<forall>e. r = Inl e \<longrightarrow> last = [] \<or> last = [Connect])"
proof (induction n arbitrary: w l)
  case 0
  then show ?case by (auto intro: exI [of _ "[]"])
next
  case (Suc n)
  obtain a w1 where c: "pl_connect p w = (a, w1)" by force
  obtain b w2 l2 where
    b: "transaction_body (logging p) opts (logged_operation operation) (w1, l @ [Connect]) = (b, w2, l2)"
    by (metis prod.exhaust)
  from body_logged [OF b] obtain tried where t: "l2 = l @ [Connect] @ tried"
    "prefix tried (prologue_sent opts @ [Operate, Sent ''COMMIT'' []])"
    "\<forall>x. b = Inr x \<longrightarrow> tried = prologue_sent opts @ [Operate, Sent ''COMMIT'' []]"
    by auto
  define fail where "fail = Connect # tried @ [Sent ''ROLLBACK'' [], Release]"
  have fail: "fail \<in> failed_attempts opts" using t(2) by (auto simp: fail_def failed_attempts_def)
  show ?case
  proof (cases a)
    case (Inl e)
    with Suc.prems c show ?thesis
      by (auto simp: logging_def intro!: exI [of _ "[]"] exI [of _ "[Connect]"])
  next
    case a: (Inr u)
    show ?thesis
    proof (cases b)
      case (Inr x)
      with Suc.prems c b a t show ?thesis
        by (auto simp: logging_def committed_attempt_def
            intro!: exI [of _ "[]"] exI [of _ "committed_attempt opts"])
    next
      case (Inl e)
      obtain w3 where w3: "pl_release (logging p) (snd (pl_query (logging p) ''ROLLBACK'' [] (w2, l2)))
          = (w3, l @ fail)"
        using t(1) by (auto simp: logging_def fail_def split_beta)
      show ?thesis
      proof (cases "0 < n \<and> isRetryableDatabaseError e")
        case True
        with Suc.prems c b a Inl w3 have
          "transaction_attempts n (logging p) opts (logged_operation operation) (w3, l @ fail) = (r, w', l')"
          by (simp add: logging_def split_beta)
        from Suc.IH [OF this] obtain fails last where
          "l' = (l @ fail) @ concat fails @ last \<and> set fails \<subseteq> failed_attempts opts
           \<and> length fails + (if last = [] then 0 else 1) \<le> n
           \<and> (\<forall>x. r = Inr x \<longrightarrow> last = committed_attempt opts)
           \<and> (\<forall>e. r = Inl e \<longrightarrow> last = [] \<or> last = [Connect])" by blast
        with fail show ?thesis by (intro exI [of _ "fail # fails"] exI [of _ last]) auto
      next
        case False
        with Suc.prems c b a Inl w3 have "r = Inl e" "l' = l @ fail"
          by (auto simp: logging_def split_beta)
        with fail show ?thesis by (intro exI [of _ "[fail]"] exI [of _ "[]"]) auto
      qed
    qed
  qed
qed

lemma tenant_in_prologue:
  "to_tenantOrganizationId opts = Some t \<Longrightarrow> t \<noteq> [] \<Longrightarrow>
   Sent ''SELECT set_config('app.current_organization_id', $1, true)'' [t] \<in> set (prologue_sent opts)"
  by (simp add: prologue_sent_def prologue_def)

text \<open>
  C25: a transaction takes at most eight connections. Every attempt but the last begins, is rolled
  back and gives its connection back; the operation is never run before the whole prologue, with
  the organization of the tenant among its settings, and a result is returned only from an attempt
  that ran all of it, the operation and \<open>COMMIT\<close>.
\<close>

lemma transaction_protocol:
  assumes "withTransaction (logging p) opts (logged_operation operation) (w, []) = (r, w', sent)"
    and "to_tenantOrganizationId opts = Some t" "t \<noteq> []"
  shows "\<exists>fails last. sent = concat fails @ last \<and> length fails \<le> 8
     \<and> (\<forall>f \<in> set fails. \<exists>tried. f = Connect # tried @ [Sent ''ROLLBACK'' [], Release]
          \<and> prefix tried (prologue_sent opts @ [Operate, Sent ''COMMIT'' []]))
     \<and> Sent ''SELECT set_config('app.current_organization_id', $1, true)'' [t]
         \<in> set (prologue_sent opts)
     \<and> (case r of
          Inr x \<Rightarrow> length fails < 8 \<and>
            last = Connect # prologue_sent opts @ [Operate, Sent ''COMMIT'' [], Release]
        | Inl e \<Rightarrow> last = [] \<or> last = [Connect])"
proof -
  from attempts_logged [OF assms(1) [unfolded withTransaction_def]] obtain fails last where
    f: "sent = concat fails @ last" "set fails \<subseteq> failed_attempts opts"
    "length fails + (if last = [] then 0 else 1) \<le> max_retries opts"
    "\<forall>x. r = Inr x \<longrightarrow> last = committed_attempt opts"
    "\<forall>e. r = Inl e \<longrightarrow> last = [] \<or> last = [Connect]" by auto
  from f(3) max_retries_bounds(2) [of opts] have n: "length fails \<le> 8" "last \<noteq> [] \<Longrightarrow> length fails < 8"
    by (auto split: if_splits)
  show ?thesis
    using f n tenant_in_prologue [OF assms(2,3)]
    by (intro exI [of _ fails] exI [of _ last])
       (auto simp: failed_attempts_def committed_attempt_def split: sum.splits)
qed

definition tenant_options :: TransactionOptions where
  "tenant_options = \<lparr>to_isolationLevel = Some SERIALIZABLE, to_maxRetries = Some 5,
     to_statementTimeoutMs = None, to_lockTimeoutMs = None,
     to_tenantOrganizationId = Some ''o1'', to_workerBypassRls = False\<rparr>"

definition counting_pool :: "nat pool" where
  "counting_pool = \<lparr>pl_connect = (\<lambda>n. (Inr (), n)),
     pl_query = (\<lambda>q vs n. if q = ''COMMIT'' \<and> n = 0
        then (Inl \<lparr>de_code = Some ''40001'', de_message = ''conflict''\<rparr>, 1) else (Inr (), n)),
     pl_release = (\<lambda>n. n)\<rparr>"

lemma transaction_protocol_witness:
  "case withTransaction (logging counting_pool) tenant_options
     (logged_operation (\<lambda>n. (Inr ''done'', n))) (0, []) of
     (r, w', sent) \<Rightarrow> r = Inr ''done''
       \<and> (\<exists>fails last. sent = concat fails @ last \<and> length fails \<le> 8
            \<and> last = Connect # prologue_sent tenant_options @ [Operate, Sent ''COMMIT'' [], Release])"
proof -
  obtain r w' sent where run: "withTransaction (logging counting_pool) tenant_options
     (logged_operation (\<lambda>n. (Inr ''done'', n))) (0, []) = (r, w', sent)"
    by (metis prod.exhaust)
  have "max_retries tenant_options = Suc (Suc (Suc (Suc (Suc 0))))"
    by (simp add: max_retries_def positiveInteger_def tenant_options_def)
  then have "r = Inr ''done''"
    using run
    by (simp add: withTransaction_def transaction_body_def logging_def counting_pool_def
        logged_operation_def prologue_def tenant_options_def isRetryableDatabaseError_def)
  with transaction_protocol [OF run, of "''o1''"] run show ?thesis
    by (auto simp: tenant_options_def)
qed

section \<open>Atomic transactions\<close>

text \<open>
  A database with snapshots: \<open>BEGIN\<close> takes a copy, the operation works on it, and \<open>COMMIT\<close> makes it
  the committed state, unless it conflicts with what others did. Others act, and are counted, when
  a connection is taken; which transaction conflicts is given by its number.
\<close>

record 'd snapshots =
  sn_committed :: 'd
  sn_working :: 'd
  sn_turn :: nat

definition serialization_failure :: db_error where
  "serialization_failure = \<lparr>de_code = Some ''40001'',
     de_message = ''could not serialize access due to concurrent update''\<rparr>"

definition snapshot_pool :: "(nat \<Rightarrow> 'd \<Rightarrow> 'd) \<Rightarrow> (nat \<Rightarrow> bool) \<Rightarrow> 'd snapshots pool" where
  "snapshot_pool others conflict =
     \<lparr>pl_connect = (\<lambda>w. (Inr (), w\<lparr>sn_committed := others (sn_turn w) (sn_committed w)\<rparr>)),
      pl_query = (\<lambda>q vs w.
        if q = ''BEGIN'' then (Inr (), w\<lparr>sn_working := sn_committed w\<rparr>)
        else if q = ''COMMIT'' then
          (if conflict (sn_turn w) then (Inl serialization_failure, w)
           else (Inr (), w\<lparr>sn_committed := sn_working w\<rparr>))
        else (Inr (), w)),
      pl_release = (\<lambda>w. w\<lparr>sn_turn := Suc (sn_turn w)\<rparr>)\<rparr>"

text \<open>The operation of a transaction of the development, on the copy.\<close>

definition on_snapshot :: "('d, string, 'a) tx \<Rightarrow> ('d snapshots, 'a) db_action" where
  "on_snapshot m = (\<lambda>w. case m (sn_working w) of
     Inl e \<Rightarrow> (Inl \<lparr>de_code = None, de_message = e\<rparr>, w)
   | Inr (x, d) \<Rightarrow> (Inr x, w\<lparr>sn_working := d\<rparr>))"

text \<open>The committed state the attempt \<open>j\<close> begins with, when those before it changed nothing.\<close>

fun seen :: "(nat \<Rightarrow> 'd \<Rightarrow> 'd) \<Rightarrow> nat \<Rightarrow> 'd \<Rightarrow> nat \<Rightarrow> 'd" where
  "seen others n d 0 = others n d"
| "seen others n d (Suc j) = seen others (Suc n) (others n d) j"

lemma query_rest:
  "\<forall>(q, vs) \<in> set qs. q \<noteq> ''BEGIN'' \<and> q \<noteq> ''COMMIT'' \<Longrightarrow>
   query_all (snapshot_pool others conflict) qs w = (Inr (), w)"
  by (induction qs) (auto simp: snapshot_pool_def)

lemma prologue_begins:
  "query_all (snapshot_pool others conflict) (prologue opts) w
     = (Inr (), w\<lparr>sn_working := sn_committed w\<rparr>)"
proof -
  obtain qs where qs: "prologue opts = (''BEGIN'', []) # qs" by (simp add: prologue_def)
  then have rest: "\<forall>(q, vs) \<in> set qs. q \<noteq> ''BEGIN'' \<and> q \<noteq> ''COMMIT''"
    by (auto simp: prologue_def split: option.splits if_splits)
  have "query_all (snapshot_pool others conflict) ((''BEGIN'', []) # qs) w
      = query_all (snapshot_pool others conflict) qs (w\<lparr>sn_working := sn_committed w\<rparr>)"
    by (simp add: snapshot_pool_def)
  then show ?thesis unfolding qs by (simp only: query_rest [OF rest])
qed

lemma snapshot_body:
  "transaction_body (snapshot_pool others conflict) opts (on_snapshot m) w =
     (case m (sn_committed w) of
        Inl e \<Rightarrow> (Inl \<lparr>de_code = None, de_message = e\<rparr>, w\<lparr>sn_working := sn_committed w\<rparr>)
      | Inr (x, d) \<Rightarrow>
          if conflict (sn_turn w) then (Inl serialization_failure, w\<lparr>sn_working := d\<rparr>)
          else (Inr x, w\<lparr>sn_working := d, sn_committed := d\<rparr>))"
  by (simp add: transaction_body_def prologue_begins on_snapshot_def split: sum.split prod.split)
     (simp add: snapshot_pool_def)

text \<open>
  What an atomic transaction does: it runs on the state some attempt saw, after attempts that
  conflicted, and either its effect is committed and its result returned, or nothing is changed.
\<close>

definition atomic_outcome ::
  "(nat \<Rightarrow> 'd \<Rightarrow> 'd) \<Rightarrow> (nat \<Rightarrow> bool) \<Rightarrow> nat \<Rightarrow> ('d, string, 'a) tx \<Rightarrow> nat \<Rightarrow> 'd \<Rightarrow> db_error + 'a \<Rightarrow> 'd \<Rightarrow> bool"
where
  "atomic_outcome others conflict attempts m n d r d' =
     (\<exists>j < attempts. (\<forall>i < j. conflict (n + i))
        \<and> (case m (seen others n d j) of
             Inl e \<Rightarrow> r = Inl \<lparr>de_code = None, de_message = e\<rparr> \<and> d' = seen others n d j
           | Inr (x, e) \<Rightarrow>
               if conflict (n + j)
               then Suc j = attempts \<and> r = Inl serialization_failure \<and> d' = seen others n d j
               else r = Inr x \<and> d' = e))"

lemma later_outcome:
  assumes "atomic_outcome others conflict k m (Suc n) (others n d) r d'" "conflict n"
  shows "atomic_outcome others conflict (Suc k) m n d r d'"
proof -
  from assms(1) obtain j where j: "j < k" "\<forall>i < j. conflict (Suc n + i)"
    "case m (seen others (Suc n) (others n d) j) of
       Inl e \<Rightarrow> r = Inl \<lparr>de_code = None, de_message = e\<rparr> \<and> d' = seen others (Suc n) (others n d) j
     | Inr (x, e) \<Rightarrow>
         if conflict (Suc n + j)
         then Suc j = k \<and> r = Inl serialization_failure \<and> d' = seen others (Suc n) (others n d) j
         else r = Inr x \<and> d' = e" unfolding atomic_outcome_def by blast
  have "conflict (n + i)" if "i < Suc j" for i
    using that assms(2) j(2) by (cases i) auto
  with j show ?thesis
    unfolding atomic_outcome_def by (intro exI [of _ "Suc j"]) (auto split: sum.splits)
qed

lemma attempts_atomic:
  assumes "0 < k"
    and "transaction_attempts k (snapshot_pool others conflict) opts (on_snapshot m) w = (r, w')"
  shows "atomic_outcome others conflict k m (sn_turn w) (sn_committed w) r (sn_committed w')"
  using assms
proof (induction k arbitrary: w)
  case 0
  then show ?case by simp
next
  case (Suc k)
  define v where "v = w\<lparr>sn_committed := others (sn_turn w) (sn_committed w)\<rparr>"
  have c: "pl_connect (snapshot_pool others conflict) w = (Inr (), v)"
    by (simp add: snapshot_pool_def v_def)
  have rel: "sn_committed (pl_release (snapshot_pool others conflict) u) = sn_committed u"
    "sn_turn (pl_release (snapshot_pool others conflict) u) = Suc (sn_turn u)" for u
    by (simp_all add: snapshot_pool_def)
  have rb: "snd (pl_query (snapshot_pool others conflict) ''ROLLBACK'' [] u) = u" for u
    by (simp add: snapshot_pool_def)
  show ?case
  proof (cases "m (sn_committed v)")
    case (Inl e)
    with Suc.prems(2) c have "r = Inl \<lparr>de_code = None, de_message = e\<rparr>" "sn_committed w' = sn_committed v"
      by (auto simp: snapshot_body rb rel isRetryableDatabaseError_def Let_def)
    with Inl show ?thesis
      unfolding atomic_outcome_def v_def by (intro exI [of _ 0]) simp
  next
    case (Inr y)
    obtain x e where y: "y = (x, e)" by force
    show ?thesis
    proof (cases "conflict (sn_turn v)")
      case False
      with Suc.prems(2) c Inr y have "r = Inr x" "sn_committed w' = e"
        by (auto simp: snapshot_body rel)
      with False Inr y show ?thesis
        unfolding atomic_outcome_def v_def by (intro exI [of _ 0]) simp
    next
      case True
      show ?thesis
      proof (cases "0 < k")
        case False
        with True Suc.prems(2) c Inr y have "r = Inl serialization_failure"
          "sn_committed w' = sn_committed v" by (auto simp: snapshot_body rb rel Let_def)
        with False True Inr y show ?thesis
          unfolding atomic_outcome_def v_def by (intro exI [of _ 0]) simp
      next
        case k: True
        define u where "u = pl_release (snapshot_pool others conflict) (v\<lparr>sn_working := e\<rparr>)"
        have u: "sn_turn u = Suc (sn_turn w)" "sn_committed u = others (sn_turn w) (sn_committed w)"
          by (simp_all add: u_def rel v_def)
        from k True Suc.prems(2) c Inr y have
          "transaction_attempts k (snapshot_pool others conflict) opts (on_snapshot m) u = (r, w')"
          by (simp add: snapshot_body rb u_def isRetryableDatabaseError_def serialization_failure_def)
        from Suc.IH [OF k this] u True show ?thesis
          by (intro later_outcome) (simp_all add: v_def)
      qed
    qed
  qed
qed




end
