(* ===== verification/Recovery.thy ===== *)
theory Recovery
  imports Unified_Diff Lifecycle
begin

text \<open>
  The decisions of the recovery plane (\<open>packages/recovery/src\<close>): the lifecycle of a recovery run
  (\<open>lifecycle.ts\<close>), the policy a generated patch is held against (\<open>policy.ts\<close>), and the package a
  verified patch is handed over in (\<open>package-builder.ts\<close>).
\<close>

section \<open>Lifecycle\<close>

definition terminalStatuses :: "RecoveryRunStatus list" where
  "terminalStatuses =
     [RecoveryRunStatus.PUBLISHED, RecoveryRunStatus.POLICY_BLOCKED, RecoveryRunStatus.CANCELLED,
      RecoveryRunStatus.TIMED_OUT, RecoveryRunStatus.PATCH_REJECTED,
      RecoveryRunStatus.SECURITY_REJECTED, RecoveryRunStatus.VERIFICATION_FAILED,
      RecoveryRunStatus.WORKTREE_FAILED, RecoveryRunStatus.MODEL_FAILED,
      RecoveryRunStatus.TOOL_FAILED, RecoveryRunStatus.BUDGET_EXCEEDED,
      RecoveryRunStatus.CLEANUP_FAILED]"

primrec recovery_transitions :: "RecoveryRunStatus \<Rightarrow> RecoveryRunStatus list" where
  "recovery_transitions RecoveryRunStatus.REQUESTED =
     [RecoveryRunStatus.POLICY_CHECK, RecoveryRunStatus.CANCELLED]"
| "recovery_transitions RecoveryRunStatus.POLICY_CHECK =
     [RecoveryRunStatus.WORKTREE_PREPARING, RecoveryRunStatus.POLICY_BLOCKED,
      RecoveryRunStatus.CANCELLED]"
| "recovery_transitions RecoveryRunStatus.WORKTREE_PREPARING =
     [RecoveryRunStatus.PATCH_PLANNING, RecoveryRunStatus.WORKTREE_FAILED,
      RecoveryRunStatus.CANCELLED, RecoveryRunStatus.TIMED_OUT]"
| "recovery_transitions RecoveryRunStatus.PATCH_PLANNING =
     [RecoveryRunStatus.PATCH_GENERATING, RecoveryRunStatus.MODEL_FAILED,
      RecoveryRunStatus.BUDGET_EXCEEDED, RecoveryRunStatus.CANCELLED]"
| "recovery_transitions RecoveryRunStatus.PATCH_GENERATING =
     [RecoveryRunStatus.PATCH_VALIDATING, RecoveryRunStatus.MODEL_FAILED,
      RecoveryRunStatus.TOOL_FAILED, RecoveryRunStatus.BUDGET_EXCEEDED,
      RecoveryRunStatus.CANCELLED, RecoveryRunStatus.TIMED_OUT]"
| "recovery_transitions RecoveryRunStatus.PATCH_VALIDATING =
     [RecoveryRunStatus.SECURITY_REVIEW, RecoveryRunStatus.PATCH_REJECTED,
      RecoveryRunStatus.CANCELLED]"
| "recovery_transitions RecoveryRunStatus.SECURITY_REVIEW =
     [RecoveryRunStatus.VERIFYING, RecoveryRunStatus.SECURITY_REJECTED,
      RecoveryRunStatus.CANCELLED]"
| "recovery_transitions RecoveryRunStatus.VERIFYING =
     [RecoveryRunStatus.PACKAGE_BUILDING, RecoveryRunStatus.VERIFICATION_FAILED,
      RecoveryRunStatus.CANCELLED, RecoveryRunStatus.TIMED_OUT]"
| "recovery_transitions RecoveryRunStatus.PACKAGE_BUILDING =
     [RecoveryRunStatus.AWAITING_PUBLICATION_APPROVAL, RecoveryRunStatus.TOOL_FAILED,
      RecoveryRunStatus.CANCELLED]"
| "recovery_transitions RecoveryRunStatus.AWAITING_PUBLICATION_APPROVAL =
     [RecoveryRunStatus.READY_TO_PUBLISH, RecoveryRunStatus.PATCH_PLANNING,
      RecoveryRunStatus.CANCELLED]"
| "recovery_transitions RecoveryRunStatus.READY_TO_PUBLISH =
     [RecoveryRunStatus.PUBLISHED, RecoveryRunStatus.AWAITING_PUBLICATION_APPROVAL,
      RecoveryRunStatus.CANCELLED]"
| "recovery_transitions RecoveryRunStatus.PUBLISHED = []"
| "recovery_transitions RecoveryRunStatus.POLICY_BLOCKED = []"
| "recovery_transitions RecoveryRunStatus.CANCELLED = []"
| "recovery_transitions RecoveryRunStatus.TIMED_OUT = []"
| "recovery_transitions RecoveryRunStatus.PATCH_REJECTED = [RecoveryRunStatus.PATCH_PLANNING]"
| "recovery_transitions RecoveryRunStatus.SECURITY_REJECTED = [RecoveryRunStatus.PATCH_PLANNING]"
| "recovery_transitions RecoveryRunStatus.VERIFICATION_FAILED = [RecoveryRunStatus.PATCH_PLANNING]"
| "recovery_transitions RecoveryRunStatus.WORKTREE_FAILED = [RecoveryRunStatus.WORKTREE_PREPARING]"
| "recovery_transitions RecoveryRunStatus.MODEL_FAILED = [RecoveryRunStatus.PATCH_PLANNING]"
| "recovery_transitions RecoveryRunStatus.TOOL_FAILED = [RecoveryRunStatus.PATCH_PLANNING]"
| "recovery_transitions RecoveryRunStatus.BUDGET_EXCEEDED = []"
| "recovery_transitions RecoveryRunStatus.CLEANUP_FAILED = []"

definition isRecoveryTerminal :: "RecoveryRunStatus \<Rightarrow> bool" where
  "isRecoveryTerminal s = (s \<in> set terminalStatuses)"

definition assertRecoveryTransition :: "RecoveryRunStatus \<Rightarrow> RecoveryRunStatus \<Rightarrow> string + unit" where
  "assertRecoveryTransition current nxt =
     (if current = nxt then Inr ()
      else if nxt \<notin> set (recovery_transitions current)
      then Inl (''Invalid recovery transition: '' @ RecoveryRunStatus_name current @ '' -> ''
                @ RecoveryRunStatus_name nxt)
      else Inr ())"

interpretation recovery: lifecycle assertRecoveryTransition recovery_transitions
  by unfold_locales (auto simp: assertRecoveryTransition_def)

section \<open>Paths and patterns of the policy\<close>

text \<open>\<open>(^|\/)p\<close> for a text \<open>p\<close>.\<close>

definition at_segment :: "string \<Rightarrow> string \<Rightarrow> bool" where
  "at_segment p s = (startsWith s p \<or> has_text s (''/'' @ p))"

definition GENERATED_PATH_PATTERNS :: "string list" where
  "GENERATED_PATH_PATTERNS =
     [''dist/'', ''build/'', ''coverage/'', ''.next/'', ''generated/'', ''vendor/'']"

definition DEPENDENCY_FILES :: "string list" where
  "DEPENDENCY_FILES = [''package.json'', ''pyproject.toml'', ''go.mod'', ''Cargo.toml'']"

definition LOCK_FILES :: "string list" where
  "LOCK_FILES =
     [''package-lock.json'', ''pnpm-lock.yaml'', ''yarn.lock'', ''bun.lockb'', ''poetry.lock'',
      ''Cargo.lock'', ''go.sum'']"

definition INFRASTRUCTURE_FILES :: "string list" where
  "INFRASTRUCTURE_FILES =
     [''docker-compose.yml'', ''docker-compose.yaml'', ''Dockerfile'', ''terraform.tf'']"

text \<open>The patterns ignore the letter case; \<open>permissions?\<close> matches wherever \<open>permission\<close> does.\<close>

definition SECURITY_SENSITIVE_PATTERNS :: "string list" where
  "SECURITY_SENSITIVE_PATTERNS =
     [''auth'', ''security'', ''permission'', ''rbac'', ''iam'', ''middleware'', ''.env'']"

record RecoveryPolicyDecision =
  rpd_allowed :: bool
  rpd_reasons :: "string list"
  rpd_policyVersion :: string
  rpd_evaluatedAt :: string

definition to_slashes :: "string \<Rightarrow> string" where
  "to_slashes s = replace_char (CHR 0x5C) (CHR ''/'') s"

definition absolute_path :: "string \<Rightarrow> bool" where
  "absolute_path s = (startsWith s ''/'' \<or> drive_path s)"

definition normalize_patch_file :: "string \<Rightarrow> string + string" where
  "normalize_patch_file value =
     (let slash = to_slashes value; normalized = posix_normalize slash
      in if absolute_path slash then Inl ''Absolute paths are denied.''
         else if normalized = [] \<or> normalized = ''.'' \<or> normalized = ''..'' \<or> startsWith normalized ''../''
         then Inl ''Invalid or traversing patch path.''
         else if normalized = ''.git'' \<or> startsWith normalized ''.git/''
         then Inl ''Git metadata is immutable.''
         else Inr normalized)"

definition drop_last_slash :: "string \<Rightarrow> string" where
  "drop_last_slash s = (if s \<noteq> [] \<and> last s = CHR ''/'' then butlast s else s)"

definition matchesPrefix :: "string \<Rightarrow> string \<Rightarrow> string + bool" where
  "matchesPrefix filePath candidate =
     (let trimmed = drop_last_slash (to_slashes candidate); normalized = posix_normalize trimmed
      in if trimmed = ''.'' \<or> trimmed = [] then Inr True
         else if absolute_path trimmed then Inl ''Absolute policy paths are denied.''
         else if normalized = [] \<or> normalized = ''..'' \<or> startsWith normalized ''../''
         then Inl ''Invalid or traversing policy path.''
         else Inr (filePath = normalized \<or> startsWith filePath (normalized @ ''/'')))"

text \<open>\<open>candidates.some((c) => matchesPrefix(filePath, c))\<close>, which may throw before it ends.\<close>

fun some_prefix :: "string \<Rightarrow> string list \<Rightarrow> string + bool" where
  "some_prefix filePath [] = Inr False"
| "some_prefix filePath (c # cs) =
     try_then (matchesPrefix filePath c) (\<lambda>m. if m then Inr True else some_prefix filePath cs)"

text \<open>\<open>path.posix.basename\<close> and \<open>path.posix.extname\<close> of a base name.\<close>

definition baseName :: "string \<Rightarrow> string" where
  "baseName s =
     (case filter (\<lambda>w. w \<noteq> []) (split_on (CHR ''/'') s) of [] \<Rightarrow> [] | w # ws \<Rightarrow> last (w # ws))"

definition extname :: "string \<Rightarrow> string" where
  "extname b =
     (let stem = dropWhile (\<lambda>c. c \<noteq> CHR ''.'') (rev b); tail = takeWhile (\<lambda>c. c \<noteq> CHR ''.'') (rev b)
      in if length stem \<le> 1 \<or> b = ''..'' then [] else CHR ''.'' # rev tail)"

definition extension :: "string \<Rightarrow> string" where
  "extension filePath =
     (if baseName filePath = ''Dockerfile'' then ''.dockerfile''
      else to_lower (extname (baseName filePath)))"

definition isGeneratedPath :: "string \<Rightarrow> bool" where
  "isGeneratedPath filePath = list_ex (\<lambda>p. at_segment p filePath) GENERATED_PATH_PATTERNS"

definition isSecuritySensitivePath :: "string \<Rightarrow> bool" where
  "isSecuritySensitivePath filePath =
     list_ex (\<lambda>p. at_segment p (to_lower filePath)) SECURITY_SENSITIVE_PATTERNS"

definition migration_path :: "string \<Rightarrow> bool" where
  "migration_path filePath =
     (let s = to_lower filePath
      in has_text s ''migration/'' \<or> has_text s ''migrations/'' \<or> endsWith s ''schema.prisma'')"

section \<open>The policy decision\<close>

definition reason_when :: "bool \<Rightarrow> string \<Rightarrow> string list" where
  "reason_when b r = (if b then [r] else [])"

text \<open>What is held against a file once its path, scope and denials are known.\<close>

definition file_reasons :: "RecoveryPolicy \<Rightarrow> PatchFile \<Rightarrow> string \<Rightarrow> string list" where
  "file_reasons p f filePath =
     reason_when (extension filePath \<notin> set (allowedExtensions p))
       (''File type is not approved: '' @ filePath)
     @ reason_when (binary f) (''Binary changes are denied: '' @ filePath)
     @ reason_when (changeType f = ADD \<and> \<not> allowNewFiles p) (''New files are denied: '' @ filePath)
     @ reason_when (changeType f = DELETE \<and> \<not> allowDeletedFiles p)
         (''File deletion is denied: '' @ filePath)
     @ reason_when ((generated f \<or> isGeneratedPath filePath) \<and> \<not> allowGeneratedFiles p)
         (''Generated or vendored files are denied: '' @ filePath)
     @ reason_when (baseName filePath \<in> set DEPENDENCY_FILES \<and> \<not> allowDependencyChanges p)
         (''Dependency manifest changes require elevated policy: '' @ filePath)
     @ reason_when (baseName filePath \<in> set LOCK_FILES \<and> \<not> allowLockfileChanges p)
         (''Lockfile changes require elevated policy: '' @ filePath)
     @ reason_when (startsWith filePath ''.github/workflows/'' \<and> \<not> allowWorkflowChanges p)
         (''Workflow changes require elevated policy: '' @ filePath)
     @ reason_when ((baseName filePath \<in> set INFRASTRUCTURE_FILES \<or> startsWith filePath ''infra/'')
           \<and> \<not> allowInfrastructureChanges p)
         (''Infrastructure changes require elevated policy: '' @ filePath)
     @ reason_when (migration_path filePath \<and> \<not> allowMigrationChanges p)
         (''Migration changes require elevated policy: '' @ filePath)
     @ reason_when ((sensitive f \<or> isSecuritySensitivePath filePath)
           \<and> \<not> allowSecuritySensitiveChanges p)
         (''Security-sensitive changes require elevated policy: '' @ filePath)
     @ concat (map (\<lambda>k. reason_when (treatmentPlanStep k < 1 \<or> evidenceCitations k = [])
         (''Patch hunk lacks evidence provenance: '' @ filePath @ ''#'' @ show_int (sequence k)))
         (hunks f))"

text \<open>\<open>file.newPath ?? file.oldPath ?? ''\<close>.\<close>

definition target_of :: "PatchFile \<Rightarrow> string" where
  "target_of f = (case newPath f of Some s \<Rightarrow> s | None \<Rightarrow>
     (case oldPath f of Some s \<Rightarrow> s | None \<Rightarrow> []))"

definition patch_file_reasons :: "RecoveryPolicy \<Rightarrow> PatchFile \<Rightarrow> string + string list" where
  "patch_file_reasons p f =
     (case normalize_patch_file (target_of f) of
        Inl m \<Rightarrow> Inr [m]
      | Inr filePath \<Rightarrow>
          try_then (some_prefix filePath (allowedPaths p)) (\<lambda>allowed.
          try_then (some_prefix filePath (deniedPaths p)) (\<lambda>denied.
            Inr (reason_when (\<not> allowed) (''Path is outside approved scope: '' @ filePath)
                 @ reason_when denied (''Path is explicitly denied: '' @ filePath)
                 @ file_reasons p f filePath))))"

definition budget_reasons :: "RecoveryPolicy \<Rightarrow> PatchFile list \<Rightarrow> int \<Rightarrow> string list" where
  "budget_reasons p files patchBytes =
     reason_when (maximumChangedFiles p < int (length files)) ''Changed-file budget exceeded.''
     @ reason_when (maximumChangedLines p < sum_list (map (\<lambda>f. addedLines f + deletedLines f) files))
         ''Changed-line budget exceeded.''
     @ reason_when (maximumPatchHunks p < sum_list (map (\<lambda>f. int (length (hunks f))) files))
         ''Patch-hunk budget exceeded.''
     @ reason_when (maximumPatchBytes p < patchBytes) ''Patch byte budget exceeded.''"

definition evaluatePatchPolicy ::
  "string \<Rightarrow> RecoveryPolicy \<Rightarrow> PatchFile list \<Rightarrow> int \<Rightarrow> string + RecoveryPolicyDecision" where
  "evaluatePatchPolicy now p files patchBytes =
     try_then (map_parse (patch_file_reasons p) files) (\<lambda>rss.
       let reasons = budget_reasons p files patchBytes @ concat rss
       in Inr \<lparr>rpd_allowed = (reasons = []), rpd_reasons = uniq reasons,
               rpd_policyVersion = policyVersion p, rpd_evaluatedAt = now\<rparr>)"

definition default_extensions :: "string list" where
  "default_extensions =
     [''.ts'', ''.tsx'', ''.js'', ''.jsx'', ''.json'', ''.md'', ''.css'', ''.scss'', ''.html'',
      ''.yml'', ''.yaml'']"

definition defaultRecoveryPolicy :: "string list \<Rightarrow> string list \<Rightarrow> RecoveryPolicy" where
  "defaultRecoveryPolicy paths extensions =
     \<lparr>policyVersion = ''recovery-policy-v1'', allowedPaths = paths,
      deniedPaths = [''.git'', ''node_modules'', ''dist'', ''build'', ''.next'', ''coverage'', ''vendor''],
      allowedExtensions = extensions, maximumChangedFiles = 25, maximumChangedLines = 1000,
      maximumPatchHunks = 200, maximumPatchBytes = 2 * 1024 * 1024, allowNewFiles = True,
      allowDeletedFiles = False, allowGeneratedFiles = False, allowDependencyChanges = False,
      allowLockfileChanges = False, allowWorkflowChanges = False,
      allowInfrastructureChanges = False, allowMigrationChanges = False,
      allowSecuritySensitiveChanges = False, requireSecurityReview = True,
      requireIndependentVerification = True, requireHumanPublicationApproval = True,
      requiredPublicationApprovals = 1, retentionDays = 90\<rparr>"

section \<open>The package of a verified patch\<close>

datatype PatchVersionStatus = PROPOSED | VALIDATING | ACCEPTED | REJECTED | SUPERSEDED

record PatchVersion =
  pv_id :: string
  pv_recoveryId :: string
  pv_version :: int
  pv_status :: PatchVersionStatus
  pv_baseCommitSha :: string
  pv_unifiedDiff :: string
  pv_patchDigest :: string
  pv_changedFiles :: int
  pv_addedLines :: int
  pv_deletedLines :: int
  pv_files :: "PatchFile list"
  pv_policyDecision :: RecoveryPolicyDecision
  pv_createdAt :: string

record TreatmentPlanText =
  tp_goal :: string
  tp_risk :: string
  tp_stepTitles :: "string list"
  tp_knownLimitations :: "string list"
  tp_rollbackStrategy :: string

record RecoverySecurityReview =
  rsr_decision :: RecoverySecurityDecision
  rsr_summary :: string

record RecoveryVerificationReport =
  rvr_status :: RecoveryVerificationStatus
  rvr_originalFailureResolved :: bool
  rvr_unexpectedChanges :: "string list"
  rvr_scopeExpanded :: bool
  rvr_summary :: string

record PullRequestPackageInput =
  ppi_recoveryId :: string
  ppi_patch :: PatchVersion
  ppi_diagnosisSummary :: string
  ppi_treatmentPlan :: TreatmentPlanText
  ppi_securityReview :: RecoverySecurityReview
  ppi_verification :: RecoveryVerificationReport
  ppi_headBranch :: string
  ppi_baseBranch :: string

record PullRequestPackage =
  ppk_id :: string
  ppk_version :: int
  ppk_recoveryId :: string
  ppk_patchId :: string
  ppk_title :: string
  ppk_body :: string
  ppk_headBranch :: string
  ppk_baseBranch :: string
  ppk_rootCauseSummary :: string
  ppk_changedFiles :: "string list"
  ppk_riskSummary :: string
  ppk_verificationSummary :: string
  ppk_knownLimitations :: "string list"
  ppk_rollbackInstructions :: string
  ppk_packageHash :: string
  ppk_createdAt :: string

definition package_title :: "TreatmentPlanText \<Rightarrow> string" where
  "package_title t =
     (case tp_stepTitles t of
        [] \<Rightarrow> ''fix: apply approved CodeER recovery plan''
      | s # _ \<Rightarrow> if s = [] then ''fix: apply approved CodeER recovery plan''
                 else take 240 (''fix: '' @ s))"

definition code_item :: "string \<Rightarrow> string" where
  "code_item s = ''- '' @ [CHR 0x60] @ s @ [CHR 0x60]"

definition changed_paths :: "PatchVersion \<Rightarrow> string list" where
  "changed_paths v =
     map (\<lambda>f. case newPath f of Some s \<Rightarrow> s | None \<Rightarrow>
        (case oldPath f of Some s \<Rightarrow> s | None \<Rightarrow> ''unknown'')) (pv_files v)"

definition package_body :: "PullRequestPackageInput \<Rightarrow> string" where
  "package_body i =
     (let v = ppi_patch i; t = ppi_treatmentPlan i in
      join_with [CHR 0x0A]
       ([''## Root cause'', ppi_diagnosisSummary i, [], ''## Approved treatment plan'', tp_goal t, [],
         ''## Changes'']
        @ map code_item (changed_paths v)
        @ [[], ''## Patch statistics'', ''- Files changed: '' @ show_int (pv_changedFiles v),
           ''- Lines added: '' @ show_int (pv_addedLines v),
           ''- Lines deleted: '' @ show_int (pv_deletedLines v),
           ''- Patch digest: '' @ [CHR 0x60] @ pv_patchDigest v @ [CHR 0x60], [],
           ''## Security review'', rsr_summary (ppi_securityReview i), [],
           ''## Independent verification'', rvr_summary (ppi_verification i), [],
           ''## Known limitations'']
        @ (if tp_knownLimitations t = [] then [''- None recorded.'']
           else map (\<lambda>s. ''- '' @ s) (tp_knownLimitations t))
        @ [[], ''## Rollback'', tp_rollbackStrategy t, [],
           ''> Prepared by CodeER. Human review is required. This package does not authorize merge.'']))"

text \<open>The content the hash of a package covers.\<close>

definition package_content :: "PullRequestPackage \<Rightarrow> json" where
  "package_content k = JObj
     [(''recoveryId'', JStr (ppk_recoveryId k)), (''patchId'', JStr (ppk_patchId k)),
      (''title'', JStr (ppk_title k)), (''body'', JStr (ppk_body k)),
      (''headBranch'', JStr (ppk_headBranch k)), (''baseBranch'', JStr (ppk_baseBranch k)),
      (''rootCauseSummary'', JStr (ppk_rootCauseSummary k)),
      (''changedFiles'', JArr (map JStr (ppk_changedFiles k))),
      (''riskSummary'', JStr (ppk_riskSummary k)),
      (''verificationSummary'', JStr (ppk_verificationSummary k)),
      (''knownLimitations'', JArr (map JStr (ppk_knownLimitations k))),
      (''rollbackInstructions'', JStr (ppk_rollbackInstructions k))]"

definition buildPullRequestPackage ::
  "host \<Rightarrow> string \<Rightarrow> string \<Rightarrow> PullRequestPackageInput \<Rightarrow> string + PullRequestPackage" where
  "buildPullRequestPackage h uuid now i =
     (if rsr_decision (ppi_securityReview i) \<noteq> RecoverySecurityDecision.ALLOW
      then Inl ''Pull-request packaging is blocked by security review.''
      else if rvr_status (ppi_verification i) \<noteq> RecoveryVerificationStatus.PASSED
           \<or> \<not> rvr_originalFailureResolved (ppi_verification i)
      then Inl ''Pull-request packaging requires successful independent verification.''
      else if rvr_scopeExpanded (ppi_verification i) \<or> rvr_unexpectedChanges (ppi_verification i) \<noteq> []
      then Inl ''Pull-request packaging is blocked by unexpected changes.''
      else
        (let k = \<lparr>ppk_id = uuid, ppk_version = pv_version (ppi_patch i),
              ppk_recoveryId = ppi_recoveryId i, ppk_patchId = pv_id (ppi_patch i),
              ppk_title = package_title (ppi_treatmentPlan i), ppk_body = package_body i,
              ppk_headBranch = ppi_headBranch i, ppk_baseBranch = ppi_baseBranch i,
              ppk_rootCauseSummary = ppi_diagnosisSummary i,
              ppk_changedFiles = changed_paths (ppi_patch i),
              ppk_riskSummary = tp_risk (ppi_treatmentPlan i) @ '': '' @ rsr_summary (ppi_securityReview i),
              ppk_verificationSummary = rvr_summary (ppi_verification i),
              ppk_knownLimitations = tp_knownLimitations (ppi_treatmentPlan i),
              ppk_rollbackInstructions = tp_rollbackStrategy (ppi_treatmentPlan i),
              ppk_packageHash = [], ppk_createdAt = now\<rparr>
         in Inr (k\<lparr>ppk_packageHash := sha256 h (canonicalJson h (package_content k))\<rparr>)))"

section \<open>What the lifecycle requires\<close>

fun recovery_rank :: "RecoveryRunStatus \<Rightarrow> nat" where
  "recovery_rank RecoveryRunStatus.POLICY_CHECK = 1"
| "recovery_rank RecoveryRunStatus.WORKTREE_PREPARING = 2"
| "recovery_rank RecoveryRunStatus.WORKTREE_FAILED = 2"
| "recovery_rank RecoveryRunStatus.PATCH_PLANNING = 3"
| "recovery_rank RecoveryRunStatus.MODEL_FAILED = 3"
| "recovery_rank RecoveryRunStatus.TOOL_FAILED = 3"
| "recovery_rank RecoveryRunStatus.PATCH_REJECTED = 3"
| "recovery_rank RecoveryRunStatus.SECURITY_REJECTED = 3"
| "recovery_rank RecoveryRunStatus.VERIFICATION_FAILED = 3"
| "recovery_rank RecoveryRunStatus.PATCH_GENERATING = 4"
| "recovery_rank RecoveryRunStatus.PATCH_VALIDATING = 5"
| "recovery_rank RecoveryRunStatus.SECURITY_REVIEW = 6"
| "recovery_rank RecoveryRunStatus.VERIFYING = 7"
| "recovery_rank RecoveryRunStatus.PACKAGE_BUILDING = 8"
| "recovery_rank RecoveryRunStatus.AWAITING_PUBLICATION_APPROVAL = 9"
| "recovery_rank RecoveryRunStatus.READY_TO_PUBLISH = 10"
| "recovery_rank RecoveryRunStatus.PUBLISHED = 11"
| "recovery_rank _ = 0"

definition recovery_stages :: "RecoveryRunStatus list" where
  "recovery_stages =
     [RecoveryRunStatus.REQUESTED, RecoveryRunStatus.POLICY_CHECK,
      RecoveryRunStatus.WORKTREE_PREPARING, RecoveryRunStatus.PATCH_PLANNING,
      RecoveryRunStatus.PATCH_GENERATING, RecoveryRunStatus.PATCH_VALIDATING,
      RecoveryRunStatus.SECURITY_REVIEW, RecoveryRunStatus.VERIFYING,
      RecoveryRunStatus.PACKAGE_BUILDING, RecoveryRunStatus.AWAITING_PUBLICATION_APPROVAL,
      RecoveryRunStatus.READY_TO_PUBLISH, RecoveryRunStatus.PUBLISHED]"

lemma recovery_pipeline: "pipeline recovery_transitions recovery_rank (\<lambda>k. recovery_stages ! k)"
  unfolding pipeline_def
proof
  fix a
  show "\<forall>b \<in> set (recovery_transitions a). recovery_rank b \<le> recovery_rank a
          \<or> recovery_rank b = Suc (recovery_rank a) \<and> b = recovery_stages ! recovery_rank b"
    by (cases a) (simp_all add: recovery_stages_def)
qed

text \<open>
  A recovery that went from the request to \<open>READY_TO_PUBLISH\<close> by permitted changes passed the
  policy check, the validation of its patch, the security review, the verification and the wait for
  the approval; no history of the lifecycle skips a stage. Some statuses the code calls terminal
  still have ways out.
\<close>

lemma recovery_after_every_stage:
  assumes "accepted assertRecoveryTransition RecoveryRunStatus.REQUESTED ts"
    and "last (RecoveryRunStatus.REQUESTED # ts) = RecoveryRunStatus.READY_TO_PUBLISH"
  shows "set (tl recovery_stages) - {RecoveryRunStatus.PUBLISHED} \<subseteq> set ts
    \<and> filter (\<lambda>s. recovery_transitions s \<noteq> []) terminalStatuses
      = [RecoveryRunStatus.PATCH_REJECTED, RecoveryRunStatus.SECURITY_REJECTED,
         RecoveryRunStatus.VERIFICATION_FAILED, RecoveryRunStatus.WORKTREE_FAILED,
         RecoveryRunStatus.MODEL_FAILED, RecoveryRunStatus.TOOL_FAILED]"
proof
  have "recovery_stages ! k \<in> set ts" if "0 < k" "k \<le> 10" for k
    using recovery.pipeline_stages_visited [OF recovery_pipeline assms(1), of k] assms(2) that by simp
  from this [of 1] this [of 2] this [of 3] this [of 4] this [of 5] this [of 6] this [of 7]
    this [of 8] this [of 9] this [of 10]
  show "set (tl recovery_stages) - {RecoveryRunStatus.PUBLISHED} \<subseteq> set ts"
    by (auto simp: recovery_stages_def)
qed (simp add: terminalStatuses_def)

lemma recovery_after_every_stage_witness:
  "RecoveryRunStatus.VERIFYING \<in> set
     [RecoveryRunStatus.POLICY_CHECK, RecoveryRunStatus.WORKTREE_PREPARING,
      RecoveryRunStatus.PATCH_PLANNING, RecoveryRunStatus.MODEL_FAILED,
      RecoveryRunStatus.PATCH_PLANNING, RecoveryRunStatus.PATCH_GENERATING,
      RecoveryRunStatus.PATCH_VALIDATING, RecoveryRunStatus.SECURITY_REVIEW,
      RecoveryRunStatus.VERIFYING, RecoveryRunStatus.PACKAGE_BUILDING,
      RecoveryRunStatus.AWAITING_PUBLICATION_APPROVAL, RecoveryRunStatus.READY_TO_PUBLISH]"
  (is "_ \<in> set ?ts")
proof -
  have "accepted assertRecoveryTransition RecoveryRunStatus.REQUESTED ?ts"
    by (simp add: assertRecoveryTransition_def)
  from recovery_after_every_stage [OF this] show ?thesis by (simp add: recovery_stages_def)
qed

section \<open>What the policy promises\<close>

lemma reason_when_Nil_iff [simp]: "reason_when b r = [] \<longleftrightarrow> \<not> b"
  by (simp add: reason_when_def)

lemma some_prefix_Inr:
  "some_prefix s cs = Inr b \<Longrightarrow>
     b = (\<exists>c \<in> set cs. matchesPrefix s c = Inr True)
     \<and> (\<not> b \<longrightarrow> (\<forall>c \<in> set cs. matchesPrefix s c = Inr False))"
proof (induction cs)
  case (Cons c cs)
  then obtain x where x: "matchesPrefix s c = Inr x" "(if x then Inr True else some_prefix s cs) = Inr b"
    unfolding some_prefix.simps try_then_Inr_iff by blast
  show ?case
  proof (cases x)
    case True
    with x show ?thesis by simp
  next
    case False
    with x have "some_prefix s cs = Inr b" by simp
    from Cons.IH [OF this] x(1) False show ?thesis by (cases b) simp_all
  qed
qed simp

text \<open>A file the policy has no reason against.\<close>

definition file_rules :: "RecoveryPolicy \<Rightarrow> PatchFile \<Rightarrow> string \<Rightarrow> bool" where
  "file_rules p f s =
     (extension s \<in> set (allowedExtensions p) \<and> \<not> binary f
      \<and> (changeType f = ADD \<longrightarrow> allowNewFiles p) \<and> (changeType f = DELETE \<longrightarrow> allowDeletedFiles p)
      \<and> (generated f \<or> isGeneratedPath s \<longrightarrow> allowGeneratedFiles p)
      \<and> (baseName s \<in> set DEPENDENCY_FILES \<longrightarrow> allowDependencyChanges p)
      \<and> (baseName s \<in> set LOCK_FILES \<longrightarrow> allowLockfileChanges p)
      \<and> (startsWith s ''.github/workflows/'' \<longrightarrow> allowWorkflowChanges p)
      \<and> (baseName s \<in> set INFRASTRUCTURE_FILES \<or> startsWith s ''infra/'' \<longrightarrow> allowInfrastructureChanges p)
      \<and> (migration_path s \<longrightarrow> allowMigrationChanges p)
      \<and> (sensitive f \<or> isSecuritySensitivePath s \<longrightarrow> allowSecuritySensitiveChanges p)
      \<and> (\<forall>k \<in> set (hunks f). 1 \<le> treatmentPlanStep k \<and> evidenceCitations k \<noteq> []))"

definition acceptable_file :: "RecoveryPolicy \<Rightarrow> PatchFile \<Rightarrow> string \<Rightarrow> bool" where
  "acceptable_file p f s =
     ((\<exists>a \<in> set (allowedPaths p). matchesPrefix s a = Inr True)
      \<and> (\<forall>a \<in> set (deniedPaths p). matchesPrefix s a = Inr False)
      \<and> file_rules p f s)"

lemma normalized_inside:
  assumes "normalize_patch_file v = Inr s"
  shows "inside_repository s"
proof -
  let ?c = "to_slashes v"
  from assms have "s = posix_normalize ?c" "s \<noteq> ''..''" "\<not> startsWith s ''../''"
    "\<not> startsWith s ''.git/''" "s \<noteq> ''.git''"
    by (auto simp: normalize_patch_file_def Let_def split: if_splits)
  then show ?thesis
    by (intro inside_of_segments(2) [OF refl, of "if endsWith ?c ''/'' then ''/'' else []" s ?c])
      (auto simp: posix_normalize_def Let_def)
qed

lemma file_reasons_Nil: "file_reasons p f s = [] \<longleftrightarrow> file_rules p f s"
proof -
  have c: "concat (map (\<lambda>k. reason_when (treatmentPlanStep k < 1 \<or> evidenceCitations k = []) (m k)) ks) = []
      \<longleftrightarrow> (\<forall>k \<in> set ks. 1 \<le> treatmentPlanStep k \<and> evidenceCitations k \<noteq> [])" for m ks
    by (induction ks) auto
  show ?thesis
    by (simp only: file_reasons_def file_rules_def append_is_Nil_conv reason_when_Nil_iff c
        de_Morgan_conj de_Morgan_disj not_not imp_conv_disj)
qed

lemma patch_file_reasons_Nil:
  assumes "patch_file_reasons p f = Inr rs"
  shows "rs = [] \<longleftrightarrow>
     (\<exists>s. normalize_patch_file (target_of f) = Inr s \<and> acceptable_file p f s)"
proof (cases "normalize_patch_file (target_of f)")
  case (Inl m)
  with assms show ?thesis by (auto simp: patch_file_reasons_def)
next
  case (Inr s)
  with assms obtain a b where a: "some_prefix s (allowedPaths p) = Inr a"
    and b: "some_prefix s (deniedPaths p) = Inr b"
    and rs: "rs = reason_when (\<not> a) (''Path is outside approved scope: '' @ s)
       @ reason_when b (''Path is explicitly denied: '' @ s) @ file_reasons p f s"
    by (auto simp: patch_file_reasons_def try_then_Inr_iff)
  have denied: "(\<not> b) = (\<forall>x \<in> set (deniedPaths p). matchesPrefix s x = Inr False)"
    using some_prefix_Inr [OF b] by (cases b) fastforce+
  have allowed: "a = (\<exists>x \<in> set (allowedPaths p). matchesPrefix s x = Inr True)"
    using some_prefix_Inr [OF a] by (rule conjunct1)
  have "rs = [] \<longleftrightarrow> a \<and> \<not> b \<and> file_rules p f s"
    by (simp only: rs append_is_Nil_conv reason_when_Nil_iff file_reasons_Nil not_not)
  also have "\<dots> \<longleftrightarrow> acceptable_file p f s"
    by (simp only: allowed denied acceptable_file_def)
  finally show ?thesis using Inr by simp
qed

text \<open>
  C22: a patch is allowed exactly when it is within the four budgets and every file's target is a path
  inside the repository, not of Git's own data, in an approved directory and in no denied one, of an
  approved type and of no class of files the policy withholds, with every hunk traced to a step of
  the plan and to evidence.
\<close>

lemma recovery_policy_iff:
  assumes "evaluatePatchPolicy now p files bytes = Inr d"
  shows "(rpd_allowed d \<longleftrightarrow>
      int (length files) \<le> maximumChangedFiles p
      \<and> sum_list (map (\<lambda>f. addedLines f + deletedLines f) files) \<le> maximumChangedLines p
      \<and> sum_list (map (\<lambda>f. int (length (hunks f))) files) \<le> maximumPatchHunks p
      \<and> bytes \<le> maximumPatchBytes p
      \<and> (\<forall>f \<in> set files. \<exists>s. normalize_patch_file (target_of f) = Inr s
           \<and> inside_repository s \<and> acceptable_file p f s))
    \<and> (rpd_allowed d \<longleftrightarrow> rpd_reasons d = [])"
proof -
  from assms obtain rss where rss: "map_parse (patch_file_reasons p) files = Inr rss"
    and d: "rpd_allowed d = (budget_reasons p files bytes @ concat rss = [])"
      "rpd_reasons d = uniq (budget_reasons p files bytes @ concat rss)"
    by (auto simp: evaluatePatchPolicy_def try_then_Inr_iff)
  from rss have all: "list_all2 (\<lambda>f rs. patch_file_reasons p f = Inr rs) files rss"
    by (simp add: map_parse_Inr)
  then have "concat rss = [] \<longleftrightarrow>
      (\<forall>f \<in> set files. \<exists>s. normalize_patch_file (target_of f) = Inr s \<and> acceptable_file p f s)"
    by (induction rule: list_all2_induct) (auto simp: patch_file_reasons_Nil)
  moreover have "(\<exists>s. normalize_patch_file t = Inr s \<and> acceptable_file p f s)
      \<longleftrightarrow> (\<exists>s. normalize_patch_file t = Inr s \<and> inside_repository s \<and> acceptable_file p f s)" for t f
    using normalized_inside by blast
  moreover have "budget_reasons p files bytes = [] \<longleftrightarrow>
      int (length files) \<le> maximumChangedFiles p
      \<and> sum_list (map (\<lambda>f. addedLines f + deletedLines f) files) \<le> maximumChangedLines p
      \<and> sum_list (map (\<lambda>f. int (length (hunks f))) files) \<le> maximumPatchHunks p
      \<and> bytes \<le> maximumPatchBytes p"
    by (simp add: budget_reasons_def not_less)
  ultimately show ?thesis
    by (simp only: d uniq_Nil_iff append_is_Nil_conv conj_assoc simp_thms)
qed

text \<open>
  A renamed file is judged by its new path alone: a patch that moves a workflow out of its directory
  is allowed by the default policy, which withholds changes of workflows.
\<close>

definition moved_workflow :: PatchFile where
  "moved_workflow =
     \<lparr>fileId = ''f1'', patchId = ''v1'', oldPath = Some ''.github/workflows/ci.yml'',
      newPath = Some ''docs/ci.yml'', changeType = RENAME, oldDigest = None, newDigest = None,
      addedLines = 0, deletedLines = 0, binary = False, generated = False, sensitive = False,
      hunks = []\<rparr>"

lemma moved_workflow_allowed:
  "evaluatePatchPolicy ''now'' (defaultRecoveryPolicy [''docs''] default_extensions) [moved_workflow] 10
     = Inr \<lparr>rpd_allowed = True, rpd_reasons = [], rpd_policyVersion = ''recovery-policy-v1'',
            rpd_evaluatedAt = ''now''\<rparr>"
  by code_simp

lemma docs_normalized: "normalize_patch_file ''docs/ci.yml'' = Inr ''docs/ci.yml''"
  by code_simp

lemma moved_workflow_target: "target_of moved_workflow = ''docs/ci.yml''"
  by (simp add: moved_workflow_def target_of_def)

lemma recovery_policy_iff_witness:
  "acceptable_file (defaultRecoveryPolicy [''docs''] default_extensions) moved_workflow ''docs/ci.yml''"
proof -
  from recovery_policy_iff [OF moved_workflow_allowed]
  have "\<exists>s. normalize_patch_file (target_of moved_workflow) = Inr s
      \<and> acceptable_file (defaultRecoveryPolicy [''docs''] default_extensions) moved_workflow s"
    by auto
  then show ?thesis
    by (simp only: moved_workflow_target docs_normalized sum.inject) blast
qed

section \<open>What a package certifies\<close>

lemma package_title_short: "length (package_title t) \<le> 240"
  by (simp add: package_title_def split: list.split)

text \<open>
  A package is built exactly for a patch the security review allows and the independent
  verification passed without unexpected changes, and it says so of this patch: its hash is the
  digest of its content, which names the patch, the branches, the files and both summaries.
\<close>

lemma package_built_iff:
  "(\<exists>k. buildPullRequestPackage h uuid now i = Inr k) =
     (rsr_decision (ppi_securityReview i) = RecoverySecurityDecision.ALLOW
      \<and> rvr_status (ppi_verification i) = RecoveryVerificationStatus.PASSED
      \<and> rvr_originalFailureResolved (ppi_verification i)
      \<and> \<not> rvr_scopeExpanded (ppi_verification i) \<and> rvr_unexpectedChanges (ppi_verification i) = [])
   \<and> (case buildPullRequestPackage h uuid now i of
        Inl m \<Rightarrow> True
      | Inr k \<Rightarrow> ppk_packageHash k = sha256 h (canonicalJson h (package_content k))
          \<and> ppk_patchId k = pv_id (ppi_patch i) \<and> ppk_version k = pv_version (ppi_patch i)
          \<and> ppk_changedFiles k = changed_paths (ppi_patch i) \<and> length (ppk_title k) \<le> 240)"
  (is "?built = ?checks \<and> ?says")
proof (rule conjI)
  show "?built = ?checks"
    by (auto simp: buildPullRequestPackage_def Let_def)
next
  show ?says
    by (simp add: buildPullRequestPackage_def Let_def package_content_def package_title_short)
qed

end
