(* ===== verification/Refinement.thy ===== *)
theory Refinement
  imports Prelude
begin

text \<open>
  The contract of an implementation that answers every event as its specification does: a
  simulation of deterministic machines, which the components with an abstract specification
  interpret.
\<close>

text \<open>The answers of a machine to a sequence of events.\<close>

fun responses :: "('s \<Rightarrow> 'e \<Rightarrow> 'r \<times> 's) \<Rightarrow> 's \<Rightarrow> 'e list \<Rightarrow> 'r list" where
  "responses step s [] = []"
| "responses step s (e # es) = (let (r, s') = step s e in r # responses step s' es)"

fun final_state :: "('s \<Rightarrow> 'e \<Rightarrow> 'r \<times> 's) \<Rightarrow> 's \<Rightarrow> 'e list \<Rightarrow> 's" where
  "final_state step s [] = s"
| "final_state step s (e # es) = final_state step (snd (step s e)) es"

text \<open>Every event of the sequence is allowed in the state it comes in.\<close>

fun all_allowed :: "('s \<Rightarrow> 'e \<Rightarrow> 'r \<times> 's) \<Rightarrow> ('s \<Rightarrow> 'e \<Rightarrow> bool) \<Rightarrow> 's \<Rightarrow> 'e list \<Rightarrow> bool" where
  "all_allowed step allowed s [] = True"
| "all_allowed step allowed s (e # es) =
     (allowed s e \<and> all_allowed step allowed (snd (step s e)) es)"

locale refines =
  fixes impl :: "'s \<Rightarrow> 'e \<Rightarrow> 'r \<times> 's"
    and spec :: "'a \<Rightarrow> 'e \<Rightarrow> 'r \<times> 'a"
    and rel :: "'s \<Rightarrow> 'a \<Rightarrow> bool"
    and allowed :: "'a \<Rightarrow> 'e \<Rightarrow> bool"
  assumes answers: "rel s a \<Longrightarrow> allowed a e \<Longrightarrow> fst (impl s e) = fst (spec a e)"
    and follows: "rel s a \<Longrightarrow> allowed a e \<Longrightarrow> rel (snd (impl s e)) (snd (spec a e))"
begin

lemma same_responses:
  "rel s a \<Longrightarrow> all_allowed spec allowed a es \<Longrightarrow> responses impl s es = responses spec a es"
proof (induction es arbitrary: s a)
  case Nil
  then show ?case by simp
next
  case (Cons e es)
  with answers follows show ?case by (auto simp: split_beta)
qed

lemma stays_related:
  "rel s a \<Longrightarrow> all_allowed spec allowed a es \<Longrightarrow> rel (final_state impl s es) (final_state spec a es)"
  by (induction es arbitrary: s a) (auto intro: follows)

end

text \<open>An invariant of a machine holds after any sequence of events.\<close>

lemma invariant_final:
  assumes "\<And>s e. I s \<Longrightarrow> I (snd (step s e))" "I s"
  shows "I (final_state step s es)"
  using assms(2) by (induction es arbitrary: s) (auto intro: assms(1))

end
