(* ===== verification/Judge_Limiter.thy ===== *)
theory Judge_Limiter
  imports Refinement
begin

text \<open>
  The limiter of failed logins (\<open>apps/web/lib/judge-login-limiter.ts\<close>): the failures of every
  address and of all together within a sliding window, in a map whose size is bounded by evicting
  its oldest entry, and the specification that never forgets, which it refines.
\<close>

section \<open>The limiter\<close>

record limiter_options =
  lo_windowMs :: int
  lo_maxFailuresPerIp :: int
  lo_maxFailuresGlobal :: int
  lo_maxTrackedIps :: int

definition default_options :: limiter_options where
  "default_options =
     \<lparr>lo_windowMs = 10 * 60 * 1000, lo_maxFailuresPerIp = 5, lo_maxFailuresGlobal = 30,
      lo_maxTrackedIps = 1000\<rparr>"

text \<open>The map of the code keeps the order of insertion: a list of entries, the oldest first.\<close>

record limiter =
  lm_perIp :: "(string \<times> int list) list"
  lm_globalFailures :: "int list"

definition createJudgeLoginLimiter :: limiter where
  "createJudgeLoginLimiter = \<lparr>lm_perIp = [], lm_globalFailures = []\<rparr>"

definition prune :: "limiter_options \<Rightarrow> int \<Rightarrow> int list \<Rightarrow> int list" where
  "prune opts now vs = filter (\<lambda>t. now - t < lo_windowMs opts) vs"

text \<open>The loop over the map: every entry is pruned, and deleted when nothing is left of it.\<close>

definition swept :: "(int list \<Rightarrow> int list) \<Rightarrow> (string \<times> int list) list \<Rightarrow> (string \<times> int list) list"
where
  "swept f es = filter (\<lambda>(k, vs). vs \<noteq> []) (map (\<lambda>(k, vs). (k, f vs)) es)"

definition sweep :: "limiter_options \<Rightarrow> int \<Rightarrow> limiter \<Rightarrow> limiter" where
  "sweep opts now l =
     \<lparr>lm_perIp = swept (prune opts now) (lm_perIp l),
      lm_globalFailures = prune opts now (lm_globalFailures l)\<rparr>"

definition track :: "limiter_options \<Rightarrow> string \<Rightarrow> limiter \<Rightarrow> limiter" where
  "track opts ip l =
     (if map_of (lm_perIp l) ip \<noteq> None then l
      else l\<lparr>lm_perIp :=
        (if lo_maxTrackedIps opts \<le> int (length (lm_perIp l)) then drop 1 (lm_perIp l)
         else lm_perIp l) @ [(ip, [])]\<rparr>)"

definition push_failure :: "string \<Rightarrow> int \<Rightarrow> limiter \<Rightarrow> limiter" where
  "push_failure ip now l =
     l\<lparr>lm_perIp := map (\<lambda>(k, vs). if k = ip then (k, vs @ [now]) else (k, vs)) (lm_perIp l)\<rparr>"

definition failures_of :: "string \<Rightarrow> limiter \<Rightarrow> int list" where
  "failures_of ip l = (case map_of (lm_perIp l) ip of None \<Rightarrow> [] | Some vs \<Rightarrow> vs)"

definition limited :: "limiter_options \<Rightarrow> string \<Rightarrow> limiter \<Rightarrow> bool" where
  "limited opts ip l =
     (if lo_maxFailuresGlobal opts \<le> int (length (lm_globalFailures l)) then True
      else lo_maxFailuresPerIp opts \<le> int (length (failures_of ip l)))"

definition isLimited :: "limiter_options \<Rightarrow> string \<Rightarrow> int \<Rightarrow> limiter \<Rightarrow> bool \<times> limiter" where
  "isLimited opts ip now l = (let l' = sweep opts now l in (limited opts ip l', l'))"

definition recordFailure :: "limiter_options \<Rightarrow> string \<Rightarrow> int \<Rightarrow> limiter \<Rightarrow> bool \<times> limiter" where
  "recordFailure opts ip now l =
     (let l1 = sweep opts now l;
          l2 = l1\<lparr>lm_globalFailures := lm_globalFailures l1 @ [now]\<rparr>;
          l3 = push_failure ip now (track opts ip l2)
      in (limited opts ip l3, l3))"

definition recordSuccess :: "string \<Rightarrow> limiter \<Rightarrow> limiter" where
  "recordSuccess ip l = l\<lparr>lm_perIp := filter (\<lambda>(k, vs). k \<noteq> ip) (lm_perIp l)\<rparr>"

text \<open>The calls of the login route, each with the time it comes at.\<close>

datatype login_event = Query string | Failed string | Succeeded string

definition limiter_step ::
  "limiter_options \<Rightarrow> limiter \<Rightarrow> int \<times> login_event \<Rightarrow> bool \<times> limiter" where
  "limiter_step opts l e = (case e of
     (now, Query ip) \<Rightarrow> isLimited opts ip now l
   | (now, Failed ip) \<Rightarrow> recordFailure opts ip now l
   | (now, Succeeded ip) \<Rightarrow> (False, recordSuccess ip l))"

section \<open>The specification\<close>

text \<open>
  All failures ever recorded, those since the last success of their address beside them, and the
  time of the last event.
\<close>

record attempts =
  at_since :: "(string \<times> int) list"
  at_all :: "int list"
  at_time :: int

definition recent :: "limiter_options \<Rightarrow> int \<Rightarrow> string \<Rightarrow> attempts \<Rightarrow> int list" where
  "recent opts now ip a = prune opts now (map snd (filter (\<lambda>(k, t). k = ip) (at_since a)))"

definition too_many :: "limiter_options \<Rightarrow> int \<Rightarrow> string \<Rightarrow> attempts \<Rightarrow> bool" where
  "too_many opts now ip a =
     (lo_maxFailuresGlobal opts \<le> int (length (prune opts now (at_all a)))
      \<or> lo_maxFailuresPerIp opts \<le> int (length (recent opts now ip a)))"

definition attempts_step ::
  "limiter_options \<Rightarrow> attempts \<Rightarrow> int \<times> login_event \<Rightarrow> bool \<times> attempts" where
  "attempts_step opts a e = (case e of
     (now, Query ip) \<Rightarrow> (too_many opts now ip a, a\<lparr>at_time := now\<rparr>)
   | (now, Failed ip) \<Rightarrow>
       (let a' = a\<lparr>at_since := at_since a @ [(ip, now)], at_all := at_all a @ [now],
                   at_time := now\<rparr>
        in (too_many opts now ip a', a'))
   | (now, Succeeded ip) \<Rightarrow>
       (False, a\<lparr>at_since := filter (\<lambda>(k, t). k \<noteq> ip) (at_since a), at_time := now\<rparr>))"

definition no_attempts :: "int \<Rightarrow> attempts" where
  "no_attempts start = \<lparr>at_since = [], at_all = [], at_time = start\<rparr>"

text \<open>The addresses with a failure within the window.\<close>

definition active_ips :: "limiter_options \<Rightarrow> int \<Rightarrow> attempts \<Rightarrow> string set" where
  "active_ips opts now a = {ip. recent opts now ip a \<noteq> []}"

definition within_capacity :: "limiter_options \<Rightarrow> attempts \<Rightarrow> int \<times> login_event \<Rightarrow> bool" where
  "within_capacity opts a e =
     (at_time a \<le> fst e
      \<and> (case snd e of
           Failed ip \<Rightarrow> int (card (active_ips opts (fst e) a - {ip})) < lo_maxTrackedIps opts
         | _ \<Rightarrow> True))"


section \<open>The refinement\<close>

lemma prune_prune: "now \<le> now' \<Longrightarrow> prune opts now' (prune opts now vs) = prune opts now' vs"
  by (auto simp: prune_def intro: filter_cong)

lemma prune_snoc:
  "0 < lo_windowMs opts \<Longrightarrow> prune opts now (vs @ [now]) = prune opts now vs @ [now]"
  by (simp add: prune_def)

lemma swept_simps [simp]:
  "swept f [] = []"
  "swept f (e # es) = (if f (snd e) = [] then swept f es else (fst e, f (snd e)) # swept f es)"
  by (auto simp: swept_def split_beta)

lemma keys_swept:
  "distinct (map fst es) \<Longrightarrow>
   fst ` set (swept f es) = {ip. \<exists>vs. map_of es ip = Some vs \<and> f vs \<noteq> []}"
proof (induction es)
  case Nil
  then show ?case by simp
next
  case (Cons e es)
  then have "map_of es (fst e) = None" by (simp add: map_of_eq_None_iff)
  with Cons show ?case by auto
qed

lemma map_of_swept:
  "distinct (map fst es) \<Longrightarrow>
   map_of (swept f es) ip
     = (case map_of es ip of None \<Rightarrow> None | Some vs \<Rightarrow> if f vs = [] then None else Some (f vs))"
proof (induction es)
  case Nil
  then show ?case by simp
next
  case (Cons e es)
  then have "map_of es (fst e) = None" by (simp add: map_of_eq_None_iff)
  with Cons show ?case by (auto split: option.splits)
qed

lemma distinct_swept: "distinct (map fst es) \<Longrightarrow> distinct (map fst (swept f es))"
proof (induction es)
  case Nil
  then show ?case by simp
next
  case (Cons e es)
  have "fst ` set (swept f es) \<subseteq> fst ` set es" by (force simp: swept_def)
  with Cons show ?case by auto
qed

definition tracked :: "limiter \<Rightarrow> string set" where
  "tracked l = fst ` set (lm_perIp l)"

definition unique_ips :: "limiter \<Rightarrow> bool" where
  "unique_ips l = distinct (map fst (lm_perIp l))"

lemma sweep_facts:
  assumes "unique_ips l"
  shows "unique_ips (sweep opts now l)"
    "failures_of ip (sweep opts now l) = prune opts now (failures_of ip l)"
    "tracked (sweep opts now l) = {ip. prune opts now (failures_of ip l) \<noteq> []}"
    "lm_globalFailures (sweep opts now l) = prune opts now (lm_globalFailures l)"
proof -
  show "unique_ips (sweep opts now l)"
    using assms by (simp add: sweep_def unique_ips_def distinct_swept)
  have p: "prune opts now [] = []" by (simp add: prune_def)
  show "failures_of ip (sweep opts now l) = prune opts now (failures_of ip l)" for ip
    using assms unfolding sweep_def failures_of_def unique_ips_def
    by (simp add: map_of_swept p split: option.splits)
  show "tracked (sweep opts now l) = {ip. prune opts now (failures_of ip l) \<noteq> []}"
    using assms unfolding sweep_def tracked_def unique_ips_def failures_of_def
    by (auto simp: keys_swept p simp del: map_of_eq_Some_iff split: option.splits)
qed (simp add: sweep_def)

lemma map_of_pushed:
  "map_of (map (\<lambda>(k, vs). if k = ip then (k, vs @ [now]) else (k, vs)) es) ip'
     = map_option (\<lambda>vs. if ip' = ip then vs @ [now] else vs) (map_of es ip')"
  by (induction es) auto

lemma push_facts:
  "unique_ips (push_failure ip now l) = unique_ips l"
  "tracked (push_failure ip now l) = tracked l"
  "ip \<in> tracked l \<Longrightarrow>
     failures_of ip' (push_failure ip now l) = failures_of ip' l @ (if ip' = ip then [now] else [])"
  "lm_globalFailures (push_failure ip now l) = lm_globalFailures l"
proof -
  have k: "map fst (lm_perIp (push_failure ip now l)) = map fst (lm_perIp l)"
    by (auto simp: push_failure_def)
  then show "unique_ips (push_failure ip now l) = unique_ips l"
    by (simp add: unique_ips_def)
  from k show "tracked (push_failure ip now l) = tracked l"
    unfolding tracked_def by (metis list.set_map)
  show "failures_of ip' (push_failure ip now l)
          = failures_of ip' l @ (if ip' = ip then [now] else [])" if "ip \<in> tracked l"
    using that
  proof (cases "map_of (lm_perIp l) ip'")
    case None
    with that have "ip' \<noteq> ip" by (auto simp: tracked_def map_of_eq_None_iff)
    with None show ?thesis by (simp add: failures_of_def push_failure_def map_of_pushed)
  qed (simp add: failures_of_def push_failure_def map_of_pushed)
qed (simp add: push_failure_def)

lemma track_facts:
  assumes "unique_ips l" "int (card (tracked l - {ip})) < lo_maxTrackedIps opts"
  shows "unique_ips (track opts ip l)" "ip \<in> tracked (track opts ip l)"
    "failures_of ip' (track opts ip l) = failures_of ip' l"
    "lm_globalFailures (track opts ip l) = lm_globalFailures l"
proof -
  have len: "length (lm_perIp l) = card (tracked l)"
    using assms(1) distinct_card [of "map fst (lm_perIp l)"]
    by (simp add: unique_ips_def tracked_def)
  have room: "\<not> lo_maxTrackedIps opts \<le> int (length (lm_perIp l))" if "ip \<notin> tracked l"
    using assms(2) that len by simp
  have known: "map_of (lm_perIp l) ip \<noteq> None \<longleftrightarrow> ip \<in> tracked l"
    by (auto simp: tracked_def map_of_eq_None_iff)
  have t: "track opts ip l = (if ip \<in> tracked l then l
      else l\<lparr>lm_perIp := lm_perIp l @ [(ip, [])]\<rparr>)"
    using room known by (simp add: track_def)
  show "unique_ips (track opts ip l)" "ip \<in> tracked (track opts ip l)"
    using assms(1) by (auto simp: t unique_ips_def tracked_def)
  show "failures_of ip' (track opts ip l) = failures_of ip' l"
  proof (cases "map_of (lm_perIp l) ip'")
    case None
    then show ?thesis by (auto simp: t failures_of_def map_add_def)
  next
    case (Some vs)
    then have "ip \<notin> tracked l \<Longrightarrow> ip' \<noteq> ip" using known by auto
    with Some show ?thesis by (auto simp: t failures_of_def map_add_def)
  qed
  show "lm_globalFailures (track opts ip l) = lm_globalFailures l" by (simp add: track_def)
qed

text \<open>
  From the time of the last event on, the limiter and the specification agree on what is within
  the window.
\<close>

definition remembers :: "limiter_options \<Rightarrow> limiter \<Rightarrow> attempts \<Rightarrow> bool" where
  "remembers opts l a =
     (unique_ips l
      \<and> (\<forall>now \<ge> at_time a.
           prune opts now (lm_globalFailures l) = prune opts now (at_all a)
           \<and> (\<forall>ip. prune opts now (failures_of ip l) = recent opts now ip a)))"

lemma remembers_now:
  assumes "remembers opts l a" "at_time a \<le> now"
  shows "prune opts now (lm_globalFailures l) = prune opts now (at_all a)"
    "prune opts now (failures_of ip l) = recent opts now ip a" "unique_ips l"
  using assms by (auto simp: remembers_def)

lemma recent_updates:
  "recent opts now ip (a\<lparr>at_time := t\<rparr>) = recent opts now ip a"
  "recent opts now ip (a\<lparr>at_since := at_since a @ [(ip', t)], at_all := al\<rparr>)
     = recent opts now ip a @ (if ip' = ip then prune opts now [t] else [])"
  "recent opts now ip (a\<lparr>at_since := filter (\<lambda>(k, t). k \<noteq> ip') (at_since a)\<rparr>)
     = (if ip = ip' then [] else recent opts now ip a)"
proof -
  have "filter (\<lambda>(k, t). k = ip) (filter (\<lambda>(k, t). k \<noteq> ip') xs)
      = (if ip = ip' then [] else filter (\<lambda>(k, t). k = ip) xs)" for xs :: "(string \<times> int) list"
    by (auto simp: filter_empty_conv split_beta intro: filter_cong)
  then show "recent opts now ip (a\<lparr>at_since := filter (\<lambda>(k, t). k \<noteq> ip') (at_since a)\<rparr>)
     = (if ip = ip' then [] else recent opts now ip a)"
    by (auto simp: recent_def prune_def)
qed (auto simp: recent_def prune_def)

lemma prune_recent:
  "now \<le> now' \<Longrightarrow> prune opts now' (recent opts now ip a) = recent opts now' ip a"
  by (simp add: recent_def prune_prune)

lemma swept_remembers:
  assumes "remembers opts l a" "at_time a \<le> now"
  shows "remembers opts (sweep opts now l) (a\<lparr>at_time := now\<rparr>)"
  using assms
  by (auto simp: remembers_def sweep_facts recent_updates prune_prune prune_recent)

lemma limited_too_many:
  assumes "remembers opts l a" "at_time a \<le> now"
  shows "limited opts ip (sweep opts now l) = too_many opts now ip a"
  using remembers_now [OF assms]
  by (simp add: limited_def too_many_def sweep_facts)

lemma recorded_remembers:
  assumes w: "0 < lo_windowMs opts" and r: "remembers opts l a" and t: "at_time a \<le> now"
    and room: "int (card (active_ips opts now a - {ip})) < lo_maxTrackedIps opts"
  shows "fst (recordFailure opts ip now l) = fst (attempts_step opts a (now, Failed ip))"
    and "remembers opts (snd (recordFailure opts ip now l))
           (snd (attempts_step opts a (now, Failed ip)))"
proof -
  define l1 where "l1 = sweep opts now l"
  define l2 where "l2 = l1\<lparr>lm_globalFailures := lm_globalFailures l1 @ [now]\<rparr>"
  define l3 where "l3 = push_failure ip now (track opts ip l2)"
  define a' where "a' = a\<lparr>at_since := at_since a @ [(ip, now)], at_all := at_all a @ [now],
      at_time := now\<rparr>"
  note facts = remembers_now [OF r t]
  have tracked: "tracked l1 = active_ips opts now a"
    using facts by (simp add: l1_def sweep_facts active_ips_def)
  have u2: "unique_ips l2" "tracked l2 = tracked l1" "failures_of i l2 = failures_of i l1" for i
    using sweep_facts(1) [OF facts(3)]
    by (simp_all add: l2_def l1_def unique_ips_def tracked_def failures_of_def)
  note tf = track_facts [of l2 ip opts, OF u2(1), unfolded u2(2) tracked, OF room]
  have f3: "failures_of i l3 = prune opts now (failures_of i l) @ (if i = ip then [now] else [])" for i
    using push_facts(3) [OF tf(2), of i now] tf(3) [of i] u2(3) [of i]
    by (simp add: l3_def l1_def sweep_facts facts(3))
  have g3: "lm_globalFailures l3 = prune opts now (lm_globalFailures l) @ [now]"
    by (simp add: l3_def push_facts(4) tf(4)) (simp add: l2_def l1_def sweep_facts facts(3))
  have op: "recordFailure opts ip now l = (limited opts ip l3, l3)"
    by (simp add: recordFailure_def l1_def l2_def l3_def Let_def)
  have sp: "attempts_step opts a (now, Failed ip) = (too_many opts now ip a', a')"
    by (simp add: attempts_step_def a'_def Let_def)
  have new: "prune opts now [now] = [now]" using w by (simp add: prune_def)
  show "fst (recordFailure opts ip now l) = fst (attempts_step opts a (now, Failed ip))"
    using facts new
    by (simp add: op sp limited_def too_many_def f3 g3 a'_def recent_updates prune_snoc [OF w])
  have p: "prune opts n (xs @ [now]) = prune opts n xs @ prune opts n [now]" for n xs
    by (simp add: prune_def)
  have u3: "unique_ips l3" by (simp add: l3_def push_facts tf(1))
  have "remembers opts l3 a'"
    using u3 r t unfolding remembers_def a'_def
    by (auto simp: f3 g3 p prune_prune prune_recent recent_updates)
  then show "remembers opts (snd (recordFailure opts ip now l))
           (snd (attempts_step opts a (now, Failed ip)))"
    by (simp add: op sp)
qed

lemma success_remembers:
  assumes "remembers opts l a" "at_time a \<le> now"
  shows "remembers opts (recordSuccess ip l) (snd (attempts_step opts a (now, Succeeded ip)))"
proof -
  have m: "map_of (filter (\<lambda>(k, vs). k \<noteq> ip) es) i = (if i = ip then None else map_of es i)"
    for i and es :: "(string \<times> int list) list" by (induction es) auto
  have "failures_of i (recordSuccess ip l) = (if i = ip then [] else failures_of i l)" for i
    by (simp add: failures_of_def recordSuccess_def m)
  moreover have "unique_ips (recordSuccess ip l)"
    using assms(1) by (auto simp: unique_ips_def recordSuccess_def remembers_def distinct_map
        inj_on_def)
  ultimately show ?thesis
    using assms
    by (auto simp: remembers_def attempts_step_def recent_updates recordSuccess_def)
       (auto simp: prune_def)
qed

lemma limiter_answers:
  assumes w: "0 < lo_windowMs opts" and r: "remembers opts l a" and c: "within_capacity opts a e"
  shows "fst (limiter_step opts l e) = fst (attempts_step opts a e)
    \<and> remembers opts (snd (limiter_step opts l e)) (snd (attempts_step opts a e))"
proof (cases e)
  case (Pair now x)
  with c have t: "at_time a \<le> now" by (simp add: within_capacity_def)
  show ?thesis
  proof (cases x)
    case (Query ip)
    with Pair swept_remembers [OF r t] limited_too_many [OF r t] show ?thesis
      by (simp add: limiter_step_def attempts_step_def isLimited_def)
  next
    case (Failed ip)
    with Pair c recorded_remembers [OF w r t, of ip] show ?thesis
      by (simp add: limiter_step_def within_capacity_def)
  next
    case (Succeeded ip)
    with Pair success_remembers [OF r t, of ip] show ?thesis
      by (simp add: limiter_step_def attempts_step_def)
  qed
qed

interpretation limiter: refines "limiter_step opts" "attempts_step opts"
    "\<lambda>l a. 0 < lo_windowMs opts \<and> remembers opts l a" "within_capacity opts"
  for opts
  by unfold_locales (use limiter_answers in blast)+

text \<open>
  C27: the limiter refines the one that never forgets: with a clock that does not go back, and as
  long as no failure comes when the map is full of other addresses that failed within the window,
  it gives the same answers to any sequence of queries, failures and successes.
\<close>

lemma limiter_refines_memory:
  assumes "0 < lo_windowMs opts"
    and "all_allowed (attempts_step opts) (within_capacity opts) (no_attempts start) es"
  shows "responses (limiter_step opts) createJudgeLoginLimiter es
           = responses (attempts_step opts) (no_attempts start) es"
proof (rule limiter.same_responses)
  show "0 < lo_windowMs opts \<and> remembers opts createJudgeLoginLimiter (no_attempts start)"
    using assms(1)
    by (simp add: remembers_def createJudgeLoginLimiter_def no_attempts_def unique_ips_def
        failures_of_def recent_def prune_def)
qed (rule assms(2))

text \<open>Two failures allowed within ten milliseconds, from one address of two.\<close>

definition small_options :: limiter_options where
  "small_options = \<lparr>lo_windowMs = 10, lo_maxFailuresPerIp = 2, lo_maxFailuresGlobal = 4,
     lo_maxTrackedIps = 2\<rparr>"

definition sample_logins :: "(int \<times> login_event) list" where
  "sample_logins = [(1, Failed ''a''), (2, Failed ''b''), (3, Failed ''a''), (4, Query ''a''),
     (5, Query ''b''), (11, Query ''a''), (12, Succeeded ''b''), (12, Query ''b'')]"

lemma active_ips_code:
  "active_ips opts now a
     = set (filter (\<lambda>ip. recent opts now ip a \<noteq> []) (map fst (at_since a)))"
  by (force simp: active_ips_def recent_def prune_def filter_empty_conv)

lemma limiter_refines_memory_witness:
  "responses (limiter_step small_options) createJudgeLoginLimiter sample_logins
     = responses (attempts_step small_options) (no_attempts 0) sample_logins
   \<and> responses (attempts_step small_options) (no_attempts 0) sample_logins
     = [False, False, True, True, False, False, False, False]"
proof
  have "all_allowed (attempts_step small_options) (within_capacity small_options) (no_attempts 0)
          sample_logins"
    by (simp add: sample_logins_def no_attempts_def within_capacity_def active_ips_code
        attempts_step_def small_options_def recent_def prune_def Let_def)
  moreover have "0 < lo_windowMs small_options" by (simp add: small_options_def)
  ultimately show "responses (limiter_step small_options) createJudgeLoginLimiter sample_logins
      = responses (attempts_step small_options) (no_attempts 0) sample_logins"
    by (intro limiter_refines_memory)
  show "responses (attempts_step small_options) (no_attempts 0) sample_logins
     = [False, False, True, True, False, False, False, False]"
    by (simp add: sample_logins_def no_attempts_def attempts_step_def small_options_def
        recent_def prune_def too_many_def Let_def)
qed

section \<open>Bounded memory\<close>

lemma length_swept: "length (swept f es) \<le> length es"
  by (simp add: swept_def le_trans [OF length_filter_le])

lemma track_bound:
  "int (length (lm_perIp (track opts ip l))) \<le> max (int (length (lm_perIp l))) (max 1 (lo_maxTrackedIps opts))"
  by (auto simp: track_def)

lemma step_bound:
  assumes "int (length (lm_perIp l)) \<le> max 1 (lo_maxTrackedIps opts)"
  shows "int (length (lm_perIp (snd (limiter_step opts l e)))) \<le> max 1 (lo_maxTrackedIps opts)"
proof -
  have s: "int (length (lm_perIp (sweep opts now l))) \<le> max 1 (lo_maxTrackedIps opts)" for now
    using length_swept [of "prune opts now" "lm_perIp l"] assms by (simp add: sweep_def)
  have "int (length (lm_perIp (track opts ip (sweep opts now l
            \<lparr>lm_globalFailures := lm_globalFailures (sweep opts now l) @ [now]\<rparr>))))
          \<le> max 1 (lo_maxTrackedIps opts)" for now ip
    using track_bound [of opts ip "sweep opts now l
            \<lparr>lm_globalFailures := lm_globalFailures (sweep opts now l) @ [now]\<rparr>"] s [of now]
    by simp
  moreover have "length (lm_perIp (recordSuccess ip l)) \<le> length (lm_perIp l)" for ip
    by (simp add: recordSuccess_def)
  ultimately show ?thesis
    using assms s
    by (auto simp: limiter_step_def isLimited_def recordFailure_def Let_def push_failure_def
        split: prod.splits login_event.splits)
       (meson order_trans of_nat_le_iff)
qed

text \<open>
  whatever addresses requests claim to come from, the map never holds more than the configured
  number of addresses (one at least).
\<close>

lemma limiter_bounded:
  "int (length (lm_perIp (final_state (limiter_step opts) createJudgeLoginLimiter es)))
     \<le> max 1 (lo_maxTrackedIps opts)"
  by (rule invariant_final) (auto intro: step_bound simp: createJudgeLoginLimiter_def)

end
