(* ===== verification/Incident_Log.thy ===== *)
theory Incident_Log
  imports Incidents Sequences Event_Log
begin

text \<open>
  The tables that the stores of incidents, reproductions, investigations and recoveries share
  (\<open>packages/database/src/incident-store.ts\<close>, \<open>sandbox-store.ts\<close>, \<open>investigation-store.ts\<close>,
  \<open>recovery-store.ts\<close>): the timeline of an incident, the audit log and the outbox, with the functions
  that write them. Each store is an extension of the record \<open>core_db\<close>.

  Columns of times hold microseconds, as \<open>TIMESTAMPTZ\<close> does; \<open>c_now\<close> is \<open>NOW()\<close> in microseconds, while
  \<open>c_clock\<close> is \<open>new Date()\<close> in milliseconds. A \<open>jsonb\<close> column gives back the value that was written
  up to the order of its keys, which no digest sees.
\<close>

section \<open>Rows\<close>

datatype IncidentEventType =
    INCIDENT_ADMITTED | TRIAGE_REQUESTED | TRIAGE_STARTED | EVIDENCE_RECORDED
  | SEVERITY_ASSESSED | HEALTH_SNAPSHOT_RECORDED | TRIAGE_COMPLETED | STATUS_CHANGED
  | RECOVERY_APPROVAL_REQUESTED | RECOVERY_APPROVED | INCIDENT_FAILED | INCIDENT_CANCELLED
  | REPRODUCTION_REQUESTED | SANDBOX_POLICY_APPROVED | SANDBOX_POLICY_BLOCKED
  | SANDBOX_PREPARING | REPRODUCTION_STARTED | FAILURE_REPRODUCED | FAILURE_NOT_REPRODUCED
  | REPRODUCTION_TIMED_OUT | REPRODUCTION_CANCELLATION_REQUESTED | REPRODUCTION_CANCELLED
  | REPRODUCTION_INCONCLUSIVE | SANDBOX_INFRASTRUCTURE_FAILED | SANDBOX_CLEANUP_COMPLETED
  | SANDBOX_CLEANUP_FAILED | INVESTIGATION_REQUESTED | INVESTIGATION_STARTED
  | INVESTIGATION_CHECKPOINTED | INVESTIGATION_INSUFFICIENT_EVIDENCE | INVESTIGATION_COMPLETED
  | INVESTIGATION_CANCELLED | INVESTIGATION_FAILED | DIAGNOSIS_PUBLISHED
  | TREATMENT_PLAN_PROPOSED | TREATMENT_PLAN_APPROVAL_RECORDED
  | TREATMENT_PLAN_REVISION_REQUESTED | TREATMENT_PLAN_APPROVED | TREATMENT_PLAN_REJECTED
  | AI_GUARDRAIL_BLOCKED | AI_BUDGET_EXCEEDED | RECOVERY_REQUESTED | RECOVERY_STARTED
  | RECOVERY_CHECKPOINTED | RECOVERY_POLICY_BLOCKED | RECOVERY_WORKTREE_READY
  | RECOVERY_PATCH_PROPOSED | RECOVERY_PATCH_REJECTED | RECOVERY_SECURITY_REVIEWED
  | RECOVERY_VERIFICATION_COMPLETED | RECOVERY_PACKAGE_READY | RECOVERY_PUBLICATION_APPROVED
  | RECOVERY_PUBLICATION_REJECTED | RECOVERY_CANCELLED | RECOVERY_FAILED
  | RECOVERY_CLEANUP_COMPLETED | RECOVERY_CLEANUP_FAILED

primrec IncidentEventType_name :: "IncidentEventType \<Rightarrow> string" where
  "IncidentEventType_name IncidentEventType.INCIDENT_ADMITTED = ''INCIDENT_ADMITTED''"
| "IncidentEventType_name IncidentEventType.TRIAGE_REQUESTED = ''TRIAGE_REQUESTED''"
| "IncidentEventType_name IncidentEventType.TRIAGE_STARTED = ''TRIAGE_STARTED''"
| "IncidentEventType_name IncidentEventType.EVIDENCE_RECORDED = ''EVIDENCE_RECORDED''"
| "IncidentEventType_name IncidentEventType.SEVERITY_ASSESSED = ''SEVERITY_ASSESSED''"
| "IncidentEventType_name IncidentEventType.HEALTH_SNAPSHOT_RECORDED = ''HEALTH_SNAPSHOT_RECORDED''"
| "IncidentEventType_name IncidentEventType.TRIAGE_COMPLETED = ''TRIAGE_COMPLETED''"
| "IncidentEventType_name IncidentEventType.STATUS_CHANGED = ''STATUS_CHANGED''"
| "IncidentEventType_name IncidentEventType.RECOVERY_APPROVAL_REQUESTED = ''RECOVERY_APPROVAL_REQUESTED''"
| "IncidentEventType_name IncidentEventType.RECOVERY_APPROVED = ''RECOVERY_APPROVED''"
| "IncidentEventType_name IncidentEventType.INCIDENT_FAILED = ''INCIDENT_FAILED''"
| "IncidentEventType_name IncidentEventType.INCIDENT_CANCELLED = ''INCIDENT_CANCELLED''"
| "IncidentEventType_name IncidentEventType.REPRODUCTION_REQUESTED = ''REPRODUCTION_REQUESTED''"
| "IncidentEventType_name IncidentEventType.SANDBOX_POLICY_APPROVED = ''SANDBOX_POLICY_APPROVED''"
| "IncidentEventType_name IncidentEventType.SANDBOX_POLICY_BLOCKED = ''SANDBOX_POLICY_BLOCKED''"
| "IncidentEventType_name IncidentEventType.SANDBOX_PREPARING = ''SANDBOX_PREPARING''"
| "IncidentEventType_name IncidentEventType.REPRODUCTION_STARTED = ''REPRODUCTION_STARTED''"
| "IncidentEventType_name IncidentEventType.FAILURE_REPRODUCED = ''FAILURE_REPRODUCED''"
| "IncidentEventType_name IncidentEventType.FAILURE_NOT_REPRODUCED = ''FAILURE_NOT_REPRODUCED''"
| "IncidentEventType_name IncidentEventType.REPRODUCTION_TIMED_OUT = ''REPRODUCTION_TIMED_OUT''"
| "IncidentEventType_name IncidentEventType.REPRODUCTION_CANCELLATION_REQUESTED = ''REPRODUCTION_CANCELLATION_REQUESTED''"
| "IncidentEventType_name IncidentEventType.REPRODUCTION_CANCELLED = ''REPRODUCTION_CANCELLED''"
| "IncidentEventType_name IncidentEventType.REPRODUCTION_INCONCLUSIVE = ''REPRODUCTION_INCONCLUSIVE''"
| "IncidentEventType_name IncidentEventType.SANDBOX_INFRASTRUCTURE_FAILED = ''SANDBOX_INFRASTRUCTURE_FAILED''"
| "IncidentEventType_name IncidentEventType.SANDBOX_CLEANUP_COMPLETED = ''SANDBOX_CLEANUP_COMPLETED''"
| "IncidentEventType_name IncidentEventType.SANDBOX_CLEANUP_FAILED = ''SANDBOX_CLEANUP_FAILED''"
| "IncidentEventType_name IncidentEventType.INVESTIGATION_REQUESTED = ''INVESTIGATION_REQUESTED''"
| "IncidentEventType_name IncidentEventType.INVESTIGATION_STARTED = ''INVESTIGATION_STARTED''"
| "IncidentEventType_name IncidentEventType.INVESTIGATION_CHECKPOINTED = ''INVESTIGATION_CHECKPOINTED''"
| "IncidentEventType_name IncidentEventType.INVESTIGATION_INSUFFICIENT_EVIDENCE = ''INVESTIGATION_INSUFFICIENT_EVIDENCE''"
| "IncidentEventType_name IncidentEventType.INVESTIGATION_COMPLETED = ''INVESTIGATION_COMPLETED''"
| "IncidentEventType_name IncidentEventType.INVESTIGATION_CANCELLED = ''INVESTIGATION_CANCELLED''"
| "IncidentEventType_name IncidentEventType.INVESTIGATION_FAILED = ''INVESTIGATION_FAILED''"
| "IncidentEventType_name IncidentEventType.DIAGNOSIS_PUBLISHED = ''DIAGNOSIS_PUBLISHED''"
| "IncidentEventType_name IncidentEventType.TREATMENT_PLAN_PROPOSED = ''TREATMENT_PLAN_PROPOSED''"
| "IncidentEventType_name IncidentEventType.TREATMENT_PLAN_APPROVAL_RECORDED = ''TREATMENT_PLAN_APPROVAL_RECORDED''"
| "IncidentEventType_name IncidentEventType.TREATMENT_PLAN_REVISION_REQUESTED = ''TREATMENT_PLAN_REVISION_REQUESTED''"
| "IncidentEventType_name IncidentEventType.TREATMENT_PLAN_APPROVED = ''TREATMENT_PLAN_APPROVED''"
| "IncidentEventType_name IncidentEventType.TREATMENT_PLAN_REJECTED = ''TREATMENT_PLAN_REJECTED''"
| "IncidentEventType_name IncidentEventType.AI_GUARDRAIL_BLOCKED = ''AI_GUARDRAIL_BLOCKED''"
| "IncidentEventType_name IncidentEventType.AI_BUDGET_EXCEEDED = ''AI_BUDGET_EXCEEDED''"
| "IncidentEventType_name IncidentEventType.RECOVERY_REQUESTED = ''RECOVERY_REQUESTED''"
| "IncidentEventType_name IncidentEventType.RECOVERY_STARTED = ''RECOVERY_STARTED''"
| "IncidentEventType_name IncidentEventType.RECOVERY_CHECKPOINTED = ''RECOVERY_CHECKPOINTED''"
| "IncidentEventType_name IncidentEventType.RECOVERY_POLICY_BLOCKED = ''RECOVERY_POLICY_BLOCKED''"
| "IncidentEventType_name IncidentEventType.RECOVERY_WORKTREE_READY = ''RECOVERY_WORKTREE_READY''"
| "IncidentEventType_name IncidentEventType.RECOVERY_PATCH_PROPOSED = ''RECOVERY_PATCH_PROPOSED''"
| "IncidentEventType_name IncidentEventType.RECOVERY_PATCH_REJECTED = ''RECOVERY_PATCH_REJECTED''"
| "IncidentEventType_name IncidentEventType.RECOVERY_SECURITY_REVIEWED = ''RECOVERY_SECURITY_REVIEWED''"
| "IncidentEventType_name IncidentEventType.RECOVERY_VERIFICATION_COMPLETED = ''RECOVERY_VERIFICATION_COMPLETED''"
| "IncidentEventType_name IncidentEventType.RECOVERY_PACKAGE_READY = ''RECOVERY_PACKAGE_READY''"
| "IncidentEventType_name IncidentEventType.RECOVERY_PUBLICATION_APPROVED = ''RECOVERY_PUBLICATION_APPROVED''"
| "IncidentEventType_name IncidentEventType.RECOVERY_PUBLICATION_REJECTED = ''RECOVERY_PUBLICATION_REJECTED''"
| "IncidentEventType_name IncidentEventType.RECOVERY_CANCELLED = ''RECOVERY_CANCELLED''"
| "IncidentEventType_name IncidentEventType.RECOVERY_FAILED = ''RECOVERY_FAILED''"
| "IncidentEventType_name IncidentEventType.RECOVERY_CLEANUP_COMPLETED = ''RECOVERY_CLEANUP_COMPLETED''"
| "IncidentEventType_name IncidentEventType.RECOVERY_CLEANUP_FAILED = ''RECOVERY_CLEANUP_FAILED''"


record incident_event_row =
  ie_id :: string
  ie_incidentId :: string
  ie_sequence :: int
  ie_type :: IncidentEventType
  ie_payload :: json
  ie_actorType :: ActorType
  ie_actorId :: "string option"
  ie_requestId :: "string option"
  ie_correlationId :: "string option"
  ie_causationId :: "string option"
  ie_previousHash :: "string option"
  ie_eventHash :: string
  ie_occurredAt :: int
  ie_createdAt :: int

record audit_row =
  au_id :: string
  au_organizationId :: string
  au_incidentId :: "string option"
  au_action :: string
  au_resourceType :: string
  au_resourceId :: string
  au_actorType :: ActorType
  au_actorId :: string
  au_outcome :: string
  au_requestId :: string
  au_correlationId :: string
  au_reason :: "string option"
  au_metadata :: json
  au_previousHash :: "string option"
  au_auditHash :: string
  au_createdAt :: int

record message_row =
  msg_id :: string
  msg_organizationId :: string
  msg_topic :: string
  msg_partitionKey :: string
  msg_deduplicationKey :: string
  msg_payload :: json
  msg_status :: OutboxStatus
  msg_attempts :: int
  msg_availableAt :: int
  msg_lockedAt :: "int option"
  msg_lockedBy :: "string option"
  msg_publishedAt :: "int option"
  msg_lastErrorCode :: "string option"
  msg_lastError :: "string option"
  msg_createdAt :: int
  msg_updatedAt :: int

record core_db =
  co_events :: "incident_event_row list"
  co_audits :: "audit_row list"
  co_outbox :: "message_row list"

definition same_incident_event :: "incident_event_row \<Rightarrow> incident_event_row \<Rightarrow> bool" where
  "same_incident_event a b =
     (ie_id a = ie_id b \<or> ie_eventHash a = ie_eventHash b
      \<or> ie_incidentId a = ie_incidentId b \<and> ie_sequence a = ie_sequence b)"

definition same_audit :: "audit_row \<Rightarrow> audit_row \<Rightarrow> bool" where
  "same_audit a b = (au_id a = au_id b \<or> au_auditHash a = au_auditHash b)"

definition same_message :: "message_row \<Rightarrow> message_row \<Rightarrow> bool" where
  "same_message a b = (msg_id a = msg_id b \<or> msg_deduplicationKey a = msg_deduplicationKey b)"

definition same_deduplication :: "message_row \<Rightarrow> message_row \<Rightarrow> bool" where
  "same_deduplication a b = (msg_deduplicationKey a = msg_deduplicationKey b)"

text \<open>\<open>toISOString()\<close> of a column, which the driver reads in milliseconds.\<close>

definition iso :: "host \<Rightarrow> int \<Rightarrow> string" where
  "iso h t = iso_time h (t div 1000)"

definition mapEvent :: "host \<Rightarrow> incident_event_row \<Rightarrow> IncidentEvent" where
  "mapEvent h r =
     \<lparr>ev_id = ie_id r, ev_incidentId = ie_incidentId r, ev_sequence = ie_sequence r,
      ev_type = IncidentEventType_name (ie_type r), ev_payload = ie_payload r,
      ev_actorType = ie_actorType r, ev_actorId = ie_actorId r, ev_requestId = ie_requestId r,
      ev_correlationId = ie_correlationId r, ev_causationId = ie_causationId r,
      ev_previousHash = ie_previousHash r, ev_eventHash = ie_eventHash r,
      ev_occurredAt = iso h (ie_occurredAt r), ev_createdAt = iso h (ie_createdAt r)\<rparr>"

text \<open>\<open>schema.nullable()\<close>.\<close>

definition null_or :: "('a \<Rightarrow> bool) \<Rightarrow> 'a option \<Rightarrow> bool" where
  "null_or ok x = (case x of None \<Rightarrow> True | Some v \<Rightarrow> ok v)"

definition at_most :: "int \<Rightarrow> string option \<Rightarrow> bool" where
  "at_most n x = (case x of None \<Rightarrow> True | Some s \<Rightarrow> int (length s) \<le> n)"

definition IncidentEventSchema :: "host \<Rightarrow> IncidentEvent \<Rightarrow> bool" where
  "IncidentEventSchema h e =
     (uuid_format h (ev_id e) \<and> uuid_format h (ev_incidentId e) \<and> 1 \<le> ev_sequence e
      \<and> at_most 255 (ev_actorId e) \<and> at_most 128 (ev_requestId e)
      \<and> at_most 128 (ev_correlationId e) \<and> at_most 128 (ev_causationId e)
      \<and> (case ev_previousHash e of None \<Rightarrow> True | Some p \<Rightarrow> length p = 64)
      \<and> length (ev_eventHash e) = 64
      \<and> datetime_format h (ev_occurredAt e) \<and> datetime_format h (ev_createdAt e))"

text \<open>\<open>z.object(...).parse(value)\<close>: a value that does not fit the schema is an error.\<close>

definition parse_with :: "('a \<Rightarrow> bool) \<Rightarrow> string \<Rightarrow> 'a \<Rightarrow> string + 'a" where
  "parse_with schema name x = (if schema x then Inr x else Inl (''Invalid '' @ name))"

text \<open>\<open>INSERT ... ON CONFLICT (target) DO UPDATE SET f RETURNING *\<close>.\<close>

definition upsert_row ::
  "('d \<Rightarrow> 'r list) \<Rightarrow> (('r list \<Rightarrow> 'r list) \<Rightarrow> 'd \<Rightarrow> 'd) \<Rightarrow> ('r \<Rightarrow> 'r \<Rightarrow> bool)
   \<Rightarrow> ('r \<Rightarrow> 'r \<Rightarrow> bool) \<Rightarrow> 'r \<Rightarrow> ('r \<Rightarrow> 'r) \<Rightarrow> ('d, string, 'r) tx" where
  "upsert_row table update target clash row f = (\<lambda>s.
     case row_where (target row) (table s) of
       None \<Rightarrow> tx_then (insert_row table update clash row) (tx_return row) s
     | Some r \<Rightarrow>
         if list_ex (\<lambda>x. \<not> target row x \<and> clash (f r) x) (table s)
         then Inl ''duplicate key value violates unique constraint''
         else Inr (f r, update (update_where (target row) f) s))"

lemma upsert_row_Inr_iff [tx_inr]:
  "upsert_row table update target clash row f s = Inr (x, s') \<longleftrightarrow>
     (case row_where (target row) (table s) of
        None \<Rightarrow> \<not> list_ex (clash row) (table s) \<and> x = row \<and> s' = update (\<lambda>t. t @ [row]) s
      | Some r \<Rightarrow> \<not> list_ex (\<lambda>y. \<not> target row y \<and> clash (f r) y) (table s)
          \<and> x = f r \<and> s' = update (update_where (target row) f) s)"
  by (auto simp: upsert_row_def tx_inr split: option.splits)

section \<open>Appending to a timeline\<close>

record event_command =
  ec_incidentId :: string
  ec_type :: IncidentEventType
  ec_payload :: json
  ec_actorType :: ActorType
  ec_actorId :: "string option"
  ec_requestId :: "string option"
  ec_correlationId :: "string option"
  ec_causationId :: "string option"
  ec_occurredAt :: "int option"

definition latest_incident_event :: "string \<Rightarrow> 'a core_db_scheme \<Rightarrow> incident_event_row option" where
  "latest_incident_event i d = row_max ie_sequence (filter (\<lambda>e. ie_incidentId e = i) (co_events d))"

definition incident_event_hash ::
  "host \<Rightarrow> event_command \<Rightarrow> int \<Rightarrow> int \<Rightarrow> string option \<Rightarrow> string" where
  "incident_event_hash h cmd sequ occurredAt previous =
     buildIncidentEventHash h
       \<lparr>hi_incidentId = ec_incidentId cmd, hi_sequence = sequ,
        hi_type = IncidentEventType_name (ec_type cmd), hi_payload = ec_payload cmd,
        hi_occurredAt = iso_time h occurredAt, hi_actorType = ActorType_name (ec_actorType cmd),
        hi_actorId = non_empty (ec_actorId cmd), hi_requestId = non_empty (ec_requestId cmd),
        hi_correlationId = non_empty (ec_correlationId cmd),
        hi_causationId = non_empty (ec_causationId cmd), hi_previousHash = non_empty previous\<rparr>"

definition next_event ::
  "host \<Rightarrow> call \<Rightarrow> string \<Rightarrow> event_command \<Rightarrow> incident_event_row option \<Rightarrow> incident_event_row" where
  "next_event h c uuid cmd latest =
     (let sequ = (case latest of None \<Rightarrow> 0 | Some l \<Rightarrow> ie_sequence l) + 1;
          occurredAt = (case ec_occurredAt cmd of None \<Rightarrow> c_clock c | Some t \<Rightarrow> t);
          previous = map_option ie_eventHash latest
      in \<lparr>ie_id = uuid, ie_incidentId = ec_incidentId cmd, ie_sequence = sequ,
          ie_type = ec_type cmd, ie_payload = ec_payload cmd, ie_actorType = ec_actorType cmd,
          ie_actorId = ec_actorId cmd, ie_requestId = ec_requestId cmd,
          ie_correlationId = ec_correlationId cmd, ie_causationId = ec_causationId cmd,
          ie_previousHash = previous,
          ie_eventHash = incident_event_hash h cmd sequ occurredAt previous,
          ie_occurredAt = 1000 * occurredAt, ie_createdAt = c_now c\<rparr>)"

definition insert_incident_event ::
  "host \<Rightarrow> call \<Rightarrow> string \<Rightarrow> event_command
   \<Rightarrow> ('a core_db_scheme, string, incident_event_row) tx" where
  "insert_incident_event h c uuid cmd =
     tx_bind (tx_read (latest_incident_event (ec_incidentId cmd))) (\<lambda>latest.
       let row = next_event h c uuid cmd latest in
       tx_then (insert_row co_events co_events_update same_incident_event row) (tx_return row))"

text \<open>The function of the incident store, which returns the parsed row.\<close>

definition appendIncidentEvent ::
  "host \<Rightarrow> call \<Rightarrow> string \<Rightarrow> event_command \<Rightarrow> ('a core_db_scheme, string, IncidentEvent) tx" where
  "appendIncidentEvent h c uuid cmd =
     tx_bind (insert_incident_event h c uuid cmd) (\<lambda>row.
       tx_lift (parse_with (IncidentEventSchema h) ''IncidentEvent'' (mapEvent h row)))"

section \<open>The audit log\<close>

record audit_command =
  ac_context :: StoreActorContext
  ac_incidentId :: "string option"
  ac_action :: string
  ac_resourceType :: string
  ac_resourceId :: string
  ac_outcome :: "string option"
  ac_reason :: "string option"
  ac_metadata :: json

text \<open>\<open>ORDER BY "createdAt" DESC, "id" DESC\<close>.\<close>

definition audit_before :: "audit_row \<Rightarrow> audit_row \<Rightarrow> bool" where
  "audit_before a b =
     (au_createdAt b < au_createdAt a
      \<or> au_createdAt a = au_createdAt b \<and> string_le (au_id b) (au_id a))"

definition latest_audit :: "string \<Rightarrow> 'a core_db_scheme \<Rightarrow> audit_row option" where
  "latest_audit org d =
     (case sort_by audit_before (filter (\<lambda>a. au_organizationId a = org) (co_audits d)) of
        [] \<Rightarrow> None | a # _ \<Rightarrow> Some a)"

definition audit_fields :: "host \<Rightarrow> audit_row \<Rightarrow> (string \<times> json) list" where
  "audit_fields h a =
     [(''id'', JStr (au_id a)), (''organizationId'', JStr (au_organizationId a)),
      (''incidentId'', str_or_null (au_incidentId a)), (''action'', JStr (au_action a)),
      (''resourceType'', JStr (au_resourceType a)), (''resourceId'', JStr (au_resourceId a)),
      (''actorType'', JStr (ActorType_name (au_actorType a))), (''actorId'', JStr (au_actorId a)),
      (''outcome'', JStr (au_outcome a)), (''requestId'', JStr (au_requestId a)),
      (''correlationId'', JStr (au_correlationId a)), (''reason'', str_or_null (au_reason a)),
      (''metadata'', au_metadata a), (''previousHash'', str_or_null (au_previousHash a)),
      (''createdAt'', JStr (iso h (au_createdAt a)))]"

definition next_audit ::
  "host \<Rightarrow> call \<Rightarrow> string \<Rightarrow> audit_command \<Rightarrow> audit_row option \<Rightarrow> audit_row" where
  "next_audit h c uuid cmd latest =
     (let x = ac_context cmd;
          row = \<lparr>au_id = uuid, au_organizationId = ctx_organizationId x,
                 au_incidentId = ac_incidentId cmd, au_action = ac_action cmd,
                 au_resourceType = ac_resourceType cmd, au_resourceId = ac_resourceId cmd,
                 au_actorType = ctx_actorType x, au_actorId = ctx_actorId x,
                 au_outcome = (case ac_outcome cmd of None \<Rightarrow> ''SUCCESS'' | Some v \<Rightarrow> v),
                 au_requestId = ctx_requestId x, au_correlationId = ctx_correlationId x,
                 au_reason = ac_reason cmd, au_metadata = ac_metadata cmd,
                 au_previousHash = map_option au_auditHash latest, au_auditHash = [],
                 au_createdAt = 1000 * c_clock c\<rparr>
      in row\<lparr>au_auditHash := digestPayload h (JObj (audit_fields h row))\<rparr>)"

definition appendAuditLog ::
  "host \<Rightarrow> call \<Rightarrow> string \<Rightarrow> audit_command \<Rightarrow> ('a core_db_scheme, string, unit) tx" where
  "appendAuditLog h c uuid cmd =
     tx_bind (tx_read (latest_audit (ctx_organizationId (ac_context cmd)))) (\<lambda>latest.
       insert_row co_audits co_audits_update same_audit (next_audit h c uuid cmd latest))"

section \<open>The outbox\<close>

record message_command =
  mc_organizationId :: string
  mc_topic :: string
  mc_partitionKey :: string
  mc_deduplicationKey :: string
  mc_payload :: json

definition new_message :: "call \<Rightarrow> string \<Rightarrow> message_command \<Rightarrow> message_row" where
  "new_message c uuid m =
     \<lparr>msg_id = uuid, msg_organizationId = mc_organizationId m, msg_topic = mc_topic m,
      msg_partitionKey = mc_partitionKey m, msg_deduplicationKey = mc_deduplicationKey m,
      msg_payload = mc_payload m, msg_status = OutboxStatus.PENDING, msg_attempts = 0,
      msg_availableAt = c_now c, msg_lockedAt = None, msg_lockedBy = None, msg_publishedAt = None,
      msg_lastErrorCode = None, msg_lastError = None, msg_createdAt = c_now c,
      msg_updatedAt = c_now c\<rparr>"

definition insertOutbox ::
  "call \<Rightarrow> string \<Rightarrow> message_command \<Rightarrow> ('a core_db_scheme, string, unit) tx" where
  "insertOutbox c uuid m =
     insert_on_conflict co_outbox co_outbox_update same_deduplication same_message
       (new_message c uuid m)"

section \<open>Timelines stay intact\<close>

definition timeline :: "host \<Rightarrow> string \<Rightarrow> 'a core_db_scheme \<Rightarrow> IncidentEvent list" where
  "timeline h i d = map (mapEvent h) (filter (\<lambda>e. ie_incidentId e = i) (co_events d))"

lemma mapEvent_fields [simp]:
  "ev_sequence (mapEvent h r) = ie_sequence r"
  "ev_previousHash (mapEvent h r) = ie_previousHash r"
  "ev_eventHash (mapEvent h r) = ie_eventHash r"
  by (simp_all add: mapEvent_def)

lemma append_log_effect:
  assumes "insert_incident_event h c uuid cmd d = Inr (row, d')"
  shows "co_events d' = co_events d @ [row] \<and> ie_incidentId row = ec_incidentId cmd
    \<and> follows ie_sequence ie_previousHash ie_eventHash
        (row_max ie_sequence (filter (\<lambda>e. ie_incidentId e = ec_incidentId cmd) (co_events d))) row
    \<and> ie_eventHash row = buildIncidentEventHash h (hash_input_of (ie_previousHash row) (mapEvent h row))
    \<and> core_db.more d' = core_db.more d \<and> co_audits d' = co_audits d \<and> co_outbox d' = co_outbox d"
  using assms
  by (auto simp: insert_incident_event_def next_event_def incident_event_hash_def latest_incident_event_def
      follows_def hash_input_of_def mapEvent_def iso_def Let_def tx_inr split: option.splits)

text \<open>
  Every event of the table carries the hash of its content, and the timeline of every incident is
  linked.
\<close>

interpretation incident_log: event_log co_events ie_incidentId ie_sequence ie_previousHash
  ie_eventHash "\<lambda>cmd. tx_then (insert_incident_event h c uuid cmd) (tx_return ())" ec_incidentId
  for h c uuid
  by unfold_locales (auto simp: tx_inr dest!: append_log_effect)

definition hashed :: "host \<Rightarrow> 'a core_db_scheme \<Rightarrow> bool" where
  "hashed h d =
     (\<forall>e \<in> set (co_events d).
        ie_eventHash e = buildIncidentEventHash h (hash_input_of (ie_previousHash e) (mapEvent h e)))"

definition intact :: "host \<Rightarrow> 'a core_db_scheme \<Rightarrow> bool" where
  "intact h d = (hashed h d \<and> incident_log.all_linked d)"

lemma intact_by_events:
  fixes d d' :: "'a core_db_scheme"
  assumes "co_events d' = co_events d"
  shows "intact h d' = intact h d"
  using assms incident_log.linked_by_events [OF assms] by (simp add: intact_def hashed_def)

lemma insert_incident_event_intact:
  assumes "insert_incident_event h c uuid cmd d = Inr (row, d')" "intact h d"
  shows "intact h d'"
proof -
  note eff = append_log_effect [OF assms(1)]
  have "tx_then (insert_incident_event h c uuid cmd) (tx_return ()) d = Inr ((), d')"
    using assms(1) by (simp add: tx_simps)
  then have "incident_log.all_linked d'"
    using assms(2) incident_log.append_keeps_linked unfolding intact_def by blast
  with eff assms(2) show ?thesis by (auto simp: intact_def hashed_def)
qed

lemma verify_linked:
  assumes "\<forall>i < length es. ie_sequence (es ! i) = n + int i
      \<and> ie_previousHash (es ! i) = (if i = 0 then p else Some (ie_eventHash (es ! (i - 1))))"
    and "\<forall>e \<in> set es.
      ie_eventHash e = buildIncidentEventHash h (hash_input_of (ie_previousHash e) (mapEvent h e))"
  shows "verify_events h p n (map (mapEvent h) es) = None"
  using assms
proof (induction es arbitrary: p n)
  case Nil
  then show ?case by simp
next
  case (Cons e es)
  from Cons.prems(1) [rule_format, of 0] have head: "ie_sequence e = n" "ie_previousHash e = p"
    by simp_all
  have "verify_events h (Some (ie_eventHash e)) (n + 1) (map (mapEvent h) es) = None"
  proof (rule Cons.IH)
    show "\<forall>i < length es. ie_sequence (es ! i) = n + 1 + int i
        \<and> ie_previousHash (es ! i)
            = (if i = 0 then Some (ie_eventHash e) else Some (ie_eventHash (es ! (i - 1))))"
      using Cons.prems(1) [rule_format, of "Suc i" for i] by (auto simp: nth_Cons')
    show "\<forall>e \<in> set es. ie_eventHash e
        = buildIncidentEventHash h (hash_input_of (ie_previousHash e) (mapEvent h e))"
      using Cons.prems(2) by simp
  qed
  with head Cons.prems(2) show ?case by simp
qed

lemma intact_timeline:
  assumes "intact h d"
  shows "verify_events h None 1 (map (mapEvent h)
           (take k (filter (\<lambda>e. ie_incidentId e = i) (co_events d)))) = None"
proof (rule verify_linked)
  have "linked ie_sequence ie_previousHash ie_eventHash (incident_log.log i d)"
    using assms by (simp add: intact_def incident_log.all_linked_def)
  then show "\<forall>j < length (take k (filter (\<lambda>e. ie_incidentId e = i) (co_events d))).
      ie_sequence (take k (filter (\<lambda>e. ie_incidentId e = i) (co_events d)) ! j) = 1 + int j
      \<and> ie_previousHash (take k (filter (\<lambda>e. ie_incidentId e = i) (co_events d)) ! j)
         = (if j = 0 then None
            else Some (ie_eventHash (take k (filter (\<lambda>e. ie_incidentId e = i) (co_events d)) ! (j - 1))))"
    by (auto simp: linked_def incident_log.log_def)
  show "\<forall>e \<in> set (take k (filter (\<lambda>e. ie_incidentId e = i) (co_events d))). ie_eventHash e
      = buildIncidentEventHash h (hash_input_of (ie_previousHash e) (mapEvent h e))"
    using assms by (auto simp: intact_def hashed_def dest: in_set_takeD)
qed

end
