(* ===== verification/Incident_Db.thy ===== *)
theory Incident_Db
  imports Incident_Log Scoring Redaction
begin

text \<open>
  The tables of the incident store (\<open>packages/database/src/incident-store.ts\<close> and the migration
  \<open>20260712000100_sprint3_enterprise_incident_engine\<close>) as an extension of the shared tables, the
  contracts its rows are parsed with, and the JSON forms of its inputs. The schemas of the inputs
  apply defaults before a command reaches the store.
\<close>

section \<open>Enumerations\<close>

datatype IncidentSource =
    MANUAL | GITHUB_ACTIONS | WEBHOOK | API | MONITORING

primrec IncidentSource_name :: "IncidentSource \<Rightarrow> string" where
  "IncidentSource_name IncidentSource.MANUAL = ''MANUAL''"
| "IncidentSource_name IncidentSource.GITHUB_ACTIONS = ''GITHUB_ACTIONS''"
| "IncidentSource_name IncidentSource.WEBHOOK = ''WEBHOOK''"
| "IncidentSource_name IncidentSource.API = ''API''"
| "IncidentSource_name IncidentSource.MONITORING = ''MONITORING''"

datatype EvidenceKind =
    ERROR | LOG | COMMAND_OUTPUT | CI_RUN | REPOSITORY_METADATA | CONFIGURATION | TEST_RESULT
  | BUILD_RESULT | USER_OBSERVATION | HEALTH_SIGNAL | SANDBOX_POLICY | SANDBOX_LOG
  | SANDBOX_ARTIFACT | FAILURE_REPRODUCTION | SANDBOX_CLEANUP | INVESTIGATION_CONTEXT
  | ROOT_CAUSE_HYPOTHESIS | DIAGNOSIS | TREATMENT_PLAN | AI_GUARDRAIL | RECOVERY_POLICY
  | RECOVERY_PATCH | RECOVERY_SECURITY_REVIEW | RECOVERY_VERIFICATION | PULL_REQUEST_PACKAGE
  | RECOVERY_CLEANUP

primrec EvidenceKind_name :: "EvidenceKind \<Rightarrow> string" where
  "EvidenceKind_name EvidenceKind.ERROR = ''ERROR''"
| "EvidenceKind_name EvidenceKind.LOG = ''LOG''"
| "EvidenceKind_name EvidenceKind.COMMAND_OUTPUT = ''COMMAND_OUTPUT''"
| "EvidenceKind_name EvidenceKind.CI_RUN = ''CI_RUN''"
| "EvidenceKind_name EvidenceKind.REPOSITORY_METADATA = ''REPOSITORY_METADATA''"
| "EvidenceKind_name EvidenceKind.CONFIGURATION = ''CONFIGURATION''"
| "EvidenceKind_name EvidenceKind.TEST_RESULT = ''TEST_RESULT''"
| "EvidenceKind_name EvidenceKind.BUILD_RESULT = ''BUILD_RESULT''"
| "EvidenceKind_name EvidenceKind.USER_OBSERVATION = ''USER_OBSERVATION''"
| "EvidenceKind_name EvidenceKind.HEALTH_SIGNAL = ''HEALTH_SIGNAL''"
| "EvidenceKind_name EvidenceKind.SANDBOX_POLICY = ''SANDBOX_POLICY''"
| "EvidenceKind_name EvidenceKind.SANDBOX_LOG = ''SANDBOX_LOG''"
| "EvidenceKind_name EvidenceKind.SANDBOX_ARTIFACT = ''SANDBOX_ARTIFACT''"
| "EvidenceKind_name EvidenceKind.FAILURE_REPRODUCTION = ''FAILURE_REPRODUCTION''"
| "EvidenceKind_name EvidenceKind.SANDBOX_CLEANUP = ''SANDBOX_CLEANUP''"
| "EvidenceKind_name EvidenceKind.INVESTIGATION_CONTEXT = ''INVESTIGATION_CONTEXT''"
| "EvidenceKind_name EvidenceKind.ROOT_CAUSE_HYPOTHESIS = ''ROOT_CAUSE_HYPOTHESIS''"
| "EvidenceKind_name EvidenceKind.DIAGNOSIS = ''DIAGNOSIS''"
| "EvidenceKind_name EvidenceKind.TREATMENT_PLAN = ''TREATMENT_PLAN''"
| "EvidenceKind_name EvidenceKind.AI_GUARDRAIL = ''AI_GUARDRAIL''"
| "EvidenceKind_name EvidenceKind.RECOVERY_POLICY = ''RECOVERY_POLICY''"
| "EvidenceKind_name EvidenceKind.RECOVERY_PATCH = ''RECOVERY_PATCH''"
| "EvidenceKind_name EvidenceKind.RECOVERY_SECURITY_REVIEW = ''RECOVERY_SECURITY_REVIEW''"
| "EvidenceKind_name EvidenceKind.RECOVERY_VERIFICATION = ''RECOVERY_VERIFICATION''"
| "EvidenceKind_name EvidenceKind.PULL_REQUEST_PACKAGE = ''PULL_REQUEST_PACKAGE''"
| "EvidenceKind_name EvidenceKind.RECOVERY_CLEANUP = ''RECOVERY_CLEANUP''"

datatype EvidenceSource =
    USER | GITHUB | SANDBOX | CI | AGENT | SYSTEM

datatype RepositoryVisibility =
    PUBLIC | PRIVATE | INTERNAL

datatype RepositoryIntakeStatus =
    QUEUED | AUTHENTICATING | READING_METADATA | CLONING | INSPECTING | CREATING_WORKTREE
  | READY | FAILED


primrec IncidentSeverity_name :: "IncidentSeverity \<Rightarrow> string" where
  "IncidentSeverity_name IncidentSeverity.SEV1 = ''SEV-1''"
| "IncidentSeverity_name IncidentSeverity.SEV2 = ''SEV-2''"
| "IncidentSeverity_name IncidentSeverity.SEV3 = ''SEV-3''"
| "IncidentSeverity_name IncidentSeverity.SEV4 = ''SEV-4''"


primrec HealthStatus_name :: "HealthStatus \<Rightarrow> string" where
  "HealthStatus_name HealthStatus.HEALTHY = ''HEALTHY''"
| "HealthStatus_name HealthStatus.AT_RISK = ''AT_RISK''"
| "HealthStatus_name HealthStatus.DEGRADED = ''DEGRADED''"
| "HealthStatus_name HealthStatus.CRITICAL = ''CRITICAL''"


primrec EvidenceSensitivity_name :: "EvidenceSensitivity \<Rightarrow> string" where
  "EvidenceSensitivity_name EvidenceSensitivity.PUBLIC = ''PUBLIC''"
| "EvidenceSensitivity_name EvidenceSensitivity.INTERNAL = ''INTERNAL''"
| "EvidenceSensitivity_name EvidenceSensitivity.CONFIDENTIAL = ''CONFIDENTIAL''"
| "EvidenceSensitivity_name EvidenceSensitivity.RESTRICTED = ''RESTRICTED''"


primrec RecoveryStage_name :: "RecoveryStage \<Rightarrow> string" where
  "RecoveryStage_name RecoveryStage.ADMIT = ''ADMIT''"
| "RecoveryStage_name RecoveryStage.TRIAGE = ''TRIAGE''"
| "RecoveryStage_name RecoveryStage.DIAGNOSE = ''DIAGNOSE''"
| "RecoveryStage_name RecoveryStage.RECOVER = ''RECOVER''"
| "RecoveryStage_name RecoveryStage.VERIFY = ''VERIFY''"


section \<open>Inputs\<close>

text \<open>\<open>IncidentSignalsSchema\<close>; the part the severity looks at is \<open>SeveritySignals\<close>.\<close>

record IncidentSignals =
  is_errorMessage :: "string option"
  is_failingCommand :: "string option"
  is_logExcerpt :: "string option"
  is_ciRunUrl :: "string option"
  is_affectedEnvironment :: "string option"
  is_severity :: SeveritySignals
  is_dependencyIssue :: bool
  is_apiContractMismatch :: bool
  is_frontendFunctionalityFailure :: bool

text \<open>\<open>{}\<close>, what is left of signals that were not given: every field reads as \<open>undefined\<close>.\<close>

definition no_signals :: IncidentSignals where
  "no_signals =
     \<lparr>is_errorMessage = None, is_failingCommand = None, is_logExcerpt = None, is_ciRunUrl = None,
      is_affectedEnvironment = None,
      is_severity =
        \<lparr>sig_securityExposure = False, sig_dataIntegrityRisk = False,
         sig_productionUnavailable = False, sig_deploymentBlocked = False,
         sig_authenticationBroken = False, sig_failingTests = False,
         sig_workaroundAvailable = False, sig_recurrenceCount = None\<rparr>,
      is_dependencyIssue = False, is_apiContractMismatch = False,
      is_frontendFunctionalityFailure = False\<rparr>"

record CreateIncidentInput =
  ci_repositoryId :: string
  ci_title :: string
  ci_description :: string
  ci_source :: IncidentSource
  ci_severity :: "IncidentSeverity option"
  ci_severityOverrideReason :: "string option"
  ci_externalReference :: "string option"
  ci_labels :: "string list"
  ci_reportedAt :: "string option"
  ci_impact :: "IncidentImpact option"
  ci_signals :: "IncidentSignals option"

record CreateEvidenceInput =
  ce_kind :: EvidenceKind
  ce_source :: EvidenceSource
  ce_sensitivity :: EvidenceSensitivity
  ce_title :: string
  ce_summary :: string
  ce_payload :: json
  ce_origin :: "string option"
  ce_observedAt :: "string option"
  ce_expiresAt :: "string option"

record TransitionIncidentInput =
  ti_toStatus :: IncidentStatus
  ti_expectedVersion :: int
  ti_reason :: string

record IncidentTriageJob =
  tj_incidentId :: string
  tj_organizationId :: string
  tj_requestedAt :: string
  tj_requestedBy :: string
  tj_requestId :: string
  tj_correlationId :: string
  tj_signals :: "IncidentSignals option"
  tj_attempt :: int

text \<open>\<open>...(x ? { key: x } : {})\<close>, an entry that is there only with its value.\<close>

definition entry_if :: "string \<Rightarrow> ('a \<Rightarrow> json) \<Rightarrow> 'a option \<Rightarrow> (string \<times> json) list" where
  "entry_if k f x = (case x of None \<Rightarrow> [] | Some v \<Rightarrow> [(k, f v)])"

definition impact_json :: "IncidentImpact \<Rightarrow> json" where
  "impact_json i = JObj
     [(''availability'', JNum (imp_availability i)), (''affectedUsers'', JNum (imp_affectedUsers i)),
      (''revenueImpact'', JNum (imp_revenueImpact i)),
      (''dataIntegrity'', JNum (imp_dataIntegrity i)),
      (''securityImpact'', JNum (imp_securityImpact i)),
      (''environment'', JStr (imp_environment i))]"

definition signals_json :: "IncidentSignals \<Rightarrow> json" where
  "signals_json s = (let v = is_severity s in JObj
     (entry_if ''errorMessage'' JStr (is_errorMessage s)
      @ entry_if ''failingCommand'' JStr (is_failingCommand s)
      @ entry_if ''logExcerpt'' JStr (is_logExcerpt s)
      @ entry_if ''ciRunUrl'' JStr (is_ciRunUrl s)
      @ entry_if ''affectedEnvironment'' JStr (is_affectedEnvironment s)
      @ [(''securityExposure'', JBool (sig_securityExposure v)),
         (''dataIntegrityRisk'', JBool (sig_dataIntegrityRisk v)),
         (''productionUnavailable'', JBool (sig_productionUnavailable v)),
         (''deploymentBlocked'', JBool (sig_deploymentBlocked v)),
         (''authenticationBroken'', JBool (sig_authenticationBroken v)),
         (''failingTests'', JBool (sig_failingTests v)),
         (''dependencyIssue'', JBool (is_dependencyIssue s)),
         (''apiContractMismatch'', JBool (is_apiContractMismatch s)),
         (''frontendFunctionalityFailure'', JBool (is_frontendFunctionalityFailure s)),
         (''workaroundAvailable'', JBool (sig_workaroundAvailable v))]
      @ entry_if ''recurrenceCount'' JNum (sig_recurrenceCount v)))"

definition create_input_json :: "CreateIncidentInput \<Rightarrow> json" where
  "create_input_json i = JObj
     ([(''repositoryId'', JStr (ci_repositoryId i)), (''title'', JStr (ci_title i)),
       (''description'', JStr (ci_description i)),
       (''source'', JStr (IncidentSource_name (ci_source i)))]
      @ entry_if ''severity'' (\<lambda>s. JStr (IncidentSeverity_name s)) (ci_severity i)
      @ entry_if ''severityOverrideReason'' JStr (ci_severityOverrideReason i)
      @ entry_if ''externalReference'' JStr (ci_externalReference i)
      @ [(''labels'', JArr (map JStr (ci_labels i)))]
      @ entry_if ''reportedAt'' JStr (ci_reportedAt i)
      @ entry_if ''impact'' impact_json (ci_impact i)
      @ entry_if ''signals'' signals_json (ci_signals i))"

definition triage_job_json :: "IncidentTriageJob \<Rightarrow> json" where
  "triage_job_json j = JObj
     ([(''incidentId'', JStr (tj_incidentId j)), (''organizationId'', JStr (tj_organizationId j)),
       (''requestedAt'', JStr (tj_requestedAt j)), (''requestedBy'', JStr (tj_requestedBy j)),
       (''requestId'', JStr (tj_requestId j)), (''correlationId'', JStr (tj_correlationId j))]
      @ entry_if ''signals'' signals_json (tj_signals j) @ [(''attempt'', JNum (tj_attempt j))])"

definition factor_json :: "factor \<Rightarrow> json" where
  "factor_json f = (case f of Number_factor n \<Rightarrow> JNum n | Boolean_factor b \<Rightarrow> JBool b)"

definition factors_json :: "(string \<times> factor) list \<Rightarrow> json" where
  "factors_json fs = JObj (map (\<lambda>(k, f). (k, factor_json f)) fs)"

definition assessment_json :: "SeverityAssessment \<Rightarrow> json" where
  "assessment_json a = JObj
     [(''score'', JNum (sa_score a)), (''severity'', JStr (IncidentSeverity_name (sa_severity a))),
      (''calculatedSeverity'', JStr (IncidentSeverity_name (sa_calculatedSeverity a))),
      (''overrideApplied'', JBool (sa_overrideApplied a)), (''rationale'', JStr (sa_rationale a)),
      (''factors'', factors_json (sa_factors a)), (''policyVersion'', JStr (sa_policyVersion a))]"

section \<open>Rows\<close>

record organization_row =
  org_id :: string
  org_slug :: string
  org_name :: string
  org_createdAt :: int

record repo_row =
  rp_id :: string
  rp_organizationId :: string
  rp_providerRepoId :: string
  rp_installationId :: "string option"
  rp_owner :: string
  rp_name :: string
  rp_fullName :: string
  rp_visibility :: RepositoryVisibility
  rp_defaultBranch :: string
  rp_cloneUrl :: string
  rp_htmlUrl :: string
  rp_headSha :: "string option"
  rp_lastIntakeAt :: "int option"

record intake_row =
  itk_id :: string
  itk_organizationId :: string
  itk_repositoryId :: "string option"
  itk_requestedBy :: string
  itk_requestedUrl :: string
  itk_requestedBranch :: "string option"
  itk_selectedBaseBranch :: "string option"
  itk_status :: RepositoryIntakeStatus
  itk_progress :: int
  itk_requestId :: string
  itk_requestedAt :: int
  itk_completedAt :: "int option"

record worktree_row =
  wt_id :: string
  wt_repositoryId :: string
  wt_intakeId :: string
  wt_branchName :: string
  wt_baseBranch :: string
  wt_baseSha :: string
  wt_relativePath :: string
  wt_status :: string

record incident_row =
  inc_id :: string
  inc_organizationId :: string
  inc_repositoryId :: string
  inc_shortCode :: string
  inc_title :: string
  inc_description :: string
  inc_severity :: IncidentSeverity
  inc_severityScore :: int
  inc_severityReason :: string
  inc_status :: IncidentStatus
  inc_stage :: RecoveryStage
  inc_source :: IncidentSource
  inc_externalReference :: "string option"
  inc_labels :: "string list"
  inc_version :: int
  inc_impact :: "IncidentImpact option"
  inc_signals :: "IncidentSignals option"
  inc_reportedAt :: int
  inc_acknowledgedAt :: "int option"
  inc_resolvedAt :: "int option"
  inc_lastActivityAt :: int
  inc_createdAt :: int
  inc_updatedAt :: int

record severity_row =
  sv_id :: string
  sv_incidentId :: string
  sv_assessment :: SeverityAssessment
  sv_createdByType :: ActorType
  sv_createdById :: string
  sv_createdAt :: int

record evidence_row =
  evd_id :: string
  evd_organizationId :: string
  evd_incidentId :: string
  evd_sessionId :: "string option"
  evd_kind :: EvidenceKind
  evd_source :: EvidenceSource
  evd_sensitivity :: EvidenceSensitivity
  evd_title :: string
  evd_summary :: string
  evd_payload :: json
  evd_byteSize :: int
  evd_digest :: string
  evd_redacted :: bool
  evd_redactionCount :: int
  evd_origin :: "string option"
  evd_collectionMethod :: "string option"
  evd_observedAt :: int
  evd_expiresAt :: "int option"
  evd_createdAt :: int

record health_row =
  hs_id :: string
  hs_organizationId :: string
  hs_repositoryId :: string
  hs_incidentId :: "string option"
  hs_overallScore :: int
  hs_status :: HealthStatus
  hs_dimensions :: RepositoryHealthDimensions
  hs_evidenceCount :: int
  hs_calculationVersion :: string
  hs_createdAt :: int

section \<open>Contracts\<close>

record Incident =
  it_id :: string
  it_organizationId :: string
  it_repositoryId :: string
  it_shortCode :: string
  it_title :: string
  it_description :: string
  it_source :: IncidentSource
  it_severity :: IncidentSeverity
  it_severityScore :: int
  it_severityReason :: string
  it_status :: IncidentStatus
  it_stage :: RecoveryStage
  it_externalReference :: "string option"
  it_labels :: "string list"
  it_version :: int
  it_reportedAt :: string
  it_acknowledgedAt :: "string option"
  it_resolvedAt :: "string option"
  it_lastActivityAt :: string
  it_createdAt :: string
  it_updatedAt :: string

text \<open>\<open>/^ER-[0-9]{8}-[A-Z0-9]{6}$/\<close>.\<close>

definition short_code_format :: "string \<Rightarrow> bool" where
  "short_code_format s =
     (length s = 18 \<and> take 3 s = ''ER-'' \<and> list_all is_digit (take 8 (drop 3 s)) \<and> s ! 11 = CHR ''-''
      \<and> list_all (\<lambda>ch. is_upper ch \<or> is_digit ch) (drop 12 s))"

definition sized :: "int \<Rightarrow> int \<Rightarrow> string \<Rightarrow> bool" where
  "sized lo hi s = (lo \<le> int (length s) \<and> int (length s) \<le> hi)"

definition IncidentSchema :: "host \<Rightarrow> Incident \<Rightarrow> bool" where
  "IncidentSchema h i =
     (uuid_format h (it_id i) \<and> uuid_format h (it_organizationId i)
      \<and> uuid_format h (it_repositoryId i) \<and> short_code_format (it_shortCode i)
      \<and> sized 3 160 (it_title i) \<and> sized 3 10000 (it_description i)
      \<and> 0 \<le> it_severityScore i \<and> it_severityScore i \<le> 100 \<and> sized 1 2000 (it_severityReason i)
      \<and> at_most 255 (it_externalReference i) \<and> 1 \<le> it_version i
      \<and> datetime_format h (it_reportedAt i)
      \<and> null_or (datetime_format h) (it_acknowledgedAt i)
      \<and> null_or (datetime_format h) (it_resolvedAt i)
      \<and> datetime_format h (it_lastActivityAt i) \<and> datetime_format h (it_createdAt i)
      \<and> datetime_format h (it_updatedAt i))"

definition incident_of :: "host \<Rightarrow> incident_row \<Rightarrow> Incident" where
  "incident_of h r =
     \<lparr>it_id = inc_id r, it_organizationId = inc_organizationId r,
      it_repositoryId = inc_repositoryId r, it_shortCode = inc_shortCode r,
      it_title = inc_title r, it_description = inc_description r, it_source = inc_source r,
      it_severity = inc_severity r, it_severityScore = inc_severityScore r,
      it_severityReason = inc_severityReason r, it_status = inc_status r,
      it_stage = inc_stage r, it_externalReference = inc_externalReference r,
      it_labels = inc_labels r, it_version = inc_version r,
      it_reportedAt = iso h (inc_reportedAt r),
      it_acknowledgedAt = map_option (iso h) (inc_acknowledgedAt r),
      it_resolvedAt = map_option (iso h) (inc_resolvedAt r),
      it_lastActivityAt = iso h (inc_lastActivityAt r), it_createdAt = iso h (inc_createdAt r),
      it_updatedAt = iso h (inc_updatedAt r)\<rparr>"

definition mapIncident :: "host \<Rightarrow> incident_row \<Rightarrow> string + Incident" where
  "mapIncident h r = parse_with (IncidentSchema h) ''Incident'' (incident_of h r)"

record Evidence =
  evi_row :: evidence_row
  evi_observedAt :: string
  evi_expiresAt :: "string option"
  evi_createdAt :: string

text \<open>The fields of the row as they are, with the times printed.\<close>

definition mapEvidence :: "host \<Rightarrow> evidence_row \<Rightarrow> Evidence" where
  "mapEvidence h r =
     \<lparr>evi_row = r, evi_observedAt = iso h (evd_observedAt r),
      evi_expiresAt = map_option (iso h) (evd_expiresAt r),
      evi_createdAt = iso h (evd_createdAt r)\<rparr>"

definition EvidenceSchema :: "host \<Rightarrow> Evidence \<Rightarrow> bool" where
  "EvidenceSchema h e = (let r = evi_row e in
     sized 3 200 (trim (evd_title r)) \<and> sized 3 5000 (trim (evd_summary r))
     \<and> int (length (stringify (evd_payload r))) \<le> 256 * 1024
     \<and> (case evd_origin r of None \<Rightarrow> True | Some s \<Rightarrow> sized 1 2048 (trim s))
     \<and> null_or (datetime_format h) (evi_expiresAt e)
     \<and> uuid_format h (evd_id r) \<and> uuid_format h (evd_organizationId r)
     \<and> uuid_format h (evd_incidentId r) \<and> null_or (uuid_format h) (evd_sessionId r)
     \<and> length (evd_digest r) = 64 \<and> 0 \<le> evd_byteSize r \<and> 0 \<le> evd_redactionCount r
     \<and> datetime_format h (evi_observedAt e) \<and> datetime_format h (evi_createdAt e))"

definition SeverityAssessmentSchema :: "SeverityAssessment \<Rightarrow> bool" where
  "SeverityAssessmentSchema a =
     (0 \<le> sa_score a \<and> sa_score a \<le> 100 \<and> sized 1 2000 (sa_rationale a)
      \<and> sized 1 100 (sa_policyVersion a))"

definition mapSeverity :: "severity_row \<Rightarrow> string + SeverityAssessment" where
  "mapSeverity r = parse_with SeverityAssessmentSchema ''SeverityAssessment'' (sv_assessment r)"

record RepositoryHealthSnapshot =
  rhs_id :: string
  rhs_organizationId :: string
  rhs_repositoryId :: string
  rhs_incidentId :: "string option"
  rhs_overallScore :: int
  rhs_status :: HealthStatus
  rhs_dimensions :: RepositoryHealthDimensions
  rhs_evidenceCount :: int
  rhs_calculationVersion :: string
  rhs_createdAt :: string

definition percent :: "int \<Rightarrow> bool" where
  "percent n = (0 \<le> n \<and> n \<le> 100)"

definition RepositoryHealthDimensionsSchema :: "RepositoryHealthDimensions \<Rightarrow> bool" where
  "RepositoryHealthDimensionsSchema d =
     (percent (dim_build d) \<and> percent (dim_tests d) \<and> percent (dim_deploymentReadiness d)
      \<and> percent (dim_dependencies d) \<and> percent (dim_security d) \<and> percent (dim_apiConsistency d)
      \<and> percent (dim_frontendFunctionality d))"

definition RepositoryHealthSnapshotSchema :: "host \<Rightarrow> RepositoryHealthSnapshot \<Rightarrow> bool" where
  "RepositoryHealthSnapshotSchema h s =
     (uuid_format h (rhs_id s) \<and> uuid_format h (rhs_organizationId s)
      \<and> uuid_format h (rhs_repositoryId s) \<and> null_or (uuid_format h) (rhs_incidentId s)
      \<and> percent (rhs_overallScore s) \<and> RepositoryHealthDimensionsSchema (rhs_dimensions s)
      \<and> 0 \<le> rhs_evidenceCount s \<and> sized 1 100 (rhs_calculationVersion s)
      \<and> datetime_format h (rhs_createdAt s))"

definition mapHealth :: "host \<Rightarrow> health_row \<Rightarrow> string + RepositoryHealthSnapshot" where
  "mapHealth h r = parse_with (RepositoryHealthSnapshotSchema h) ''RepositoryHealthSnapshot''
     \<lparr>rhs_id = hs_id r, rhs_organizationId = hs_organizationId r,
      rhs_repositoryId = hs_repositoryId r, rhs_incidentId = hs_incidentId r,
      rhs_overallScore = hs_overallScore r, rhs_status = hs_status r,
      rhs_dimensions = hs_dimensions r, rhs_evidenceCount = hs_evidenceCount r,
      rhs_calculationVersion = hs_calculationVersion r, rhs_createdAt = iso h (hs_createdAt r)\<rparr>"

record idempotency_row =
  idm_organizationId :: string
  idm_scope :: string
  idm_key :: string
  idm_requestHash :: string
  idm_response :: Incident
  idm_resourceId :: string
  idm_expiresAt :: int

record incident_db = core_db +
  id_organizations :: "organization_row list"
  id_repositories :: "repo_row list"
  id_intakes :: "intake_row list"
  id_worktrees :: "worktree_row list"
  id_incidents :: "incident_row list"
  id_severities :: "severity_row list"
  id_evidence :: "evidence_row list"
  id_health :: "health_row list"
  id_idempotency :: "idempotency_row list"

type_synonym 'a inctx = "(incident_db, string, 'a) tx"

section \<open>Unique keys\<close>

definition same_organization :: "organization_row \<Rightarrow> organization_row \<Rightarrow> bool" where
  "same_organization a b = (org_id a = org_id b \<or> org_slug a = org_slug b)"

definition same_organization_id :: "organization_row \<Rightarrow> organization_row \<Rightarrow> bool" where
  "same_organization_id a b = (org_id a = org_id b)"

definition same_incident :: "incident_row \<Rightarrow> incident_row \<Rightarrow> bool" where
  "same_incident a b = (inc_id a = inc_id b \<or> inc_shortCode a = inc_shortCode b)"

definition same_severity :: "severity_row \<Rightarrow> severity_row \<Rightarrow> bool" where
  "same_severity a b = (sv_id a = sv_id b)"

definition same_evidence :: "evidence_row \<Rightarrow> evidence_row \<Rightarrow> bool" where
  "same_evidence a b =
     (evd_incidentId a = evd_incidentId b \<and> evd_digest a = evd_digest b \<and> evd_kind a = evd_kind b)"

definition same_evidence_row :: "evidence_row \<Rightarrow> evidence_row \<Rightarrow> bool" where
  "same_evidence_row a b = (evd_id a = evd_id b \<or> same_evidence a b)"

definition same_health :: "health_row \<Rightarrow> health_row \<Rightarrow> bool" where
  "same_health a b = (hs_id a = hs_id b)"

end
