(* ===== verification/Incident_Store.thy ===== *)
theory Incident_Store
  imports Incident_Db Base64
begin

text \<open>
  The operations of \<open>packages/database/src/incident-store.ts\<close>: creating, reading, triaging and moving
  an incident, its evidence, the dispatch of the outbox and the record of a repository intake. Each
  is one transaction. Row locks are not modelled but for \<open>SKIP LOCKED\<close>, whose rows are a parameter.
  \<open>timestamp_of\<close> reads the ISO dates that the input schemas let through.
\<close>

section \<open>Organizations and dates\<close>

record OrganizationDefaults =
  od_id :: string
  od_slug :: string
  od_name :: string

definition ensureOrganization :: "call \<Rightarrow> OrganizationDefaults \<Rightarrow> unit inctx" where
  "ensureOrganization c od =
     insert_on_conflict id_organizations id_organizations_update same_organization_id
       same_organization
       \<lparr>org_id = od_id od, org_slug = od_slug od, org_name = od_name od, org_createdAt = c_now c\<rparr>"

text \<open>\<open>x ? new Date(x) : fallback\<close>, in milliseconds; an invalid date fails when it is written.\<close>

definition read_date :: "host \<Rightarrow> string option \<Rightarrow> int \<Rightarrow> string + int" where
  "read_date h x fallback =
     (case non_empty x of
        None \<Rightarrow> Inr fallback
      | Some s \<Rightarrow> (case timestamp_of h s of
            None \<Rightarrow> Inl ''invalid input syntax for type timestamp'' | Some t \<Rightarrow> Inr t))"

definition read_date_or_null :: "host \<Rightarrow> string option \<Rightarrow> string + int option" where
  "read_date_or_null h x =
     (case non_empty x of
        None \<Rightarrow> Inr None
      | Some s \<Rightarrow> try_then (read_date h (Some s) 0) (\<lambda>t. Inr (Some (1000 * t))))"

text \<open>The date without its hyphens, and six upper case digits of a random number in hexadecimal.\<close>

definition incidentShortCode :: "host \<Rightarrow> int \<Rightarrow> string \<Rightarrow> string" where
  "incidentShortCode h now hex =
     ''ER-'' @ filter (\<lambda>ch. ch \<noteq> CHR ''-'') (take 10 (iso_time h now)) @ ''-''
     @ to_upper (take 6 hex)"

definition by_actor ::
  "StoreActorContext \<Rightarrow> string \<Rightarrow> IncidentEventType \<Rightarrow> json \<Rightarrow> int option \<Rightarrow> event_command" where
  "by_actor x incidentId ty p occurredAt =
     \<lparr>ec_incidentId = incidentId, ec_type = ty, ec_payload = p, ec_actorType = ctx_actorType x,
      ec_actorId = Some (ctx_actorId x), ec_requestId = Some (ctx_requestId x),
      ec_correlationId = Some (ctx_correlationId x), ec_causationId = None,
      ec_occurredAt = occurredAt\<rparr>"

definition audit_of ::
  "StoreActorContext \<Rightarrow> string \<Rightarrow> string \<Rightarrow> string \<Rightarrow> string \<Rightarrow> string option
   \<Rightarrow> (string \<times> json) list \<Rightarrow> audit_command" where
  "audit_of x incidentId action resourceType resourceId why metadata =
     \<lparr>ac_context = x, ac_incidentId = Some incidentId, ac_action = action,
      ac_resourceType = resourceType, ac_resourceId = resourceId, ac_outcome = None,
      ac_reason = why, ac_metadata = JObj metadata\<rparr>"

definition incident_in :: "string \<Rightarrow> string \<Rightarrow> incident_db \<Rightarrow> incident_row option" where
  "incident_in org i d =
     row_where (\<lambda>r. inc_id r = i \<and> inc_organizationId r = org) (id_incidents d)"

definition not_found :: "string \<Rightarrow> string" where
  "not_found resource = resource @ '' was not found in the active organization.''"

definition lock_incident :: "string \<Rightarrow> string \<Rightarrow> incident_row inctx" where
  "lock_incident org i =
     tx_bind (tx_read (incident_in org i)) (\<lambda>r. tx_some r (not_found ''Incident''))"

section \<open>Creating an incident\<close>

record CreateIncidentCommand =
  cic_context :: StoreActorContext
  cic_input :: CreateIncidentInput
  cic_idempotencyKey :: "string option"
  cic_idempotencyTtlSeconds :: int
  cic_organizationDefaults :: OrganizationDefaults

definition request_hash :: "host \<Rightarrow> CreateIncidentInput \<Rightarrow> string" where
  "request_hash h i = sha256 h (canonicalJson h (create_input_json i))"

definition create_scope :: string where
  "create_scope = ''incident.create''"

definition stored_response :: "string \<Rightarrow> string \<Rightarrow> incident_db \<Rightarrow> idempotency_row option" where
  "stored_response org k d =
     row_where (\<lambda>r. idm_organizationId r = org \<and> idm_scope r = create_scope \<and> idm_key r = k)
       (id_idempotency d)"

text \<open>The stored answer of the same request, unless it has expired.\<close>

definition replay ::
  "host \<Rightarrow> call \<Rightarrow> CreateIncidentCommand \<Rightarrow> Incident option inctx" where
  "replay h c cmd =
     (case non_empty (cic_idempotencyKey cmd) of
        None \<Rightarrow> tx_return None
      | Some k \<Rightarrow>
          tx_bind (tx_read (stored_response (ctx_organizationId (cic_context cmd)) k)) (\<lambda>p.
            case p of
              None \<Rightarrow> tx_return None
            | Some r \<Rightarrow>
                if c_clock c < idm_expiresAt r div 1000
                then tx_then (tx_guard (idm_requestHash r = request_hash h (cic_input cmd))
                       ''The idempotency key has already been used with a different request.'')
                     (tx_bind (tx_lift (parse_with (IncidentSchema h) ''Incident'' (idm_response r)))
                        (\<lambda>i. tx_return (Some i)))
                else tx_return None))"

definition assessment_of :: "CreateIncidentInput \<Rightarrow> SeverityAssessment" where
  "assessment_of i = assessSeverity
     \<lparr>sai_impact = ci_impact i, sai_explicitSeverity = ci_severity i,
      sai_explicitReason = ci_severityOverrideReason i,
      sai_signals = is_severity (case ci_signals i of None \<Rightarrow> no_signals | Some s \<Rightarrow> s)\<rparr>"

definition new_incident ::
  "host \<Rightarrow> call \<Rightarrow> string \<Rightarrow> CreateIncidentCommand \<Rightarrow> int \<Rightarrow> incident_row" where
  "new_incident h c hex cmd reportedAt =
     (let i = cic_input cmd; a = assessment_of i in
      \<lparr>inc_id = c_ids c 0, inc_organizationId = ctx_organizationId (cic_context cmd),
       inc_repositoryId = ci_repositoryId i, inc_shortCode = incidentShortCode h (c_clock c) hex,
       inc_title = ci_title i, inc_description = ci_description i, inc_severity = sa_severity a,
       inc_severityScore = sa_score a, inc_severityReason = sa_rationale a,
       inc_status = IncidentStatus.ADMITTED, inc_stage = RecoveryStage.ADMIT,
       inc_source = ci_source i, inc_externalReference = ci_externalReference i,
       inc_labels = ci_labels i, inc_version = 1, inc_impact = ci_impact i,
       inc_signals = ci_signals i, inc_reportedAt = 1000 * reportedAt, inc_acknowledgedAt = None,
       inc_resolvedAt = None, inc_lastActivityAt = 1000 * c_clock c, inc_createdAt = c_now c,
       inc_updatedAt = c_now c\<rparr>)"

definition triage_key :: "string \<Rightarrow> int \<Rightarrow> string" where
  "triage_key incidentId version = ''incident.triage:'' @ incidentId @ '':'' @ show_int version"

definition triage_message ::
  "host \<Rightarrow> call \<Rightarrow> StoreActorContext \<Rightarrow> string \<Rightarrow> int \<Rightarrow> IncidentSignals option \<Rightarrow> message_command" where
  "triage_message h c x incidentId version signals =
     \<lparr>mc_organizationId = ctx_organizationId x, mc_topic = ''incident.triage.requested'',
      mc_partitionKey = incidentId, mc_deduplicationKey = triage_key incidentId version,
      mc_payload = triage_job_json
        \<lparr>tj_incidentId = incidentId, tj_organizationId = ctx_organizationId x,
         tj_requestedAt = iso_time h (c_clock c), tj_requestedBy = ctx_actorId x,
         tj_requestId = ctx_requestId x, tj_correlationId = ctx_correlationId x,
         tj_signals = signals, tj_attempt = 1\<rparr>\<rparr>"

definition insert_severity ::
  "call \<Rightarrow> string \<Rightarrow> string \<Rightarrow> ActorType \<Rightarrow> string \<Rightarrow> SeverityAssessment \<Rightarrow> unit inctx" where
  "insert_severity c uuid incidentId by byId a =
     insert_row id_severities id_severities_update same_severity
       \<lparr>sv_id = uuid, sv_incidentId = incidentId, sv_assessment = a, sv_createdByType = by,
        sv_createdById = byId, sv_createdAt = c_now c\<rparr>"

definition same_response :: "idempotency_row \<Rightarrow> idempotency_row \<Rightarrow> bool" where
  "same_response a b =
     (idm_organizationId a = idm_organizationId b \<and> idm_scope a = idm_scope b
      \<and> idm_key a = idm_key b)"

definition keep_response ::
  "host \<Rightarrow> call \<Rightarrow> CreateIncidentCommand \<Rightarrow> Incident \<Rightarrow> unit inctx" where
  "keep_response h c cmd incident =
     (case non_empty (cic_idempotencyKey cmd) of
        None \<Rightarrow> tx_return ()
      | Some k \<Rightarrow>
          let row = \<lparr>idm_organizationId = ctx_organizationId (cic_context cmd),
                     idm_scope = create_scope, idm_key = k,
                     idm_requestHash = request_hash h (cic_input cmd), idm_response = incident,
                     idm_resourceId = it_id incident,
                     idm_expiresAt = c_now c + cic_idempotencyTtlSeconds cmd * 1000000\<rparr>
          in tx_then (upsert_row id_idempotency id_idempotency_update same_response same_response
                        row (\<lambda>_. row)) (tx_return ()))"

definition admit ::
  "host \<Rightarrow> call \<Rightarrow> string \<Rightarrow> CreateIncidentCommand \<Rightarrow> int \<Rightarrow> Incident inctx" where
  "admit h c hex cmd reportedAt =
     (let x = cic_context cmd; i = cic_input cmd; a = assessment_of i;
          row = new_incident h c hex cmd reportedAt; incidentId = inc_id row
      in
      tx_then (insert_row id_incidents id_incidents_update same_incident row)
      (tx_then (insert_severity c (c_ids c 1) incidentId (ctx_actorType x) (ctx_actorId x) a)
      (tx_then (appendIncidentEvent h c (c_ids c 2)
          (by_actor x incidentId IncidentEventType.INCIDENT_ADMITTED
             (JObj [(''shortCode'', JStr (inc_shortCode row)),
                    (''repositoryId'', JStr (inc_repositoryId row)),
                    (''severity'', JStr (IncidentSeverity_name (sa_severity a))),
                    (''source'', JStr (IncidentSource_name (ci_source i)))]) (Some (c_clock c))))
      (tx_then (insertOutbox c (c_ids c 3) (triage_message h c x incidentId 1 (ci_signals i)))
      (tx_then (appendIncidentEvent h c (c_ids c 4)
          (by_actor x incidentId IncidentEventType.TRIAGE_REQUESTED
             (JObj [(''outboxDeduplicationKey'', JStr (triage_key incidentId 1))])
             (Some (c_clock c))))
      (tx_then (appendAuditLog h c (c_ids c 5)
          (audit_of x incidentId ''incident.create'' ''Incident'' incidentId None
             [(''repositoryId'', JStr (inc_repositoryId row)),
              (''severity'', JStr (IncidentSeverity_name (inc_severity row)))]))
      (tx_bind (tx_lift (mapIncident h row)) (\<lambda>incident.
        tx_then (keep_response h c cmd incident) (tx_return incident)))))))))"

definition createIncident ::
  "host \<Rightarrow> call \<Rightarrow> string \<Rightarrow> CreateIncidentCommand \<Rightarrow> Incident inctx" where
  "createIncident h c hex cmd =
     tx_then (ensureOrganization c (cic_organizationDefaults cmd))
     (tx_bind (replay h c cmd) (\<lambda>before.
        case before of
          Some incident \<Rightarrow> tx_return incident
        | None \<Rightarrow>
            tx_bind (tx_read (\<lambda>d. row_where (\<lambda>r. rp_id r = ci_repositoryId (cic_input cmd)
                \<and> rp_organizationId r = ctx_organizationId (cic_context cmd)) (id_repositories d)))
              (\<lambda>repository.
            tx_bind (tx_some repository (not_found ''Repository'')) (\<lambda>_.
            tx_bind (tx_lift (read_date h (ci_reportedAt (cic_input cmd)) (c_clock c)))
              (admit h c hex cmd)))))"

section \<open>Reading incidents\<close>

record IncidentListQuery =
  lq_cursor :: "string option"
  lq_limit :: nat
  lq_repositoryId :: "string option"
  lq_status :: "IncidentStatus option"
  lq_severity :: "IncidentSeverity option"
  lq_source :: "IncidentSource option"

record IncidentList =
  li_items :: "Incident list"
  li_nextCursor :: "string option"

definition encodeCursor :: "Incident \<Rightarrow> string" where
  "encodeCursor i = base64Url (stringify
     (JObj [(''lastActivityAt'', JStr (it_lastActivityAt i)), (''id'', JStr (it_id i))]))"

text \<open>\<open>/^[0-9a-f-]{36}$/i\<close>.\<close>

definition cursor_id :: "string \<Rightarrow> bool" where
  "cursor_id s = (length s = 36 \<and> list_all (\<lambda>ch. is_hex ch \<or> ch = CHR ''-'') s)"

definition decodeCursor ::
  "host \<Rightarrow> (string \<Rightarrow> json option) \<Rightarrow> string \<Rightarrow> string + (int \<times> string)" where
  "decodeCursor h parse_json s =
     (case parse_json (base64_decode s) of
        Some (JObj es) \<Rightarrow>
          (case (map_of es ''lastActivityAt'', map_of es ''id'') of
             (Some (JStr t), Some (JStr i)) \<Rightarrow>
               (case timestamp_of h t of
                  Some ms \<Rightarrow> if cursor_id i then Inr (1000 * ms, i)
                             else Inl ''Incident cursor is invalid''
                | None \<Rightarrow> Inl ''Incident cursor is invalid'')
           | _ \<Rightarrow> Inl ''Incident cursor is invalid'')
      | _ \<Rightarrow> Inl ''Incident cursor is invalid'')"

text \<open>\<open>ORDER BY "lastActivityAt" DESC, "id" DESC\<close>, and \<open>(a, i) < (b, j)\<close> of a page.\<close>

definition position :: "incident_row \<Rightarrow> int \<times> string" where
  "position r = (inc_lastActivityAt r, inc_id r)"

definition at_or_after :: "int \<times> string \<Rightarrow> int \<times> string \<Rightarrow> bool" where
  "at_or_after p q = (fst q < fst p \<or> fst p = fst q \<and> string_le (snd q) (snd p))"

definition incident_before :: "incident_row \<Rightarrow> incident_row \<Rightarrow> bool" where
  "incident_before a b = at_or_after (position a) (position b)"

definition wanted :: "'a option \<Rightarrow> 'a \<Rightarrow> bool" where
  "wanted x v = (case x of None \<Rightarrow> True | Some w \<Rightarrow> v = w)"

definition list_clauses ::
  "string \<Rightarrow> IncidentListQuery \<Rightarrow> (int \<times> string) option \<Rightarrow> incident_row \<Rightarrow> bool" where
  "list_clauses org q start r =
     (inc_organizationId r = org \<and> wanted (lq_repositoryId q) (inc_repositoryId r)
      \<and> wanted (lq_status q) (inc_status r) \<and> wanted (lq_severity q) (inc_severity r)
      \<and> wanted (lq_source q) (inc_source r)
      \<and> (case start of None \<Rightarrow> True | Some p \<Rightarrow> \<not> at_or_after (position r) p))"

definition listIncidents ::
  "host \<Rightarrow> (string \<Rightarrow> json option) \<Rightarrow> string \<Rightarrow> IncidentListQuery \<Rightarrow> incident_db
   \<Rightarrow> string + IncidentList" where
  "listIncidents h parse_json org q d =
     try_then (case non_empty (lq_cursor q) of
                 None \<Rightarrow> Inr None
               | Some s \<Rightarrow> try_then (decodeCursor h parse_json s) (\<lambda>p. Inr (Some p))) (\<lambda>start.
       let rows = take (lq_limit q + 1)
                    (sort_by incident_before (filter (list_clauses org q start) (id_incidents d)))
       in try_then (map_parse (mapIncident h) rows) (\<lambda>mapped.
         let items = take (lq_limit q) mapped;
             cursor = (if lq_limit q < length mapped \<and> items \<noteq> []
                       then Some (encodeCursor (last items)) else None)
         in parse_with (\<lambda>l. at_most 512 (li_nextCursor l)) ''IncidentList''
              \<lparr>li_items = items, li_nextCursor = cursor\<rparr>))"

record IncidentDetail =
  det_incident :: Incident
  det_latestSeverityAssessment :: "SeverityAssessment option"
  det_latestHealthSnapshot :: "RepositoryHealthSnapshot option"
  det_evidence :: "Evidence list"
  det_timeline :: "IncidentEvent list"
  det_timelineIntegrity :: IncidentEventIntegrity

definition map_option_parse :: "('a \<Rightarrow> string + 'b) \<Rightarrow> 'a option \<Rightarrow> string + 'b option" where
  "map_option_parse f x =
     (case x of None \<Rightarrow> Inr None | Some v \<Rightarrow> try_then (f v) (\<lambda>y. Inr (Some y)))"

definition evidence_of :: "string \<Rightarrow> string \<Rightarrow> incident_db \<Rightarrow> evidence_row list" where
  "evidence_of org i d =
     take 200 (sort_by (\<lambda>a b. evd_observedAt b \<le> evd_observedAt a)
       (filter (\<lambda>e. evd_incidentId e = i \<and> evd_organizationId e = org) (id_evidence d)))"

definition timeline_rows :: "string \<Rightarrow> incident_db \<Rightarrow> incident_event_row list" where
  "timeline_rows i d =
     take 500 (sort_key ie_sequence (filter (\<lambda>e. ie_incidentId e = i) (co_events d)))"

definition IncidentEventIntegritySchema :: "IncidentEventIntegrity \<Rightarrow> bool" where
  "IncidentEventIntegritySchema v =
     (0 \<le> checkedEvents v \<and> null_or (\<lambda>n. 1 \<le> n) (brokenSequence v)
      \<and> at_most 500 (reason v))"

definition getIncidentDetail ::
  "host \<Rightarrow> string \<Rightarrow> string \<Rightarrow> incident_db \<Rightarrow> string + IncidentDetail" where
  "getIncidentDetail h org i d =
     (case incident_in org i d of
        None \<Rightarrow> Inl (not_found ''Incident'')
      | Some r \<Rightarrow>
          try_then (map_parse (parse_with (IncidentEventSchema h) ''IncidentEvent'')
                      (map (mapEvent h) (timeline_rows i d))) (\<lambda>timeline.
          try_then (mapIncident h r) (\<lambda>incident.
          try_then (map_option_parse mapSeverity
                      (row_max sv_createdAt (filter (\<lambda>s. sv_incidentId s = i) (id_severities d))))
            (\<lambda>severity.
          try_then (map_option_parse (mapHealth h)
                      (row_max hs_createdAt (filter (\<lambda>s. hs_incidentId s = Some i) (id_health d))))
            (\<lambda>health.
          parse_with (\<lambda>v. list_all (EvidenceSchema h) (det_evidence v)
                        \<and> IncidentEventIntegritySchema (det_timelineIntegrity v)) ''IncidentDetail''
            \<lparr>det_incident = incident, det_latestSeverityAssessment = severity,
             det_latestHealthSnapshot = health,
             det_evidence = map (mapEvidence h) (evidence_of org i d), det_timeline = timeline,
             det_timelineIntegrity = verifyIncidentEventChain h timeline\<rparr>)))))"

definition latestRepositoryHealth ::
  "host \<Rightarrow> string \<Rightarrow> string \<Rightarrow> incident_db \<Rightarrow> string + RepositoryHealthSnapshot option" where
  "latestRepositoryHealth h org repositoryId d =
     map_option_parse (mapHealth h)
       (row_max hs_createdAt (filter (\<lambda>s. hs_repositoryId s = repositoryId
          \<and> list_ex (\<lambda>r. rp_id r = hs_repositoryId s \<and> rp_organizationId r = org) (id_repositories d))
          (id_health d)))"

section \<open>Evidence\<close>

definition stored_sensitivity :: "bool \<Rightarrow> EvidenceSensitivity \<Rightarrow> EvidenceSensitivity" where
  "stored_sensitivity redacted given =
     (if redacted then EvidenceSensitivity.CONFIDENTIAL else given)"

text \<open>
  \<open>INSERT ... ON CONFLICT DO NOTHING RETURNING *\<close>, then the row that was there already.
\<close>

definition insert_evidence :: "evidence_row \<Rightarrow> string \<Rightarrow> evidence_row inctx" where
  "insert_evidence row missing =
     tx_then (insert_on_conflict id_evidence id_evidence_update same_evidence same_evidence_row row)
     (tx_bind (tx_read (\<lambda>d. row_where (same_evidence row) (id_evidence d)))
        (\<lambda>r. tx_some r missing))"

text \<open>The redacted payload, with its digest and size, which is all that is stored of a payload.\<close>

definition with_payload :: "host \<Rightarrow> json \<Rightarrow> evidence_row \<Rightarrow> evidence_row" where
  "with_payload h p r =
     (let red = redactSensitiveData p; v = red_value red in
      r\<lparr>evd_payload := v, evd_byteSize := int (length (canonicalJson h v)),
        evd_digest := digestPayload h v, evd_redacted := red_redacted red,
        evd_redactionCount := int (red_redactionCount red),
        evd_sensitivity := stored_sensitivity (red_redacted red) (evd_sensitivity r)\<rparr>)"

definition touched :: "call \<Rightarrow> incident_row \<Rightarrow> incident_row" where
  "touched c r = r\<lparr>inc_lastActivityAt := c_now c, inc_updatedAt := c_now c,
                   inc_version := inc_version r + 1\<rparr>"

definition set_incident :: "string \<Rightarrow> (incident_row \<Rightarrow> incident_row) \<Rightarrow> unit inctx" where
  "set_incident i f =
     tx_write (id_incidents_update (update_where (\<lambda>r. inc_id r = i) f))"

definition new_evidence ::
  "host \<Rightarrow> call \<Rightarrow> StoreActorContext \<Rightarrow> string \<Rightarrow> CreateEvidenceInput \<Rightarrow> int \<Rightarrow> int option
   \<Rightarrow> evidence_row" where
  "new_evidence h c x i input observedAt expiresAt =
     with_payload h (ce_payload input)
       \<lparr>evd_id = c_ids c 0, evd_organizationId = ctx_organizationId x, evd_incidentId = i,
        evd_sessionId = None, evd_kind = ce_kind input, evd_source = ce_source input,
        evd_sensitivity = ce_sensitivity input, evd_title = ce_title input,
        evd_summary = ce_summary input, evd_payload = JNull, evd_byteSize = 0, evd_digest = [],
        evd_redacted = False, evd_redactionCount = 0, evd_origin = ce_origin input,
        evd_collectionMethod = None, evd_observedAt = 1000 * observedAt, evd_expiresAt = expiresAt,
        evd_createdAt = c_now c\<rparr>"

definition evidence_event :: "evidence_row \<Rightarrow> json" where
  "evidence_event e = JObj
     [(''evidenceId'', JStr (evd_id e)), (''kind'', JStr (EvidenceKind_name (evd_kind e))),
      (''digest'', JStr (evd_digest e)), (''redacted'', JBool (evd_redacted e))]"

definition addEvidence ::
  "host \<Rightarrow> call \<Rightarrow> StoreActorContext \<Rightarrow> string \<Rightarrow> CreateEvidenceInput \<Rightarrow> Evidence inctx" where
  "addEvidence h c x i input =
     tx_then (lock_incident (ctx_organizationId x) i)
     (tx_bind (tx_lift (read_date h (ce_observedAt input) (c_clock c))) (\<lambda>observedAt.
      tx_bind (tx_lift (read_date_or_null h (ce_expiresAt input))) (\<lambda>expiresAt.
      tx_bind (insert_evidence (new_evidence h c x i input observedAt expiresAt)
                 ''Evidence insert or lookup returned no row'') (\<lambda>row.
      tx_then (appendIncidentEvent h c (c_ids c 1)
                 (by_actor x i IncidentEventType.EVIDENCE_RECORDED (evidence_event row)
                    (Some observedAt)))
      (tx_then (set_incident i (touched c))
      (tx_then (appendAuditLog h c (c_ids c 2)
          (audit_of x i ''evidence.create'' ''Evidence'' (evd_id row) None
             [(''kind'', JStr (EvidenceKind_name (evd_kind row))),
              (''sensitivity'', JStr (EvidenceSensitivity_name (evd_sensitivity row))),
              (''redacted'', JBool (evd_redacted row))]))
        (tx_return (mapEvidence h row))))))))"

section \<open>Moving an incident\<close>

definition conflict :: string where
  "conflict = ''The incident changed since it was read. Refresh and retry the operation.''"

definition moved :: "call \<Rightarrow> IncidentStatus \<Rightarrow> incident_row \<Rightarrow> incident_row" where
  "moved c st r = (touched c r)
     \<lparr>inc_status := st, inc_stage := stageForIncidentStatus st,
      inc_acknowledgedAt :=
        (if st = IncidentStatus.INVESTIGATING \<and> inc_acknowledgedAt r = None
         then Some (c_now c) else inc_acknowledgedAt r),
      inc_resolvedAt :=
        (if st = IncidentStatus.VERIFIED then Some (c_now c) else inc_resolvedAt r)\<rparr>"

definition transitionIncident ::
  "host \<Rightarrow> call \<Rightarrow> StoreActorContext \<Rightarrow> string \<Rightarrow> TransitionIncidentInput \<Rightarrow> Incident inctx" where
  "transitionIncident h c x i input =
     tx_bind (lock_incident (ctx_organizationId x) i) (\<lambda>r.
       tx_then (tx_guard (inc_version r = ti_expectedVersion input) conflict)
       (tx_then (tx_lift (assertIncidentTransition (inc_status r) (ti_toStatus input)))
       (tx_bind (update_returning id_incidents id_incidents_update
                   (\<lambda>q. inc_id q = i \<and> inc_version q = ti_expectedVersion input)
                   (moved c (ti_toStatus input))) (\<lambda>updated.
        tx_bind (tx_some updated conflict) (\<lambda>u.
        tx_then (appendIncidentEvent h c (c_ids c 0)
            (by_actor x i IncidentEventType.STATUS_CHANGED
               (JObj [(''from'', JStr (IncidentStatus_name (inc_status r))),
                      (''to'', JStr (IncidentStatus_name (ti_toStatus input))),
                      (''reason'', JStr (ti_reason input))]) None))
        (tx_then (appendAuditLog h c (c_ids c 1)
            (audit_of x i ''incident.transition'' ''Incident'' i (Some (ti_reason input))
               [(''from'', JStr (IncidentStatus_name (inc_status r))),
                (''to'', JStr (IncidentStatus_name (ti_toStatus input))),
                (''expectedVersion'', JNum (ti_expectedVersion input))]))
          (tx_lift (mapIncident h u))))))))"

section \<open>Triage\<close>

definition is_closed :: "IncidentStatus \<Rightarrow> bool" where
  "is_closed st = (st \<in> {IncidentStatus.VERIFIED, IncidentStatus.CANCELLED})"

definition triage_requested ::
  "call \<Rightarrow> int \<Rightarrow> IncidentSignals option \<Rightarrow> incident_row \<Rightarrow> incident_row" where
  "triage_requested c version signals r =
     r\<lparr>inc_lastActivityAt := c_now c, inc_updatedAt := c_now c, inc_version := version,
       inc_signals := (case signals of None \<Rightarrow> inc_signals r | Some s \<Rightarrow> Some s)\<rparr>"

definition requestTriage ::
  "host \<Rightarrow> call \<Rightarrow> StoreActorContext \<Rightarrow> string \<Rightarrow> IncidentSignals option \<Rightarrow> bool \<Rightarrow> Incident inctx" where
  "requestTriage h c x i signals force =
     tx_bind (lock_incident (ctx_organizationId x) i) (\<lambda>r.
       if \<not> force \<and> inc_status r \<in> {IncidentStatus.TRIAGING, IncidentStatus.INVESTIGATING}
       then tx_lift (mapIncident h r)
       else if is_closed (inc_status r)
       then tx_fail (''Cannot triage an incident in '' @ IncidentStatus_name (inc_status r)
                     @ '' state'')
       else let version = inc_version r + 1 in
         tx_then (insertOutbox c (c_ids c 0) (triage_message h c x i version signals))
         (tx_then (appendIncidentEvent h c (c_ids c 1)
             (by_actor x i IncidentEventType.TRIAGE_REQUESTED
                (JObj [(''force'', JBool force), (''requestedVersion'', JNum version)]) None))
         (tx_bind (update_returning id_incidents id_incidents_update (\<lambda>q. inc_id q = i)
                     (triage_requested c version signals)) (\<lambda>updated.
          tx_bind (tx_some updated ''Incident triage request update returned no row'') (\<lambda>u.
          tx_then (appendAuditLog h c (c_ids c 2)
              (audit_of x i ''incident.triage.request'' ''Incident'' i None
                 [(''force'', JBool force), (''version'', JNum version)]))
            (tx_lift (mapIncident h u)))))))"

definition triage_worker :: string where
  "triage_worker = ''incident-triage-worker''"

definition triage_context :: "IncidentTriageJob \<Rightarrow> StoreActorContext" where
  "triage_context j =
     \<lparr>ctx_organizationId = tj_organizationId j, ctx_actorId = triage_worker,
      ctx_actorType = ActorType.SERVICE, ctx_actorRoles = [ActorRole.SERVICE],
      ctx_requestId = tj_requestId j, ctx_correlationId = tj_correlationId j\<rparr>"

text \<open>\<open>job.signals ?? (incident.signals ?? {})\<close>.\<close>

definition triage_signals :: "IncidentTriageJob \<Rightarrow> incident_row \<Rightarrow> IncidentSignals" where
  "triage_signals j r =
     (case tj_signals j of Some s \<Rightarrow> s
      | None \<Rightarrow> (case inc_signals r of Some s \<Rightarrow> s | None \<Rightarrow> no_signals))"

definition raw_evidence :: "host \<Rightarrow> incident_row \<Rightarrow> IncidentSignals \<Rightarrow> json" where
  "raw_evidence h r s = JObj
     ([(''errorMessage'', JStr (case is_errorMessage s of Some m \<Rightarrow> m | None \<Rightarrow> inc_description r))]
      @ entry_if ''failingCommand'' JStr (is_failingCommand s)
      @ entry_if ''logExcerpt'' JStr (is_logExcerpt s) @ entry_if ''ciRunUrl'' JStr (is_ciRunUrl s)
      @ [(''repositoryId'', JStr (inc_repositoryId r)),
         (''reportedAt'', JStr (iso h (inc_reportedAt r)))])"

definition triage_evidence ::
  "host \<Rightarrow> call \<Rightarrow> incident_row \<Rightarrow> IncidentSignals \<Rightarrow> evidence_row" where
  "triage_evidence h c r s =
     with_payload h (raw_evidence h r s)
       \<lparr>evd_id = c_ids c 1, evd_organizationId = inc_organizationId r, evd_incidentId = inc_id r,
        evd_sessionId = None, evd_kind = EvidenceKind.ERROR, evd_source = EvidenceSource.SYSTEM,
        evd_sensitivity = EvidenceSensitivity.INTERNAL, evd_title = ''Initial failure signal'',
        evd_summary = ''Normalized and redacted failure evidence collected during triage.'',
        evd_payload = JNull, evd_byteSize = 0, evd_digest = [], evd_redacted = False,
        evd_redactionCount = 0, evd_origin = None, evd_collectionMethod = Some ''incident-triage-v1'',
        evd_observedAt = c_now c, evd_expiresAt = None, evd_createdAt = c_now c\<rparr>"

definition latest_severity :: "string \<Rightarrow> incident_db \<Rightarrow> severity_row option" where
  "latest_severity i d = row_max sv_createdAt (filter (\<lambda>s. sv_incidentId s = i) (id_severities d))"

definition triage_assessment ::
  "incident_row \<Rightarrow> IncidentSignals \<Rightarrow> severity_row option \<Rightarrow> SeverityAssessment" where
  "triage_assessment r s previous =
     (let over = (case previous of None \<Rightarrow> None
                  | Some p \<Rightarrow> if sa_overrideApplied (sv_assessment p) then Some (sv_assessment p)
                              else None)
      in assessSeverity
           \<lparr>sai_impact = inc_impact r, sai_explicitSeverity = map_option sa_severity over,
            sai_explicitReason = map_option sa_rationale over, sai_signals = is_severity s\<rparr>)"

definition triage_health :: "IncidentSignals \<Rightarrow> RepositoryHealth" where
  "triage_health s = calculateRepositoryHealth
     \<lparr>rh_buildFailure =
        (non_empty (is_failingCommand s) \<noteq> None
         \<or> has_text (to_lower (case is_errorMessage s of None \<Rightarrow> [] | Some m \<Rightarrow> m)) ''build''),
      rh_failingTests = sig_failingTests (is_severity s),
      rh_deploymentBlocked = sig_deploymentBlocked (is_severity s),
      rh_dependencyIssue = is_dependencyIssue s,
      rh_securityExposure = sig_securityExposure (is_severity s),
      rh_apiContractMismatch = is_apiContractMismatch s,
      rh_frontendFunctionalityFailure = is_frontendFunctionalityFailure s\<rparr>"

definition new_health :: "call \<Rightarrow> incident_row \<Rightarrow> RepositoryHealth \<Rightarrow> health_row" where
  "new_health c r k =
     \<lparr>hs_id = c_ids c 5, hs_organizationId = inc_organizationId r,
      hs_repositoryId = inc_repositoryId r, hs_incidentId = Some (inc_id r),
      hs_overallScore = health_overallScore k, hs_status = health_status k,
      hs_dimensions = health_dimensions k, hs_evidenceCount = 1,
      hs_calculationVersion = health_calculationVersion k, hs_createdAt = c_now c\<rparr>"

definition triage_started :: "call \<Rightarrow> incident_row \<Rightarrow> incident_row" where
  "triage_started c r = (touched c r)
     \<lparr>inc_status := IncidentStatus.TRIAGING, inc_stage := RecoveryStage.TRIAGE\<rparr>"

definition triage_completed ::
  "call \<Rightarrow> SeverityAssessment \<Rightarrow> incident_row \<Rightarrow> incident_row" where
  "triage_completed c a r = (touched c r)
     \<lparr>inc_severity := sa_severity a, inc_severityScore := sa_score a,
      inc_severityReason := sa_rationale a, inc_status := IncidentStatus.INVESTIGATING,
      inc_stage := RecoveryStage.DIAGNOSE,
      inc_acknowledgedAt :=
        Some (case inc_acknowledgedAt r of None \<Rightarrow> c_now c | Some t \<Rightarrow> t)\<rparr>"

record IncidentTriageResult =
  tr_incidentId :: string
  tr_status :: IncidentStatus
  tr_stage :: RecoveryStage
  tr_severityAssessment :: SeverityAssessment
  tr_healthSnapshot :: RepositoryHealthSnapshot
  tr_evidenceIds :: "string list"
  tr_completedAt :: string

definition IncidentTriageResultSchema :: "host \<Rightarrow> IncidentTriageResult \<Rightarrow> bool" where
  "IncidentTriageResultSchema h t =
     (uuid_format h (tr_incidentId t) \<and> SeverityAssessmentSchema (tr_severityAssessment t)
      \<and> RepositoryHealthSnapshotSchema h (tr_healthSnapshot t)
      \<and> list_all (uuid_format h) (tr_evidenceIds t) \<and> datetime_format h (tr_completedAt t))"

text \<open>An event and the audit entry of the worker, for the incident under triage.\<close>

definition triage_event ::
  "host \<Rightarrow> call \<Rightarrow> nat \<Rightarrow> IncidentTriageJob \<Rightarrow> string \<Rightarrow> IncidentEventType \<Rightarrow> json \<Rightarrow> IncidentEvent inctx"
  where
  "triage_event h c k j i ty p =
     appendIncidentEvent h c (c_ids c k) (by_actor (triage_context j) i ty p None)"

text \<open>The assessment, the snapshot and the end of the triage, with the events of each.\<close>

definition assess_and_complete ::
  "host \<Rightarrow> call \<Rightarrow> IncidentTriageJob \<Rightarrow> incident_row \<Rightarrow> evidence_row \<Rightarrow> IncidentTriageResult inctx"
  where
  "assess_and_complete h c j r e =
     (let s = triage_signals j r; i = inc_id r in
     tx_bind (tx_read (latest_severity i)) (\<lambda>previous.
     let a = triage_assessment r s previous; k = triage_health s; row = new_health c r k in
     tx_then (insert_severity c (c_ids c 3) i ActorType.SERVICE triage_worker a)
     (tx_then (triage_event h c 4 j i IncidentEventType.SEVERITY_ASSESSED (assessment_json a))
     (tx_then (insert_row id_health id_health_update same_health row)
     (tx_then (triage_event h c 6 j i IncidentEventType.HEALTH_SNAPSHOT_RECORDED
        (JObj [(''healthSnapshotId'', JStr (hs_id row)),
               (''overallScore'', JNum (health_overallScore k)),
               (''status'', JStr (HealthStatus_name (health_status k)))]))
     (tx_then (set_incident i (triage_completed c a))
     (tx_then (triage_event h c 7 j i IncidentEventType.TRIAGE_COMPLETED
        (JObj [(''severity'', JStr (IncidentSeverity_name (sa_severity a))),
               (''severityScore'', JNum (sa_score a)),
               (''repositoryHealth'', JNum (health_overallScore k)),
               (''nextStage'', JStr (RecoveryStage_name RecoveryStage.DIAGNOSE))]))
     (tx_then (appendAuditLog h c (c_ids c 8)
        (audit_of (triage_context j) i ''incident.triage.complete'' ''Incident'' i None
           [(''severity'', JStr (IncidentSeverity_name (sa_severity a))),
            (''severityScore'', JNum (sa_score a)),
            (''healthScore'', JNum (health_overallScore k)), (''evidenceId'', JStr (evd_id e))]))
     (tx_bind (tx_lift (mapHealth h row)) (\<lambda>snapshot.
        tx_lift (parse_with (IncidentTriageResultSchema h) ''IncidentTriageResult''
          \<lparr>tr_incidentId = i, tr_status = IncidentStatus.INVESTIGATING,
           tr_stage = RecoveryStage.DIAGNOSE, tr_severityAssessment = a,
           tr_healthSnapshot = snapshot, tr_evidenceIds = [evd_id e],
           tr_completedAt = iso_time h (c_clock c)\<rparr>)))))))))))"

definition processTriage ::
  "host \<Rightarrow> call \<Rightarrow> IncidentTriageJob \<Rightarrow> IncidentTriageResult inctx" where
  "processTriage h c j =
     tx_bind (lock_incident (tj_organizationId j) (tj_incidentId j)) (\<lambda>r.
       tx_then (tx_guard (\<not> is_closed (inc_status r))
         (''Incident '' @ inc_id r @ '' is terminal and cannot be triaged''))
       (tx_then (set_incident (inc_id r) (triage_started c))
       (tx_then (triage_event h c 0 j (inc_id r) IncidentEventType.TRIAGE_STARTED
          (JObj [(''attempt'', JNum (tj_attempt j)), (''worker'', JStr triage_worker)]))
       (tx_bind (insert_evidence (triage_evidence h c r (triage_signals j r))
                   ''Triage evidence insert or lookup returned no row'') (\<lambda>e.
        tx_then (triage_event h c 2 j (inc_id r) IncidentEventType.EVIDENCE_RECORDED
          (JObj [(''evidenceId'', JStr (evd_id e)),
                 (''kind'', JStr (EvidenceKind_name EvidenceKind.ERROR)),
                 (''digest'', JStr (evd_digest e)), (''redacted'', JBool (evd_redacted e))]))
          (assess_and_complete h c j r e))))))"

section \<open>The outbox\<close>

record OutboxRecord =
  obr_id :: string
  obr_organizationId :: string
  obr_topic :: string
  obr_partitionKey :: string
  obr_deduplicationKey :: string
  obr_payload :: json
  obr_attempts :: int

definition outbox_record :: "message_row \<Rightarrow> OutboxRecord" where
  "outbox_record m =
     \<lparr>obr_id = msg_id m, obr_organizationId = msg_organizationId m, obr_topic = msg_topic m,
      obr_partitionKey = msg_partitionKey m, obr_deduplicationKey = msg_deduplicationKey m,
      obr_payload = msg_payload m, obr_attempts = msg_attempts m\<rparr>"

definition ready_to_send :: "call \<Rightarrow> int \<Rightarrow> message_row \<Rightarrow> bool" where
  "ready_to_send c lockTimeoutMs m =
     ((msg_status m \<in> {OutboxStatus.PENDING, OutboxStatus.FAILED}
       \<or> msg_status m = OutboxStatus.PROCESSING
         \<and> (case msg_lockedAt m of None \<Rightarrow> False | Some t \<Rightarrow> t < c_now c - lockTimeoutMs * 1000))
      \<and> msg_availableAt m \<le> c_now c)"

text \<open>\<open>busy\<close> holds of the rows that other transactions have locked and \<open>SKIP LOCKED\<close> leaves out.\<close>

definition candidates ::
  "(message_row \<Rightarrow> bool) \<Rightarrow> call \<Rightarrow> nat \<Rightarrow> int \<Rightarrow> 'a core_db_scheme \<Rightarrow> message_row list" where
  "candidates busy c batchSize lockTimeoutMs d =
     take batchSize (sort_key msg_createdAt
       (filter (\<lambda>m. ready_to_send c lockTimeoutMs m \<and> \<not> busy m) (co_outbox d)))"

definition claimed_by :: "call \<Rightarrow> string \<Rightarrow> message_row \<Rightarrow> message_row" where
  "claimed_by c workerId m =
     m\<lparr>msg_status := OutboxStatus.PROCESSING, msg_lockedAt := Some (c_now c),
       msg_lockedBy := Some workerId, msg_attempts := msg_attempts m + 1,
       msg_updatedAt := c_now c\<rparr>"

definition claimOutboxBatch ::
  "(message_row \<Rightarrow> bool) \<Rightarrow> call \<Rightarrow> string \<Rightarrow> nat \<Rightarrow> int
   \<Rightarrow> ('a core_db_scheme, string, OutboxRecord list) tx" where
  "claimOutboxBatch busy c workerId batchSize lockTimeoutMs =
     tx_bind (tx_read (\<lambda>d. map msg_id (candidates busy c batchSize lockTimeoutMs d))) (\<lambda>ids.
       let taken = (\<lambda>m. msg_id m \<in> set ids) in
       tx_then (tx_write (co_outbox_update (update_where taken (claimed_by c workerId))))
         (tx_read (\<lambda>d. map outbox_record (filter taken (co_outbox d)))))"

definition set_message ::
  "string \<Rightarrow> (message_row \<Rightarrow> message_row) \<Rightarrow> ('a core_db_scheme, string, unit) tx" where
  "set_message i f = tx_write (co_outbox_update (update_where (\<lambda>m. msg_id m = i) f))"

definition markOutboxPublished :: "call \<Rightarrow> string \<Rightarrow> ('a core_db_scheme, string, unit) tx" where
  "markOutboxPublished c i =
     set_message i (\<lambda>m. m\<lparr>msg_status := OutboxStatus.PUBLISHED, msg_publishedAt := Some (c_now c),
       msg_lockedAt := None, msg_lockedBy := None, msg_lastError := None,
       msg_lastErrorCode := None, msg_updatedAt := c_now c\<rparr>)"

text \<open>What was thrown: the message of an \<open>Error\<close>, and its \<open>code\<close> property.\<close>

record publish_error =
  pe_error_message :: "string option"
  pe_error_code :: "string option"

definition delay_seconds :: "nat \<Rightarrow> int" where
  "delay_seconds attempts = min 300 (2 ^ min attempts 8)"

definition markOutboxFailed ::
  "call \<Rightarrow> string \<Rightarrow> publish_error \<Rightarrow> nat \<Rightarrow> nat \<Rightarrow> ('a core_db_scheme, string, unit) tx" where
  "markOutboxFailed c i err attempts maxAttempts =
     set_message i (\<lambda>m. m
       \<lparr>msg_status := (if maxAttempts \<le> attempts then OutboxStatus.DEAD_LETTER
                        else OutboxStatus.FAILED),
        msg_availableAt := c_now c + delay_seconds attempts * 1000000, msg_lockedAt := None,
        msg_lockedBy := None,
        msg_lastError := Some (case pe_error_message err of None \<Rightarrow> ''Unknown publish error''
                               | Some e \<Rightarrow> take 2000 e),
        msg_lastErrorCode := map_option (take 100) (pe_error_code err),
        msg_updatedAt := c_now c\<rparr>)"

section \<open>Repository intake\<close>

record RepositoryIntakeJob =
  rj_intakeId :: string
  rj_organizationId :: string
  rj_requestedBy :: string
  rj_requestId :: string
  rj_requestedAt :: string
  rj_repositoryUrl :: string
  rj_installationId :: "int option"
  rj_baseBranch :: "string option"

record RepositoryIntakeResult =
  rr_providerRepositoryId :: string
  rr_owner :: string
  rr_name :: string
  rr_fullName :: string
  rr_htmlUrl :: string
  rr_defaultBranch :: string
  rr_selectedBaseBranch :: string
  rr_visibility :: RepositoryVisibility
  rr_headSha :: string
  rr_worktreeId :: string
  rr_branchName :: string
  rr_relativePath :: string
  rr_baseSha :: string

definition same_repo_provider :: "repo_row \<Rightarrow> repo_row \<Rightarrow> bool" where
  "same_repo_provider a b =
     (rp_organizationId a = rp_organizationId b \<and> rp_providerRepoId a = rp_providerRepoId b)"

definition same_repo :: "repo_row \<Rightarrow> repo_row \<Rightarrow> bool" where
  "same_repo a b =
     (rp_id a = rp_id b \<or> same_repo_provider a b
      \<or> rp_organizationId a = rp_organizationId b \<and> rp_fullName a = rp_fullName b)"

definition same_intake :: "intake_row \<Rightarrow> intake_row \<Rightarrow> bool" where
  "same_intake a b = (itk_id a = itk_id b)"

definition same_worktree_intake :: "worktree_row \<Rightarrow> worktree_row \<Rightarrow> bool" where
  "same_worktree_intake a b = (wt_intakeId a = wt_intakeId b)"

definition same_worktree :: "worktree_row \<Rightarrow> worktree_row \<Rightarrow> bool" where
  "same_worktree a b = (wt_id a = wt_id b \<or> wt_intakeId a = wt_intakeId b)"

definition repository_of ::
  "call \<Rightarrow> RepositoryIntakeJob \<Rightarrow> RepositoryIntakeResult \<Rightarrow> repo_row" where
  "repository_of c j r =
     \<lparr>rp_id = c_ids c 0, rp_organizationId = rj_organizationId j,
      rp_providerRepoId = rr_providerRepositoryId r,
      rp_installationId = (case rj_installationId j of None \<Rightarrow> None
                           | Some n \<Rightarrow> if n = 0 then None else Some (show_int n)),
      rp_owner = rr_owner r, rp_name = rr_name r, rp_fullName = rr_fullName r,
      rp_visibility = rr_visibility r, rp_defaultBranch = rr_defaultBranch r,
      rp_cloneUrl = ''https://github.com/'' @ rr_fullName r @ ''.git'', rp_htmlUrl = rr_htmlUrl r,
      rp_headSha = Some (rr_headSha r), rp_lastIntakeAt = Some (c_now c)\<rparr>"

definition persistRepositoryIntake ::
  "host \<Rightarrow> call \<Rightarrow> RepositoryIntakeJob \<Rightarrow> RepositoryIntakeResult \<Rightarrow> OrganizationDefaults
   \<Rightarrow> string inctx" where
  "persistRepositoryIntake h c j r od =
     tx_then (ensureOrganization c od)
     (let new = repository_of c j r in
      tx_bind (upsert_row id_repositories id_repositories_update same_repo_provider same_repo new
                 (\<lambda>old. new\<lparr>rp_id := rp_id old\<rparr>)) (\<lambda>repository.
      tx_bind (tx_lift (read_date h (Some (rj_requestedAt j)) 0)) (\<lambda>requestedAt.
      tx_then (upsert_row id_intakes id_intakes_update same_intake same_intake
          \<lparr>itk_id = rj_intakeId j, itk_organizationId = rj_organizationId j,
           itk_repositoryId = Some (rp_id repository), itk_requestedBy = rj_requestedBy j,
           itk_requestedUrl = rj_repositoryUrl j, itk_requestedBranch = rj_baseBranch j,
           itk_selectedBaseBranch = Some (rr_selectedBaseBranch r),
           itk_status = RepositoryIntakeStatus.READY, itk_progress = 100,
           itk_requestId = rj_requestId j, itk_requestedAt = 1000 * requestedAt,
           itk_completedAt = Some (c_now c)\<rparr>
          (\<lambda>old. old\<lparr>itk_repositoryId := Some (rp_id repository),
             itk_status := RepositoryIntakeStatus.READY, itk_progress := 100,
             itk_selectedBaseBranch := Some (rr_selectedBaseBranch r),
             itk_completedAt := Some (c_now c)\<rparr>))
      (tx_then (upsert_row id_worktrees id_worktrees_update same_worktree_intake same_worktree
          \<lparr>wt_id = rr_worktreeId r, wt_repositoryId = rp_id repository,
           wt_intakeId = rj_intakeId j, wt_branchName = rr_branchName r,
           wt_baseBranch = rr_selectedBaseBranch r, wt_baseSha = rr_baseSha r,
           wt_relativePath = rr_relativePath r, wt_status = ''ACTIVE''\<rparr>
          (\<lambda>old. old\<lparr>wt_branchName := rr_branchName r,
             wt_baseBranch := rr_selectedBaseBranch r, wt_baseSha := rr_baseSha r,
             wt_relativePath := rr_relativePath r, wt_status := ''ACTIVE''\<rparr>))
        (tx_return (rp_id repository))))))"

end
