(* ===== verification/Incident_Listing.thy ===== *)
theory Incident_Listing
  imports Incident_Store
begin

text \<open>
  The pages of the incident list, and the batches of the outbox: what a client that follows the
  cursors has seen, and what a dispatcher takes.
\<close>

section \<open>Following the cursors\<close>

text \<open>What a client gets that asks for the next page until there is no cursor.\<close>

fun all_pages ::
  "host \<Rightarrow> (string \<Rightarrow> json option) \<Rightarrow> string \<Rightarrow> incident_db \<Rightarrow> nat \<Rightarrow> IncidentListQuery
   \<Rightarrow> string + Incident list" where
  "all_pages h parse_json org d 0 q = Inr []"
| "all_pages h parse_json org d (Suc n) q =
     try_then (listIncidents h parse_json org q d) (\<lambda>l.
       case li_nextCursor l of
         None \<Rightarrow> Inr (li_items l)
       | Some s \<Rightarrow> try_then (all_pages h parse_json org d n (q\<lparr>lq_cursor := Some s\<rparr>))
           (\<lambda>rest. Inr (li_items l @ rest)))"

lemma at_or_after_total: "at_or_after p q \<or> at_or_after q p"
  using string_le_total [of "snd p" "snd q"] by (auto simp: at_or_after_def)

lemma at_or_after_trans: "at_or_after p q \<Longrightarrow> at_or_after q r \<Longrightarrow> at_or_after p r"
  using string_le_trans [of "snd r" "snd q" "snd p"] by (auto simp: at_or_after_def)

lemma at_or_after_antisym: "at_or_after p q \<Longrightarrow> at_or_after q p \<Longrightarrow> p = q"
  using string_le_antisym [of "snd p" "snd q"] by (auto simp: at_or_after_def prod_eq_iff)

definition listed :: "string \<Rightarrow> IncidentListQuery \<Rightarrow> incident_db \<Rightarrow> incident_row list" where
  "listed org q d = sort_by incident_before (filter (list_clauses org q None) (id_incidents d))"

lemma sorted_by_position: "sorted_wrt incident_before (sort_by incident_before xs)"
  using sorted_sort_by [of incident_before] at_or_after_total at_or_after_trans
  unfolding incident_before_def by blast

lemma sort_by_filter:
  assumes "distinct (map inc_id xs)"
  shows "sort_by incident_before (filter P xs) = filter P (sort_by incident_before xs)"
proof (rule sorted_wrt_unique [where le = incident_before])
  fix a b
  assume "a \<in> set (sort_by incident_before (filter P xs))"
    "b \<in> set (sort_by incident_before (filter P xs))" "incident_before a b" "incident_before b a"
  then have "a \<in> set xs" "b \<in> set xs" "inc_id a = inc_id b"
    using at_or_after_antisym [of "position a" "position b"]
    by (auto simp: incident_before_def position_def)
  with assms show "a = b" by (auto simp: distinct_map inj_on_def)
qed (simp_all add: sorted_by_position sorted_wrt_filter)

text \<open>The rows after the page that ends with the \<open>k\<close>-th are those that follow it in the order.\<close>

lemma after_page:
  assumes "sorted_wrt incident_before S" "distinct (map inc_id S)" "0 < k" "k \<le> length S"
  shows "filter (\<lambda>r. \<not> at_or_after (position r) (position (S ! (k - 1)))) S = drop k S"
proof -
  let ?keep = "\<lambda>r. \<not> at_or_after (position r) (position (S ! (k - 1)))"
  have "\<not> ?keep r" if "r \<in> set (take k S)" for r
  proof -
    from that obtain i where i: "i < k" "r = S ! i" using assms(4) by (auto simp: in_set_conv_nth)
    show ?thesis
    proof (cases "i = k - 1")
      case True
      with i at_or_after_total [of "position r" "position r"] show ?thesis by simp
    next
      case False
      with i assms(1,4) show ?thesis
        by (simp add: sorted_wrt_iff_nth_less incident_before_def)
    qed
  qed
  then have a: "filter ?keep (take k S) = []" by (simp add: filter_empty_conv)
  have "?keep r" if "r \<in> set (drop k S)" for r
  proof
    assume before: "at_or_after (position r) (position (S ! (k - 1)))"
    from that obtain i where "i < length (drop k S)" "r = drop k S ! i"
      unfolding in_set_conv_nth by blast
    then have i: "k + i < length S" "r = S ! (k + i)" using assms(4) by auto
    with assms(1,3) have "at_or_after (position (S ! (k - 1))) (position r)"
      by (simp add: sorted_wrt_iff_nth_less incident_before_def)
    with before have "inc_id (S ! (k - 1)) = inc_id (S ! (k + i))"
      using at_or_after_antisym i(2) by (fastforce simp: position_def)
    with assms(2,3) i(1) nth_eq_iff_index_eq [OF assms(2), of "k - 1" "k + i"] show False by simp
  qed
  then have "filter ?keep (drop k S) = drop k S" by (simp add: filter_id_conv)
  with a filter_append [of ?keep "take k S" "drop k S"] show ?thesis by simp
qed

text \<open>What the host's dates and JSON must do for a cursor to come back as it was sent.\<close>

definition cursors_survive ::
  "host \<Rightarrow> (string \<Rightarrow> json option) \<Rightarrow> incident_db \<Rightarrow> bool" where
  "cursors_survive h parse_json d =
     (\<forall>r \<in> set (id_incidents d).
        parse_json (stringify (JObj [(''lastActivityAt'', JStr (iso h (inc_lastActivityAt r))),
                                     (''id'', JStr (inc_id r))]))
          = Some (JObj [(''lastActivityAt'', JStr (iso h (inc_lastActivityAt r))),
                        (''id'', JStr (inc_id r))])
        \<and> timestamp_of h (iso h (inc_lastActivityAt r)) = Some (inc_lastActivityAt r div 1000)
        \<and> cursor_id (inc_id r)
        \<and> (let n = length (encodeCursor (incident_of h r)) in 0 < n \<and> n \<le> 512)
        \<and> IncidentSchema h (incident_of h r))"

lemma decode_own_cursor:
  assumes "cursors_survive h parse_json d" "r \<in> set (id_incidents d)"
  shows "decodeCursor h parse_json (encodeCursor (incident_of h r))
    = Inr (1000 * (inc_lastActivityAt r div 1000), inc_id r)"
  using assms
  by (auto simp: cursors_survive_def decodeCursor_def encodeCursor_def incident_of_def decode_encoded)

lemma map_parse_incidents:
  assumes "\<forall>r \<in> set rs. IncidentSchema h (incident_of h r)"
  shows "map_parse (mapIncident h) rs = Inr (map (incident_of h) rs)"
  using assms by (induction rs) (auto simp: mapIncident_def parse_with_def)

lemma last_of_take: "0 < n \<Longrightarrow> n \<le> length S \<Longrightarrow> last (take n S) = S ! (n - 1)"
  by (subst last_conv_nth) auto

text \<open>The answer to a query whose cursor stands for the position \<open>start\<close>.\<close>

lemma one_page:
  assumes d: "cursors_survive h parse_json d" "distinct (map inc_id (id_incidents d))"
    and q: "0 < lq_limit q"
    and start: "(case non_empty (lq_cursor q) of None \<Rightarrow> Inr None
       | Some s \<Rightarrow> try_then (decodeCursor h parse_json s) (\<lambda>p. Inr (Some p))) = Inr start"
    and S: "S = filter (\<lambda>r. case start of None \<Rightarrow> True | Some p \<Rightarrow> \<not> at_or_after (position r) p)
        (listed org q d)"
  shows "listIncidents h parse_json org q d = Inr
    \<lparr>li_items = map (incident_of h) (take (lq_limit q) S),
     li_nextCursor = (if lq_limit q < length S
       then Some (encodeCursor (incident_of h (S ! (lq_limit q - 1)))) else None)\<rparr>"
proof -
  let ?rows = "sort_by incident_before (filter (list_clauses org q start) (id_incidents d))"
  have c: "list_clauses org q start r = (list_clauses org q None r
      \<and> (case start of None \<Rightarrow> True | Some p \<Rightarrow> \<not> at_or_after (position r) p))" for r
    by (auto simp: list_clauses_def)
  have rows: "?rows = S"
    unfolding S listed_def sort_by_filter [OF d(2)] filter_filter by (rule filter_cong) (auto simp: c)
  have sub: "set S \<subseteq> set (id_incidents d)" by (auto simp: S listed_def)
  then have "map_parse (mapIncident h) (take (lq_limit q + 1) S)
      = Inr (map (incident_of h) (take (lq_limit q + 1) S))"
    using d(1) by (intro map_parse_incidents) (auto simp: cursors_survive_def dest: in_set_takeD)
  moreover have "take (lq_limit q) (map (incident_of h) (take (lq_limit q + 1) S))
      = map (incident_of h) (take (lq_limit q) S)"
    by (simp add: take_map [symmetric] min_def)
  moreover have "last (map (incident_of h) (take (lq_limit q) S)) = incident_of h (S ! (lq_limit q - 1))"
    "length (encodeCursor (incident_of h (S ! (lq_limit q - 1)))) \<le> 512" if "lq_limit q < length S"
  proof -
    show "last (map (incident_of h) (take (lq_limit q) S)) = incident_of h (S ! (lq_limit q - 1))"
      using that q last_of_take [of "lq_limit q" S] by (subst last_map) auto
    have "S ! (lq_limit q - 1) \<in> set (id_incidents d)"
      using that sub by (metis nth_mem less_imp_diff_less subsetD)
    with d(1) show "length (encodeCursor (incident_of h (S ! (lq_limit q - 1)))) \<le> 512"
      by (auto simp: cursors_survive_def Let_def)
  qed
  ultimately show ?thesis
    using q
    by (auto simp: listIncidents_def start rows Let_def parse_with_def at_most_def not_less
        less_Suc_eq_le)
qed

text \<open>The rows that the page after a cursor is taken from.\<close>

lemma page_start:
  assumes d: "cursors_survive h parse_json d" "distinct (map inc_id (id_incidents d))"
    and ms: "\<forall>r \<in> set (id_incidents d). inc_lastActivityAt r mod 1000 = 0"
    and k: "k = 0 \<and> non_empty (lq_cursor q) = None
      \<or> 0 < k \<and> k \<le> length (listed org q d)
        \<and> lq_cursor q = Some (encodeCursor (incident_of h (listed org q d ! (k - 1))))"
  shows "\<exists>start. (case non_empty (lq_cursor q) of None \<Rightarrow> Inr None
       | Some s \<Rightarrow> try_then (decodeCursor h parse_json s) (\<lambda>p. Inr (Some p))) = Inr start
     \<and> filter (\<lambda>r. case start of None \<Rightarrow> True | Some p \<Rightarrow> \<not> at_or_after (position r) p)
         (listed org q d) = drop k (listed org q d)"
  using k
proof
  assume "k = 0 \<and> non_empty (lq_cursor q) = None"
  then show ?thesis by (intro exI [of _ None]) simp
next
  let ?L = "listed org q d"
  assume k: "0 < k \<and> k \<le> length ?L \<and> lq_cursor q = Some (encodeCursor (incident_of h (?L ! (k - 1))))"
  let ?r = "?L ! (k - 1)"
  have "?r \<in> set ?L" using k by (intro nth_mem) linarith
  then have r: "?r \<in> set (id_incidents d)" by (simp add: listed_def)
  with d(1) have "encodeCursor (incident_of h ?r) \<noteq> []" by (auto simp: cursors_survive_def Let_def)
  moreover have "1000 * (inc_lastActivityAt ?r div 1000) = inc_lastActivityAt ?r"
    using ms r by (metis mult_div_mod_eq add.right_neutral)
  moreover have "distinct (map inc_id ?L)"
    unfolding listed_def using distinct_map_filter [OF d(2)]
    by (metis mset_map mset_sort_by mset_eq_imp_distinct_iff)
  ultimately show ?thesis
    using after_page [OF sorted_by_position [of "filter (list_clauses org q None) (id_incidents d)",
        folded listed_def] _ conjunct1 [OF k]] k decode_own_cursor [OF d(1) r]
    by (intro exI [of _ "Some (position ?r)"]) (simp add: non_empty_def position_def)
qed
lemma listed_cursor [simp]: "listed org (q\<lparr>lq_cursor := s\<rparr>) d = listed org q d"
proof -
  have "list_clauses org (q\<lparr>lq_cursor := s\<rparr>) None = list_clauses org q None"
    by (rule ext) (simp add: list_clauses_def)
  then show ?thesis by (simp only: listed_def)
qed


text \<open>
  A page that ends within a millisecond loses the incidents that follow in it: the cursor holds the
  time in milliseconds, the column in microseconds.
\<close>

definition active_at :: "int \<Rightarrow> string \<Rightarrow> incident_row" where
  "active_at t i =
     \<lparr>inc_id = i, inc_organizationId = ''o1'', inc_repositoryId = ''r1'',
      inc_shortCode = ''ER-20260721-ABCDEF'', inc_title = ''Login fails'',
      inc_description = ''Login fails'', inc_severity = IncidentSeverity.SEV4,
      inc_severityScore = 1, inc_severityReason = ''low'', inc_status = IncidentStatus.ADMITTED,
      inc_stage = RecoveryStage.ADMIT, inc_source = IncidentSource.MANUAL,
      inc_externalReference = None, inc_labels = [], inc_version = 1, inc_impact = None,
      inc_signals = None, inc_reportedAt = 0, inc_acknowledgedAt = None, inc_resolvedAt = None,
      inc_lastActivityAt = t, inc_createdAt = 0, inc_updatedAt = 0\<rparr>"


definition two_incidents :: "int \<Rightarrow> int \<Rightarrow> incident_db" where
  "two_incidents t u =
     \<lparr>co_events = [], co_audits = [], co_outbox = [], id_organizations = [], id_repositories = [],
      id_intakes = [], id_worktrees = [],
      id_incidents = [active_at t (replicate 36 (CHR ''1'')), active_at u (replicate 36 (CHR ''2''))],
      id_severities = [], id_evidence = [], id_health = [], id_idempotency = []\<rparr>"

definition dated_host :: host where
  "dated_host = plain_host\<lparr>timestamp_of := (\<lambda>s. if s = ''7'' then Some 7 else Some 5)\<rparr>"

text \<open>The JSON parser on the two cursors.\<close>

definition cursor_object :: "string \<Rightarrow> char \<Rightarrow> json" where
  "cursor_object t ch = JObj [(''lastActivityAt'', JStr t), (''id'', JStr (replicate 36 ch))]"

definition parse_cursor :: "string \<Rightarrow> json option" where
  "parse_cursor s =
     (if s = stringify (cursor_object ''7'' (CHR ''1'')) then Some (cursor_object ''7'' (CHR ''1''))
      else if s = stringify (cursor_object ''5'' (CHR ''1'')) then Some (cursor_object ''5'' (CHR ''1''))
      else if s = stringify (cursor_object ''5'' (CHR ''2'')) then Some (cursor_object ''5'' (CHR ''2''))
      else None)"

definition one_by_one :: IncidentListQuery where
  "one_by_one = \<lparr>lq_cursor = None, lq_limit = 1, lq_repositoryId = None, lq_status = None,
     lq_severity = None, lq_source = None\<rparr>"


lemma page_skips_incident:
  "all_pages dated_host parse_cursor ''o1'' (two_incidents 5900 5500) 3 one_by_one
     = Inr [incident_of dated_host (active_at 5900 (replicate 36 (CHR ''1'')))]"
  by code_simp

section \<open>Batches of the outbox\<close>

definition sendable :: "(message_row \<Rightarrow> bool) \<Rightarrow> call \<Rightarrow> int \<Rightarrow> message_row \<Rightarrow> bool" where
  "sendable busy c timeout m = (ready_to_send c timeout m \<and> \<not> busy m)"

lemma filter_by_key:
  assumes "distinct (map f xs)" "set ys \<subseteq> set xs"
  shows "set (filter (\<lambda>x. f x \<in> f ` set ys) xs) = set ys"
  using assms by (auto simp: distinct_map inj_on_def)

lemma oldest_first:
  fixes f :: "'a \<Rightarrow> int"
  assumes "sorted (map f xs)" "x \<in> set (take n xs)" "y \<in> set xs" "y \<notin> set (take n xs)"
  shows "f x \<le> f y"
proof -
  have "y \<in> set (drop n xs)"
    using assms(3,4) by (metis append_take_drop_id in_set_conv_decomp Un_iff set_append)
  moreover have "sorted (map f (take n xs @ drop n xs))" using assms(1) by simp
  ultimately show ?thesis using assms(2) unfolding map_append sorted_append by auto
qed

text \<open>
  C18: a dispatcher takes at most as many messages as it asked for, each of them ready to be sent and
  left alone by other transactions, never a newer one while an older one waits; it marks just these
  as being processed, and none of them is handed out again before its lock has timed out.
\<close>

lemma outbox_claim_effect:
  assumes "claimOutboxBatch busy c w n timeout d = Inr (ms, d')" "distinct (map msg_id (co_outbox d))"
  shows "length ms \<le> n
    \<and> obr_id ` set ms \<subseteq> msg_id ` {m \<in> set (co_outbox d). sendable busy c timeout m}
    \<and> (\<forall>m \<in> set (co_outbox d). \<forall>m' \<in> set (co_outbox d). msg_id m \<in> obr_id ` set ms
         \<longrightarrow> sendable busy c timeout m' \<longrightarrow> msg_id m' \<notin> obr_id ` set ms
         \<longrightarrow> msg_createdAt m \<le> msg_createdAt m')
    \<and> (length ms < n \<longrightarrow> (\<forall>m \<in> set (co_outbox d). sendable busy c timeout m
         \<longrightarrow> msg_id m \<in> obr_id ` set ms))
    \<and> co_outbox d' = update_where (\<lambda>m. msg_id m \<in> obr_id ` set ms) (claimed_by c w) (co_outbox d)
    \<and> (\<forall>m \<in> set (co_outbox d'). \<forall>c' t. msg_id m \<in> obr_id ` set ms
         \<longrightarrow> ready_to_send c' t m \<longrightarrow> c_now c + t * 1000 < c_now c')"
proof -
  let ?cs = "candidates busy c n timeout d"
  let ?taken = "\<lambda>m. msg_id m \<in> msg_id ` set ?cs"
  let ?all = "sort_key msg_createdAt (filter (sendable busy c timeout) (co_outbox d))"
  have cs: "?cs = take n ?all" by (simp add: candidates_def sendable_def [abs_def])
  have sub: "set ?cs \<subseteq> {m \<in> set (co_outbox d). sendable busy c timeout m}"
    unfolding cs using set_take_subset [of n ?all] by auto
  have d': "co_outbox d' = update_where ?taken (claimed_by c w) (co_outbox d)"
    and ms: "ms = map outbox_record (filter ?taken (co_outbox d'))"
    using assms(1) by (auto simp: claimOutboxBatch_def tx_inr Let_def)
  have keep: "msg_id (claimed_by c w m) = msg_id m" for m by (simp add: claimed_by_def)
  have pick: "map msg_id (filter ?taken (update_where ?taken (claimed_by c w) t))
      = map msg_id (filter ?taken t)" for t
    by (induction t) (auto simp: keep)
  have ids: "map obr_id ms = map msg_id (filter ?taken (co_outbox d))"
    unfolding ms d' using pick [of "co_outbox d"] by (simp add: outbox_record_def comp_def)
  have picked: "set (filter ?taken (co_outbox d)) = set ?cs"
    by (rule filter_by_key [OF assms(2)]) (use sub in blast)
  have S: "obr_id ` set ms = msg_id ` set ?cs"
    using arg_cong [OF ids, of set] by (simp only: set_map picked)
  have d_ids: "distinct (filter ?taken (co_outbox d))" "distinct ?cs"
    using assms(2) unfolding cs by (auto simp: distinct_map)
  have "length ms = length (filter ?taken (co_outbox d))" using ids by (metis length_map)
  then have len: "length ms = length ?cs"
    using distinct_card [OF d_ids(1)] distinct_card [OF d_ids(2)] by (simp only: picked)
  have own: "m \<in> set ?cs" if "m \<in> set (co_outbox d)" "msg_id m \<in> obr_id ` set ms" for m
    using that sub assms(2) unfolding S by (auto simp: distinct_map dest: inj_onD)
  have "msg_createdAt m \<le> msg_createdAt m'"
    if "m \<in> set (co_outbox d)" "m' \<in> set (co_outbox d)" "msg_id m \<in> obr_id ` set ms"
      "sendable busy c timeout m'" "msg_id m' \<notin> obr_id ` set ms" for m m'
  proof (rule oldest_first [where f = msg_createdAt and xs = ?all and n = n])
    show "sorted (map msg_createdAt ?all)" by simp
    show "m \<in> set (take n ?all)" using own that(1,3) by (simp add: cs)
    show "m' \<in> set ?all" using that(2,4) by simp
    show "m' \<notin> set (take n ?all)" using that(5) unfolding S cs by blast
  qed
  moreover have "msg_id m \<in> obr_id ` set ms"
    if "length ms < n" "m \<in> set (co_outbox d)" "sendable busy c timeout m" for m
    using that len unfolding S cs by (auto simp: min_def split: if_splits)
  moreover have "c_now c + t * 1000 < c_now c'"
    if "m \<in> set (co_outbox d')" "msg_id m \<in> obr_id ` set ms" "ready_to_send c' t m" for m c' t
  proof -
    from that(1,2) obtain m0 where "m = claimed_by c w m0"
      unfolding d' set_update_where S by (auto simp: keep split: if_splits)
    with that(3) show ?thesis by (simp add: ready_to_send_def claimed_by_def)
  qed
  moreover have "length ms \<le> n" by (simp add: len cs)
  moreover have "obr_id ` set ms \<subseteq> msg_id ` {m \<in> set (co_outbox d). sendable busy c timeout m}"
    unfolding S using sub by blast
  ultimately show ?thesis using d' unfolding S by blast
qed

definition waiting :: "string \<Rightarrow> int \<Rightarrow> message_row" where
  "waiting i t =
     \<lparr>msg_id = i, msg_organizationId = ''o'', msg_topic = ''incident.triage'', msg_partitionKey = ''p'',
      msg_deduplicationKey = i, msg_payload = JNull, msg_status = OutboxStatus.PENDING,
      msg_attempts = 0, msg_availableAt = t, msg_lockedAt = None, msg_lockedBy = None,
      msg_publishedAt = None, msg_lastErrorCode = None, msg_lastError = None, msg_createdAt = t,
      msg_updatedAt = t\<rparr>"

definition two_messages :: core_db where
  "two_messages =
     \<lparr>co_events = [], co_audits = [], co_outbox = [waiting ''m2'' 2, waiting ''m1'' 1]\<rparr>"

definition dispatch_call :: call where
  "dispatch_call = \<lparr>c_now = 9, c_clock = 0, c_ids = (\<lambda>n. [])\<rparr>"

lemma outbox_claim_effect_witness:
  "\<exists>ms d'. claimOutboxBatch (\<lambda>m. False) dispatch_call ''w'' 1 60000 two_messages = Inr (ms, d')
     \<and> map obr_id ms = [''m1''] \<and> length ms \<le> 1"
proof -
  let ?q = "claimOutboxBatch (\<lambda>m. False) dispatch_call ''w'' 1 60000 two_messages"
  have q: "\<exists>ms d'. ?q = Inr (ms, d') \<and> map obr_id ms = [''m1'']"
    by (simp add: claimOutboxBatch_def candidates_def two_messages_def waiting_def dispatch_call_def
        ready_to_send_def claimed_by_def outbox_record_def update_where_def tx_read_def tx_write_def
        tx_bind_def tx_then_def Let_def)
  then obtain ms d' where ms: "?q = Inr (ms, d')" "map obr_id ms = [''m1'']" by (elim exE conjE)
  have "distinct (map msg_id (co_outbox two_messages))"
    by (simp add: two_messages_def waiting_def)
  from outbox_claim_effect [OF ms(1) this] have "length ms \<le> 1" by (elim conjE)
  with ms show ?thesis by (intro exI conjI)
qed

end
