(* ===== verification/Incident_Invariants.thy ===== *)
theory Incident_Invariants
  imports Incident_Store Tx_Relation
begin

text \<open>
  What the operations of the incident store keep: intact timelines, redacted evidence, and the
  course of an incident.
\<close>

section \<open>The store as a machine\<close>

text \<open>One step is one call of an operation that commits; a call that fails leaves everything.\<close>

inductive incident_step :: "host \<Rightarrow> incident_db \<Rightarrow> incident_db \<Rightarrow> bool" for h where
  create: "createIncident h c hex cmd d = Inr (i, d') \<Longrightarrow> incident_step h d d'"
| evidence: "addEvidence h c x i input d = Inr (e, d') \<Longrightarrow> incident_step h d d'"
| transition: "transitionIncident h c x i input' d = Inr (y, d') \<Longrightarrow> incident_step h d d'"
| request: "requestTriage h c x i signals force d = Inr (y, d') \<Longrightarrow> incident_step h d d'"
| triage: "processTriage h c j d = Inr (t, d') \<Longrightarrow> incident_step h d d'"
| claim: "claimOutboxBatch busy c w n timeout d = Inr (ms, d') \<Longrightarrow> incident_step h d d'"
| published: "markOutboxPublished c m d = Inr (u, d') \<Longrightarrow> incident_step h d d'"
| failed: "markOutboxFailed c m err k n d = Inr (u, d') \<Longrightarrow> incident_step h d d'"
| intake: "persistRepositoryIntake h c rj rr od d = Inr (p, d') \<Longrightarrow> incident_step h d d'"

inductive_cases incident_stepE: "incident_step h d d'"

definition empty_incident_db :: incident_db where
  "empty_incident_db =
     \<lparr>co_events = [], co_audits = [], co_outbox = [], id_organizations = [], id_repositories = [],
      id_intakes = [], id_worktrees = [], id_incidents = [], id_severities = [], id_evidence = [],
      id_health = [], id_idempotency = []\<rparr>"

definition reachable :: "host \<Rightarrow> incident_db \<Rightarrow> bool" where
  "reachable h d = (incident_step h)\<^sup>*\<^sup>* empty_incident_db d"

section \<open>Timelines and evidence\<close>

definition stored_evidence :: "host \<Rightarrow> evidence_row \<Rightarrow> bool" where
  "stored_evidence h e =
     (safe_to_store (evd_payload e) \<and> evd_digest e = digestPayload h (evd_payload e)
      \<and> (evd_redacted e \<longrightarrow> evd_sensitivity e = EvidenceSensitivity.CONFIDENTIAL))"

definition good :: "host \<Rightarrow> incident_db \<Rightarrow> bool" where
  "good h d = (intact h d \<and> (\<forall>e \<in> set (id_evidence d). stored_evidence h e))"

lemma good_frame:
  assumes "co_events d' = co_events d" "id_evidence d' = id_evidence d"
  shows "good h d' = good h d"
  using assms intact_by_events [OF assms(1)] by (simp add: good_def)

lemma good_frames [simp]:
  "good h (co_audits_update f d) = good h d" "good h (co_outbox_update g d) = good h d"
  "good h (id_organizations_update f1 d) = good h d" "good h (id_repositories_update f2 d) = good h d"
  "good h (id_intakes_update f3 d) = good h d" "good h (id_worktrees_update f4 d) = good h d"
  "good h (id_incidents_update f5 d) = good h d" "good h (id_severities_update f6 d) = good h d"
  "good h (id_health_update f7 d) = good h d" "good h (id_idempotency_update f8 d) = good h d"
  by (rule good_frame; simp)+

interpretation good: tx_relation "\<lambda>s s'. good h s \<longrightarrow> good h s'" for h
  by unfold_locales auto

lemma with_payload_stored: "stored_evidence h (with_payload h p r)"
  using visit_safe [of p]
  by (simp add: stored_evidence_def with_payload_def redactSensitiveData_def case_prod_beta Let_def
      stored_sensitivity_def)

lemma within_append [simp]: "good.within h (appendIncidentEvent h c u cmd)"
proof (rule good.withinI, rule impI)
  fix s x s'
  assume r: "appendIncidentEvent h c u cmd s = Inr (x, s')" and g: "good h s"
  from r obtain row where row: "insert_incident_event h c u cmd s = Inr (row, s')"
    by (auto simp: appendIncidentEvent_def tx_inr)
  have "id_evidence s' = id_evidence s"
    using append_log_effect [OF row] by (cases s; cases s') simp
  with insert_incident_event_intact [OF row] g show "good h s'" by (simp add: good_def)
qed

lemma within_audit [simp]: "good.within h (appendAuditLog h c u cmd)"
  unfolding appendAuditLog_def Let_def by (intro good.within_bind good.within_insert) simp_all

lemma within_outbox [simp]: "good.within h (insertOutbox c u m)"
  unfolding insertOutbox_def by (intro good.within_insert) simp_all

lemma good_new_evidence:
  "stored_evidence h row \<Longrightarrow> good h d \<Longrightarrow> good h (id_evidence_update (\<lambda>t. t @ [row]) d)"
  by (auto simp: good_def intact_by_events [of "id_evidence_update f d" d for f d])

lemma within_evidence [simp]:
  "stored_evidence h row \<Longrightarrow> good.within h (insert_evidence row missing)"
  unfolding insert_evidence_def
  by (intro good.within_then good.within_bind good.within_insert) (simp_all add: good_new_evidence)

lemma within_set_incident [simp]: "good.within h (set_incident i f)"
  unfolding set_incident_def by (rule good.within_write) simp

lemma within_upsert:
  assumes "\<And>f s. good h (upd f s) = good h s"
  shows "good.within h (upsert_row tbl upd target clash row f)"
  using assms by (auto simp: good.within_def tx_inr split: option.splits)

lemma within_severity [simp]: "good.within h (insert_severity c u i b n a)"
  unfolding insert_severity_def by (intro good.within_insert) simp

lemma within_lock [simp]: "good.within h (lock_incident org i)"
  unfolding lock_incident_def by (intro good.within_bind) simp_all

lemma within_triage_event [simp]: "good.within h (triage_event h c k j i ty p)"
  by (simp add: triage_event_def)

lemma within_organization [simp]: "good.within h (ensureOrganization c od)"
  unfolding ensureOrganization_def by (intro good.within_insert) simp

lemma within_replay [simp]: "good.within h (replay h c cmd)"
  unfolding replay_def
  by (auto intro!: good.within_bind good.within_then split: option.split)

lemma within_keep_response [simp]: "good.within h (keep_response h c cmd i)"
  unfolding keep_response_def Let_def
  by (auto intro!: good.within_then within_upsert split: option.split)

lemmas good_within = good.within_bind good.within_then good.within_insert good.within_update

lemma within_create: "good.within h (createIncident h c hex cmd)"
proof -
  have "good.within h (admit h c hex cmd t)" for t
    unfolding admit_def Let_def by (intro good_within) simp_all
  then show ?thesis
    unfolding createIncident_def by (intro good_within) (auto intro!: good_within split: option.split)
qed

lemma within_add_evidence: "good.within h (addEvidence h c x i input)"
  unfolding addEvidence_def
  by (intro good_within) (simp_all add: new_evidence_def with_payload_stored)

lemma within_transition: "good.within h (transitionIncident h c x i input)"
  unfolding transitionIncident_def by (intro good_within) simp_all

lemma within_request: "good.within h (requestTriage h c x i signals force)"
  unfolding requestTriage_def Let_def by (auto intro!: good_within)

lemma within_triage: "good.within h (processTriage h c j)"
proof -
  have "good.within h (assess_and_complete h c j r e)" for r e
    unfolding assess_and_complete_def Let_def by (intro good_within) simp_all
  then show ?thesis
    unfolding processTriage_def
    by (intro good_within) (simp_all add: triage_evidence_def with_payload_stored)
qed

lemma within_messages:
  "good.within h (claimOutboxBatch busy c w n timeout)"
  "good.within h (markOutboxPublished c m)" "good.within h (markOutboxFailed c m err k n')"
  unfolding claimOutboxBatch_def markOutboxPublished_def markOutboxFailed_def set_message_def Let_def
  by (intro good_within good.within_write; simp)+

lemma within_intake: "good.within h (persistRepositoryIntake h c rj rr od)"
  unfolding persistRepositoryIntake_def Let_def by (intro good_within within_upsert) simp_all

lemma step_good: "incident_step h d d' \<Longrightarrow> good h d \<Longrightarrow> good h d'"
  by (induction rule: incident_step.induct)
    (blast dest: good.withinD [OF within_create] good.withinD [OF within_add_evidence]
      good.withinD [OF within_transition] good.withinD [OF within_request]
      good.withinD [OF within_triage] good.withinD [OF within_messages(1)]
      good.withinD [OF within_messages(2)] good.withinD [OF within_messages(3)]
      good.withinD [OF within_intake])+

lemma reachable_good: "reachable h d \<Longrightarrow> good h d"
  unfolding reachable_def
proof (induction rule: rtranclp_induct)
  case base
  show ?case
    by (simp add: good_def intact_def hashed_def incident_log.all_linked_def incident_log.log_def
        empty_incident_db_def)
next
  case (step d d')
  then show ?case by (blast intro: step_good)
qed

lemma timeline_rows_intact:
  assumes "intact h d"
  shows "timeline_rows i d = take 500 (filter (\<lambda>e. ie_incidentId e = i) (co_events d))"
proof -
  have l: "linked ie_sequence ie_previousHash ie_eventHash (incident_log.log i d)"
    using assms by (simp add: intact_def incident_log.all_linked_def)
  then have "sorted (map ie_sequence (filter (\<lambda>e. ie_incidentId e = i) (co_events d)))"
    unfolding linked_def incident_log.log_def by (auto simp: sorted_iff_nth_mono)
  then show ?thesis by (simp add: timeline_rows_def sort_key_id_if_sorted)
qed

lemma map_parse_with: "map_parse (parse_with ok name) xs = Inr ys \<Longrightarrow> ys = xs"
  by (induction xs arbitrary: ys) (auto simp: try_then_Inr_iff parse_with_def split: if_splits)

lemma detail_timeline:
  assumes "getIncidentDetail h org i d = Inr v"
  shows "det_timeline v = map (mapEvent h) (timeline_rows i d)
    \<and> det_timelineIntegrity v = verifyIncidentEventChain h (det_timeline v)"
  using assms
  by (auto simp: getIncidentDetail_def try_then_Inr_iff parse_with_def dest!: map_parse_with
      split: option.splits if_splits)

text \<open>
  C12: in every state the store can reach, the timeline of an incident that is read back is the first
  500 events recorded for it, in the order they were recorded, and the verification finds nothing
  wrong with it.
\<close>

lemma timelines_always_valid:
  assumes "reachable h d" "getIncidentDetail h org i d = Inr v"
  shows "det_timeline v = take 500 (timeline h i d)
    \<and> det_timelineIntegrity v
        = \<lparr>valid = True, checkedEvents = int (length (det_timeline v)), brokenSequence = None,
           reason = None\<rparr>"
proof -
  have ok: "intact h d" using reachable_good [OF assms(1)] by (simp add: good_def)
  have t: "det_timeline v
      = map (mapEvent h) (take 500 (filter (\<lambda>e. ie_incidentId e = i) (co_events d)))"
    using detail_timeline [OF assms(2)] timeline_rows_intact [OF ok] by simp
  have "sorted (map ev_sequence (det_timeline v))"
    using ok
    by (auto simp: t sorted_iff_nth_mono intact_def incident_log.all_linked_def linked_def
        incident_log.log_def)
  then have "sort_key ev_sequence (det_timeline v) = det_timeline v" by (rule sort_key_id_if_sorted)
  then have "verify_events h None 1 (sort_key ev_sequence (det_timeline v)) = None"
    using intact_timeline [OF ok, of 500 i] t by simp
  then show ?thesis
    using detail_timeline [OF assms(2)] t
    by (simp add: verifyIncidentEventChain_def timeline_def take_map)
qed


section \<open>The course of an incident\<close>

interpretation idle: tx_relation "\<lambda>(s :: incident_db) s'. id_incidents s' = id_incidents s"
  by unfold_locales auto

lemma idle_append [simp]: "idle.within (appendIncidentEvent h c u cmd)"
proof (rule idle.withinI)
  fix s :: incident_db and x and s' :: incident_db
  assume "appendIncidentEvent h c u cmd s = Inr (x, s')"
  then obtain row where row: "insert_incident_event h c u cmd s = Inr (row, s')"
    by (auto simp: appendIncidentEvent_def tx_inr)
  show "id_incidents s' = id_incidents s"
    using append_log_effect [OF row] by (cases s; cases s') simp
qed

lemma idle_statements [simp]:
  "idle.within (appendAuditLog h c u a)" "idle.within (insertOutbox c u m)"
  "idle.within (insert_evidence row missing)" "idle.within (insert_severity c u i b n v)"
  "idle.within (insert_row id_health id_health_update same_health k)"
  "idle.within (ensureOrganization c od)"
  unfolding appendAuditLog_def insertOutbox_def insert_evidence_def insert_severity_def
    ensureOrganization_def Let_def
  by (intro idle.within_bind idle.within_then idle.within_insert; simp)+

lemma idle_triage_event [simp]: "idle.within (triage_event h c n j i ty p)"
  by (simp add: triage_event_def)

lemma idle_response [simp]: "idle.within (keep_response h c cmd i)"
  unfolding keep_response_def Let_def
  by (auto simp: idle.within_def tx_inr split: option.splits)

lemma idle_replay [simp]: "idle.within (replay h c cmd)"
  unfolding replay_def
  by (auto intro!: idle.within_bind idle.within_then split: option.split)

lemma idle_messages [simp]:
  "idle.within (claimOutboxBatch busy c w n timeout)"
  "idle.within (markOutboxPublished c m)" "idle.within (markOutboxFailed c m err k n')"
  unfolding claimOutboxBatch_def markOutboxPublished_def markOutboxFailed_def set_message_def Let_def
  by (intro idle.within_bind idle.within_then idle.within_write; simp)+

lemma idle_intake [simp]: "idle.within (persistRepositoryIntake h c rj rr od)"
  unfolding persistRepositoryIntake_def Let_def
  by (intro idle.within_bind idle.within_then idle_statements)
    (auto simp: idle.within_def tx_inr split: option.splits)

lemma lock_incident_Inr:
  "lock_incident org i s = Inr (r, s') \<longleftrightarrow> incident_in org i s = Some r \<and> s' = s"
  by (auto simp: lock_incident_def tx_inr)

lemma transition_effect:
  assumes "transitionIncident h c x i input d = Inr (y, d')"
  shows "\<exists>r. incident_in (ctx_organizationId x) i d = Some r
    \<and> inc_version r = ti_expectedVersion input
    \<and> ti_toStatus input \<in> set (transitions (inc_status r))
    \<and> id_incidents d' = update_where (\<lambda>q. inc_id q = i \<and> inc_version q = ti_expectedVersion input)
        (moved c (ti_toStatus input)) (id_incidents d)"
  using assms
  by (auto simp: transitionIncident_def tx_inr lock_incident_Inr assertIncidentTransition_def
      split: if_splits dest!: idle.withinD [OF idle_append] idle.withinD [OF idle_statements(1)])

lemma evidence_effect:
  assumes "addEvidence h c x i input d = Inr (e, d')"
  shows "id_incidents d' = update_where (\<lambda>q. inc_id q = i) (touched c) (id_incidents d)"
  using assms
  by (auto simp: addEvidence_def tx_inr lock_incident_Inr set_incident_def
      dest!: idle.withinD [OF idle_append] idle.withinD [OF idle_statements(1)]
      idle.withinD [OF idle_statements(3)])

lemma request_effect:
  assumes "requestTriage h c x i signals force d = Inr (y, d')"
  shows "id_incidents d' = id_incidents d
    \<or> (\<exists>r. incident_in (ctx_organizationId x) i d = Some r \<and> \<not> is_closed (inc_status r)
         \<and> id_incidents d' = update_where (\<lambda>q. inc_id q = i)
             (triage_requested c (inc_version r + 1) signals) (id_incidents d))"
  using assms
  by (auto simp: requestTriage_def tx_inr lock_incident_Inr Let_def split: if_splits
      dest!: idle.withinD [OF idle_append] idle.withinD [OF idle_statements(1)]
      idle.withinD [OF idle_statements(2)])

lemma triage_effect:
  assumes "processTriage h c j d = Inr (t, d')"
  shows "\<exists>r a. incident_in (tj_organizationId j) (tj_incidentId j) d = Some r
    \<and> \<not> is_closed (inc_status r)
    \<and> id_incidents d' = update_where (\<lambda>q. inc_id q = inc_id r) (triage_completed c a)
        (update_where (\<lambda>q. inc_id q = inc_id r) (triage_started c) (id_incidents d))"
  using assms
  by (auto simp: processTriage_def assess_and_complete_def tx_inr lock_incident_Inr set_incident_def
      Let_def dest!: idle.withinD [OF idle_statements(1)] idle.withinD [OF idle_statements(3)]
      idle.withinD [OF idle_statements(4)] idle.withinD [OF idle_triage_event])

lemma create_effect:
  assumes "createIncident h c hex cmd d = Inr (y, d')"
  shows "id_incidents d' = id_incidents d
    \<or> (\<exists>t. \<not> list_ex (same_incident (new_incident h c hex cmd t)) (id_incidents d)
         \<and> id_incidents d' = id_incidents d @ [new_incident h c hex cmd t])"
  using assms
  by (auto simp: createIncident_def admit_def tx_inr Let_def split: option.splits
      dest!: idle.withinD [OF idle_append] idle.withinD [OF idle_statements(1)]
      idle.withinD [OF idle_statements(2)] idle.withinD [OF idle_statements(4)]
      idle.withinD [OF idle_statements(6)] idle.withinD [OF idle_response]
      idle.withinD [OF idle_replay])

text \<open>
  One operation: a row keeps what it is, its version grows whenever it changes, a closed incident
  keeps its status, and another status is one the lifecycle permits or the outcome of a triage.
\<close>

definition progressed :: "incident_row \<Rightarrow> incident_row \<Rightarrow> bool" where
  "progressed r r' =
     (inc_id r' = inc_id r \<and> inc_shortCode r' = inc_shortCode r
      \<and> inc_organizationId r' = inc_organizationId r
      \<and> (r' = r \<or> inc_version r < inc_version r')
      \<and> (is_closed (inc_status r) \<longrightarrow> inc_status r' = inc_status r))"

definition permitted :: "incident_row \<Rightarrow> incident_row \<Rightarrow> bool" where
  "permitted r r' =
     (inc_status r' \<noteq> inc_status r \<longrightarrow>
        inc_status r' \<in> set (allowedIncidentTransitions (inc_status r))
        \<or> inc_status r' = IncidentStatus.INVESTIGATING)"

definition continues ::
  "(incident_row \<Rightarrow> incident_row \<Rightarrow> bool) \<Rightarrow> incident_db \<Rightarrow> incident_db \<Rightarrow> bool" where
  "continues P d d' =
     (\<exists>old new. id_incidents d' = old @ new \<and> list_all2 P (id_incidents d) old)"

definition unique_incidents :: "incident_db \<Rightarrow> bool" where
  "unique_incidents d = keyed same_incident (id_incidents d)"

lemma continues_same:
  "(\<And>r. P r r) \<Longrightarrow> id_incidents d' = id_incidents d \<Longrightarrow> continues P d d'"
  unfolding continues_def by (rule exI [of _ "id_incidents d"]) (simp add: list_all2_same)

lemma continues_update:
  assumes "id_incidents d' = update_where p f (id_incidents d)"
    and "\<And>r. r \<in> set (id_incidents d) \<Longrightarrow> P r (if p r then f r else r)"
  shows "continues P d d'"
  unfolding continues_def
  by (rule exI [of _ "update_where p f (id_incidents d)"]) (simp add: assms list_all2_update_where)

lemma continues_append:
  "(\<And>r. P r r) \<Longrightarrow> id_incidents d' = id_incidents d @ [x] \<Longrightarrow> continues P d d'"
  by (auto simp: continues_def list_all2_same)

lemma same_row:
  assumes "unique_incidents d" "incident_in org i d = Some r" "q \<in> set (id_incidents d)"
    "inc_id q = inc_id r"
  shows "q = r"
proof -
  have "r \<in> set (id_incidents d)" using assms(2) by (auto simp: incident_in_def dest: row_where_SomeD)
  then show ?thesis
    using keyed_unique [of same_incident "id_incidents d" q r] assms
    by (simp add: unique_incidents_def same_incident_def)
qed

lemma incident_in_id: "incident_in org i d = Some r \<Longrightarrow> inc_id r = i"
  by (auto simp: incident_in_def dest: row_where_SomeD)

abbreviation (input) proceeds :: "incident_row \<Rightarrow> incident_row \<Rightarrow> bool" where
  "proceeds r r' \<equiv> progressed r r' \<and> permitted r r'"

lemma proceeds_refl: "proceeds r r"
  by (simp add: progressed_def permitted_def)

lemma step_continues:
  assumes "incident_step h d d'" "unique_incidents d"
  shows "continues (\<lambda>r r'. proceeds r r') d d'"
  using assms(1)
proof cases
  case (create c hex cmd i)
  then show ?thesis
    using create_effect [of h c hex cmd d i d'] continues_same [of "\<lambda>r r'. proceeds r r'", OF proceeds_refl]
      continues_append [of "\<lambda>r r'. proceeds r r'", OF proceeds_refl] by blast
next
  case (evidence c x i input e)
  from evidence_effect [OF this] show ?thesis
    by (rule continues_update) (auto simp: progressed_def permitted_def touched_def)
next
  case (transition c x i input y)
  from transition_effect [OF this] obtain r where r: "incident_in (ctx_organizationId x) i d = Some r"
    and t: "ti_toStatus input \<in> set (transitions (inc_status r))"
    and e: "id_incidents d' = update_where (\<lambda>q. inc_id q = i \<and> inc_version q = ti_expectedVersion input)
        (moved c (ti_toStatus input)) (id_incidents d)" by blast
  from t have "\<not> is_closed (inc_status r)" by (auto simp: is_closed_def)
  with t have "proceeds r (moved c (ti_toStatus input) r)"
    by (auto simp: progressed_def permitted_def moved_def touched_def allowedIncidentTransitions_def)
  then show ?thesis
    using same_row [OF assms(2) r] incident_in_id [OF r] proceeds_refl
    by (intro continues_update [OF e]) auto
next
  case (request c x i signals force y)
  from request_effect [OF this] show ?thesis
  proof
    assume "id_incidents d' = id_incidents d"
    then show ?thesis by (rule continues_same [OF proceeds_refl])
  next
    assume "\<exists>r. incident_in (ctx_organizationId x) i d = Some r \<and> \<not> is_closed (inc_status r)
         \<and> id_incidents d' = update_where (\<lambda>q. inc_id q = i)
             (triage_requested c (inc_version r + 1) signals) (id_incidents d)"
    then obtain r where r: "incident_in (ctx_organizationId x) i d = Some r"
      and e: "id_incidents d' = update_where (\<lambda>q. inc_id q = i)
             (triage_requested c (inc_version r + 1) signals) (id_incidents d)" by blast
    have "proceeds r (triage_requested c (inc_version r + 1) signals r)"
      by (auto simp: progressed_def permitted_def triage_requested_def)
    then show ?thesis
      using same_row [OF assms(2) r] incident_in_id [OF r] proceeds_refl
      by (intro continues_update [OF e]) auto
  qed
next
  case (triage c j t)
  from triage_effect [OF this] obtain r a
    where r: "incident_in (tj_organizationId j) (tj_incidentId j) d = Some r"
      and o: "\<not> is_closed (inc_status r)"
      and e: "id_incidents d' = update_where (\<lambda>q. inc_id q = inc_id r) (triage_completed c a)
        (update_where (\<lambda>q. inc_id q = inc_id r) (triage_started c) (id_incidents d))" by blast
  have e': "id_incidents d' = update_where (\<lambda>q. inc_id q = inc_id r)
      (\<lambda>q. triage_completed c a (triage_started c q)) (id_incidents d)"
    unfolding e by (auto simp: update_where_def triage_started_def touched_def)
  from o have "proceeds r (triage_completed c a (triage_started c r))"
    by (simp add: progressed_def permitted_def triage_completed_def triage_started_def touched_def)
  then show ?thesis
    using same_row [OF assms(2) r] proceeds_refl by (intro continues_update [OF e']) auto
next
  case (claim busy c w n timeout ms)
  then show ?thesis by (intro continues_same [OF proceeds_refl] idle.withinD [OF idle_messages(1)])
next
  case (published c m u)
  then show ?thesis by (intro continues_same [OF proceeds_refl] idle.withinD [OF idle_messages(2)])
next
  case (failed c m err k n u)
  then show ?thesis by (intro continues_same [OF proceeds_refl] idle.withinD [OF idle_messages(3)])
next
  case (intake c rj rr od p)
  then show ?thesis by (intro continues_same [OF proceeds_refl] idle.withinD [OF idle_intake])
qed

text \<open>A step adds at most one incident, whose keys are new.\<close>

lemma step_adds:
  assumes "incident_step h d d'"
  shows "length (id_incidents d') = length (id_incidents d)
    \<or> (\<exists>x. id_incidents d' = id_incidents d @ [x] \<and> \<not> list_ex (same_incident x) (id_incidents d))"
  using assms
proof cases
  case (create c hex cmd i)
  then show ?thesis using create_effect [of h c hex cmd d i d'] by auto
next
  case (evidence c x i input e)
  then show ?thesis using evidence_effect by simp
next
  case (transition c x i input y)
  then show ?thesis using transition_effect by fastforce
next
  case (request c x i signals force y)
  then show ?thesis using request_effect [of h c x i signals force d y d'] by auto
next
  case (triage c j t)
  then show ?thesis using triage_effect by fastforce
next
  case (claim busy c w n timeout ms)
  then show ?thesis using idle.withinD [OF idle_messages(1)] by metis
next
  case (published c m u)
  then show ?thesis using idle.withinD [OF idle_messages(2)] by metis
next
  case (failed c m err k n u)
  then show ?thesis using idle.withinD [OF idle_messages(3)] by metis
next
  case (intake c rj rr od p)
  then show ?thesis using idle.withinD [OF idle_intake] by metis
qed

lemma step_unique:
  assumes "incident_step h d d'" "unique_incidents d"
  shows "unique_incidents d'"
  using step_adds [OF assms(1)]
proof
  assume l: "length (id_incidents d') = length (id_incidents d)"
  from step_continues [OF assms] obtain old new where n: "id_incidents d' = old @ new"
    and P: "list_all2 (\<lambda>r r'. proceeds r r') (id_incidents d) old"
    by (auto simp: continues_def)
  from l n list_all2_lengthD [OF P] have "id_incidents d' = old" by simp
  with P show ?thesis
    using keyed_list_all2 [OF assms(2) [unfolded unique_incidents_def] P]
    by (simp add: unique_incidents_def same_incident_def progressed_def)
next
  assume "\<exists>x. id_incidents d' = id_incidents d @ [x] \<and> \<not> list_ex (same_incident x) (id_incidents d)"
  then show ?thesis using assms(2) keyed_insert by (auto simp: unique_incidents_def)
qed

lemma reachable_unique: "reachable h d \<Longrightarrow> unique_incidents d"
  unfolding reachable_def
  by (induction rule: rtranclp_induct)
    (auto simp: unique_incidents_def empty_incident_db_def intro: step_unique [unfolded unique_incidents_def])

lemma progressed_trans: "progressed a b \<Longrightarrow> progressed b c \<Longrightarrow> progressed a c"
  by (auto simp: progressed_def)

lemma step_progress:
  assumes "incident_step h d d'" "unique_incidents d" "r \<in> set (id_incidents d)"
  shows "\<exists>r' \<in> set (id_incidents d'). progressed r r' \<and> permitted r r'"
proof -
  from step_continues [OF assms(1,2)] obtain old new where n: "id_incidents d' = old @ new"
    and P: "list_all2 (\<lambda>r r'. proceeds r r') (id_incidents d) old"
    by (auto simp: continues_def)
  with assms(3) show ?thesis by (fastforce simp: in_set_conv_nth list_all2_conv_all_nth nth_append)
qed

lemma steps_progress:
  assumes "(incident_step h)\<^sup>*\<^sup>* d d'" "unique_incidents d" "r \<in> set (id_incidents d)"
  shows "unique_incidents d' \<and> (\<exists>r' \<in> set (id_incidents d'). progressed r r')"
  using assms(1)
proof (induction rule: rtranclp_induct)
  case base
  then show ?case using assms(2,3) by (auto simp: progressed_def)
next
  case (step d1 d2)
  then obtain r1 where r1: "r1 \<in> set (id_incidents d1)" "progressed r r1" by blast
  from step_progress [OF step.hyps(2) _ r1(1)] step.IH obtain r2
    where "r2 \<in> set (id_incidents d2)" "progressed r1 r2" by blast
  with r1 progressed_trans step_unique [OF step.hyps(2)] step.IH show ?case by blast
qed


text \<open>
  C15: when a transition has gone through, no other transition made from the same reading of the
  incident, by anyone at any later time, goes through.
\<close>

lemma no_lost_update:
  assumes "reachable h d" "transitionIncident h c x i input d = Inr (y, d')"
    and "(incident_step h)\<^sup>*\<^sup>* d' d''" "ti_expectedVersion input' = ti_expectedVersion input"
  shows "\<exists>m. transitionIncident h c' x' i input' d'' = Inl m"
proof (rule ccontr)
  assume "\<not> ?thesis"
  then obtain y' e where again: "transitionIncident h c' x' i input' d'' = Inr (y', e)"
    by (cases "transitionIncident h c' x' i input' d''") auto
  from transition_effect [OF assms(2)] obtain r where r: "incident_in (ctx_organizationId x) i d = Some r"
    and v: "inc_version r = ti_expectedVersion input"
    and e: "id_incidents d' = update_where (\<lambda>q. inc_id q = i \<and> inc_version q = ti_expectedVersion input)
        (moved c (ti_toStatus input)) (id_incidents d)" by blast
  have "r \<in> set (id_incidents d)" "inc_id r = i"
    using r by (auto simp: incident_in_def dest: row_where_SomeD)
  with e v have m: "moved c (ti_toStatus input) r \<in> set (id_incidents d')"
    by (force simp: set_update_where)
  have u: "unique_incidents d'"
    by (rule step_unique [OF incident_step.transition [OF assms(2)] reachable_unique [OF assms(1)]])
  from steps_progress [OF assms(3) u m] obtain r2 where u2: "unique_incidents d''"
    and r2: "r2 \<in> set (id_incidents d'')" "progressed (moved c (ti_toStatus input) r) r2" by blast
  then have "inc_version r < inc_version r2" "inc_id r2 = i"
    using \<open>inc_id r = i\<close> by (auto simp: progressed_def moved_def touched_def)
  moreover from transition_effect [OF again] obtain q
    where q: "incident_in (ctx_organizationId x') i d'' = Some q"
      "inc_version q = ti_expectedVersion input'" by blast
  ultimately show False
    using same_row [OF u2 q(1) r2(1)] incident_in_id [OF q(1)] v assms(4) by simp
qed

section \<open>An incident is created once\<close>

interpretation calm: tx_relation "\<lambda>(s :: incident_db) s'.
    id_organizations s' = id_organizations s \<and> id_idempotency s' = id_idempotency s"
  by unfold_locales auto

lemma calm_append [simp]: "calm.within (appendIncidentEvent h c u cmd)"
proof (rule calm.withinI)
  fix s :: incident_db and x and s' :: incident_db
  assume "appendIncidentEvent h c u cmd s = Inr (x, s')"
  then obtain row where row: "insert_incident_event h c u cmd s = Inr (row, s')"
    by (auto simp: appendIncidentEvent_def tx_inr)
  show "id_organizations s' = id_organizations s \<and> id_idempotency s' = id_idempotency s"
    using append_log_effect [OF row] by (cases s; cases s') simp
qed

lemma calm_statements [simp]:
  "calm.within (appendAuditLog h c u a)" "calm.within (insertOutbox c u m)"
  "calm.within (insert_severity c u i b n v)"
  "calm.within (insert_row id_incidents id_incidents_update same_incident row)"
  unfolding appendAuditLog_def insertOutbox_def insert_severity_def Let_def
  by (intro calm.within_bind calm.within_then calm.within_insert; simp)+

lemma admit_response:
  assumes "admit h c hex cmd t s = Inr (i, s')"
  shows "IncidentSchema h i \<and> (\<exists>s1. id_organizations s1 = id_organizations s
    \<and> id_idempotency s1 = id_idempotency s \<and> keep_response h c cmd i s1 = Inr ((), s'))"
  using assms
  by (auto simp: admit_def tx_inr Let_def mapIncident_def parse_with_def split: if_splits
      dest!: calm.withinD [OF calm_append] calm.withinD [OF calm_statements(1)]
      calm.withinD [OF calm_statements(2)] calm.withinD [OF calm_statements(3)]
      calm.withinD [OF calm_statements(4)])

definition answered :: "host \<Rightarrow> CreateIncidentCommand \<Rightarrow> string \<Rightarrow> Incident \<Rightarrow> incident_db \<Rightarrow> bool" where
  "answered h cmd k i d =
     (IncidentSchema h i \<and> od_id (cic_organizationDefaults cmd) \<in> org_id ` set (id_organizations d)
      \<and> (\<exists>p. stored_response (ctx_organizationId (cic_context cmd)) k d = Some p
           \<and> idm_requestHash p = request_hash h (cic_input cmd) \<and> idm_response p = i))"

lemma ensure_organization_effect:
  assumes "ensureOrganization c od d = Inr (u, d')"
  shows "od_id od \<in> org_id ` set (id_organizations d') \<and> id_idempotency d' = id_idempotency d"
  using assms
  by (auto simp: ensureOrganization_def tx_inr same_organization_id_def list_ex_iff split: if_splits)

lemma ensure_organization_again:
  "od_id od \<in> org_id ` set (id_organizations d) \<Longrightarrow> ensureOrganization c od d = Inr ((), d)"
  by (force simp: ensureOrganization_def insert_on_conflict_def same_organization_id_def list_ex_iff)

lemma keep_response_stored:
  assumes "keep_response h c cmd i s = Inr (u, s')" "non_empty (cic_idempotencyKey cmd) = Some k"
  shows "id_organizations s' = id_organizations s
    \<and> (\<exists>p. stored_response (ctx_organizationId (cic_context cmd)) k s' = Some p
         \<and> idm_requestHash p = request_hash h (cic_input cmd) \<and> idm_response p = i)"
proof -
  define row where "row = \<lparr>idm_organizationId = ctx_organizationId (cic_context cmd),
    idm_scope = create_scope, idm_key = k, idm_requestHash = request_hash h (cic_input cmd),
    idm_response = i, idm_resourceId = it_id i,
    idm_expiresAt = c_now c + cic_idempotencyTtlSeconds cmd * 1000000\<rparr>"
  have upd: "row_where q (update_where q (\<lambda>_. row) t) = Some row"
    if "row_where q t = Some y" "q row" for q t y
    using that by (induction t) (auto split: if_splits)
  have this_key: "same_response row = (\<lambda>r. idm_organizationId r = ctx_organizationId (cic_context cmd)
      \<and> idm_scope r = create_scope \<and> idm_key r = k)"
    by (auto simp: same_response_def row_def)
  from assms obtain x where
    "upsert_row id_idempotency id_idempotency_update same_response same_response row (\<lambda>_. row) s
       = Inr (x, s')"
    by (auto simp: keep_response_def tx_inr Let_def row_def)
  then have "id_organizations s' = id_organizations s"
    and "row_where (same_response row) (id_idempotency s') = Some row"
    using upd [of "same_response row"]
    by (auto simp: upsert_row_Inr_iff row_where_append same_response_def split: option.splits)
  then have "id_organizations s' = id_organizations s"
    "stored_response (ctx_organizationId (cic_context cmd)) k s' = Some row"
    by (simp_all add: stored_response_def this_key)
  then show ?thesis by (simp add: row_def)
qed

lemma replay_keeps: "replay h c cmd s = Inr (x, s') \<Longrightarrow> s' = s"
  by (auto simp: replay_def tx_inr split: option.splits if_splits)

text \<open>
  C16: once an incident was created under an idempotency key, the same request with that key answers
  with that incident and changes nothing, and another request with that key is refused, until the
  answer expires.
\<close>

lemma incident_created_once:
  assumes "createIncident h c hex cmd d = Inr (i, d')"
    and "non_empty (cic_idempotencyKey cmd) = Some k" "cic_idempotencyKey cmd2 = cic_idempotencyKey cmd"
    and "ctx_organizationId (cic_context cmd2) = ctx_organizationId (cic_context cmd)"
    and "od_id (cic_organizationDefaults cmd2) = od_id (cic_organizationDefaults cmd)"
    and "\<forall>p. stored_response (ctx_organizationId (cic_context cmd)) k d' = Some p
           \<longrightarrow> c_clock c2 < idm_expiresAt p div 1000"
  shows "createIncident h c2 hex2 cmd2 d' =
    (if request_hash h (cic_input cmd2) = request_hash h (cic_input cmd) then Inr (i, d')
     else Inl ''The idempotency key has already been used with a different request.'')"
proof -
  let ?org = "ctx_organizationId (cic_context cmd)"
  have "answered h cmd k i d'"
  proof -
    let ?rest = "\<lambda>before. case before of Some incident \<Rightarrow> tx_return incident
      | None \<Rightarrow> tx_bind (tx_read (\<lambda>d. row_where (\<lambda>r. rp_id r = ci_repositoryId (cic_input cmd)
            \<and> rp_organizationId r = ctx_organizationId (cic_context cmd)) (id_repositories d)))
          (\<lambda>repository. tx_bind (tx_some repository (not_found ''Repository'')) (\<lambda>_.
            tx_bind (tx_lift (read_date h (ci_reportedAt (cic_input cmd)) (c_clock c)))
              (admit h c hex cmd)))"
    from assms(1) obtain u d1 before d2 where e: "ensureOrganization c (cic_organizationDefaults cmd) d = Inr (u, d1)"
      and r: "replay h c cmd d1 = Inr (before, d2)" and rest: "?rest before d2 = Inr (i, d')"
      unfolding createIncident_def tx_run_inr by blast
    have n: "case before of Some j \<Rightarrow> j = i \<and> d' = d1 | None \<Rightarrow> (\<exists>t. admit h c hex cmd t d1 = Inr (i, d'))"
      using rest replay_keeps [OF r] by (auto simp: tx_inr split: option.splits)
    note org = ensure_organization_effect [OF e]
    show ?thesis
    proof (cases before)
      case None
      with n obtain t where "admit h c hex cmd t d1 = Inr (i, d')" by auto
      from admit_response [OF this] obtain s1 where "IncidentSchema h i"
        "id_organizations s1 = id_organizations d1" "keep_response h c cmd i s1 = Inr ((), d')" by blast
      with keep_response_stored [OF _ assms(2)] org show ?thesis by (simp add: answered_def)
    next
      case (Some j)
      with r n assms(2) have "\<exists>p. stored_response ?org k d' = Some p
          \<and> idm_requestHash p = request_hash h (cic_input cmd) \<and> idm_response p = i \<and> IncidentSchema h i"
        by (auto simp: replay_def tx_inr parse_with_def split: option.splits if_splits)
      with Some n org show ?thesis by (auto simp: answered_def)
    qed
  qed
  then obtain p where p: "stored_response ?org k d' = Some p" "IncidentSchema h i"
    "idm_requestHash p = request_hash h (cic_input cmd)" "idm_response p = i"
    and o: "od_id (cic_organizationDefaults cmd2) \<in> org_id ` set (id_organizations d')"
    using assms(5) by (auto simp: answered_def)
  from p(1) assms(6) have "c_clock c2 < idm_expiresAt p div 1000" by simp
  with p ensure_organization_again [OF o, of c2] assms(2-4) show ?thesis
    by (simp add: createIncident_def replay_def tx_simps parse_with_def)
qed

section \<open>A run of the store\<close>

text \<open>
  A repository is admitted, an incident is reported for it, evidence that shows a key is added, and
  the triage runs. The digest here is the end of the text, filled up to 64 characters.
\<close>

definition store_host :: host where
  "store_host = plain_host\<lparr>sha256 := (\<lambda>s. take 64 (rev s @ replicate 64 (CHR ''0''))),
     iso_time := (\<lambda>t. ''2026-07-21T00:00:00.000Z'')\<rparr>"

definition nth_call :: "string \<Rightarrow> int \<Rightarrow> call" where
  "nth_call p t = \<lparr>c_now = 1000 * t, c_clock = t, c_ids = (\<lambda>n. p @ show_nat n)\<rparr>"

definition sample_defaults :: OrganizationDefaults where
  "sample_defaults = \<lparr>od_id = ''o1'', od_slug = ''acme'', od_name = ''Acme''\<rparr>"

definition sample_intake_job :: RepositoryIntakeJob where
  "sample_intake_job =
     \<lparr>rj_intakeId = ''i1'', rj_organizationId = ''o1'', rj_requestedBy = ''u1'', rj_requestId = ''q1'',
      rj_requestedAt = ''t'', rj_repositoryUrl = ''https://github.com/a/b'', rj_installationId = None,
      rj_baseBranch = None\<rparr>"

definition sample_intake :: RepositoryIntakeResult where
  "sample_intake =
     \<lparr>rr_providerRepositoryId = ''1'', rr_owner = ''a'', rr_name = ''b'', rr_fullName = ''a/b'',
      rr_htmlUrl = ''https://github.com/a/b'', rr_defaultBranch = ''main'',
      rr_selectedBaseBranch = ''main'', rr_visibility = RepositoryVisibility.PRIVATE,
      rr_headSha = ''s'', rr_worktreeId = ''w1'', rr_branchName = ''codeer/i1'',
      rr_relativePath = ''w'', rr_baseSha = ''s''\<rparr>"

definition reporter :: StoreActorContext where
  "reporter = \<lparr>ctx_organizationId = ''o1'', ctx_actorId = ''u1'', ctx_actorType = ActorType.USER,
     ctx_actorRoles = [ActorRole.RESPONDER], ctx_requestId = ''q2'', ctx_correlationId = ''k2''\<rparr>"

definition report :: CreateIncidentCommand where
  "report = \<lparr>cic_context = reporter,
     cic_input = \<lparr>ci_repositoryId = ''r0'', ci_title = ''Login fails'',
       ci_description = ''Login fails'', ci_source = IncidentSource.MANUAL, ci_severity = None,
       ci_severityOverrideReason = None, ci_externalReference = None, ci_labels = [],
       ci_reportedAt = None, ci_impact = None, ci_signals = None\<rparr>,
     cic_idempotencyKey = Some ''key'', cic_idempotencyTtlSeconds = 60,
     cic_organizationDefaults = sample_defaults\<rparr>"

definition leaked_log :: CreateEvidenceInput where
  "leaked_log = \<lparr>ce_kind = EvidenceKind.LOG, ce_source = EvidenceSource.USER,
     ce_sensitivity = EvidenceSensitivity.RESTRICTED, ce_title = ''Log'', ce_summary = ''The log'',
     ce_payload = JObj [(''password'', JStr ''hunter2'')], ce_origin = None, ce_observedAt = None,
     ce_expiresAt = None\<rparr>"

definition with_repository :: incident_db where
  "with_repository = after_tx (persistRepositoryIntake store_host (nth_call ''r'' 1)
     sample_intake_job sample_intake sample_defaults) empty_incident_db"

definition with_incident :: incident_db where
  "with_incident =
     after_tx (createIncident store_host (nth_call ''a'' 2) ''abcdef01'' report) with_repository"

definition with_evidence :: incident_db where
  "with_evidence =
     after_tx (addEvidence store_host (nth_call ''b'' 3) reporter ''a0'' leaked_log) with_incident"

definition start_investigation :: TransitionIncidentInput where
  "start_investigation = \<lparr>ti_toStatus = IncidentStatus.TRIAGING, ti_expectedVersion = 1,
     ti_reason = ''start''\<rparr>"

lemma reachable_step: "reachable h d \<Longrightarrow> incident_step h d d' \<Longrightarrow> reachable h d'"
  unfolding reachable_def by (rule rtranclp.rtrancl_into_rtrancl)

lemma reachable_after:
  assumes "reachable h d" "\<And>x d'. m d = Inr (x, d') \<Longrightarrow> incident_step h d d'"
  shows "reachable h (after_tx m d)"
  using assms by (auto simp: after_tx_def intro: reachable_step split: sum.split)

lemma sample_states_reachable:
  "reachable store_host with_repository" "reachable store_host with_incident"
  "reachable store_host with_evidence"
proof -
  have "reachable store_host empty_incident_db" by (simp add: reachable_def)
  then show r: "reachable store_host with_repository"
    unfolding with_repository_def by (rule reachable_after) (rule incident_step.intake)
  then show i: "reachable store_host with_incident"
    unfolding with_incident_def by (rule reachable_after) (rule incident_step.create)
  then show "reachable store_host with_evidence"
    unfolding with_evidence_def by (rule reachable_after) (rule incident_step.evidence)
qed

lemma detail_read:
  "case getIncidentDetail store_host ''o1'' ''a0'' with_incident of
     Inl m \<Rightarrow> False | Inr v \<Rightarrow> length (det_timeline v) = 2"
  by code_simp

lemma timelines_always_valid_witness:
  "\<exists>v. getIncidentDetail store_host ''o1'' ''a0'' with_incident = Inr v
     \<and> length (det_timeline v) = 2 \<and> valid (det_timelineIntegrity v)"
proof -
  from detail_read obtain v where v: "getIncidentDetail store_host ''o1'' ''a0'' with_incident = Inr v"
    "length (det_timeline v) = 2" by (auto split: sum.splits)
  from timelines_always_valid [OF sample_states_reachable(2) v(1)] v show ?thesis by simp
qed

lemma evidence_stored:
  "map (\<lambda>e. (evd_payload e, evd_sensitivity e)) (id_evidence with_evidence)
     = [(JObj [(''password'', JStr REDACTED)], EvidenceSensitivity.CONFIDENTIAL)]"
  by code_simp


text \<open>Evidence that was handed in as restricted is stored as merely confidential once it is redacted.\<close>

lemma restricted_evidence_downgraded:
  "ce_sensitivity leaked_log = EvidenceSensitivity.RESTRICTED
   \<and> map evd_sensitivity (id_evidence with_evidence) = [EvidenceSensitivity.CONFIDENTIAL]"
proof -
  have "map evd_sensitivity (id_evidence with_evidence)
      = map snd (map (\<lambda>e. (evd_payload e, evd_sensitivity e)) (id_evidence with_evidence))"
    by (simp add: comp_def)
  also have "\<dots> = [EvidenceSensitivity.CONFIDENTIAL]"
    unfolding evidence_stored by simp
  finally show ?thesis by (simp add: leaked_log_def)
qed

lemma started:
  "case transitionIncident store_host (nth_call ''c'' 4) reporter ''a0'' start_investigation with_incident of
     Inl m \<Rightarrow> False | Inr (y, d') \<Rightarrow> it_version y = 2"
  by code_simp

lemma no_lost_update_witness:
  "\<exists>y d'. transitionIncident store_host (nth_call ''c'' 4) reporter ''a0'' start_investigation with_incident
       = Inr (y, d')
     \<and> (\<exists>m. transitionIncident store_host (nth_call ''d'' 5) reporter ''a0'' start_investigation d' = Inl m)"
proof -
  from started obtain y d' where "transitionIncident store_host (nth_call ''c'' 4) reporter ''a0''
      start_investigation with_incident = Inr (y, d')" by (auto split: sum.splits)
  with no_lost_update [OF sample_states_reachable(2) this] show ?thesis by blast
qed


lemma reported:
  "(case createIncident store_host (nth_call ''a'' 2) ''abcdef01'' report with_repository of
     Inl m \<Rightarrow> False | Inr (i, d') \<Rightarrow> it_id i = ''a0'')
   \<and> (case stored_response ''o1'' ''key'' with_incident of None \<Rightarrow> False
      | Some p \<Rightarrow> idm_expiresAt p = 60002000)"
  by code_simp

lemma incident_created_once_witness:
  "\<exists>i. createIncident store_host (nth_call ''e'' 9) ''00000000'' report with_incident = Inr (i, with_incident)"
proof -
  from reported obtain i d' where i: "createIncident store_host (nth_call ''a'' 2) ''abcdef01'' report
      with_repository = Inr (i, d')" by (auto split: sum.splits)
  then have d': "d' = with_incident" by (simp add: with_incident_def after_tx_def)
  have "createIncident store_host (nth_call ''e'' 9) ''00000000'' report d' =
    (if request_hash store_host (cic_input report) = request_hash store_host (cic_input report)
     then Inr (i, d')
     else Inl ''The idempotency key has already been used with a different request.'')"
  proof (rule incident_created_once [OF i])
    show "non_empty (cic_idempotencyKey report) = Some ''key''" by (simp add: report_def non_empty_def)
    show "\<forall>p. stored_response (ctx_organizationId (cic_context report)) ''key'' d' = Some p
        \<longrightarrow> c_clock (nth_call ''e'' 9) < idm_expiresAt p div 1000"
      using reported by (auto simp: d' report_def reporter_def nth_call_def)
  qed simp_all
  then show ?thesis by (simp add: d')
qed

text \<open>
  A triage does not ask the lifecycle: whatever open status the incident has, it is under
  investigation afterwards, so a delayed message moves an incident whose repair is being verified back
  into the investigation, which the lifecycle does not permit.
\<close>

lemma triage_reopens_verification:
  assumes "processTriage h c j d = Inr (t, d')"
  shows "\<forall>r \<in> set (id_incidents d'). inc_id r = tj_incidentId j
           \<longrightarrow> inc_status r = IncidentStatus.INVESTIGATING"
    and "\<not> is_closed IncidentStatus.VERIFYING"
    and "IncidentStatus.INVESTIGATING \<notin> set (allowedIncidentTransitions IncidentStatus.VERIFYING)"
  using triage_effect [OF assms]
  by (auto simp: update_where_def triage_completed_def triage_started_def touched_def is_closed_def
      allowedIncidentTransitions_def incident_in_id split: if_splits)

end
