(* ===== verification/Secrets.thy ===== *)
theory Secrets
  imports Redaction
begin

text \<open>
  The secret redaction of \<open>packages/security/src/index.ts\<close>: \<open>redactSecretsFromText\<close>,
  \<open>redactSecretsFromValue\<close> and \<open>containsCredentialMaterial\<close>, which the sandbox uses on logs,
  failure texts and command environments. Its patterns differ from those of the evidence redaction
  (\<open>Redaction\<close>): they ask for word boundaries, so a matcher also gets the character before the
  position, and a repetition gives characters back until a boundary fits, which \<open>fitting\<close> follows.
\<close>

section \<open>Patterns\<close>

type_synonym boundary_matcher = "char option \<Rightarrow> string \<Rightarrow> nat option"

definition word_at :: "char option \<Rightarrow> bool" where
  "word_at c = (case c of None \<Rightarrow> False | Some ch \<Rightarrow> is_word ch)"

definition char_at :: "nat \<Rightarrow> string \<Rightarrow> char option" where
  "char_at n s = (case drop n s of [] \<Rightarrow> None | c # _ \<Rightarrow> Some c)"

text \<open>\<open>\b\<close> after the first \<open>n\<close> characters, \<open>n\<close> at least 1.\<close>

definition boundary_after :: "nat \<Rightarrow> string \<Rightarrow> bool" where
  "boundary_after n s = (word_at (char_at (n - 1) s) \<noteq> word_at (char_at n s))"

text \<open>The lengths a greedy repetition of \<open>least\<close> to \<open>most\<close> characters tries, the longest first.\<close>

definition backing_off :: "nat \<Rightarrow> nat \<Rightarrow> nat list" where
  "backing_off least most = rev [least ..< Suc most]"

definition fitting :: "nat list \<Rightarrow> string \<Rightarrow> nat option" where
  "fitting ns s = find (\<lambda>n. boundary_after n s) ns"

text \<open>\<open>\b\<close>, the head, \<open>least\<close> or more characters of the class, \<open>\b\<close>.\<close>

definition word_token :: "string \<Rightarrow> nat \<Rightarrow> (char \<Rightarrow> bool) \<Rightarrow> boundary_matcher" where
  "word_token hx least p before s =
     (if startsWith s hx \<and> word_at before \<noteq> word_at (char_at 0 s)
      then fitting (map (\<lambda>n. length hx + n)
             (backing_off least (span_length p (drop (length hx) s)))) s
      else None)"

definition gh_token :: boundary_matcher where
  "gh_token before s =
     (case find (startsWith s) [''ghp_'', ''gho_'', ''ghu_'', ''ghs_'', ''ghr_''] of
        None \<Rightarrow> None | Some hx \<Rightarrow> word_token hx 20 is_alnum before s)"

definition github_pat_token :: boundary_matcher where
  "github_pat_token = word_token ''github_pat_'' 20 is_word"

definition api_token :: boundary_matcher where
  "api_token = word_token ''sk-'' 20 (\<lambda>c. is_word c \<or> c = CHR ''-'')"

definition access_key :: boundary_matcher where
  "access_key before s =
     (if startsWith s ''AKIA'' \<and> \<not> word_at before
         \<and> 16 \<le> span_length (\<lambda>c. is_digit c \<or> is_upper c) (drop 4 s)
      then fitting [20] s else None)"

text \<open>\<open>-----BEGIN [A-Z ]*PRIVATE KEY-----\<close>: the run of letters and spaces ends with the words.\<close>

definition key_marker :: "string \<Rightarrow> string \<Rightarrow> nat option" where
  "key_marker side s =
     (let hx = ''-----'' @ side @ '' '';
          run = takeWhile (\<lambda>c. is_upper c \<or> c = CHR '' '') (drop (length hx) s)
      in if startsWith s hx \<and> suffix ''PRIVATE KEY'' run
            \<and> startsWith (drop (length hx + length run) s) ''-----''
         then Some (length hx + length run + 5) else None)"

fun to_key_end :: "string \<Rightarrow> nat option" where
  "to_key_end [] = None"
| "to_key_end (c # s) =
     (case key_marker ''END'' (c # s) of
        Some n \<Rightarrow> Some n
      | None \<Rightarrow> map_option Suc (to_key_end s))"

definition key_block :: boundary_matcher where
  "key_block before s =
     (case key_marker ''BEGIN'' s of
        None \<Rightarrow> None
      | Some b \<Rightarrow> map_option (\<lambda>n. b + n) (to_key_end (drop b s)))"

text \<open>\<open>\bBearer\s+[A-Za-z0-9._~+/-]+=*\b\<close>, regardless of case.\<close>

definition bearer_credential :: boundary_matcher where
  "bearer_credential before s =
     (let start = 6 + span_length is_space (drop 6 s);
          lengths = concat (map
            (\<lambda>n. map (\<lambda>k. start + n + k)
              (backing_off 0 (span_length (\<lambda>c. c = CHR ''='') (drop (start + n) s))))
            (backing_off 1 (span_length is_bearer_char (drop start s))))
      in if to_lower (take 6 s) = ''bearer'' \<and> \<not> word_at before \<and> 6 < start
         then fitting lengths s else None)"

text \<open>\<open>(?:password|passwd|token|secret|api[_-]?key)\s*[=:]\s*[^\s,;]+\<close>, regardless of case.\<close>

definition assignment_names :: "string list" where
  "assignment_names =
     [''password'', ''passwd'', ''token'', ''secret'', ''api_key'', ''api-key'', ''apikey'']"

definition assigned_secret :: boundary_matcher where
  "assigned_secret before s =
     (case find (startsWith (to_lower s)) assignment_names of
        None \<Rightarrow> None
      | Some name \<Rightarrow>
          (let eq = length name + span_length is_space (drop (length name) s);
               start = eq + 1 + span_length is_space (drop (eq + 1) s);
               n = span_length (\<lambda>c. \<not> is_space c \<and> c \<noteq> CHR '','' \<and> c \<noteq> CHR '';'') (drop start s)
           in if char_at eq s \<in> {Some (CHR ''=''), Some (CHR '':'')} \<and> 0 < n
              then Some (start + n) else None))"

definition CREDENTIAL_PATTERNS :: "boundary_matcher list" where
  "CREDENTIAL_PATTERNS =
     [gh_token, github_pat_token, api_token, access_key, key_block, bearer_credential,
      assigned_secret]"

definition CREDENTIAL_KEYS :: "string list" where
  "CREDENTIAL_KEYS =
     [''authorization'', ''cookie'', ''set-cookie'', ''token'', ''secret'', ''password'', ''passwd'',
      ''privatekey'', ''private_key'', ''private-key'', ''apikey'', ''api_key'', ''api-key'',
      ''clientsecret'', ''client_secret'', ''client-secret'', ''accesskey'', ''access_key'',
      ''access-key'']"

definition credential_key :: "string \<Rightarrow> bool" where
  "credential_key k = list_ex (has_text (to_lower k)) CREDENTIAL_KEYS"

section \<open>Redaction\<close>

text \<open>\<open>value.replace(pattern, replacement)\<close>, with the number of replacements.\<close>

function replace_bounded ::
  "boundary_matcher \<Rightarrow> string \<Rightarrow> char option \<Rightarrow> string \<Rightarrow> string \<times> nat" where
  "replace_bounded m r before [] = ([], 0)"
| "replace_bounded m r before (c # s) =
     (case m before (c # s) of
        None \<Rightarrow> (let (out, k) = replace_bounded m r (Some c) s in (c # out, k))
      | Some n \<Rightarrow> (let (out, k) = replace_bounded m r (char_at (n - 1) (c # s)) (drop (n - 1) s)
                  in (r @ out, Suc k)))"
  by pat_completeness auto
termination
  by (relation "measure (\<lambda>(m, r, before, s). length s)") auto

fun redact_bounded :: "boundary_matcher list \<Rightarrow> string \<Rightarrow> string \<times> nat" where
  "redact_bounded [] s = (s, 0)"
| "redact_bounded (m # ms) s =
     (let (out, k) = replace_bounded m REDACTED None s; (out', k') = redact_bounded ms out in (out', k + k'))"

definition redactSecretsFromText :: "string \<Rightarrow> string \<times> nat" where
  "redactSecretsFromText s = redact_bounded CREDENTIAL_PATTERNS s"

text \<open>\<open>visit\<close> of \<open>redactSecretsFromValue\<close>: the value, and the number of replacements.\<close>

fun visit_secrets :: "json \<Rightarrow> json \<times> nat" where
  "visit_secrets (JStr s) = (case redactSecretsFromText s of (out, k) \<Rightarrow> (JStr out, k))"
| "visit_secrets (JArr vs) =
     (JArr (map (\<lambda>v. fst (visit_secrets v)) vs), sum_list (map (\<lambda>v. snd (visit_secrets v)) vs))"
| "visit_secrets (JObj es) =
     (JObj (from_entries (map (\<lambda>(k, v). (k, if credential_key k then JStr REDACTED
                                              else fst (visit_secrets v))) es)),
      sum_list (map (\<lambda>(k, v). if credential_key k then 1 else snd (visit_secrets v)) es))"
| "visit_secrets v = (v, 0)"

definition redactSecretsFromValue :: "json \<Rightarrow> RedactionResult" where
  "redactSecretsFromValue input =
     (let (v, count) = visit_secrets input
      in \<lparr>red_value = v, red_redacted = (0 < count), red_redactionCount = count\<rparr>)"

definition containsCredentialMaterial :: "json \<Rightarrow> bool" where
  "containsCredentialMaterial v = red_redacted (redactSecretsFromValue v)"

section \<open>What is left alone\<close>

text \<open>A pattern matches somewhere in a text, which is looked at from its start.\<close>

fun occurs_in :: "boundary_matcher \<Rightarrow> char option \<Rightarrow> string \<Rightarrow> bool" where
  "occurs_in m before [] = False"
| "occurs_in m before (c # s) = (m before (c # s) \<noteq> None \<or> occurs_in m (Some c) s)"

definition shows_credential :: "string \<Rightarrow> bool" where
  "shows_credential s = list_ex (\<lambda>m. occurs_in m None s) CREDENTIAL_PATTERNS"

lemma replace_bounded_none:
  "snd (replace_bounded m r b s) = 0 \<longleftrightarrow> \<not> occurs_in m b s"
  "\<not> occurs_in m b s \<Longrightarrow> fst (replace_bounded m r b s) = s"
  by (induction m r b s rule: replace_bounded.induct) (auto simp: case_prod_beta split: option.splits)

lemma redact_bounded_none:
  "snd (redact_bounded ms s) = 0 \<longleftrightarrow> (\<forall>m \<in> set ms. \<not> occurs_in m None s)"
proof (induction ms arbitrary: s)
  case (Cons m ms)
  then show ?case
    using replace_bounded_none(1) [of m REDACTED None s] replace_bounded_none(2) [of m None s REDACTED]
    by (cases "occurs_in m None s") (simp_all add: case_prod_beta)
qed simp

lemma text_untouched_iff: "snd (redactSecretsFromText s) = 0 \<longleftrightarrow> \<not> shows_credential s"
  by (auto simp: redactSecretsFromText_def redact_bounded_none shows_credential_def list_ex_iff)

lemma entries_clean_iff:
  "\<not> containsCredentialMaterial (JObj (map (\<lambda>(k, v). (k, JStr v)) es)) \<longleftrightarrow>
     (\<forall>(k, v) \<in> set es. \<not> credential_key k \<and> \<not> shows_credential v)"
proof -
  have "snd (visit_secrets (JObj (map (\<lambda>(k, v). (k, JStr v)) es))) = 0 \<longleftrightarrow>
      (\<forall>(k, v) \<in> set es. \<not> credential_key k \<and> snd (redactSecretsFromText v) = 0)"
    by (induction es) (auto simp: case_prod_beta)
  then show ?thesis
    by (simp add: containsCredentialMaterial_def redactSecretsFromValue_def case_prod_beta
        text_untouched_iff)
qed

end
