(* ===== verification/Sandbox_Policy.thy ===== *)
theory Sandbox_Policy
  imports Secrets Unified_Diff Float64
begin

text \<open>
  The policy of the sandbox (\<open>packages/sandbox/src/policy.ts\<close>) with the contracts it parses
  (\<open>packages/contracts\<close>): what commands, network, limits and image a reproduction may use. The
  inputs are the parsed ones of \<open>StartReproductionSchema\<close>; \<open>evaluateSandboxPolicy\<close> parses
  commands, network policy, limits and its own decision again, and an error of a parse is the value
  \<open>Inl\<close>. The number of cores may be a fraction and is held as a binary64 number (\<open>Float64\<close>);
  \<open>cores_text\<close> is how a number is printed in a message.
\<close>

section \<open>Contracts\<close>

datatype SandboxNetworkMode = NONE | RESTRICTED_INSTALL

datatype SandboxCommandPhase = PREPARE | INSTALL | REPRODUCE | COLLECT

datatype SandboxExecutable = Npm | Pnpm | Yarn | Node

primrec SandboxExecutable_name :: "SandboxExecutable \<Rightarrow> string" where
  "SandboxExecutable_name Npm = ''npm''"
| "SandboxExecutable_name Pnpm = ''pnpm''"
| "SandboxExecutable_name Yarn = ''yarn''"
| "SandboxExecutable_name Node = ''node''"

text \<open>The fields of the limits; the code loops over their names.\<close>

datatype limit_field =
    cpuCores | memoryBytes | pids | workspaceBytes | tempBytes | commandTimeoutMs
  | executionTimeoutMs | maximumCommands | maximumLogBytes | maximumArtifactBytes

primrec limit_name :: "limit_field \<Rightarrow> string" where
  "limit_name cpuCores = ''cpuCores''"
| "limit_name memoryBytes = ''memoryBytes''"
| "limit_name pids = ''pids''"
| "limit_name workspaceBytes = ''workspaceBytes''"
| "limit_name tempBytes = ''tempBytes''"
| "limit_name commandTimeoutMs = ''commandTimeoutMs''"
| "limit_name executionTimeoutMs = ''executionTimeoutMs''"
| "limit_name maximumCommands = ''maximumCommands''"
| "limit_name maximumLogBytes = ''maximumLogBytes''"
| "limit_name maximumArtifactBytes = ''maximumArtifactBytes''"

definition limitFields :: "limit_field list" where
  "limitFields =
     [cpuCores, memoryBytes, pids, workspaceBytes, tempBytes, commandTimeoutMs, executionTimeoutMs,
      maximumCommands, maximumLogBytes, maximumArtifactBytes]"

type_synonym SandboxResourceLimits = "limit_field \<Rightarrow> int"

type_synonym SandboxResourceLimitOverrides = "limit_field \<Rightarrow> int option"

text \<open>Lower bound, upper bound and default; the lower bound of the cores is exclusive.\<close>

primrec limit_range :: "limit_field \<Rightarrow> int \<times> int \<times> int" where
  "limit_range cpuCores = (1, f_int 16, f_int 1)"
| "limit_range memoryBytes = (128 * 1048576, 32768 * 1048576, 1024 * 1048576)"
| "limit_range pids = (16, 4096, 256)"
| "limit_range workspaceBytes = (64 * 1048576, 51200 * 1048576, 2048 * 1048576)"
| "limit_range tempBytes = (16 * 1048576, 8192 * 1048576, 512 * 1048576)"
| "limit_range commandTimeoutMs = (1000, 3600000, 900000)"
| "limit_range executionTimeoutMs = (5000, 21600000, 2700000)"
| "limit_range maximumCommands = (1, 50, 10)"
| "limit_range maximumLogBytes = (16384, 100 * 1048576, 8 * 1048576)"
| "limit_range maximumArtifactBytes = (0, 1024 * 1048576, 64 * 1048576)"

definition SandboxResourceLimitsSchema :: "SandboxResourceLimits \<Rightarrow> bool" where
  "SandboxResourceLimitsSchema l =
     list_all (\<lambda>f. case limit_range f of (lo, hi, _) \<Rightarrow> lo \<le> l f \<and> l f \<le> hi) limitFields"

definition parse_limits :: "SandboxResourceLimitOverrides \<Rightarrow> string + SandboxResourceLimits" where
  "parse_limits l =
     (let full = (\<lambda>f. case l f of Some n \<Rightarrow> n | None \<Rightarrow> snd (snd (limit_range f)))
      in if SandboxResourceLimitsSchema full then Inr full else Inl ''Invalid resource limits'')"

record SandboxNetworkPolicy =
  net_mode :: SandboxNetworkMode
  net_dockerNetwork :: "string option"
  net_allowedRegistries :: "string list"
  net_allowedDomains :: "string list"
  net_denyPrivateNetworks :: bool
  net_denyMetadataServices :: bool

definition sized_text :: "int \<Rightarrow> int \<Rightarrow> string \<Rightarrow> bool" where
  "sized_text lo hi s = (lo \<le> int (length s) \<and> int (length s) \<le> hi)"

definition docker_name :: "string \<Rightarrow> bool" where
  "docker_name s =
     (sized_text 1 128 s \<and> list_all (\<lambda>c. is_word c \<or> c = CHR ''.'' \<or> c = CHR ''-'') s)"

definition SandboxNetworkPolicySchema :: "SandboxNetworkPolicy \<Rightarrow> bool" where
  "SandboxNetworkPolicySchema n =
     ((case net_dockerNetwork n of None \<Rightarrow> True | Some s \<Rightarrow> docker_name s)
      \<and> list_all (sized_text 1 253) (net_allowedRegistries n) \<and> length (net_allowedRegistries n) \<le> 20
      \<and> list_all (sized_text 1 253) (net_allowedDomains n) \<and> length (net_allowedDomains n) \<le> 100)"

definition trimmed_network :: "SandboxNetworkPolicy \<Rightarrow> SandboxNetworkPolicy" where
  "trimmed_network n =
     n\<lparr>net_dockerNetwork := map_option trim (net_dockerNetwork n),
       net_allowedRegistries := map trim (net_allowedRegistries n),
       net_allowedDomains := map trim (net_allowedDomains n)\<rparr>"

definition parse_network :: "SandboxNetworkPolicy \<Rightarrow> string + SandboxNetworkPolicy" where
  "parse_network n =
     (if SandboxNetworkPolicySchema (trimmed_network n) then Inr (trimmed_network n)
      else Inl ''Invalid network policy'')"

record SandboxCommandRequest =
  cmd_phase :: SandboxCommandPhase
  cmd_executable :: SandboxExecutable
  cmd_arguments :: "string list"
  cmd_workingDirectory :: string
  cmd_timeoutMs :: "int option"
  cmd_networkMode :: SandboxNetworkMode
  cmd_expectedExitCodes :: "int list"
  cmd_environment :: "(string \<times> string) list"

definition control_characters :: "char set" where
  "control_characters = {CHR 0x00, CHR 0x0D, CHR 0x0A}"

definition SandboxArgumentSchema :: "string \<Rightarrow> bool" where
  "SandboxArgumentSchema a =
     (sized_text 1 512 a \<and> list_all (\<lambda>c. c \<notin> control_characters) a)"

text \<open>\<open>/^[A-Z][A-Z0-9_]{0,63}$/\<close>.\<close>

definition environment_key :: "string \<Rightarrow> bool" where
  "environment_key k =
     (k \<noteq> [] \<and> length k \<le> 64 \<and> is_upper (hd k)
      \<and> list_all (\<lambda>c. is_upper c \<or> is_digit c \<or> c = CHR ''_'') (tl k))"

definition SandboxCommandRequestSchema :: "SandboxCommandRequest \<Rightarrow> bool" where
  "SandboxCommandRequestSchema c =
     (list_all SandboxArgumentSchema (cmd_arguments c) \<and> length (cmd_arguments c) \<le> 64
      \<and> sized_text 1 512 (cmd_workingDirectory c)
      \<and> (case cmd_timeoutMs c of None \<Rightarrow> True | Some t \<Rightarrow> 1000 \<le> t \<and> t \<le> 3600000)
      \<and> list_all (\<lambda>e. 0 \<le> e \<and> e \<le> 255) (cmd_expectedExitCodes c)
      \<and> cmd_expectedExitCodes c \<noteq> [] \<and> length (cmd_expectedExitCodes c) \<le> 16
      \<and> list_all (\<lambda>(k, v). environment_key k \<and> sized_text 0 4096 v \<and> CHR 0x00 \<notin> set v)
          (cmd_environment c)
      \<and> length (cmd_environment c) \<le> 32)"

definition trimmed_command :: "SandboxCommandRequest \<Rightarrow> SandboxCommandRequest" where
  "trimmed_command c = c\<lparr>cmd_workingDirectory := trim (cmd_workingDirectory c)\<rparr>"

definition parse_command :: "SandboxCommandRequest \<Rightarrow> string + SandboxCommandRequest" where
  "parse_command c =
     (if SandboxCommandRequestSchema (trimmed_command c) then Inr (trimmed_command c)
      else Inl ''Invalid sandbox command'')"

record FailureSignatureInput =
  fsi_expectedText :: string
  fsi_minimumSimilarity :: float64
  fsi_requireNonZeroExit :: bool

record StartReproductionInput =
  sr_worktreeId :: "string option"
  sr_image :: string
  sr_installCommands :: "SandboxCommandRequest list"
  sr_reproductionCommands :: "SandboxCommandRequest list"
  sr_failureSignature :: FailureSignatureInput
  sr_repeatCount :: nat
  sr_resourceLimits :: "SandboxResourceLimitOverrides option"
  sr_networkPolicy :: "SandboxNetworkPolicy option"
  sr_artifactPaths :: "string list"
  sr_policyOverrideReason :: "string option"

record SandboxPolicyDecision =
  dec_allowed :: bool
  dec_policyVersion :: string
  dec_decisionId :: string
  dec_reasons :: "string list"
  dec_normalizedCommands :: "SandboxCommandRequest list"
  dec_resourceLimits :: SandboxResourceLimits
  dec_networkPolicy :: SandboxNetworkPolicy
  dec_image :: string
  dec_imageDigestRequired :: bool
  dec_overrideRequired :: bool
  dec_evaluatedAt :: string

section \<open>Commands\<close>

definition SANDBOX_POLICY_VERSION :: string where
  "SANDBOX_POLICY_VERSION = ''sandbox-policy/2026-07-12.1''"

text \<open>\<open>/(?:&&|\|\||[;`]|\$\(|>\s*\/|<\s*\/)/\<close>.\<close>

fun redirects :: "char \<Rightarrow> string \<Rightarrow> bool" where
  "redirects d [] = False"
| "redirects d (c # s) = (c = d \<and> startsWith (dropWhile is_space s) ''/'' \<or> redirects d s)"

definition FORBIDDEN_ARGUMENT :: "string \<Rightarrow> bool" where
  "FORBIDDEN_ARGUMENT a =
     (has_text a ''&&'' \<or> has_text a ''||'' \<or> CHR '';'' \<in> set a \<or> CHR 0x60 \<in> set a
      \<or> has_text a ''$('' \<or> redirects (CHR ''>'') a \<or> redirects (CHR ''<'') a)"

definition FORBIDDEN_NODE_FLAGS :: "string list" where
  "FORBIDDEN_NODE_FLAGS =
     [''-e'', ''--eval'', ''-p'', ''--print'', ''-r'', ''--require'', ''--loader'',
      ''--experimental-loader'', ''--import'']"

definition SAFE_ENVIRONMENT_KEYS :: "string list" where
  "SAFE_ENVIRONMENT_KEYS =
     [''CI'', ''NODE_ENV'', ''NO_COLOR'', ''FORCE_COLOR'', ''TZ'', ''LANG'', ''LC_ALL'',
      ''NPM_CONFIG_FUND'', ''NPM_CONFIG_AUDIT'', ''NPM_CONFIG_UPDATE_NOTIFIER'',
      ''NPM_CONFIG_IGNORE_SCRIPTS'', ''PNPM_HOME'', ''YARN_ENABLE_SCRIPTS'', ''YARN_ENABLE_TELEMETRY'']"

definition normalizedWorkingDirectory :: "string \<Rightarrow> string option" where
  "normalizedWorkingDirectory value =
     (let normalized = posix_normalize value
      in if CHR 0x5C \<in> set value \<or> CHR 0x00 \<in> set value \<or> startsWith value ''/'' then None
         else if normalized = ''..'' \<or> startsWith normalized ''../'' then None
         else Some (if startsWith normalized ''./'' then drop 2 normalized else normalized))"

text \<open>\<open>!value\<close> of an optional string.\<close>

definition falsy :: "string option \<Rightarrow> bool" where
  "falsy s = (s = None \<or> s = Some [])"

definition isDigestPinnedImage :: "string \<Rightarrow> bool" where
  "isDigestPinnedImage img =
     (72 \<le> length img
      \<and> (let t = drop (length img - 72) img
          in to_lower (take 8 t) = ''@sha256:'' \<and> list_all is_hex (drop 8 t)))"

definition imageRegistry :: "string \<Rightarrow> string" where
  "imageRegistry img =
     (case split_on (CHR ''/'') img of
        first # _ # _ \<Rightarrow>
          if CHR ''.'' \<in> set first \<or> CHR '':'' \<in> set first \<or> first = ''localhost''
          then first else ''docker.io''
      | _ \<Rightarrow> ''docker.io'')"

text \<open>\<open>/^[A-Za-z0-9:_-]{1,128}$/\<close>.\<close>

definition script_name :: "string \<Rightarrow> bool" where
  "script_name s = (sized_text 1 128 s \<and> list_all (\<lambda>c. is_word c \<or> c = CHR '':'' \<or> c = CHR ''-'') s)"

text \<open>\<open>arguments[n]\<close>.\<close>

definition argument :: "nat \<Rightarrow> SandboxCommandRequest \<Rightarrow> string option" where
  "argument n c = (if n < length (cmd_arguments c) then Some (cmd_arguments c ! n) else None)"

definition package_manager_profile :: "string \<Rightarrow> SandboxCommandRequest \<Rightarrow> bool" where
  "package_manager_profile installs c =
     (cmd_phase c = INSTALL \<and> argument 0 c = Some installs
      \<or> cmd_phase c = REPRODUCE
        \<and> (argument 0 c = Some ''test''
            \<or> argument 0 c = Some ''run''
              \<and> (case argument 1 c of None \<Rightarrow> False | Some s \<Rightarrow> script_name s)))"

definition entry_file :: "string \<Rightarrow> bool" where
  "entry_file s = list_ex (endsWith (to_lower s)) [''.js'', ''.cjs'', ''.mjs'']"

definition reason_unless :: "bool \<Rightarrow> string \<Rightarrow> string list" where
  "reason_unless b r = (if b then [] else [r])"

definition outside_profile :: "string \<Rightarrow> SandboxCommandRequest \<Rightarrow> string" where
  "outside_profile name c =
     name @ '' invocation is outside the approved command profile: ''
       @ join_with '' '' (cmd_arguments c)"

definition ignore_scripts :: string where
  "ignore_scripts = ''--ignore-scripts''"

definition node_reasons :: "SandboxCommandRequest \<Rightarrow> string list" where
  "node_reasons c =
     (case argument 0 c of
        None \<Rightarrow> [''node must execute a repository-relative JavaScript entry file.'']
      | Some entry \<Rightarrow>
          if entry = [] \<or> startsWith entry ''-'' \<or> entry \<in> set FORBIDDEN_NODE_FLAGS
          then [''node must execute a repository-relative JavaScript entry file.'']
          else reason_unless (\<not> falsy (normalizedWorkingDirectory entry)
                 \<and> entry_file (the (normalizedWorkingDirectory entry)))
                 ''node entry file must be a repository-relative .js, .cjs or .mjs file.'')
     @ reason_unless (list_all (\<lambda>a. a \<notin> set FORBIDDEN_NODE_FLAGS) (cmd_arguments c))
         ''node dynamic code-loading flags are prohibited.''"

text \<open>The part of \<open>commandPolicy\<close> that depends on the executable.\<close>

definition executable_reasons :: "SandboxCommandRequest \<Rightarrow> string list" where
  "executable_reasons c =
     (let args = cmd_arguments c; installing = (cmd_phase c = INSTALL) in
      case cmd_executable c of
        Npm \<Rightarrow> reason_unless (package_manager_profile ''ci'' c) (outside_profile ''npm'' c)
               @ reason_unless (installing \<longrightarrow> ignore_scripts \<in> set args)
                   ''npm installation must include --ignore-scripts unless an approved policy override exists.''
      | Pnpm \<Rightarrow> reason_unless (package_manager_profile ''install'' c) (outside_profile ''pnpm'' c)
               @ reason_unless (installing \<longrightarrow> ''--frozen-lockfile'' \<in> set args)
                   ''pnpm install must use --frozen-lockfile.''
               @ reason_unless (installing \<longrightarrow> ignore_scripts \<in> set args)
                   ''pnpm install must use --ignore-scripts.''
      | Yarn \<Rightarrow> reason_unless (package_manager_profile ''install'' c) (outside_profile ''yarn'' c)
               @ reason_unless (installing \<longrightarrow> ''--immutable'' \<in> set args)
                   ''yarn install must use --immutable.''
      | Node \<Rightarrow> node_reasons c)"

definition environment_json :: "(string \<times> string) list \<Rightarrow> json" where
  "environment_json es = JObj (map (\<lambda>(k, v). (k, JStr v)) es)"

definition commandPolicy :: "SandboxCommandRequest \<Rightarrow> string list" where
  "commandPolicy c =
     (let exe = SandboxExecutable_name (cmd_executable c) in
      reason_unless (\<not> falsy (normalizedWorkingDirectory (cmd_workingDirectory c)))
        (''Working directory is outside the repository: '' @ cmd_workingDirectory c)
      @ reason_unless (\<not> list_ex (\<lambda>a. FORBIDDEN_ARGUMENT a \<or> list_ex (\<lambda>ch. ch \<in> control_characters) a)
                         (cmd_arguments c))
          (''Command contains shell-control syntax: '' @ exe)
      @ reason_unless (\<not> containsCredentialMaterial (environment_json (cmd_environment c)))
          (''Command environment contains credential-like material: '' @ exe)
      @ concat (map (\<lambda>k. reason_unless (k \<in> set SAFE_ENVIRONMENT_KEYS)
                        (''Environment variable is not allowlisted: '' @ k))
                    (map fst (cmd_environment c)))
      @ reason_unless (cmd_phase c = REPRODUCE \<longrightarrow> cmd_networkMode c = NONE)
          ''Reproduction commands must execute with networking disabled.''
      @ reason_unless (cmd_networkMode c = RESTRICTED_INSTALL \<longrightarrow> cmd_phase c = INSTALL)
          ''Restricted installation networking is only allowed during the install phase.''
      @ executable_reasons c)"

definition normalizeCommand ::
  "host \<Rightarrow> SandboxResourceLimits \<Rightarrow> SandboxCommandRequest \<Rightarrow> string + SandboxCommandRequest" where
  "normalizeCommand h limits c =
     try_then (parse_command c) (\<lambda>p. Inr (p\<lparr>
       cmd_workingDirectory := (case normalizedWorkingDirectory (cmd_workingDirectory p) of
                                  None \<Rightarrow> cmd_workingDirectory p | Some w \<Rightarrow> w),
       cmd_timeoutMs := Some (min (case cmd_timeoutMs p of None \<Rightarrow> limits commandTimeoutMs | Some t \<Rightarrow> t)
                                  (limits commandTimeoutMs)),
       cmd_environment := from_entries (sort_entries (locale_le h) (cmd_environment p))\<rparr>))"

section \<open>The decision\<close>

record SandboxPolicyOptions =
  spo_production :: bool
  spo_approvedImageRegistries :: "string list"
  spo_defaultImage :: string
  spo_defaultResourceLimits :: "SandboxResourceLimitOverrides option"
  spo_installationNetwork :: "string option"
  spo_installationAllowedRegistries :: "string list option"
  spo_installationAllowedDomains :: "string list option"
  spo_allowInstallScriptsOverride :: "bool option"

text \<open>\<open>x ?? {}\<close> for overrides.\<close>

definition given :: "SandboxResourceLimitOverrides option \<Rightarrow> SandboxResourceLimitOverrides" where
  "given l = (case l of None \<Rightarrow> (\<lambda>f. None) | Some m \<Rightarrow> m)"

definition limit_reasons ::
  "(float64 \<Rightarrow> string) \<Rightarrow> SandboxResourceLimitOverrides \<Rightarrow> SandboxResourceLimits \<Rightarrow> string list" where
  "limit_reasons cores_text requested ceilings =
     concat (map (\<lambda>f. reason_unless (case requested f of None \<Rightarrow> True | Some n \<Rightarrow> n \<le> ceilings f)
         (''Requested '' @ limit_name f @ '' exceeds the operator policy ceiling ''
            @ (if f = cpuCores then cores_text (ceilings f) else show_int (ceilings f)) @ ''.''))
       limitFields)"

definition effective_limits ::
  "SandboxResourceLimitOverrides \<Rightarrow> SandboxResourceLimits \<Rightarrow> SandboxResourceLimits" where
  "effective_limits requested ceilings f =
     min (case requested f of None \<Rightarrow> ceilings f | Some n \<Rightarrow> n) (ceilings f)"

text \<open>\<open>{ mode: NONE, denyPrivateNetworks: true, denyMetadataServices: true, ...input.networkPolicy }\<close>.\<close>

definition requested_network :: "SandboxNetworkPolicy option \<Rightarrow> SandboxNetworkPolicy" where
  "requested_network n =
     (case n of Some p \<Rightarrow> p
      | None \<Rightarrow> \<lparr>net_mode = NONE, net_dockerNetwork = None, net_allowedRegistries = [],
          net_allowedDomains = [], net_denyPrivateNetworks = True, net_denyMetadataServices = True\<rparr>)"

text \<open>\<open>[...(values ?? [])].map((value) => value.toLowerCase()).sort()\<close>.\<close>

definition lowered :: "string list \<Rightarrow> string list" where
  "lowered xs = sort_by string_le (map to_lower xs)"

definition operator_list :: "string list option \<Rightarrow> string list" where
  "operator_list xs = lowered (case xs of None \<Rightarrow> [] | Some ys \<Rightarrow> ys)"

definition destination_reasons :: "string \<Rightarrow> string list \<Rightarrow> string list \<Rightarrow> string list" where
  "destination_reasons kind operator requested =
     concat (map (\<lambda>r. reason_unless (to_lower r \<in> set operator)
         (''Requested installation '' @ kind @ '' is not operator-approved: '' @ r)) requested)"

definition effective_network ::
  "SandboxPolicyOptions \<Rightarrow> SandboxNetworkPolicy \<Rightarrow> SandboxNetworkPolicy" where
  "effective_network opts n =
     (if net_mode n = RESTRICTED_INSTALL then
        n\<lparr>net_allowedRegistries :=
            (if net_allowedRegistries n \<noteq> [] then lowered (net_allowedRegistries n)
             else operator_list (spo_installationAllowedRegistries opts)),
          net_allowedDomains :=
            (if net_allowedDomains n \<noteq> [] then lowered (net_allowedDomains n)
             else operator_list (spo_installationAllowedDomains opts)),
          net_dockerNetwork :=
            (if falsy (spo_installationNetwork opts) then net_dockerNetwork n
             else spo_installationNetwork opts)\<rparr>
      else n\<lparr>net_mode := NONE, net_dockerNetwork := None, net_allowedRegistries := [],
             net_allowedDomains := []\<rparr>)"

definition built_in_networks :: "string list" where
  "built_in_networks = [''host'', ''bridge'', ''default'', ''none'']"

definition network_reasons :: "SandboxNetworkPolicy \<Rightarrow> string list" where
  "network_reasons n =
     reason_unless (net_mode n = RESTRICTED_INSTALL
         \<longrightarrow> net_allowedRegistries n \<noteq> [] \<or> net_allowedDomains n \<noteq> [])
       ''Restricted installation networking requires an operator destination allowlist.''
     @ reason_unless (net_mode n = RESTRICTED_INSTALL \<longrightarrow> \<not> falsy (net_dockerNetwork n))
       ''Restricted installation networking requires a pre-provisioned egress-controlled Docker network.''
     @ reason_unless (case net_dockerNetwork n of None \<Rightarrow> True | Some d \<Rightarrow> d \<notin> set built_in_networks)
       ''Installation networking must use a dedicated egress-controlled network, not a built-in Docker network.''"

definition policy_reasons_for ::
  "(float64 \<Rightarrow> string) \<Rightarrow> SandboxPolicyOptions \<Rightarrow> SandboxResourceLimitOverrides \<Rightarrow> SandboxResourceLimits
   \<Rightarrow> SandboxNetworkPolicy \<Rightarrow> SandboxNetworkPolicy \<Rightarrow> SandboxResourceLimits \<Rightarrow> string
   \<Rightarrow> SandboxCommandRequest list \<Rightarrow> string list" where
  "policy_reasons_for cores_text opts requested ceilings asked net limits img commands =
     limit_reasons cores_text requested ceilings
     @ destination_reasons ''registry'' (operator_list (spo_installationAllowedRegistries opts))
         (net_allowedRegistries asked)
     @ destination_reasons ''domain'' (operator_list (spo_installationAllowedDomains opts))
         (net_allowedDomains asked)
     @ reason_unless (list_ex (\<lambda>c. cmd_networkMode c = RESTRICTED_INSTALL) commands
           \<longrightarrow> net_mode net = RESTRICTED_INSTALL)
         ''Installation commands requesting network access require an explicit restricted network policy.''
     @ reason_unless (int (length commands) \<le> limits maximumCommands)
         (''Command count '' @ show_nat (length commands) @ '' exceeds policy maximum ''
            @ show_int (limits maximumCommands) @ ''.'')
     @ reason_unless (imageRegistry img \<in> set (spo_approvedImageRegistries opts))
         (''Container registry is not approved: '' @ imageRegistry img)
     @ reason_unless (spo_production opts \<longrightarrow> isDigestPinnedImage img)
         ''Production sandbox images must be pinned by sha256 digest.''
     @ network_reasons net
     @ concat (map commandPolicy commands)"

definition override_accepted :: "StartReproductionInput \<Rightarrow> SandboxPolicyOptions \<Rightarrow> bool" where
  "override_accepted i opts =
     (spo_allowInstallScriptsOverride opts = Some True
      \<and> (case sr_policyOverrideReason i of None \<Rightarrow> False | Some r \<Rightarrow> 20 \<le> length r))"

text \<open>The reasons left when an override is required and accepted.\<close>

definition waived :: "bool \<Rightarrow> string list \<Rightarrow> string list" where
  "waived accepted reasons =
     (if list_ex (\<lambda>r. has_text r ignore_scripts) reasons \<and> accepted
      then filter (\<lambda>r. \<not> has_text r ignore_scripts) reasons else reasons)"

definition SandboxPolicyDecisionSchema :: "host \<Rightarrow> SandboxPolicyDecision \<Rightarrow> bool" where
  "SandboxPolicyDecisionSchema h d =
     (sized_text 1 100 (dec_policyVersion d) \<and> uuid_format h (dec_decisionId d)
      \<and> list_all (sized_text 1 1000) (dec_reasons d) \<and> length (dec_reasons d) \<le> 50
      \<and> SandboxResourceLimitsSchema (dec_resourceLimits d) \<and> sized_text 1 512 (dec_image d)
      \<and> datetime_format h (dec_evaluatedAt d))"

definition parse_decision ::
  "host \<Rightarrow> SandboxPolicyDecision \<Rightarrow> string + SandboxPolicyDecision" where
  "parse_decision h d =
     try_then (map_parse parse_command (dec_normalizedCommands d)) (\<lambda>commands.
     try_then (parse_network (dec_networkPolicy d)) (\<lambda>net.
       if SandboxPolicyDecisionSchema h d
       then Inr (d\<lparr>dec_normalizedCommands := commands, dec_networkPolicy := net\<rparr>)
       else Inl ''Invalid sandbox policy decision''))"

definition evaluateSandboxPolicy ::
  "host \<Rightarrow> (float64 \<Rightarrow> string) \<Rightarrow> StartReproductionInput \<Rightarrow> SandboxPolicyOptions \<Rightarrow> int \<Rightarrow> string
   \<Rightarrow> string + SandboxPolicyDecision" where
  "evaluateSandboxPolicy h cores_text i opts now uuid =
     (let requested = given (sr_resourceLimits i) in
      try_then (parse_limits (given (spo_defaultResourceLimits opts))) (\<lambda>ceilings.
      let limits = effective_limits requested ceilings in
      try_then (if SandboxResourceLimitsSchema limits then Inr () else Inl ''Invalid resource limits'') (\<lambda>_.
      try_then (parse_network (requested_network (sr_networkPolicy i))) (\<lambda>asked.
      try_then (map_parse (normalizeCommand h limits)
                  (sr_installCommands i @ sr_reproductionCommands i)) (\<lambda>commands.
      let net = effective_network opts asked;
          img = (if sr_image i = [] then spo_defaultImage opts else sr_image i);
          reasons = policy_reasons_for cores_text opts requested ceilings asked net limits img commands;
          effective = waived (override_accepted i opts) reasons
      in parse_decision h
           \<lparr>dec_allowed = (effective = []), dec_policyVersion = SANDBOX_POLICY_VERSION,
            dec_decisionId = uuid, dec_reasons = effective, dec_normalizedCommands = commands,
            dec_resourceLimits = limits, dec_networkPolicy = net, dec_image = img,
            dec_imageDigestRequired = spo_production opts,
            dec_overrideRequired = list_ex (\<lambda>r. has_text r ignore_scripts) reasons,
            dec_evaluatedAt = iso_time h now\<rparr>)))))"

section \<open>What an allowed reproduction may do\<close>

text \<open>\<open>test\<close>, or \<open>run\<close> with the name of a script.\<close>

definition runs_script :: "SandboxCommandRequest \<Rightarrow> bool" where
  "runs_script c =
     (cmd_phase c = REPRODUCE
      \<and> (argument 0 c = Some ''test''
          \<or> argument 0 c = Some ''run'' \<and> (\<exists>s. argument 1 c = Some s \<and> script_name s)))"

definition installs_with :: "string \<Rightarrow> string list \<Rightarrow> SandboxCommandRequest \<Rightarrow> bool" where
  "installs_with verb flags c =
     (cmd_phase c = INSTALL \<and> argument 0 c = Some verb \<and> set flags \<subseteq> set (cmd_arguments c))"

definition runs_entry :: "SandboxCommandRequest \<Rightarrow> bool" where
  "runs_entry c =
     (\<exists>entry w. argument 0 c = Some entry \<and> \<not> startsWith entry ''-''
        \<and> normalizedWorkingDirectory entry = Some w \<and> below_root w \<and> entry_file w
        \<and> set FORBIDDEN_NODE_FLAGS \<inter> set (cmd_arguments c) = {})"

definition approved_invocation :: "SandboxCommandRequest \<Rightarrow> bool" where
  "approved_invocation c =
     (case cmd_executable c of
        Npm \<Rightarrow> installs_with ''ci'' [ignore_scripts] c \<or> runs_script c
      | Pnpm \<Rightarrow> installs_with ''install'' [''--frozen-lockfile'', ignore_scripts] c \<or> runs_script c
      | Yarn \<Rightarrow> installs_with ''install'' [''--immutable''] c \<or> runs_script c
      | Node \<Rightarrow> runs_entry c)"

definition contained_command :: "SandboxCommandRequest \<Rightarrow> bool" where
  "contained_command c =
     (below_root (cmd_workingDirectory c)
      \<and> (\<forall>a \<in> set (cmd_arguments c). \<not> FORBIDDEN_ARGUMENT a \<and> set a \<inter> control_characters = {})
      \<and> (\<forall>(k, v) \<in> set (cmd_environment c). k \<in> set SAFE_ENVIRONMENT_KEYS \<and> \<not> shows_credential v)
      \<and> (cmd_networkMode c = NONE \<or> cmd_phase c = INSTALL)
      \<and> approved_invocation c)"

definition contained_network :: "SandboxPolicyOptions \<Rightarrow> SandboxNetworkPolicy \<Rightarrow> bool" where
  "contained_network opts n =
     (if net_mode n = RESTRICTED_INSTALL then
        (\<exists>d. net_dockerNetwork n = Some d \<and> d \<noteq> [] \<and> d \<notin> set built_in_networks)
        \<and> set (net_allowedRegistries n) \<subseteq> set (operator_list (spo_installationAllowedRegistries opts))
        \<and> set (net_allowedDomains n) \<subseteq> set (operator_list (spo_installationAllowedDomains opts))
        \<and> net_allowedRegistries n @ net_allowedDomains n \<noteq> []
      else net_dockerNetwork n = None \<and> net_allowedRegistries n = [] \<and> net_allowedDomains n = [])"

lemma reason_unless_Nil_iff [simp]: "reason_unless b r = [] \<longleftrightarrow> b"
  by (simp add: reason_unless_def)

lemma mode_cases: "m \<noteq> RESTRICTED_INSTALL \<longleftrightarrow> m = NONE"
  by (cases m) simp_all

lemma normalized_directory:
  assumes "normalizedWorkingDirectory v = Some w"
  shows "w = [] \<or> below_root w"
proof -
  let ?p = "posix_normalize v"
  from assms have "?p \<noteq> ''..''" "\<not> startsWith ?p ''../''"
    and w: "w = (if startsWith ?p ''./'' then drop 2 ?p else ?p)"
    by (auto simp: normalizedWorkingDirectory_def Let_def split: if_splits)
  then have "below_root ?p" by (intro normalized_below_root)
  with w normalized_dot [of v] show ?thesis by (cases "startsWith ?p ''./''") auto
qed

lemma profile_iff:
  "package_manager_profile verb c \<and> (cmd_phase c = INSTALL \<longrightarrow> set flags \<subseteq> set (cmd_arguments c))
   \<longleftrightarrow> installs_with verb flags c \<or> runs_script c"
  by (auto simp: package_manager_profile_def installs_with_def runs_script_def split: option.splits)

lemma node_reasons_Nil: "node_reasons c = [] \<Longrightarrow> runs_entry c"
  by (auto simp: node_reasons_def runs_entry_def falsy_def list_all_iff dest: normalized_directory
      split: option.splits if_splits)

lemma executable_reasons_Nil:
  assumes "executable_reasons c = []"
  shows "approved_invocation c"
proof (cases "cmd_executable c")
  case Npm
  with assms have "package_manager_profile ''ci'' c
      \<and> (cmd_phase c = INSTALL \<longrightarrow> set [ignore_scripts] \<subseteq> set (cmd_arguments c))"
    by (simp add: executable_reasons_def Let_def)
  with Npm show ?thesis unfolding profile_iff by (simp add: approved_invocation_def)
next
  case Pnpm
  with assms have "package_manager_profile ''install'' c
      \<and> (cmd_phase c = INSTALL
            \<longrightarrow> set [''--frozen-lockfile'', ignore_scripts] \<subseteq> set (cmd_arguments c))"
    by (simp add: executable_reasons_def Let_def)
  with Pnpm show ?thesis unfolding profile_iff by (simp add: approved_invocation_def)
next
  case Yarn
  with assms have "package_manager_profile ''install'' c
      \<and> (cmd_phase c = INSTALL \<longrightarrow> set [''--immutable''] \<subseteq> set (cmd_arguments c))"
    by (simp add: executable_reasons_def Let_def)
  with Yarn show ?thesis unfolding profile_iff by (simp add: approved_invocation_def)
next
  case Node
  with assms have "node_reasons c = []" by (simp add: executable_reasons_def Let_def)
  with Node node_reasons_Nil show ?thesis by (simp add: approved_invocation_def)
qed

lemma commandPolicy_Nil:
  assumes "commandPolicy c = []" "below_root (cmd_workingDirectory c)"
  shows "contained_command c"
proof -
  have "\<forall>(k, v) \<in> set (cmd_environment c). k \<in> set SAFE_ENVIRONMENT_KEYS"
    and "\<not> containsCredentialMaterial (environment_json (cmd_environment c))"
    and "executable_reasons c = []"
    and "\<forall>a \<in> set (cmd_arguments c). \<not> FORBIDDEN_ARGUMENT a \<and> set a \<inter> control_characters = {}"
    and "cmd_phase c = REPRODUCE \<longrightarrow> cmd_networkMode c = NONE"
    and "cmd_networkMode c = RESTRICTED_INSTALL \<longrightarrow> cmd_phase c = INSTALL"
    using assms(1)
    by (auto simp: commandPolicy_def Let_def list_ex_iff concat_eq_Nil_conv)
  with assms(2) executable_reasons_Nil [of c] entries_clean_iff [of "cmd_environment c"]
    mode_cases [of "cmd_networkMode c"] show ?thesis
    by (auto simp: contained_command_def environment_json_def)
qed

text \<open>What a run of the policy went through, when it comes to a decision.\<close>

lemma evaluate_Inr:
  assumes "evaluateSandboxPolicy h ct i opts now u = Inr d"
  obtains ceilings asked commands net where
    "parse_limits (given (spo_defaultResourceLimits opts)) = Inr ceilings"
    "parse_network (requested_network (sr_networkPolicy i)) = Inr asked"
    "list_all2 (\<lambda>c c'. normalizeCommand h (dec_resourceLimits d) c = Inr c')
       (sr_installCommands i @ sr_reproductionCommands i) commands"
    "net = effective_network opts asked"
    "dec_resourceLimits d = effective_limits (given (sr_resourceLimits i)) ceilings"
    "dec_image d = (if sr_image i = [] then spo_defaultImage opts else sr_image i)"
    "dec_normalizedCommands d = map trimmed_command commands"
    "list_all (\<lambda>c. cmd_workingDirectory c \<noteq> []) (map trimmed_command commands)"
    "dec_networkPolicy d = trimmed_network net"
    "dec_overrideRequired d = list_ex (\<lambda>r. has_text r ignore_scripts)
       (policy_reasons_for ct opts (given (sr_resourceLimits i)) ceilings asked net
          (dec_resourceLimits d) (dec_image d) commands)"
    "dec_reasons d = waived (override_accepted i opts)
       (policy_reasons_for ct opts (given (sr_resourceLimits i)) ceilings asked net
          (dec_resourceLimits d) (dec_image d) commands)"
    "dec_allowed d \<longleftrightarrow> dec_reasons d = []"
proof -
  have parsed: "map_parse parse_command cs = Inr cs' \<Longrightarrow>
      cs' = map trimmed_command cs \<and> list_all (\<lambda>c. cmd_workingDirectory c \<noteq> []) cs'" for cs cs'
    by (induction cs arbitrary: cs')
      (auto simp: try_then_Inr_iff parse_command_def SandboxCommandRequestSchema_def sized_text_def
        split: if_splits)
  from assms show thesis
    by (auto simp: evaluateSandboxPolicy_def Let_def try_then_Inr_iff parse_decision_def
        parse_network_def [of "effective_network _ _"] map_parse_Inr [of "normalizeCommand _ _"] split: if_splits dest!: parsed
        intro!: that)
qed

lemma normalizeCommand_Inr:
  assumes "normalizeCommand h limits c = Inr c'"
  shows "cmd_timeoutMs c' = Some (min (case cmd_timeoutMs c of None \<Rightarrow> limits commandTimeoutMs | Some t \<Rightarrow> t)
                                      (limits commandTimeoutMs))"
    and "commandPolicy c' = [] \<Longrightarrow> cmd_workingDirectory c' \<noteq> [] \<Longrightarrow> contained_command c'"
proof -
  let ?w = "normalizedWorkingDirectory (trim (cmd_workingDirectory c))"
  from assms show "cmd_timeoutMs c' = Some (min (case cmd_timeoutMs c of None \<Rightarrow> limits commandTimeoutMs | Some t \<Rightarrow> t)
      (limits commandTimeoutMs))"
    by (auto simp: normalizeCommand_def try_then_Inr_iff parse_command_def trimmed_command_def
        split: if_splits)
  from assms have w:
    "cmd_workingDirectory c' = (case ?w of None \<Rightarrow> trim (cmd_workingDirectory c) | Some w \<Rightarrow> w)"
    by (auto simp: normalizeCommand_def try_then_Inr_iff parse_command_def trimmed_command_def
        split: if_splits option.split)
  assume nil: "commandPolicy c' = []" "cmd_workingDirectory c' \<noteq> []"
  have "below_root (cmd_workingDirectory c')"
  proof (cases ?w)
    case None
    with w have "normalizedWorkingDirectory (cmd_workingDirectory c') = None" by simp
    with nil(1) show ?thesis by (simp add: commandPolicy_def Let_def falsy_def)
  next
    case (Some v)
    with w nil(2) normalized_directory [OF Some] show ?thesis by simp
  qed
  with nil(1) show "contained_command c'" by (rule commandPolicy_Nil)
qed

lemma trimmed_not_empty: "cmd_workingDirectory (trimmed_command c) \<noteq> [] \<Longrightarrow> cmd_workingDirectory c \<noteq> []"
  by (auto simp: trimmed_command_def trim_def)

lemma set_lowered: "set (lowered xs) = to_lower ` set xs"
  by (simp add: lowered_def set_sort_by)

lemma contained_effective_network:
  assumes "network_reasons (effective_network opts asked) = []"
    and "destination_reasons k (operator_list (spo_installationAllowedRegistries opts))
           (net_allowedRegistries asked) = []"
    and "destination_reasons k' (operator_list (spo_installationAllowedDomains opts))
           (net_allowedDomains asked) = []"
  shows "contained_network opts (effective_network opts asked)"
proof (cases "net_mode asked = RESTRICTED_INSTALL")
  case True
  have "to_lower ` set (net_allowedRegistries asked) \<subseteq> set (operator_list (spo_installationAllowedRegistries opts))"
    "to_lower ` set (net_allowedDomains asked) \<subseteq> set (operator_list (spo_installationAllowedDomains opts))"
    using assms(2,3) by (auto simp: destination_reasons_def concat_eq_Nil_conv)
  moreover have "\<exists>dn. net_dockerNetwork (effective_network opts asked) = Some dn \<and> dn \<noteq> []
      \<and> dn \<notin> set built_in_networks"
    using assms(1) True
    by (cases "net_dockerNetwork (effective_network opts asked)")
      (auto simp: network_reasons_def falsy_def effective_network_def)
  ultimately show ?thesis
    using assms(1) True
    by (auto simp: contained_network_def effective_network_def network_reasons_def set_lowered)
next
  case False
  then show ?thesis by (simp add: contained_network_def effective_network_def)
qed


section \<open>Samples\<close>

definition script_run :: "string list \<Rightarrow> SandboxCommandPhase \<Rightarrow> string \<Rightarrow> SandboxCommandRequest" where
  "script_run args phase dir =
     \<lparr>cmd_phase = phase, cmd_executable = Npm, cmd_arguments = args, cmd_workingDirectory = dir,
      cmd_timeoutMs = None, cmd_networkMode = NONE, cmd_expectedExitCodes = [0],
      cmd_environment = [(''CI'', ''1'')]\<rparr>"

definition reproduction_of ::
  "SandboxCommandRequest list \<Rightarrow> string \<Rightarrow> StartReproductionInput" where
  "reproduction_of installs dir =
     \<lparr>sr_worktreeId = None, sr_image = ''node:22'', sr_installCommands = installs,
      sr_reproductionCommands = [script_run [''test''] REPRODUCE dir],
      sr_failureSignature = \<lparr>fsi_expectedText = ''err'', fsi_minimumSimilarity = 0,
        fsi_requireNonZeroExit = True\<rparr>,
      sr_repeatCount = 1, sr_resourceLimits = None, sr_networkPolicy = None, sr_artifactPaths = [],
      sr_policyOverrideReason = Some ''a native module must be built''\<rparr>"

definition sandbox_options :: SandboxPolicyOptions where
  "sandbox_options =
     \<lparr>spo_production = False, spo_approvedImageRegistries = [''docker.io''],
      spo_defaultImage = ''node:22'', spo_defaultResourceLimits = None,
      spo_installationNetwork = None, spo_installationAllowedRegistries = None,
      spo_installationAllowedDomains = None, spo_allowInstallScriptsOverride = Some True\<rparr>"

definition decide :: "StartReproductionInput \<Rightarrow> string + SandboxPolicyDecision" where
  "decide i = evaluateSandboxPolicy plain_host (\<lambda>n. ''1'') i sandbox_options 0 ''u''"

lemma test_run_allowed:
  "(case decide (reproduction_of [] ''app'') of Inl m \<Rightarrow> False
    | Inr d \<Rightarrow> dec_allowed d \<and> \<not> dec_overrideRequired d)"
  by code_simp


text \<open>
  An accepted override waives every reason in whose text the flag occurs, and the reason about an
  invocation outside the profile quotes the arguments: an invocation that no profile has is allowed
  when it carries the flag.
\<close>

lemma override_waives_the_profile:
  "(case decide (reproduction_of [script_run [''publish'', ''--ignore-scripts''] INSTALL ''app''] ''app'') of
      Inl m \<Rightarrow> False | Inr d \<Rightarrow> dec_allowed d)
   \<and> \<not> approved_invocation (script_run [''publish'', ''--ignore-scripts''] INSTALL ''app'')"
  by (intro conjI, code_simp)
    (simp add: approved_invocation_def script_run_def installs_with_def runs_script_def argument_def)

text \<open>
  The working directory is trimmed before it is normalized and again when the decision is parsed: a
  segment that only becomes \<open>..\<close> by the second trimming leaves the repository.
\<close>

lemma trimmed_directory_leaves:
  "(case decide (reproduction_of [] ''a/../ ..'') of Inl m \<Rightarrow> False
    | Inr d \<Rightarrow> dec_allowed d \<and> map cmd_workingDirectory (dec_normalizedCommands d) = [''..''])"
  by code_simp

end
