(* ===== verification/Sandbox_Logs.thy ===== *)
theory Sandbox_Logs
  imports Secrets Event_Log Refinement
begin

text \<open>
  The log accumulator of the sandbox (\<open>packages/sandbox/src/logs.ts\<close>): output is redacted, cut into
  chunks by bytes, counted against a budget, and every chunk carries the hash of the one before it.
  A character is one of Latin-1, which takes one byte in UTF-8 or two.
\<close>

section \<open>The accumulator\<close>

datatype stream = stdout | stderr | system

primrec stream_name :: "stream \<Rightarrow> string" where
  "stream_name stdout = ''stdout''"
| "stream_name stderr = ''stderr''"
| "stream_name system = ''system''"

record LogAccumulatorOptions =
  lo_executionId :: string
  lo_maximumBytes :: int
  lo_maximumChunkBytes :: "int option"

record SandboxLogChunk =
  ch_id :: string
  ch_executionId :: string
  ch_commandId :: "string option"
  ch_sequence :: int
  ch_stream :: stream
  ch_content :: string
  ch_byteSize :: int
  ch_redacted :: bool
  ch_redactionCount :: int
  ch_truncated :: bool
  ch_previousHash :: "string option"
  ch_chunkHash :: string
  ch_occurredAt :: string

definition SandboxLogChunkSchema :: "host \<Rightarrow> SandboxLogChunk \<Rightarrow> bool" where
  "SandboxLogChunkSchema h c =
     (uuid_format h (ch_id c) \<and> uuid_format h (ch_executionId c)
      \<and> (case ch_commandId c of None \<Rightarrow> True | Some i \<Rightarrow> uuid_format h i)
      \<and> 0 < ch_sequence c \<and> int (length (ch_content c)) \<le> 131072 \<and> 0 \<le> ch_byteSize c
      \<and> 0 \<le> ch_redactionCount c
      \<and> (case ch_previousHash c of None \<Rightarrow> True | Some p \<Rightarrow> length p = 64)
      \<and> length (ch_chunkHash c) = 64 \<and> datetime_format h (ch_occurredAt c))"

record SandboxLogAccumulator =
  la_sequence :: int
  la_totalBytes :: int
  la_previousHash :: "string option"
  la_truncated :: bool

definition new_accumulator :: SandboxLogAccumulator where
  "new_accumulator =
     \<lparr>la_sequence = 0, la_totalBytes = 0, la_previousHash = None, la_truncated = False\<rparr>"

definition maximumChunkBytes :: "LogAccumulatorOptions \<Rightarrow> int" where
  "maximumChunkBytes opts =
     min (max (case lo_maximumChunkBytes opts of None \<Rightarrow> 32768 | Some n \<Rightarrow> n) 1024) 131072"

definition char_bytes :: "char \<Rightarrow> int" where
  "char_bytes c = (if int_code c < 128 then 1 else 2)"

definition byte_length :: "string \<Rightarrow> int" where
  "byte_length s = sum_list (map char_bytes s)"

text \<open>The content; what it consumed is as long as it.\<close>

fun takeUtf8Prefix :: "string \<Rightarrow> int \<Rightarrow> string" where
  "takeUtf8Prefix [] budget = []"
| "takeUtf8Prefix (c # s) budget =
     (if budget < char_bytes c then [] else c # takeUtf8Prefix s (budget - char_bytes c))"

text \<open>One call of \<open>append\<close>: stream, command, time; \<open>uuids\<close> supplies the chunk ids.\<close>

record log_call =
  lc_stream :: stream
  lc_commandId :: "string option"
  lc_occurredAt :: int
  lc_uuids :: "int \<Rightarrow> string"

definition chunk_hash ::
  "host \<Rightarrow> string \<Rightarrow> string option \<Rightarrow> int \<Rightarrow> stream \<Rightarrow> string \<Rightarrow> string option \<Rightarrow> string \<Rightarrow> string" where
  "chunk_hash h execution command sequ st piece previous occurredAt =
     sha256 h (stringify (JObj
       [(''executionId'', JStr execution), (''commandId'', str_or_null command),
        (''sequence'', JNum sequ), (''stream'', JStr (stream_name st)), (''content'', JStr piece),
        (''previousHash'', str_or_null previous), (''occurredAt'', JStr occurredAt)]))"

definition next_chunk ::
  "host \<Rightarrow> LogAccumulatorOptions \<Rightarrow> log_call \<Rightarrow> nat \<Rightarrow> string \<Rightarrow> string \<Rightarrow> SandboxLogAccumulator
   \<Rightarrow> SandboxLogChunk" where
  "next_chunk h opts call found piece rest acc =
     (let sequ = la_sequence acc + 1; size = byte_length piece;
          at = iso_time h (lc_occurredAt call)
      in \<lparr>ch_id = lc_uuids call sequ, ch_executionId = lo_executionId opts,
          ch_commandId = lc_commandId call, ch_sequence = sequ, ch_stream = lc_stream call,
          ch_content = piece, ch_byteSize = size, ch_redacted = (0 < found),
          ch_redactionCount = int found,
          ch_truncated = (rest \<noteq> [] \<or> lo_maximumBytes opts \<le> la_totalBytes acc + size),
          ch_previousHash = la_previousHash acc,
          ch_chunkHash = chunk_hash h (lo_executionId opts) (lc_commandId call) sequ (lc_stream call)
            piece (la_previousHash acc) at,
          ch_occurredAt = at\<rparr>)"

text \<open>
  The loop, with what is left of the redacted text. A chunk that does not fit its schema throws
  after the sequence number was taken.
\<close>

function append_chunks ::
  "host \<Rightarrow> LogAccumulatorOptions \<Rightarrow> log_call \<Rightarrow> nat \<Rightarrow> string \<Rightarrow> SandboxLogAccumulator
   \<Rightarrow> SandboxLogChunk list \<Rightarrow> (string + SandboxLogChunk list) \<times> SandboxLogAccumulator" where
  "append_chunks h opts call found rest acc chunks =
     (if rest = [] \<or> lo_maximumBytes opts \<le> la_totalBytes acc
      then (Inr chunks, if rest = [] then acc else acc\<lparr>la_truncated := True\<rparr>)
      else
        let piece = takeUtf8Prefix rest
              (min (maximumChunkBytes opts) (lo_maximumBytes opts - la_totalBytes acc))
        in if piece = [] then (Inr chunks, acc\<lparr>la_truncated := True\<rparr>)
           else
             let rest' = drop (length piece) rest;
                 chunk = next_chunk h opts call found piece rest' acc
             in if \<not> SandboxLogChunkSchema h chunk
                then (Inl ''Invalid sandbox log chunk'', acc\<lparr>la_sequence := la_sequence acc + 1\<rparr>)
                else
                  let total = la_totalBytes acc + ch_byteSize chunk
                  in append_chunks h opts call found rest'
                       \<lparr>la_sequence = la_sequence acc + 1, la_totalBytes = total,
                        la_previousHash = Some (ch_chunkHash chunk),
                        la_truncated = (la_truncated acc
                          \<or> ch_truncated chunk \<and> lo_maximumBytes opts \<le> total)\<rparr>
                       (chunks @ [chunk]))"
  by pat_completeness auto
termination
proof (relation "measure (\<lambda>(h, opts, call, found, rest, acc, chunks). length rest)", goal_cases)
  case (2 h opts call found rest acc chunks piece rest' chunk total)
  then show ?case by (cases rest) auto
qed simp

declare append_chunks.simps [simp del]

definition append_log ::
  "host \<Rightarrow> LogAccumulatorOptions \<Rightarrow> SandboxLogAccumulator \<Rightarrow> log_call \<times> string
   \<Rightarrow> (string + SandboxLogChunk list) \<times> SandboxLogAccumulator" where
  "append_log h opts acc event =
     (case event of (call, rawContent) \<Rightarrow>
       if lo_maximumBytes opts \<le> la_totalBytes acc then (Inr [], acc\<lparr>la_truncated := True\<rparr>)
       else case redactSecretsFromText rawContent of
         (value, found) \<Rightarrow> append_chunks h opts call found value acc [])"

record log_summary =
  ls_chunks :: int
  ls_bytes :: int
  ls_headHash :: "string option"
  ls_truncated :: bool

definition summary :: "SandboxLogAccumulator \<Rightarrow> log_summary" where
  "summary acc =
     \<lparr>ls_chunks = la_sequence acc, ls_bytes = la_totalBytes acc, ls_headHash = la_previousHash acc,
      ls_truncated = la_truncated acc\<rparr>"

section \<open>What is recorded\<close>

definition recorded :: "(string + SandboxLogChunk list) list \<Rightarrow> SandboxLogChunk list" where
  "recorded rs = concat (map (\<lambda>r. case r of Inl m \<Rightarrow> [] | Inr cs \<Rightarrow> cs) rs)"

definition well_made :: "host \<Rightarrow> LogAccumulatorOptions \<Rightarrow> SandboxLogChunk \<Rightarrow> bool" where
  "well_made h opts c =
     (ch_chunkHash c = chunk_hash h (lo_executionId opts) (ch_commandId c) (ch_sequence c)
        (ch_stream c) (ch_content c) (ch_previousHash c) (ch_occurredAt c)
      \<and> ch_byteSize c = byte_length (ch_content c) \<and> ch_content c \<noteq> []
      \<and> ch_byteSize c \<le> maximumChunkBytes opts)"

text \<open>The accumulator after it made the chunks \<open>cs\<close> of the redacted text \<open>w\<close>.\<close>

definition keeps_log ::
  "host \<Rightarrow> LogAccumulatorOptions \<Rightarrow> SandboxLogAccumulator \<Rightarrow> SandboxLogChunk list \<Rightarrow> string \<Rightarrow> bool" where
  "keeps_log h opts acc cs w =
     (linked ch_sequence ch_previousHash ch_chunkHash cs \<and> list_all (well_made h opts) cs
      \<and> la_sequence acc = int (length cs)
      \<and> la_previousHash acc = map_option ch_chunkHash (last_of cs)
      \<and> la_totalBytes acc = sum_list (map ch_byteSize cs)
      \<and> (cs \<noteq> [] \<longrightarrow> la_totalBytes acc \<le> lo_maximumBytes opts)
      \<and> (\<not> la_truncated acc \<longrightarrow> concat (map ch_content cs) = w))"

lemma prefix_bytes: "takeUtf8Prefix s budget \<noteq> [] \<Longrightarrow> byte_length (takeUtf8Prefix s budget) \<le> budget"
proof (induction s budget rule: takeUtf8Prefix.induct)
  case (2 c s budget)
  then show ?case
    by (cases "takeUtf8Prefix s (budget - char_bytes c)") (auto simp: byte_length_def split: if_splits)
qed simp

lemma prefix_rest: "takeUtf8Prefix s budget @ drop (length (takeUtf8Prefix s budget)) s = s"
  by (induction s budget rule: takeUtf8Prefix.induct) auto

lemma keeps_truncated: "keeps_log h opts acc cs w \<Longrightarrow> keeps_log h opts (acc\<lparr>la_truncated := True\<rparr>) cs w'"
  by (auto simp: keeps_log_def)

lemma keeps_next_chunk:
  assumes "keeps_log h opts acc cs w" "c = next_chunk h opts call found piece rest acc"
    and "piece \<noteq> []" "byte_length piece \<le> maximumChunkBytes opts"
    and "la_totalBytes acc + byte_length piece \<le> lo_maximumBytes opts"
  shows "keeps_log h opts
      \<lparr>la_sequence = la_sequence acc + 1, la_totalBytes = la_totalBytes acc + ch_byteSize c,
       la_previousHash = Some (ch_chunkHash c), la_truncated = (la_truncated acc \<or> b)\<rparr>
      (cs @ [c]) (w @ piece)"
proof -
  have "well_made h opts c"
    using assms(2-4) by (simp add: well_made_def next_chunk_def Let_def)
  moreover have "follows ch_sequence ch_previousHash ch_chunkHash (last_of cs) c"
    using assms(1,2) linked_last_sequence [of ch_sequence ch_previousHash ch_chunkHash cs]
    by (auto simp: keeps_log_def follows_def next_chunk_def Let_def last_of_def)
  moreover have "linked ch_sequence ch_previousHash ch_chunkHash (cs @ [c])"
    by (rule follows_linked [OF _ calculation(2)]) (use assms(1) in \<open>simp add: keeps_log_def\<close>)
  moreover have "ch_content c = piece" "ch_byteSize c = byte_length piece"
    by (simp_all add: assms(2) next_chunk_def Let_def)
  ultimately show ?thesis
    using assms(1,5) unfolding keeps_log_def by (simp add: last_of_def)
qed

lemma append_chunks_keeps:
  assumes "keeps_log h opts acc (prior @ chunks) w"
    and "append_chunks h opts call found rest acc chunks = (Inr cs, acc')"
  shows "keeps_log h opts acc' (prior @ cs) (w @ rest)"
  using assms
proof (induction h opts call found rest acc chunks arbitrary: w rule: append_chunks.induct)
  case (1 h opts call found rest acc chunks)
  let ?piece = "takeUtf8Prefix rest
      (min (maximumChunkBytes opts) (lo_maximumBytes opts - la_totalBytes acc))"
  let ?rest = "drop (length ?piece) rest"
  let ?c = "next_chunk h opts call found ?piece ?rest acc"
  show ?case
  proof (cases "rest = [] \<or> lo_maximumBytes opts \<le> la_totalBytes acc")
    case True
    with 1(3) have "cs = chunks" "acc' = (if rest = [] then acc else acc\<lparr>la_truncated := True\<rparr>)"
      unfolding append_chunks.simps [of h opts call found rest acc chunks] by simp_all
    with 1(2) keeps_truncated [OF 1(2)] show ?thesis by simp
  next
    case more: False
    show ?thesis
    proof (cases "?piece = []")
      case True
      with more 1(3) have "cs = chunks" "acc' = acc\<lparr>la_truncated := True\<rparr>"
        unfolding append_chunks.simps [of h opts call found rest acc chunks] by (simp_all add: Let_def)
      with keeps_truncated [OF 1(2)] show ?thesis by simp
    next
      case False
      have fits: "SandboxLogChunkSchema h ?c"
      proof (rule ccontr)
        assume "\<not> SandboxLogChunkSchema h ?c"
        with more False 1(3) show False
          unfolding append_chunks.simps [of h opts call found rest acc chunks] by (simp add: Let_def)
      qed
      let ?acc = "\<lparr>la_sequence = la_sequence acc + 1, la_totalBytes = la_totalBytes acc + ch_byteSize ?c,
          la_previousHash = Some (ch_chunkHash ?c),
          la_truncated = (la_truncated acc
            \<or> ch_truncated ?c \<and> lo_maximumBytes opts \<le> la_totalBytes acc + ch_byteSize ?c)\<rparr>"
      from fits more False 1(3)
      have step: "append_chunks h opts call found ?rest ?acc (chunks @ [?c]) = (Inr cs, acc')"
        unfolding append_chunks.simps [of h opts call found rest acc chunks] by (simp add: Let_def)
      have "keeps_log h opts ?acc ((prior @ chunks) @ [?c]) (w @ ?piece)"
        using prefix_bytes [OF False] by (intro keeps_next_chunk [OF 1(2) refl False]) simp_all
      then have "keeps_log h opts acc' (prior @ cs) ((w @ ?piece) @ ?rest)"
        using fits by (intro 1(1) [OF more refl False refl refl _ refl _ step]) simp_all
      then show ?thesis using prefix_rest [of rest] by simp
    qed
  qed
qed

definition redacted_output :: "(log_call \<times> string) list \<Rightarrow> string" where
  "redacted_output es = concat (map (\<lambda>(call, raw). fst (redactSecretsFromText raw)) es)"

lemma append_log_keeps:
  assumes "keeps_log h opts acc cs w" "append_log h opts acc (call, raw) = (Inr new, acc')"
  shows "keeps_log h opts acc' (cs @ new) (w @ fst (redactSecretsFromText raw))"
proof (cases "lo_maximumBytes opts \<le> la_totalBytes acc")
  case True
  with assms(2) have "new = []" "acc' = acc\<lparr>la_truncated := True\<rparr>" by (simp_all add: append_log_def)
  with keeps_truncated [OF assms(1)] show ?thesis by simp
next
  case False
  obtain v n where v: "redactSecretsFromText raw = (v, n)" by (cases "redactSecretsFromText raw")
  with False assms(2) have "append_chunks h opts call n v acc [] = (Inr new, acc')"
    by (simp add: append_log_def)
  from append_chunks_keeps [OF _ this, of cs w] assms(1) v show ?thesis by simp
qed

lemma keeps_log_after:
  assumes "keeps_log h opts acc cs w"
    and "\<forall>r \<in> set (responses (append_log h opts) acc es). \<exists>new. r = Inr new"
  shows "keeps_log h opts (final_state (append_log h opts) acc es)
           (cs @ recorded (responses (append_log h opts) acc es)) (w @ redacted_output es)"
  using assms
proof (induction es arbitrary: acc cs w)
  case (Cons e es)
  obtain call raw where e: "e = (call, raw)" by (cases e)
  obtain r acc' where r: "append_log h opts acc e = (r, acc')" by (cases "append_log h opts acc e")
  with Cons.prems(2) obtain new where new: "r = Inr new" by auto
  from append_log_keeps [OF Cons.prems(1)] r new e
  have "keeps_log h opts acc' (cs @ new) (w @ fst (redactSecretsFromText raw))" by simp
  from Cons.IH [OF this] Cons.prems(2) r new e show ?case
    by (simp add: recorded_def redacted_output_def)
qed (simp add: recorded_def redacted_output_def)

text \<open>
  C21: whatever output is appended, as long as no chunk is refused by its schema: the chunks are
  numbered without a gap, each carries the hash of the one before it and the hash of its own
  content, none is larger than a chunk may be, together they stay within the byte budget, the
  summary describes them, and unless the log is marked as truncated they are the redacted output,
  nothing left out.
\<close>

lemma sandbox_log_faithful:
  assumes "\<forall>r \<in> set (responses (append_log h opts) new_accumulator es). \<exists>new. r = Inr new"
    and "cs = recorded (responses (append_log h opts) new_accumulator es)"
    and "s = summary (final_state (append_log h opts) new_accumulator es)"
  shows "linked ch_sequence ch_previousHash ch_chunkHash cs
    \<and> (\<forall>c \<in> set cs.
         ch_chunkHash c = chunk_hash h (lo_executionId opts) (ch_commandId c) (ch_sequence c)
           (ch_stream c) (ch_content c) (ch_previousHash c) (ch_occurredAt c)
         \<and> byte_length (ch_content c) \<le> maximumChunkBytes opts)
    \<and> ls_chunks s = int (length cs) \<and> ls_headHash s = map_option ch_chunkHash (last_of cs)
    \<and> ls_bytes s = byte_length (concat (map ch_content cs))
    \<and> ls_bytes s \<le> max 0 (lo_maximumBytes opts)
    \<and> (\<not> ls_truncated s \<longrightarrow> concat (map ch_content cs) = redacted_output es)"
proof -
  have "keeps_log h opts new_accumulator [] []"
    by (simp add: keeps_log_def new_accumulator_def last_of_def)
  from keeps_log_after [OF this assms(1)]
  have k: "keeps_log h opts (final_state (append_log h opts) new_accumulator es) cs (redacted_output es)"
    by (simp add: assms(2))
  then have sizes: "list_all (\<lambda>c. ch_byteSize c = byte_length (ch_content c)) cs"
    by (auto simp: keeps_log_def well_made_def list_all_iff)
  then have "byte_length (concat (map ch_content cs)) = sum_list (map ch_byteSize cs)"
    by (induction cs) (simp_all add: byte_length_def)
  with k show ?thesis
    by (auto simp: keeps_log_def well_made_def list_all_iff assms(3) summary_def)
qed

definition sample_host :: host where
  "sample_host = plain_host\<lparr>sha256 := (\<lambda>s. replicate 64 (CHR ''0''))\<rparr>"

definition sample_log :: LogAccumulatorOptions where
  "sample_log = \<lparr>lo_executionId = ''e'', lo_maximumBytes = 12, lo_maximumChunkBytes = None\<rparr>"

definition printed :: "string \<Rightarrow> log_call \<times> string" where
  "printed s =
     (\<lparr>lc_stream = stdout, lc_commandId = None, lc_occurredAt = 0, lc_uuids = (\<lambda>n. ''i'')\<rparr>, s)"

lemma sandbox_log_faithful_witness:
  "ls_bytes (summary (final_state (append_log sample_host sample_log) new_accumulator
     [printed ''ok'', printed ''token=x'']))
   = byte_length (concat (map ch_content (recorded (responses (append_log sample_host sample_log)
       new_accumulator [printed ''ok'', printed ''token=x'']))))"
proof -
  let ?rs = "responses (append_log sample_host sample_log) new_accumulator
      [printed ''ok'', printed ''token=x'']"
  have run: "\<forall>r \<in> set ?rs. case r of Inl m \<Rightarrow> False | Inr new \<Rightarrow> new \<noteq> []" by code_simp
  have "\<forall>r \<in> set ?rs. \<exists>new. r = Inr new"
  proof
    fix r assume "r \<in> set ?rs"
    from bspec [OF run this] show "\<exists>new. r = Inr new" by (cases r) simp_all
  qed
  from sandbox_log_faithful [OF this refl refl] show ?thesis by (elim conjE)
qed

text \<open>
  The mark does not mean that output is missing, and what is missing need not be at the end: after
  a character of two bytes did not fit into the last byte, a shorter output is still taken.
\<close>

lemma taken_after_a_gap:
  "map ch_content (recorded (responses (append_log sample_host (sample_log\<lparr>lo_maximumBytes := 3\<rparr>))
     new_accumulator [printed [CHR ''a'', CHR ''b'', CHR 0xE9], printed ''c'']))
   = [''ab'', ''c'']"
  by code_simp

end
