(* ===== verification/Failure_Signatures.thy ===== *)
theory Failure_Signatures
  imports Secrets Float64
begin

text \<open>
  The failure signatures of the sandbox (\<open>packages/sandbox/src/signatures.ts\<close>): a failure text
  without what varies between runs, its digest and its words, and the similarity of two of them.
  Similarities are binary64 numbers (\<open>Float64\<close>); the union of two word lists has at most 20000
  members, so their quotients are in the range where that representation is exact.
\<close>

section \<open>Volatile parts\<close>

definition starts_word :: "char option \<Rightarrow> string \<Rightarrow> bool" where
  "starts_word before s = (word_at before \<noteq> word_at (char_at 0 s))"

definition is_hex_any :: "char \<Rightarrow> bool" where
  "is_hex_any c = is_hex c"

text \<open>The colour sequences of a terminal.\<close>

definition ansi_escape :: boundary_matcher where
  "ansi_escape before s =
     (let n = 2 + span_length (\<lambda>c. is_digit c \<or> c = CHR '';'') (drop 2 s)
      in if startsWith s [CHR 0x1B, CHR ''['']  \<and> char_at n s = Some (CHR ''m'') then Some (n + 1)
         else None)"

text \<open>\<open>\b\d{4}-\d{2}-\d{2}[T ][0-9:.+-]+Z?\b\<close>; \<open>d\<close> in the shape stands for a digit.\<close>

fun has_shape :: "string \<Rightarrow> string \<Rightarrow> bool" where
  "has_shape [] s = True"
| "has_shape (p # ps) [] = False"
| "has_shape (p # ps) (c # s) =
     ((if p = CHR ''d'' then is_digit c else if p = CHR ''T'' then c \<in> {CHR ''T'', CHR '' ''} else c = p)
      \<and> has_shape ps s)"

definition timestamp_text :: boundary_matcher where
  "timestamp_text before s =
     (let run = span_length (\<lambda>c. is_digit c \<or> c \<in> {CHR '':'', CHR ''.'', CHR ''+'', CHR ''-''}) (drop 11 s);
          lengths = concat (map (\<lambda>n. if char_at (11 + n) s = Some (CHR ''Z'') then [12 + n, 11 + n]
                                     else [11 + n]) (backing_off 1 run))
      in if starts_word before s \<and> has_shape ''dddd-dd-ddT'' s then fitting lengths s else None)"

text \<open>A head regardless of case, then the rest from the position \<open>start\<close>: a run of a class and \<open>\b\<close>.\<close>

definition run_from :: "nat \<Rightarrow> nat \<Rightarrow> (char \<Rightarrow> bool) \<Rightarrow> string \<Rightarrow> nat option" where
  "run_from start least p s =
     fitting (map (\<lambda>n. start + n) (backing_off least (span_length p (drop start s)))) s"

definition process_number :: boundary_matcher where
  "process_number before s =
     (case find (startsWith (to_lower s)) [''pid'', ''process''] of
        None \<Rightarrow> None
      | Some hx \<Rightarrow>
          (let a = length hx + span_length is_space (drop (length hx) s);
               b = (if char_at a s \<in> {Some (CHR ''=''), Some (CHR '':'')} then a + 1 else a);
               start = b + span_length is_space (drop b s)
           in if starts_word before s then run_from start 1 is_digit s else None))"

definition hex_address :: boundary_matcher where
  "hex_address before s =
     (if starts_word before s \<and> startsWith (to_lower s) ''0x'' then run_from 2 1 is_hex_any s else None)"

definition volatile_uuid :: boundary_matcher where
  "volatile_uuid before s =
     (if starts_word before s \<and> 8 \<le> span_length is_hex_any s \<and> char_at 8 s = Some (CHR ''-'')
         \<and> list_all is_hex_any (take 8 s)
      then run_from 9 27 (\<lambda>c. is_hex_any c \<or> c = CHR ''-'') s else None)"

definition is_path_char :: "char \<Rightarrow> bool" where
  "is_path_char c = (is_alnum c \<or> c \<in> {CHR ''.'', CHR ''_'', CHR ''/'', CHR ''-''})"

definition path_below :: "string list \<Rightarrow> boundary_matcher" where
  "path_below roots before s =
     (case find (startsWith s) roots of
        None \<Rightarrow> None
      | Some hx \<Rightarrow> (let n = span_length is_path_char (drop (length hx) s)
                   in if 0 < n then Some (length hx + n) else None))"

text \<open>
  \<open>\\[^\s:]+\\[^\s:]+\<close>: the run after the first backslash has another one that is neither its
  first nor its last character.
\<close>

definition windows_path :: boundary_matcher where
  "windows_path before s =
     (let run = takeWhile (\<lambda>c. \<not> is_space c \<and> c \<noteq> CHR '':'') (drop 1 s)
      in if char_at 0 s = Some (CHR 0x5C) \<and> CHR 0x5C \<in> set (butlast (tl run))
         then Some (1 + length run) else None)"

definition line_number :: boundary_matcher where
  "line_number before s =
     (let start = 4 + span_length is_space (drop 4 s)
      in if starts_word before s \<and> startsWith (to_lower s) ''line'' \<and> 4 < start
         then run_from start 1 is_digit s else None)"

definition position_suffix :: boundary_matcher where
  "position_suffix before s =
     (let n = span_length is_digit (drop 1 s); start = 2 + n
      in if char_at 0 s = Some (CHR '':'') \<and> 0 < n \<and> char_at (1 + n) s = Some (CHR '':'')
         then run_from start 1 is_digit s else None)"

definition white_space :: boundary_matcher where
  "white_space before s = (let n = span_length is_space s in if 0 < n then Some n else None)"

definition VOLATILE_PATTERNS :: "(boundary_matcher \<times> string) list" where
  "VOLATILE_PATTERNS =
     [(ansi_escape, []), (timestamp_text, ''<timestamp>''), (process_number, ''pid=<n>''),
      (hex_address, ''<address>''), (volatile_uuid, ''<uuid>''), (path_below [''/tmp/''], ''<tmp-path>''),
      (path_below [''/workspace/'', ''/workspaces/''], ''<workspace-path>''),
      (path_below [''/workspace/''], ''<workspace-path>''), (windows_path, ''<windows-path>''),
      (line_number, ''line <n>''), (position_suffix, '':<line>:<column>''), (white_space, '' '')]"

definition normalizeFailureText :: "string \<Rightarrow> string" where
  "normalizeFailureText input =
     to_lower (trim (foldl (\<lambda>s (m, r). fst (replace_bounded m r None s)) (take 100000 input)
       VOLATILE_PATTERNS))"

lemma normalize_run [code]:
  "normalizeFailureText input =
     to_lower (trim (foldl (\<lambda>s (m, r). fst (replace_bounded m r None s))
       (if int (length input) \<le> 100000 then input else take 100000 input) VOLATILE_PATTERNS))"
  by (simp add: normalizeFailureText_def)

section \<open>Signatures\<close>

definition is_token_char :: "char \<Rightarrow> bool" where
  "is_token_char c = (is_alnum c \<or> c \<in> set ''_.:/@-'')"

text \<open>Splitting at runs of other characters; the empty pieces are filtered out with the short ones.\<close>

definition token_pieces :: "string \<Rightarrow> string list" where
  "token_pieces s = split_on (CHR '' '') (map (\<lambda>c. if is_token_char c then c else CHR '' '') s)"

definition tokenize :: "string \<Rightarrow> string list" where
  "tokenize s =
     take 10000 (sort_by string_le (uniq (filter (\<lambda>t. 3 \<le> length t) (map trim (token_pieces s)))))"

lemma tokenize_run [code]:
  "tokenize s =
     (let ts = sort_by string_le (uniq (filter (\<lambda>t. 3 \<le> length t) (map trim (token_pieces s))))
      in if int (length ts) \<le> 10000 then ts else take 10000 ts)"
  by (simp add: tokenize_def Let_def)

record FailureSignature =
  sg_normalized :: string
  sg_digest :: string
  sg_tokens :: "string list"

definition FailureSignatureSchema :: "FailureSignature \<Rightarrow> bool" where
  "FailureSignatureSchema g =
     (sg_normalized g \<noteq> [] \<and> int (length (sg_normalized g)) \<le> 100000
      \<and> length (sg_digest g) = 64
      \<and> list_all (\<lambda>t. t \<noteq> [] \<and> int (length t) \<le> 256) (sg_tokens g)
      \<and> int (length (sg_tokens g)) \<le> 10000)"

definition buildFailureSignature :: "host \<Rightarrow> string \<Rightarrow> string + FailureSignature" where
  "buildFailureSignature h input =
     (let normalized = normalizeFailureText (fst (redactSecretsFromText input));
          g = \<lparr>sg_normalized = normalized, sg_digest = sha256 h normalized,
               sg_tokens = tokenize normalized\<rparr>
      in if FailureSignatureSchema g then Inr g else Inl ''Invalid failure signature'')"

definition jaccard :: "string list \<Rightarrow> string list \<Rightarrow> float64" where
  "jaccard left right =
     (let a = uniq left; b = uniq right;
          intersection = length (filter (\<lambda>t. t \<in> set b) a); union = length (uniq (a @ b))
      in if union = 0 then f_int 1 else round_ratio (int intersection * unit64) (int union))"

text \<open>
  \<open>x.toFixed(n)\<close> of a number that is not negative, as the count of \<open>10 ^ -n\<close>: the nearest one,
  and the larger of two.
\<close>

definition to_fixed :: "int \<Rightarrow> float64 \<Rightarrow> int" where
  "to_fixed scale x = (2 * scale * x + unit64) div (2 * unit64)"

definition similarity_of :: "FailureSignature \<Rightarrow> FailureSignature \<Rightarrow> float64" where
  "similarity_of expected observed =
     (if sg_digest expected = sg_digest observed then f_int 1
      else round_ratio (to_fixed 10000 (jaccard (sg_tokens expected) (sg_tokens observed)) * unit64) 10000)"

definition percent_text :: "float64 \<Rightarrow> string" where
  "percent_text x =
     (let n = to_fixed 10 (f_mul x (f_int 100)) in show_int (n div 10) @ ''.'' @ show_int (n mod 10))"

record FailureSignatureComparison =
  cmp_matched :: bool
  cmp_similarity :: float64
  cmp_expected :: FailureSignature
  cmp_observed :: FailureSignature
  cmp_rationale :: string

definition compareFailureSignatures ::
  "host \<Rightarrow> string \<Rightarrow> string \<Rightarrow> float64 \<Rightarrow> string + FailureSignatureComparison" where
  "compareFailureSignatures h expectedText observedText minimumSimilarity =
     try_then (buildFailureSignature h expectedText) (\<lambda>expected.
     try_then (buildFailureSignature h observedText) (\<lambda>observed.
       let similarity = similarity_of expected observed;
           matched = (minimumSimilarity \<le> similarity)
       in if 0 \<le> similarity \<and> similarity \<le> f_int 1 then
            Inr \<lparr>cmp_matched = matched, cmp_similarity = similarity, cmp_expected = expected,
                 cmp_observed = observed,
                 cmp_rationale =
                   (if matched
                    then ''Observed failure matched the expected signature at ''
                         @ percent_text similarity @ ''% similarity.''
                    else ''Observed failure similarity '' @ percent_text similarity
                         @ ''% is below the '' @ percent_text minimumSimilarity @ ''% threshold.'')\<rparr>
          else Inl ''Invalid failure signature comparison''))"

text \<open>
  A run that prints nothing has the output of two line ends, which is normalized to the empty text:
  it has no signature, and comparing it fails.
\<close>

lemma silent_run_has_no_signature:
  "buildFailureSignature plain_host [CHR 0x0A, CHR 0x0A] = Inl ''Invalid failure signature''"
  by code_simp

end
