(* ===== verification/Sandbox_Orchestrator.thy ===== *)
theory Sandbox_Orchestrator
  imports Sandbox_Policy Sandbox_Logs Failure_Signatures Effects
begin

text \<open>
  The sandbox orchestrator (\<open>packages/sandbox/src/orchestrator.ts\<close>). The provider that drives the
  containers, the hooks that store what happens and the abort signal are parameters that act on a
  world of any type; a hook or the provider may throw at any call. What the code holds in the
  variables of \<open>execute\<close> is the record \<open>run_state\<close>, which survives a throw.
\<close>

section \<open>Contracts\<close>

datatype SandboxExecutionStatus =
    REQUESTED | POLICY_CHECK | PREPARING | INSTALLING | REPRODUCING | COLLECTING | CLEANING
  | COMPLETED | POLICY_BLOCKED | CANCELLED | TIMED_OUT | INFRASTRUCTURE_FAILED | CLEANUP_FAILED

datatype SandboxResult =
    REPRODUCED | NOT_REPRODUCED | INCONCLUSIVE | POLICY_BLOCKED | INFRASTRUCTURE_FAILED

datatype SandboxCommandStatus =
    PENDING | RUNNING | SUCCEEDED | FAILED | TIMED_OUT | CANCELLED | POLICY_BLOCKED

text \<open>What is thrown: an abort, a policy violation, any other error; with its message.\<close>

datatype sandbox_error =
    AbortError string
  | SandboxPolicyViolationError string
  | OtherError string

primrec error_message :: "sandbox_error \<Rightarrow> string" where
  "error_message (AbortError m) = m"
| "error_message (SandboxPolicyViolationError m) = m"
| "error_message (OtherError m) = m"

record image_identity =
  im_id :: string
  im_repoDigests :: "string list"

record PreparedSandbox =
  ps_executionId :: string
  ps_volumeName :: string
  ps_worktreePath :: string
  ps_labels :: "(string \<times> string) list"
  ps_imageIdentity :: image_identity
  ps_helperImageIdentity :: image_identity

record SandboxOutputEvent =
  oe_stream :: stream
  oe_content :: string
  oe_occurredAt :: int

record SandboxCommandOutcome =
  oc_containerId :: string
  oc_status :: SandboxCommandStatus
  oc_exitCode :: "int option"
  oc_signal :: "string option"
  oc_timedOut :: bool
  oc_oomKilled :: bool
  oc_durationMs :: int
  oc_stdout :: string
  oc_stderr :: string
  oc_outputDigest :: string
  oc_startedAt :: int
  oc_completedAt :: int

text \<open>The code copies the fields of the command and of the outcome into the result.\<close>

record SandboxCommandResult =
  cr_id :: string
  cr_sequence :: int
  cr_command :: SandboxCommandRequest
  cr_outcome :: SandboxCommandOutcome

definition at_most_chars :: "int \<Rightarrow> string \<Rightarrow> bool" where
  "at_most_chars n s = (int (length s) \<le> n)"

definition SandboxCommandResultSchema :: "host \<Rightarrow> SandboxCommandResult \<Rightarrow> bool" where
  "SandboxCommandResultSchema h r =
     (let c = cr_command r; oc = cr_outcome r in
      uuid_format h (cr_id r) \<and> 0 < cr_sequence r
      \<and> list_all (at_most_chars 512) (cmd_arguments c) \<and> length (cmd_arguments c) \<le> 64
      \<and> sized_text 1 512 (cmd_workingDirectory c)
      \<and> (case oc_exitCode oc of None \<Rightarrow> True | Some e \<Rightarrow> 0 \<le> e \<and> e \<le> 255)
      \<and> (case oc_signal oc of None \<Rightarrow> True | Some s \<Rightarrow> at_most_chars 64 s)
      \<and> 0 \<le> oc_durationMs oc \<and> length (oc_outputDigest oc) = 64
      \<and> datetime_format h (iso_time h (oc_startedAt oc))
      \<and> datetime_format h (iso_time h (oc_completedAt oc)))"

definition commandResult ::
  "host \<Rightarrow> string \<Rightarrow> int \<Rightarrow> SandboxCommandRequest \<Rightarrow> SandboxCommandOutcome
   \<Rightarrow> sandbox_error + SandboxCommandResult" where
  "commandResult h i n command outcome =
     (let r = \<lparr>cr_id = i, cr_sequence = n, cr_command = command, cr_outcome = outcome\<rparr>
      in if SandboxCommandResultSchema h r then Inr r
         else Inl (OtherError ''Invalid sandbox command result''))"

datatype SandboxArtifactRetention = EPHEMERAL | INCIDENT | LEGAL_HOLD

record SandboxArtifact =
  af_id :: string
  af_executionId :: string
  af_path :: string
  af_mediaType :: string
  af_byteSize :: int
  af_digest :: string
  af_retention :: SandboxArtifactRetention
  af_storageReference :: "string option"
  af_createdAt :: string

record SandboxCleanupOutcome =
  co_containerIds :: "string list"
  co_volumeIds :: "string list"
  co_networkIds :: "string list"
  co_verifiedAbsent :: bool
  co_attempts :: int
  co_error :: "string option"
  co_completedAt :: int

record SandboxCleanupProof =
  cl_outcome :: SandboxCleanupOutcome
  cl_executionId :: string
  cl_digest :: string

definition SandboxCleanupProofSchema :: "host \<Rightarrow> SandboxCleanupProof \<Rightarrow> bool" where
  "SandboxCleanupProofSchema h p =
     (let oc = cl_outcome p in
      uuid_format h (cl_executionId p)
      \<and> list_all (sized_text 1 128) (co_containerIds oc) \<and> length (co_containerIds oc) \<le> 100
      \<and> list_all (sized_text 1 128) (co_volumeIds oc) \<and> length (co_volumeIds oc) \<le> 20
      \<and> list_all (sized_text 1 128) (co_networkIds oc) \<and> length (co_networkIds oc) \<le> 20
      \<and> 0 < co_attempts oc \<and> length (cl_digest p) = 64
      \<and> (case co_error oc of None \<Rightarrow> True | Some m \<Rightarrow> at_most_chars 2000 m)
      \<and> datetime_format h (iso_time h (co_completedAt oc)))"

definition cleanup_json :: "host \<Rightarrow> SandboxCleanupOutcome \<Rightarrow> json" where
  "cleanup_json h oc = JObj
     [(''containerIds'', JArr (map JStr (co_containerIds oc))),
      (''volumeIds'', JArr (map JStr (co_volumeIds oc))),
      (''networkIds'', JArr (map JStr (co_networkIds oc))),
      (''verifiedAbsent'', JBool (co_verifiedAbsent oc)), (''attempts'', JNum (co_attempts oc)),
      (''error'', str_or_null (co_error oc)), (''completedAt'', JStr (iso_time h (co_completedAt oc)))]"

record SandboxExecutionRequest =
  xr_executionId :: string
  xr_reproductionId :: string
  xr_organizationId :: string
  xr_incidentId :: string
  xr_worktreePath :: string
  xr_input :: StartReproductionInput
  xr_policy :: SandboxPolicyDecision

section \<open>The outside\<close>

text \<open>
  The provider, the hooks and the abort signal. A command reports its output before it answers, and
  fails with the first error of storing it.
\<close>

type_synonym ('w, 'a) outside = "'w \<Rightarrow> (sandbox_error + 'a) \<times> 'w"

record 'w sandbox_surroundings =
  pv_prepare :: "SandboxExecutionRequest \<Rightarrow> ('w, PreparedSandbox) outside"
  pv_execute :: "PreparedSandbox \<Rightarrow> SandboxCommandRequest \<Rightarrow> SandboxPolicyDecision
                 \<Rightarrow> 'w \<Rightarrow> SandboxOutputEvent list \<times> (sandbox_error + SandboxCommandOutcome) \<times> 'w"
  pv_collect :: "PreparedSandbox \<Rightarrow> string list \<Rightarrow> int \<Rightarrow> ('w, SandboxArtifact list) outside"
  pv_cleanup :: "PreparedSandbox \<Rightarrow> ('w, SandboxCleanupOutcome) outside"
  pv_cleanupExecution :: "string \<Rightarrow> ('w, SandboxCleanupOutcome) outside"
  hk_statusChanged :: "SandboxExecutionStatus \<Rightarrow> SandboxResult option \<Rightarrow> ('w, unit) outside"
  hk_commandStarted :: "string \<Rightarrow> int \<Rightarrow> SandboxCommandRequest \<Rightarrow> ('w, unit) outside"
  hk_commandCompleted :: "SandboxCommandResult \<Rightarrow> ('w, unit) outside"
  hk_logChunks :: "SandboxLogChunk list \<Rightarrow> ('w, unit) outside"
  hk_artifactsCollected :: "SandboxArtifact list \<Rightarrow> ('w, unit) outside"
  hk_cleanupCompleted :: "SandboxCleanupProof \<Rightarrow> ('w, unit) outside"
  hk_cancellationRequested :: "('w, bool) outside"
  hk_heartbeat :: "('w, unit) outside"
  ab_aborted :: "'w \<Rightarrow> bool"
  ab_reason :: "'w \<Rightarrow> string"
  ids_command :: "int \<Rightarrow> string"
  ids_chunk :: "int \<Rightarrow> string"
  time_now :: "'w \<Rightarrow> int"

section \<open>The state of a run\<close>

record run_state =
  rs_logs :: SandboxLogAccumulator
  rs_commands :: "SandboxCommandResult list"
  rs_outputs :: "string list"
  rs_prepared :: "PreparedSandbox option"
  rs_comparison :: "FailureSignatureComparison option"
  rs_artifacts :: "SandboxArtifact list"
  rs_result :: SandboxResult
  rs_status :: SandboxExecutionStatus
  rs_sequence :: int
  rs_resourceLimitTerminated :: bool

definition initial_state :: run_state where
  "initial_state =
     \<lparr>rs_logs = new_accumulator, rs_commands = [], rs_outputs = [], rs_prepared = None,
      rs_comparison = None, rs_artifacts = [], rs_result = SandboxResult.INCONCLUSIVE,
      rs_status = SandboxExecutionStatus.INFRASTRUCTURE_FAILED, rs_sequence = 0, rs_resourceLimitTerminated = False\<rparr>"

type_synonym ('w, 'a) sandboxed = "(run_state \<times> 'w, sandbox_error, 'a) effect"

definition get_state :: "('w, run_state) sandboxed" where
  "get_state = (\<lambda>(s, w). (Inr s, (s, w)))"

definition set_state :: "(run_state \<Rightarrow> run_state) \<Rightarrow> ('w, unit) sandboxed" where
  "set_state f = (\<lambda>(s, w). (Inr (), (f s, w)))"

definition ask :: "('w, 'a) outside \<Rightarrow> ('w, 'a) sandboxed" where
  "ask m = (\<lambda>(s, w). case m w of (r, w') \<Rightarrow> (r, (s, w')))"

text \<open>\<open>m().catch(() => undefined)\<close>.\<close>

definition ignoring :: "('w, unit) outside \<Rightarrow> ('w, unit) sandboxed" where
  "ignoring m = re_catch (ask m) (\<lambda>e. re_return ())"

definition log_options :: "SandboxExecutionRequest \<Rightarrow> LogAccumulatorOptions" where
  "log_options rq =
     \<lparr>lo_executionId = xr_executionId rq,
      lo_maximumBytes = dec_resourceLimits (xr_policy rq) maximumLogBytes,
      lo_maximumChunkBytes = None\<rparr>"

definition emit ::
  "host \<Rightarrow> 'w sandbox_surroundings \<Rightarrow> SandboxExecutionRequest \<Rightarrow> string option \<Rightarrow> SandboxOutputEvent
   \<Rightarrow> ('w, unit) sandboxed" where
  "emit h su rq commandId event =
     re_bind get_state (\<lambda>s.
       let (r, logs) = append_log h (log_options rq) (rs_logs s)
             (\<lparr>lc_stream = oe_stream event, lc_commandId = commandId,
               lc_occurredAt = oe_occurredAt event, lc_uuids = ids_chunk su\<rparr>, oe_content event)
       in re_bind (set_state (\<lambda>s. s\<lparr>rs_logs := logs\<rparr>)) (\<lambda>_.
            case r of
              Inl m \<Rightarrow> re_fail (OtherError m)
            | Inr chunks \<Rightarrow> if chunks = [] then re_return () else ask (hk_logChunks su chunks)))"

text \<open>All the output of a command is handed on; its first error is kept.\<close>

fun emit_all ::
  "host \<Rightarrow> 'w sandbox_surroundings \<Rightarrow> SandboxExecutionRequest \<Rightarrow> string \<Rightarrow> SandboxOutputEvent list
   \<Rightarrow> ('w, sandbox_error option) sandboxed" where
  "emit_all h su rq commandId [] = re_return None"
| "emit_all h su rq commandId (e # es) =
     re_bind (re_catch (re_bind (emit h su rq (Some commandId) e) (\<lambda>_. re_return None))
                (\<lambda>err. re_return (Some err))) (\<lambda>first.
     re_bind (emit_all h su rq commandId es) (\<lambda>later.
       re_return (case first of None \<Rightarrow> later | Some err \<Rightarrow> Some err)))"

definition provider_execute ::
  "host \<Rightarrow> 'w sandbox_surroundings \<Rightarrow> SandboxExecutionRequest \<Rightarrow> PreparedSandbox \<Rightarrow> string
   \<Rightarrow> SandboxCommandRequest \<Rightarrow> ('w, SandboxCommandOutcome) sandboxed" where
  "provider_execute h su rq prepared commandId command = (\<lambda>(s, w).
     case pv_execute su prepared command (xr_policy rq) w of
       (events, r, w') \<Rightarrow>
         re_bind (emit_all h su rq commandId events) (\<lambda>err.
           case err of Some e \<Rightarrow> re_fail e | None \<Rightarrow> re_lift r) (s, w'))"

section \<open>The run\<close>

text \<open>\<open>signal.aborted || (await hooks.cancellationRequested())\<close>.\<close>

definition stop_asked :: "'w sandbox_surroundings \<Rightarrow> ('w, bool) sandboxed" where
  "stop_asked su = (\<lambda>(s, w). if ab_aborted su w then (Inr True, (s, w))
                             else ask (hk_cancellationRequested su) (s, w))"

definition executeCommand ::
  "host \<Rightarrow> 'w sandbox_surroundings \<Rightarrow> SandboxExecutionRequest \<Rightarrow> PreparedSandbox \<Rightarrow> SandboxCommandRequest
   \<Rightarrow> ('w, SandboxCommandOutcome) sandboxed" where
  "executeCommand h su rq prepared command =
     re_bind (stop_asked su) (\<lambda>stop.
     re_bind (re_guard stop (AbortError ''Sandbox execution was cancelled.'')) (\<lambda>_.
     re_bind (set_state (\<lambda>s. s\<lparr>rs_sequence := rs_sequence s + 1\<rparr>)) (\<lambda>_.
     re_bind get_state (\<lambda>s.
       let n = rs_sequence s; commandId = ids_command su n in
       re_bind (ask (hk_commandStarted su commandId n command)) (\<lambda>_.
       re_bind (provider_execute h su rq prepared commandId command) (\<lambda>outcome.
       re_bind (re_lift (commandResult h commandId n command outcome)) (\<lambda>mapped.
       re_bind (set_state (\<lambda>s. s\<lparr>rs_commands := rs_commands s @ [mapped]\<rparr>)) (\<lambda>_.
       re_bind (ask (hk_commandCompleted su mapped)) (\<lambda>_.
       re_bind (ask (hk_heartbeat su)) (\<lambda>_.
         re_return outcome))))))))))"

definition note_outcome :: "SandboxCommandOutcome \<Rightarrow> ('w, unit) sandboxed" where
  "note_outcome outcome =
     set_state (\<lambda>s. if oc_oomKilled outcome then s\<lparr>rs_resourceLimitTerminated := True\<rparr> else s)"

definition conclude ::
  "SandboxExecutionStatus \<Rightarrow> SandboxResult \<Rightarrow> ('w, unit) sandboxed" where
  "conclude st r = set_state (\<lambda>s. s\<lparr>rs_status := st, rs_result := r\<rparr>)"

fun install_all ::
  "host \<Rightarrow> 'w sandbox_surroundings \<Rightarrow> SandboxExecutionRequest \<Rightarrow> PreparedSandbox
   \<Rightarrow> SandboxCommandRequest list \<Rightarrow> ('w, unit) sandboxed" where
  "install_all h su rq prepared [] = re_return ()"
| "install_all h su rq prepared (c # cs) =
     re_bind (executeCommand h su rq prepared c) (\<lambda>outcome.
       if oc_timedOut outcome then
         re_bind (conclude SandboxExecutionStatus.TIMED_OUT SandboxResult.INFRASTRUCTURE_FAILED) (\<lambda>_.
           re_fail (OtherError ''Installation command timed out.''))
       else
         re_bind (note_outcome outcome) (\<lambda>_.
           if oc_status outcome \<noteq> SandboxCommandStatus.SUCCEEDED then
             re_bind (conclude SandboxExecutionStatus.COMPLETED SandboxResult.INCONCLUSIVE) (\<lambda>_.
               re_fail (OtherError ''Dependency installation failed before reproduction could begin.''))
           else install_all h su rq prepared cs))"

text \<open>
  The commands of one repetition: their output, and whether one of them ended with a code other
  than 0. A command without a code counts as one that did.
\<close>

fun reproduce_once ::
  "host \<Rightarrow> 'w sandbox_surroundings \<Rightarrow> SandboxExecutionRequest \<Rightarrow> PreparedSandbox
   \<Rightarrow> SandboxCommandRequest list \<Rightarrow> string \<Rightarrow> bool \<Rightarrow> ('w, string \<times> bool) sandboxed" where
  "reproduce_once h su rq prepared [] output failed = re_return (output, failed)"
| "reproduce_once h su rq prepared (c # cs) output failed =
     re_bind (executeCommand h su rq prepared c) (\<lambda>outcome.
     re_bind (note_outcome outcome) (\<lambda>_.
       if oc_timedOut outcome then
         re_bind (conclude SandboxExecutionStatus.TIMED_OUT SandboxResult.INFRASTRUCTURE_FAILED) (\<lambda>_.
           re_fail (OtherError ''Reproduction command timed out.''))
       else reproduce_once h su rq prepared cs
              (output @ oc_stdout outcome @ [CHR 0x0A] @ oc_stderr outcome @ [CHR 0x0A])
              (failed \<or> oc_exitCode outcome \<noteq> Some 0)))"

definition compare_run ::
  "host \<Rightarrow> FailureSignatureInput \<Rightarrow> string \<Rightarrow> bool \<Rightarrow> sandbox_error + FailureSignatureComparison" where
  "compare_run h sg output failed =
     (case compareFailureSignatures h (fsi_expectedText sg) output (fsi_minimumSimilarity sg) of
        Inl m \<Rightarrow> Inl (OtherError m)
      | Inr c \<Rightarrow> Inr (c\<lparr>cmp_matched := (cmp_matched c \<and> (fsi_requireNonZeroExit sg \<longrightarrow> failed))\<rparr>))"

definition comparing ::
  "host \<Rightarrow> FailureSignatureInput \<Rightarrow> string \<Rightarrow> bool \<Rightarrow> ('w, FailureSignatureComparison) sandboxed" where
  "comparing h sg output failed = re_lift (compare_run h sg output failed)"

fun repeat_run ::
  "host \<Rightarrow> 'w sandbox_surroundings \<Rightarrow> SandboxExecutionRequest \<Rightarrow> PreparedSandbox \<Rightarrow> nat
   \<Rightarrow> FailureSignatureComparison list \<Rightarrow> ('w, FailureSignatureComparison list) sandboxed" where
  "repeat_run h su rq prepared 0 cs = re_return cs"
| "repeat_run h su rq prepared (Suc n) cs =
     re_bind (reproduce_once h su rq prepared (sr_reproductionCommands (xr_input rq)) [] False)
       (\<lambda>(output, failed).
     re_bind (set_state (\<lambda>s. s\<lparr>rs_outputs := rs_outputs s @ [output]\<rparr>)) (\<lambda>_.
     re_bind (comparing h (sr_failureSignature (xr_input rq)) output failed) (\<lambda>c.
       repeat_run h su rq prepared n (cs @ [c]))))"

text \<open>\<open>comparisons.sort((left, right) => right.similarity - left.similarity)\<close>.\<close>

definition by_similarity :: "FailureSignatureComparison list \<Rightarrow> FailureSignatureComparison list" where
  "by_similarity cs = sort_by (\<lambda>a b. cmp_similarity b \<le> cmp_similarity a) cs"

definition judge :: "run_state \<Rightarrow> FailureSignatureComparison list \<Rightarrow> SandboxResult" where
  "judge s cs =
     (let sorted_cs = by_similarity cs;
          allMatched = (sorted_cs \<noteq> [] \<and> list_all cmp_matched sorted_cs);
          noneMatched = list_all (\<lambda>c. \<not> cmp_matched c) sorted_cs;
          consistent = list_all (\<lambda>c. sg_digest (cmp_observed c)
                                    = sg_digest (cmp_observed (hd sorted_cs))) sorted_cs
      in if rs_resourceLimitTerminated s \<or> ls_truncated (summary (rs_logs s)) then SandboxResult.INCONCLUSIVE
         else if allMatched \<and> consistent then SandboxResult.REPRODUCED
         else if noneMatched \<and> consistent then SandboxResult.NOT_REPRODUCED
         else SandboxResult.INCONCLUSIVE)"

text \<open>The \<open>try\<close> block.\<close>

definition attempt ::
  "host \<Rightarrow> 'w sandbox_surroundings \<Rightarrow> SandboxExecutionRequest \<Rightarrow> ('w, unit) sandboxed" where
  "attempt h su rq =
     re_bind (ask (hk_statusChanged su SandboxExecutionStatus.PREPARING None)) (\<lambda>_.
     re_bind (ask (pv_prepare su rq)) (\<lambda>prepared.
     re_bind (set_state (\<lambda>s. s\<lparr>rs_prepared := Some prepared\<rparr>)) (\<lambda>_.
     re_bind (ask (hk_heartbeat su)) (\<lambda>_.
     re_bind (re_when (sr_installCommands (xr_input rq) \<noteq> [])
       (re_bind (ask (hk_statusChanged su SandboxExecutionStatus.INSTALLING None)) (\<lambda>_.
          install_all h su rq prepared (sr_installCommands (xr_input rq))))) (\<lambda>_.
     re_bind (ask (hk_statusChanged su SandboxExecutionStatus.REPRODUCING None)) (\<lambda>_.
     re_bind (repeat_run h su rq prepared (sr_repeatCount (xr_input rq)) []) (\<lambda>cs.
     re_bind (set_state (\<lambda>s. s\<lparr>rs_comparison := (case by_similarity cs of [] \<Rightarrow> None | c # _ \<Rightarrow> Some c),
                               rs_result := judge s cs\<rparr>)) (\<lambda>_.
     re_bind get_state (\<lambda>s.
     re_bind (ask (hk_statusChanged su SandboxExecutionStatus.COLLECTING (Some (rs_result s)))) (\<lambda>_.
     re_bind (ask (pv_collect su prepared (sr_artifactPaths (xr_input rq))
                     (dec_resourceLimits (xr_policy rq) maximumArtifactBytes))) (\<lambda>artifacts.
     re_bind (set_state (\<lambda>s. s\<lparr>rs_artifacts := artifacts\<rparr>)) (\<lambda>_.
     re_bind (ask (hk_artifactsCollected su artifacts)) (\<lambda>_.
       set_state (\<lambda>s. s\<lparr>rs_status := SandboxExecutionStatus.COMPLETED\<rparr>))))))))))))))"

text \<open>The \<open>catch\<close> block; \<open>reason\<close> is that of the abort signal.\<close>

definition after_error :: "string \<Rightarrow> sandbox_error \<Rightarrow> run_state \<Rightarrow> run_state" where
  "after_error reason e s =
     (case e of
        AbortError m \<Rightarrow>
          s\<lparr>rs_status := (if reason = ''timeout'' then SandboxExecutionStatus.TIMED_OUT
                         else if reason = ''cancelled'' then SandboxExecutionStatus.CANCELLED
                         else SandboxExecutionStatus.INFRASTRUCTURE_FAILED),
            rs_result := (if reason = ''cancelled'' then SandboxResult.INCONCLUSIVE
                          else SandboxResult.INFRASTRUCTURE_FAILED)\<rparr>
      | SandboxPolicyViolationError m \<Rightarrow>
          s\<lparr>rs_status := SandboxExecutionStatus.POLICY_BLOCKED,
            rs_result := SandboxResult.POLICY_BLOCKED\<rparr>
      | OtherError m \<Rightarrow>
          if rs_status s \<noteq> SandboxExecutionStatus.TIMED_OUT
             \<and> rs_status s \<noteq> SandboxExecutionStatus.COMPLETED
          then s\<lparr>rs_status := SandboxExecutionStatus.INFRASTRUCTURE_FAILED,
                 rs_result := SandboxResult.INFRASTRUCTURE_FAILED\<rparr>
          else s)"

definition recover_from ::
  "host \<Rightarrow> 'w sandbox_surroundings \<Rightarrow> SandboxExecutionRequest \<Rightarrow> sandbox_error \<Rightarrow> ('w, unit) sandboxed" where
  "recover_from h su rq e = (\<lambda>(s, w).
     emit h su rq None \<lparr>oe_stream = system, oe_content = error_message e, oe_occurredAt = time_now su w\<rparr>
       (after_error (ab_reason su w) e s, w))"

text \<open>The \<open>finally\<close> block: what the clean up says goes into the proof and the status.\<close>

definition failed_cleanup :: "int \<Rightarrow> sandbox_error \<Rightarrow> SandboxCleanupOutcome" where
  "failed_cleanup now e =
     \<lparr>co_containerIds = [], co_volumeIds = [], co_networkIds = [], co_verifiedAbsent = False,
      co_attempts = 1, co_error = Some (take 2000 (error_message e)), co_completedAt = now\<rparr>"

definition cleanup_outcome ::
  "'w sandbox_surroundings \<Rightarrow> SandboxExecutionRequest \<Rightarrow> ('w, SandboxCleanupOutcome) sandboxed" where
  "cleanup_outcome su rq =
     re_catch
       (re_bind get_state (\<lambda>s.
          case rs_prepared s of
            Some p \<Rightarrow> ask (pv_cleanup su p)
          | None \<Rightarrow> ask (pv_cleanupExecution su (xr_executionId rq))))
       (\<lambda>e (s, w). (Inr (failed_cleanup (time_now su w) e), (s, w)))"

definition cleanup_proof ::
  "host \<Rightarrow> SandboxExecutionRequest \<Rightarrow> SandboxCleanupOutcome \<Rightarrow> sandbox_error + SandboxCleanupProof" where
  "cleanup_proof h rq oc =
     (let p = \<lparr>cl_outcome = oc, cl_executionId = xr_executionId rq,
               cl_digest = sha256 h (stringify (cleanup_json h oc))\<rparr>
      in if SandboxCleanupProofSchema h p then Inr p else Inl (OtherError ''Invalid sandbox cleanup proof''))"

definition finish ::
  "host \<Rightarrow> 'w sandbox_surroundings \<Rightarrow> SandboxExecutionRequest \<Rightarrow> ('w, SandboxCleanupProof) sandboxed" where
  "finish h su rq =
     re_bind (ignoring (hk_statusChanged su SandboxExecutionStatus.CLEANING None)) (\<lambda>_.
     re_bind (cleanup_outcome su rq) (\<lambda>oc.
     re_bind (re_lift (cleanup_proof h rq oc)) (\<lambda>cleanup.
     re_bind (set_state (\<lambda>s. if co_verifiedAbsent (cl_outcome cleanup) then s
                             else s\<lparr>rs_status := SandboxExecutionStatus.CLEANUP_FAILED\<rparr>)) (\<lambda>_.
     re_bind (ignoring (hk_cleanupCompleted su cleanup)) (\<lambda>_.
     re_bind get_state (\<lambda>s.
     re_bind (ignoring (hk_statusChanged su (rs_status s) (Some (rs_result s)))) (\<lambda>_.
       re_return cleanup)))))))"

text \<open>
  The fingerprint of the environment, a digest of constants of the request, and the time of the
  answer are left out.
\<close>

record SandboxExecutionResult =
  xe_status :: SandboxExecutionStatus
  xe_result :: SandboxResult
  xe_commands :: "SandboxCommandResult list"
  xe_artifacts :: "SandboxArtifact list"
  xe_cleanup :: SandboxCleanupProof
  xe_comparison :: "FailureSignatureComparison option"
  xe_confidence :: float64

definition confidence_of :: "run_state \<Rightarrow> float64" where
  "confidence_of s =
     (let similarity = (case rs_comparison s of None \<Rightarrow> 0 | Some c \<Rightarrow> cmp_similarity c);
          weight = (if rs_result s = SandboxResult.REPRODUCED then f_int 1 else f_hundredths 80)
      in round_ratio (to_fixed 10000 (f_mul similarity weight) * unit64) 10000)"

text \<open>
  \<open>try ... catch ... finally\<close>: an error of the \<open>catch\<close> block is thrown on after the \<open>finally\<close>
  block, unless that throws itself.
\<close>

definition execute ::
  "host \<Rightarrow> 'w sandbox_surroundings \<Rightarrow> SandboxExecutionRequest \<Rightarrow> 'w
   \<Rightarrow> (sandbox_error + SandboxExecutionResult) \<times> (run_state \<times> 'w)" where
  "execute h su rq w =
     (case re_catch (attempt h su rq) (recover_from h su rq) (initial_state, w) of
        (r, v) \<Rightarrow>
          re_bind (finish h su rq) (\<lambda>cleanup.
          re_bind (re_lift r) (\<lambda>_.
          re_bind get_state (\<lambda>s.
            re_return \<lparr>xe_status = rs_status s, xe_result = rs_result s, xe_commands = rs_commands s,
              xe_artifacts = rs_artifacts s, xe_cleanup = cleanup, xe_comparison = rs_comparison s,
              xe_confidence = confidence_of s\<rparr>))) v)"

text \<open>For running.\<close>

lemma run_effects [code]:
  "get_state g = (Inr (fst g), g)" "set_state u g = (Inr (), (u (fst g), snd g))"
  "ask q g = (case q (snd g) of (r, w') \<Rightarrow> (r, (fst g, w')))"
  by (simp_all add: get_state_def set_state_def ask_def split: prod.split)

lemma run_emit [code]:
  "emit h su rq commandId event g =
     (let (r, logs) = append_log h (log_options rq) (rs_logs (fst g))
             (\<lparr>lc_stream = oe_stream event, lc_commandId = commandId,
               lc_occurredAt = oe_occurredAt event, lc_uuids = ids_chunk su\<rparr>, oe_content event);
          s = (fst g)\<lparr>rs_logs := logs\<rparr>
      in case r of
           Inl m \<Rightarrow> (Inl (OtherError m), (s, snd g))
         | Inr chunks \<Rightarrow>
             if chunks = [] then (Inr (), (s, snd g)) else ask (hk_logChunks su chunks) (s, snd g))"
  by (simp add: emit_def re_bind_def get_state_def set_state_def re_fail_def re_return_def Let_def
      split: prod.split sum.split)

lemma run_provider [code]:
  "provider_execute h su rq prepared commandId command g =
     (case pv_execute su prepared command (xr_policy rq) (snd g) of
       (events, r, w') \<Rightarrow>
         re_bind (emit_all h su rq commandId events) (\<lambda>err.
           case err of Some e \<Rightarrow> re_fail e | None \<Rightarrow> re_lift r) (fst g, w'))"
  by (simp add: provider_execute_def split: prod.split)

lemma run_recovery [code]:
  "recover_from h su rq e g =
     emit h su rq None
       \<lparr>oe_stream = system, oe_content = error_message e, oe_occurredAt = time_now su (snd g)\<rparr>
       (after_error (ab_reason su (snd g)) e (fst g), snd g)"
  by (simp add: recover_from_def split: prod.split)

lemma run_stop [code]:
  "stop_asked su g = (if ab_aborted su (snd g) then (Inr True, g) else ask (hk_cancellationRequested su) g)"
  by (simp add: stop_asked_def split: prod.split)

lemma run_command [code]:
  "executeCommand h su rq prepared command g =
     re_bind (stop_asked su) (\<lambda>stop.
     re_bind (re_guard stop (AbortError ''Sandbox execution was cancelled.'')) (\<lambda>_.
     re_bind (set_state (\<lambda>s. s\<lparr>rs_sequence := rs_sequence s + 1\<rparr>)) (\<lambda>_.
     re_bind get_state (\<lambda>s.
       let n = rs_sequence s; commandId = ids_command su n in
       re_bind (ask (hk_commandStarted su commandId n command)) (\<lambda>_.
       re_bind (provider_execute h su rq prepared commandId command) (\<lambda>outcome.
       re_bind (re_lift (commandResult h commandId n command outcome)) (\<lambda>mapped.
       re_bind (set_state (\<lambda>s. s\<lparr>rs_commands := rs_commands s @ [mapped]\<rparr>)) (\<lambda>_.
       re_bind (ask (hk_commandCompleted su mapped)) (\<lambda>_.
       re_bind (ask (hk_heartbeat su)) (\<lambda>_.
         re_return outcome)))))))))) g"
  by (simp only: executeCommand_def)

lemma run_reproduce [code]:
  "reproduce_once h su rq prepared [] output failed g = (Inr (output, failed), g)"
  "reproduce_once h su rq prepared (c # cs) output failed g =
     re_bind (executeCommand h su rq prepared c) (\<lambda>outcome.
     re_bind (note_outcome outcome) (\<lambda>_.
       if oc_timedOut outcome then
         re_bind (conclude SandboxExecutionStatus.TIMED_OUT SandboxResult.INFRASTRUCTURE_FAILED) (\<lambda>_.
           re_fail (OtherError ''Reproduction command timed out.''))
       else reproduce_once h su rq prepared cs
              (output @ oc_stdout outcome @ [CHR 0x0A] @ oc_stderr outcome @ [CHR 0x0A])
              (failed \<or> oc_exitCode outcome \<noteq> Some 0))) g"
  by (simp_all add: re_return_def)

lemma run_repeat [code]:
  "repeat_run h su rq prepared 0 cs g = (Inr cs, g)"
  "repeat_run h su rq prepared (Suc n) cs g =
     re_bind (reproduce_once h su rq prepared (sr_reproductionCommands (xr_input rq)) [] False)
       (\<lambda>(output, failed).
     re_bind (set_state (\<lambda>s. s\<lparr>rs_outputs := rs_outputs s @ [output]\<rparr>)) (\<lambda>_.
     re_bind (comparing h (sr_failureSignature (xr_input rq)) output failed) (\<lambda>c.
       repeat_run h su rq prepared n (cs @ [c])))) g"
  by (simp_all add: re_return_def re_lift_def)


section \<open>What a result stands for\<close>

text \<open>The part of the state that only the run itself writes, not a command or a hook.\<close>

definition verdict :: "run_state \<Rightarrow> SandboxExecutionStatus \<times> SandboxResult \<times> string list" where
  "verdict s = (rs_status s, rs_result s, rs_outputs s)"

abbreviation (input) frames :: "(run_state \<Rightarrow> 'v) \<Rightarrow> ('w, 'a) sandboxed \<Rightarrow> bool" where
  "frames f m \<equiv> \<forall>v. stays (\<lambda>g. f (fst g) = v) m"

lemma state_effects:
  "stays (\<lambda>g. f (fst g) = v) (ask q)" "stays (\<lambda>g. f (fst g) = v) get_state"
  "(\<And>s. f (u s) = f s) \<Longrightarrow> stays (\<lambda>g. f (fst g) = v) (set_state u)"
  by (auto simp: stays_def ask_def get_state_def set_state_def split: prod.splits)

lemma ignoring_frames: "stays (\<lambda>g. f (fst g) = v) (ignoring q)"
  unfolding ignoring_def by (intro stays_catch stays_pure state_effects)

lemma emit_frames:
  assumes "\<And>s l. f (s\<lparr>rs_logs := l\<rparr>) = f s"
  shows "stays (\<lambda>g. f (fst g) = v) (emit h su rq i e)"
  unfolding emit_def Let_def using assms
  by (auto intro!: stays_bind state_effects split: prod.splits sum.splits)

lemma emit_all_frames:
  assumes "\<And>s l. f (s\<lparr>rs_logs := l\<rparr>) = f s"
  shows "stays (\<lambda>g. f (fst g) = v) (emit_all h su rq i es)"
  by (induction es) (auto intro!: stays_bind stays_catch emit_frames assms)

lemma provider_frames:
  assumes "\<And>s l. f (s\<lparr>rs_logs := l\<rparr>) = f s"
  shows "stays (\<lambda>g. f (fst g) = v) (provider_execute h su rq p i c)"
proof -
  have "stays (\<lambda>g. f (fst g) = v) (re_bind (emit_all h su rq i es)
      (\<lambda>err. case err of Some e \<Rightarrow> re_fail e | None \<Rightarrow> re_lift r))" for es and r :: "sandbox_error + SandboxCommandOutcome"
    by (intro stays_bind emit_all_frames assms) (simp split: option.split)
  then show ?thesis
    by (auto simp: stays_def provider_execute_def split: prod.splits)
qed

lemma command_frames: "stays (\<lambda>g. verdict (fst g) = v) (executeCommand h su rq p c)"
proof -
  have "stays (\<lambda>g. verdict (fst g) = v) (stop_asked su)"
    by (auto simp: stays_def stop_asked_def ask_def split: prod.splits)
  then show ?thesis
    unfolding executeCommand_def Let_def
    by (intro stays_bind stays_pure state_effects provider_frames) (simp_all add: verdict_def)
qed

lemma note_frames: "stays (\<lambda>g. verdict (fst g) = v) (note_outcome oc)"
  unfolding note_outcome_def by (rule state_effects) (simp add: verdict_def)

text \<open>
  A run that has not ended yet, with what its repetitions printed, and one that was given up: it
  never ends with a verdict that the catch block would let stand.
\<close>

definition under_way :: "string list \<Rightarrow> run_state \<times> 'w \<Rightarrow> bool" where
  "under_way os g =
     (verdict (fst g) = (SandboxExecutionStatus.INFRASTRUCTURE_FAILED, SandboxResult.INCONCLUSIVE, os))"

definition conclusive :: "SandboxResult \<Rightarrow> bool" where
  "conclusive r = (r = SandboxResult.REPRODUCED \<or> r = SandboxResult.NOT_REPRODUCED)"

definition given_up :: "run_state \<times> 'w \<Rightarrow> bool" where
  "given_up g =
     (rs_status (fst g) \<noteq> SandboxExecutionStatus.CLEANUP_FAILED
      \<and> (rs_status (fst g) \<in> {SandboxExecutionStatus.TIMED_OUT, SandboxExecutionStatus.COMPLETED}
          \<longrightarrow> \<not> conclusive (rs_result (fst g))))"

lemma under_way_given_up: "under_way os g \<Longrightarrow> given_up g"
  by (simp add: under_way_def given_up_def verdict_def)

lemma under_way_frames:
  "(\<And>v. stays (\<lambda>g. verdict (fst g) = v) m) \<Longrightarrow> runs_to (under_way os) m (\<lambda>_. under_way os) given_up"
  by (rule runs_stays) (auto simp: stays_def under_way_def under_way_given_up)

lemmas under_way_steps =
  under_way_frames [OF command_frames] under_way_frames [OF note_frames]
  under_way_frames [OF state_effects(1)] under_way_frames [OF state_effects(2)]

lemma runs_conclude:
  "st \<noteq> SandboxExecutionStatus.CLEANUP_FAILED \<Longrightarrow> \<not> conclusive r
   \<Longrightarrow> runs_to P (conclude st r) (\<lambda>_. given_up) given_up"
  by (auto simp: runs_to_def conclude_def set_state_def given_up_def)

lemma install_runs:
  "runs_to (under_way os) (install_all h su rq p cs) (\<lambda>_. under_way os) given_up"
proof (induction cs)
  case Nil
  show ?case by (simp add: runs_return)
next
  case (Cons c cs)
  show ?case
    by (auto simp: conclusive_def intro!: runs_bind [OF under_way_steps(1)] runs_bind [OF under_way_steps(2)]
        runs_bind [OF runs_conclude] runs_fail Cons.IH)
qed

lemma reproduce_runs:
  "runs_to (under_way os) (reproduce_once h su rq p cs out b) (\<lambda>_. under_way os) given_up"
proof (induction cs arbitrary: out b)
  case Nil
  show ?case by (simp add: runs_return)
next
  case (Cons c cs)
  show ?case
    by (auto simp: conclusive_def intro!: runs_bind [OF under_way_steps(1)] runs_bind [OF under_way_steps(2)]
        runs_bind [OF runs_conclude] runs_fail Cons.IH)
qed

text \<open>Each repetition leaves its output and the comparison of it.\<close>

definition compared ::
  "host \<Rightarrow> FailureSignatureInput \<Rightarrow> string list \<Rightarrow> FailureSignatureComparison list \<Rightarrow> bool" where
  "compared h sg os cs = list_all2 (\<lambda>out c. \<exists>failed. compare_run h sg out failed = Inr c) os cs"

lemma repeat_runs:
  "compared h (sr_failureSignature (xr_input rq)) os cs \<Longrightarrow>
   runs_to (under_way os) (repeat_run h su rq p n cs)
     (\<lambda>ds g. \<exists>os'. under_way os' g \<and> compared h (sr_failureSignature (xr_input rq)) os' ds
             \<and> length os' = length os + n) given_up"
proof (induction n arbitrary: os cs)
  case 0
  then show ?case by (auto intro!: runs_return)
next
  case (Suc n)
  let ?sg = "sr_failureSignature (xr_input rq)"
  have keep_output: "runs_to (under_way os) (set_state (\<lambda>s. s\<lparr>rs_outputs := rs_outputs s @ [out]\<rparr>))
      (\<lambda>_. under_way (os @ [out])) given_up" for out
    by (auto simp: runs_to_def set_state_def under_way_def verdict_def)
  have after: "runs_to (under_way (os @ [out])) (re_bind (comparing h ?sg out failed) (\<lambda>c.
        repeat_run h su rq p n (cs @ [c])))
      (\<lambda>ds g. \<exists>os'. under_way os' g \<and> compared h ?sg os' ds \<and> length os' = Suc (length os + n)) given_up"
    for out failed
  proof (rule runs_bind [where Q = "\<lambda>c g. under_way (os @ [out]) g \<and> compare_run h ?sg out failed = Inr c"])
    show "runs_to (under_way (os @ [out])) (comparing h ?sg out failed)
        (\<lambda>c g. under_way (os @ [out]) g \<and> compare_run h ?sg out failed = Inr c) given_up"
      unfolding comparing_def by (rule runs_lift) (auto simp: under_way_given_up)
  next
    fix c
    have "compared h ?sg (os @ [out]) (cs @ [c])" if "compare_run h ?sg out failed = Inr c"
      using Suc.prems that unfolding compared_def by (intro list_all2_appendI) auto
    from Suc.IH [OF this]
    show "runs_to (\<lambda>g. under_way (os @ [out]) g \<and> compare_run h ?sg out failed = Inr c)
        (repeat_run h su rq p n (cs @ [c]))
        (\<lambda>ds g. \<exists>os'. under_way os' g \<and> compared h ?sg os' ds \<and> length os' = Suc (length os + n)) given_up"
      by (auto simp: runs_to_def)
  qed
  show ?case
    by (auto intro!: runs_bind [OF reproduce_runs] runs_bind [OF keep_output] after split: prod.split)
qed

text \<open>
  What a verdict rests on: every repetition was made and compared, with the judgement of
  \<open>judge\<close> over the comparisons.
\<close>

definition judged :: "host \<Rightarrow> SandboxExecutionRequest \<Rightarrow> run_state \<Rightarrow> bool" where
  "judged h rq s = (\<exists>cs. compared h (sr_failureSignature (xr_input rq)) (rs_outputs s) cs
     \<and> length (rs_outputs s) = sr_repeatCount (xr_input rq) \<and> rs_result s = judge s cs)"

lemma judge_ignores [simp]:
  "judge (s\<lparr>rs_comparison := a\<rparr>) cs = judge s cs" "judge (s\<lparr>rs_result := r\<rparr>) cs = judge s cs"
  "judge (s\<lparr>rs_status := st\<rparr>) cs = judge s cs" "judge (s\<lparr>rs_artifacts := x\<rparr>) cs = judge s cs"
  by (simp_all add: judge_def)

lemma judged_ignores [simp]:
  "judged h rq (s\<lparr>rs_status := st\<rparr>) = judged h rq s" "judged h rq (s\<lparr>rs_artifacts := x\<rparr>) = judged h rq s"
  by (simp_all add: judged_def)

definition judged_open :: "host \<Rightarrow> SandboxExecutionRequest \<Rightarrow> run_state \<times> 'w \<Rightarrow> bool" where
  "judged_open h rq g = (rs_status (fst g) = SandboxExecutionStatus.INFRASTRUCTURE_FAILED \<and> judged h rq (fst g))"

lemma judged_open_ask: "runs_to (judged_open h rq) (ask q) (\<lambda>_. judged_open h rq) given_up"
  by (auto simp: runs_to_def ask_def judged_open_def given_up_def split: prod.splits sum.splits)

lemma judged_open_get: "runs_to (judged_open h rq) get_state (\<lambda>_. judged_open h rq) given_up"
  by (auto simp: runs_to_def get_state_def)

lemma judged_open_artifacts:
  "runs_to (judged_open h rq) (set_state (\<lambda>s. s\<lparr>rs_artifacts := x\<rparr>)) (\<lambda>_. judged_open h rq) given_up"
  by (auto simp: runs_to_def set_state_def judged_open_def)

lemma judged_open_completed:
  "runs_to (judged_open h rq) (set_state (\<lambda>s. s\<lparr>rs_status := SandboxExecutionStatus.COMPLETED\<rparr>))
     (\<lambda>_ g. rs_status (fst g) = SandboxExecutionStatus.COMPLETED \<and> judged h rq (fst g)) given_up"
  by (auto simp: runs_to_def set_state_def judged_open_def)

lemma judging_runs:
  "runs_to (\<lambda>g. \<exists>os. under_way os g \<and> compared h (sr_failureSignature (xr_input rq)) os cs
               \<and> length os = sr_repeatCount (xr_input rq))
     (set_state (\<lambda>s. s\<lparr>rs_comparison := (case by_similarity cs of [] \<Rightarrow> None | c # _ \<Rightarrow> Some c),
                       rs_result := judge s cs\<rparr>)) (\<lambda>_. judged_open h rq) given_up"
  by (auto simp: runs_to_def set_state_def judged_open_def judged_def under_way_def verdict_def)

lemma prepared_runs:
  "runs_to (under_way os) (set_state (\<lambda>s. s\<lparr>rs_prepared := x\<rparr>)) (\<lambda>_. under_way os) given_up"
  by (auto simp: runs_to_def set_state_def under_way_def verdict_def)

lemma attempt_runs:
  "runs_to (under_way []) (attempt h su rq)
     (\<lambda>_ g. rs_status (fst g) = SandboxExecutionStatus.COMPLETED \<and> judged h rq (fst g)) given_up"
proof -
  have repeats: "runs_to (under_way []) (repeat_run h su rq p n [])
     (\<lambda>ds g. \<exists>os'. under_way os' g \<and> compared h (sr_failureSignature (xr_input rq)) os' ds
             \<and> length os' = n) given_up" for p n
    using repeat_runs [of h rq "[]" "[]" su p n] by (simp add: compared_def)
  have install: "runs_to (under_way []) (re_when b (re_bind (ask q) (\<lambda>_. install_all h su rq p cs)))
      (\<lambda>_. under_way []) given_up" for b p cs and q :: "('a, unit) outside"
    by (intro runs_when runs_bind [OF under_way_steps(3)] install_runs)
  show ?thesis
    unfolding attempt_def
    by (intro runs_bind [OF under_way_steps(3)] runs_bind [OF prepared_runs] runs_bind [OF install]
        runs_bind [OF repeats] runs_bind [OF judging_runs] runs_bind [OF judged_open_get]
        runs_bind [OF judged_open_ask] runs_bind [OF judged_open_artifacts] judged_open_completed)
qed

text \<open>
  The clean up keeps the verdict, and only its own proof makes the status that of a failed clean up.
\<close>

lemma ask_answers: "ask q (s, w) = (Inr x, v) \<Longrightarrow> fst v = s"
  by (auto simp: ask_def split: prod.splits)

lemma ignoring_answers: "ignoring q (s, w) = (Inr x, v) \<Longrightarrow> fst v = s"
  using staysD [OF ignoring_frames [of "\<lambda>s. s" s q], of "(s, w)"] by simp

lemma cleanup_answers: "cleanup_outcome su rq (s, w) = (Inr x, v) \<Longrightarrow> fst v = s"
  by (auto simp: cleanup_outcome_def re_catch_def re_bind_def get_state_def ask_def
      split: prod.splits sum.splits option.splits)

lemma finish_answers:
  assumes "finish h su rq (s, w) = (Inr cleanup, (t, w'))"
  shows "t = (if co_verifiedAbsent (cl_outcome cleanup) then s
              else s\<lparr>rs_status := SandboxExecutionStatus.CLEANUP_FAILED\<rparr>)"
  using assms unfolding finish_def re_bind_Inr
  by (auto simp: re_return_def re_lift_def get_state_def set_state_def
      dest!: ignoring_answers cleanup_answers split: if_splits)

lemma emit_answers:
  assumes "emit h su rq i e (s, w) = (r, (t, w'))"
  shows "verdict t = verdict s"
  using staysD [OF emit_frames [of verdict "verdict s"], of "(s, w)" h su rq i e] assms
  by (simp add: verdict_def)

lemma recovery_gives_up:
  assumes "recover_from h su rq e (s, w) = (r, (t, w'))" and "given_up (s, w)"
  shows "given_up (t, w') \<and> \<not> conclusive (rs_result t)"
proof -
  have "verdict t = verdict (after_error (ab_reason su w) e s)"
    using assms(1) emit_answers unfolding recover_from_def by fastforce
  then show ?thesis
    using assms(2)
    by (auto simp: verdict_def given_up_def after_error_def conclusive_def split: sandbox_error.splits if_splits)
qed

lemma tried_run:
  assumes "re_catch (attempt h su rq) (recover_from h su rq) (initial_state, w) = (r, (t, v))"
  shows "rs_status t \<noteq> SandboxExecutionStatus.CLEANUP_FAILED"
    and "conclusive (rs_result t) \<Longrightarrow> rs_status t = SandboxExecutionStatus.COMPLETED \<and> judged h rq t"
proof -
  have start: "under_way [] (initial_state, w)"
    by (simp add: under_way_def verdict_def initial_state_def)
  have "rs_status t \<noteq> SandboxExecutionStatus.CLEANUP_FAILED
    \<and> (conclusive (rs_result t) \<longrightarrow> rs_status t = SandboxExecutionStatus.COMPLETED \<and> judged h rq t)"
  proof -
    obtain a g where Pair: "attempt h su rq (initial_state, w) = (a, g)" by (rule prod.exhaust)
    show ?thesis
    proof (cases a)
      case (Inr x)
      then have g: "g = (t, v)" using assms Pair by (simp add: re_catch_def)
      have "attempt h su rq (initial_state, w) = (Inr x, g)" using Pair Inr by simp
      from runs_Inr [OF attempt_runs start this] show ?thesis by (simp add: g)
    next
      case (Inl e)
      then have "given_up g" using runs_Inl [OF attempt_runs start] Pair by simp
      moreover have "recover_from h su rq e (fst g, snd g) = (r, (t, v))"
        using assms Pair Inl by (simp add: re_catch_def)
      ultimately have "given_up (t, v)" "\<not> conclusive (rs_result t)"
        using recovery_gives_up by (metis prod.collapse)+
      then show ?thesis by (simp add: given_up_def)
    qed
  qed
  then show "rs_status t \<noteq> SandboxExecutionStatus.CLEANUP_FAILED"
    and "conclusive (rs_result t) \<Longrightarrow> rs_status t = SandboxExecutionStatus.COMPLETED \<and> judged h rq t"
    by simp_all
qed

text \<open>What a conclusive judgement says of the comparisons.\<close>

lemma judge_conclusive:
  assumes "conclusive (judge s cs)"
  shows "\<not> rs_resourceLimitTerminated s" and "\<not> ls_truncated (summary (rs_logs s))"
    and "\<forall>c \<in> set cs. \<forall>d \<in> set cs. sg_digest (cmp_observed c) = sg_digest (cmp_observed d)"
    and "\<forall>c \<in> set cs. cmp_matched c = (judge s cs = SandboxResult.REPRODUCED)"
  using assms by (auto simp: judge_def Let_def conclusive_def by_similarity_def list_all_iff split: if_splits)

lemma execute_Inr:
  assumes "execute h su rq w = (Inr r, (s, w'))"
  obtains t v x where "re_catch (attempt h su rq) (recover_from h su rq) (initial_state, w) = (Inr x, (t, v))"
    and "s = (if co_verifiedAbsent (cl_outcome (xe_cleanup r)) then t
              else t\<lparr>rs_status := SandboxExecutionStatus.CLEANUP_FAILED\<rparr>)"
    and "xe_status r = rs_status s" and "xe_result r = rs_result s"
proof -
  obtain a t v where run: "re_catch (attempt h su rq) (recover_from h su rq) (initial_state, w) = (a, (t, v))"
    by (metis prod.exhaust)
  from assms obtain cleanup t' v' where f: "finish h su rq (t, v) = (Inr cleanup, (t', v'))"
    and a: "\<exists>x. a = Inr x" and rest: "xe_cleanup r = cleanup" "s = t'"
      "xe_status r = rs_status s" "xe_result r = rs_result s"
    unfolding execute_def run prod.case re_bind_Inr
    by (auto simp: re_return_def re_lift_def get_state_def)
  from a obtain x where "a = Inr x" by (elim exE)
  then show ?thesis using that run finish_answers [OF f] rest by simp
qed


text \<open>A repository whose test prints its failure, in a sandbox that is removed.\<close>

definition failing_outcome :: SandboxCommandOutcome where
  "failing_outcome =
     \<lparr>oc_containerId = ''c1'', oc_status = SandboxCommandStatus.FAILED, oc_exitCode = Some 1, oc_signal = None,
      oc_timedOut = False, oc_oomKilled = False, oc_durationMs = 5, oc_stdout = ''boom at 3'',
      oc_stderr = [], oc_outputDigest = replicate 64 (CHR ''0''), oc_startedAt = 0, oc_completedAt = 5\<rparr>"

definition removed :: SandboxCleanupOutcome where
  "removed =
     \<lparr>co_containerIds = [''c1''], co_volumeIds = [], co_networkIds = [], co_verifiedAbsent = True,
      co_attempts = 1, co_error = None, co_completedAt = 9\<rparr>"

definition quiet_surroundings :: "unit sandbox_surroundings" where
  "quiet_surroundings =
     \<lparr>pv_prepare = (\<lambda>rq w. (Inr \<lparr>ps_executionId = xr_executionId rq, ps_volumeName = ''v'',
          ps_worktreePath = xr_worktreePath rq, ps_labels = [],
          ps_imageIdentity = \<lparr>im_id = ''i'', im_repoDigests = []\<rparr>,
          ps_helperImageIdentity = \<lparr>im_id = ''i'', im_repoDigests = []\<rparr>\<rparr>, w)),
      pv_execute = (\<lambda>p c d w. ([\<lparr>oe_stream = stdout, oe_content = ''boom at 3'', oe_occurredAt = 1\<rparr>],
                               Inr failing_outcome, w)),
      pv_collect = (\<lambda>p paths n w. (Inr [], w)), pv_cleanup = (\<lambda>p w. (Inr removed, w)),
      pv_cleanupExecution = (\<lambda>e w. (Inr removed, w)),
      hk_statusChanged = (\<lambda>st r w. (Inr (), w)), hk_commandStarted = (\<lambda>i n c w. (Inr (), w)),
      hk_commandCompleted = (\<lambda>r w. (Inr (), w)), hk_logChunks = (\<lambda>cs w. (Inr (), w)),
      hk_artifactsCollected = (\<lambda>a w. (Inr (), w)), hk_cleanupCompleted = (\<lambda>p w. (Inr (), w)),
      hk_cancellationRequested = (\<lambda>w. (Inr False, w)), hk_heartbeat = (\<lambda>w. (Inr (), w)),
      ab_aborted = (\<lambda>w. False), ab_reason = (\<lambda>w. []), ids_command = show_int, ids_chunk = show_int,
      time_now = (\<lambda>w. 7)\<rparr>"

definition failing_request :: SandboxExecutionRequest where
  "failing_request =
     \<lparr>xr_executionId = ''e'', xr_reproductionId = ''r'', xr_organizationId = ''o'',
      xr_incidentId = ''n'', xr_worktreePath = ''/w'',
      xr_input = (reproduction_of [] ''app'')
        \<lparr>sr_failureSignature := \<lparr>fsi_expectedText = ''boom at 3'', fsi_minimumSimilarity = f_int 1,
           fsi_requireNonZeroExit = True\<rparr>\<rparr>,
      xr_policy = \<lparr>dec_allowed = True, dec_policyVersion = [], dec_decisionId = [], dec_reasons = [],
        dec_normalizedCommands = [], dec_resourceLimits = (\<lambda>f. 1000),
        dec_networkPolicy = \<lparr>net_mode = NONE, net_dockerNetwork = None, net_allowedRegistries = [],
          net_allowedDomains = [], net_denyPrivateNetworks = True, net_denyMetadataServices = True\<rparr>,
        dec_image = [], dec_imageDigestRequired = False, dec_overrideRequired = False,
        dec_evaluatedAt = []\<rparr>\<rparr>"

definition trial :: "(sandbox_error + SandboxExecutionResult) \<times> (run_state \<times> unit)" where
  "trial = execute sample_host quiet_surroundings failing_request ()"

lemma trial_reproduced:
  "(case fst trial of Inl e \<Rightarrow> False
    | Inr r \<Rightarrow> xe_result r = SandboxResult.REPRODUCED \<and> xe_status r = SandboxExecutionStatus.COMPLETED)"
  by code_simp


text \<open>
  A cancellation that the hook reports before the signal is aborted ends the run as a failure of the
  infrastructure.
\<close>

definition cancelled_trial :: "(sandbox_error + SandboxExecutionResult) \<times> (run_state \<times> unit)" where
  "cancelled_trial =
     execute sample_host (quiet_surroundings\<lparr>hk_cancellationRequested := (\<lambda>w. (Inr True, w))\<rparr>)
       failing_request ()"

lemma cancellation_reported_as_failure:
  "(case fst cancelled_trial of Inl e \<Rightarrow> False
    | Inr r \<Rightarrow> xe_status r = SandboxExecutionStatus.INFRASTRUCTURE_FAILED)"
  by code_simp

end
